(* ===== verification/Prelude.thy ===== *)
theory Prelude
  imports Main "HOL-Library.AList" "HOL-Library.Char_ord" "HOL-Library.List_Lexorder"
    "HOL-Library.Sublist" "HOL-Library.Multiset"
begin

text \<open>
  Shared types and facts of the development: Go maps and database tables as association
  lists, counting of their entries, results that may be errors, and Go's \<^verbatim>\<open>time.Time\<close> and
  \<^verbatim>\<open>time.Duration\<close>. A Go map is the list of its entries in the order in which a \<^verbatim>\<open>range\<close>
  loop visits them; the order is arbitrary, so every theorem is stated for all lists.
\<close>

named_theorems count_simps
named_theorems inv_defs

section \<open>Results\<close>

text \<open>A Go function returning \<open>(T, error)\<close> returns \<open>Inl\<close> the error or \<open>Inr\<close> the value.\<close>

definition rbind :: "'e + 'a \<Rightarrow> ('a \<Rightarrow> 'e + 'b) \<Rightarrow> 'e + 'b" where
  "rbind m f = (case m of Inl e \<Rightarrow> Inl e | Inr a \<Rightarrow> f a)"

lemma rbind_simps [simp]: "rbind (Inl e) f = Inl e" "rbind (Inr a) f = f a"
  by (simp_all add: rbind_def)

lemma rbind_Inr_iff: "rbind m f = Inr b \<longleftrightarrow> (\<exists>a. m = Inr a \<and> f a = Inr b)"
  by (cases m) auto

text \<open>A Go \<^verbatim>\<open>error\<close> result: \<open>None\<close> is \<^verbatim>\<open>nil\<close>.\<close>

definition check :: "'e option \<Rightarrow> 'e + 'a \<Rightarrow> 'e + 'a" where
  "check e k = (case e of None \<Rightarrow> k | Some err \<Rightarrow> Inl err)"

lemma check_simps [simp]: "check None k = k" "check (Some e) k = Inl e"
  by (simp_all add: check_def)

lemma check_Inr_iff: "check e k = Inr b \<longleftrightarrow> e = None \<and> k = Inr b"
  by (cases e) auto

section \<open>Time\<close>

text \<open>
  An instant is the number of nanoseconds since the zero time of Go (January 1 of year 1,
  UTC), so \<open>IsZero\<close> is \<open>t = 0\<close>; \<^verbatim>\<open>t.UTC()\<close> changes the displayed zone only and is the
  identity on instants. A duration is a number of nanoseconds. \<^verbatim>\<open>t.Sub(u)\<close> saturates at the
  bounds of \<^verbatim>\<open>int64\<close>, as in the standard library.
\<close>

type_synonym time = int
type_synonym duration = int

abbreviation (input) nanosecond :: duration where "nanosecond \<equiv> 1"
definition second :: duration where "second = 1000000000"
definition minute :: duration where "minute = 60 * second"
definition hour :: duration where "hour = 60 * minute"
definition max_duration :: duration where "max_duration = 2 ^ 63 - 1"
definition min_duration :: duration where "min_duration = - (2 ^ 63)"

lemmas duration_defs = second_def minute_def hour_def

definition time_after :: "time \<Rightarrow> time \<Rightarrow> bool" where "time_after t u \<longleftrightarrow> t > u"
definition time_sub :: "time \<Rightarrow> time \<Rightarrow> duration" where
  "time_sub t u = max min_duration (min max_duration (t - u))"

lemma time_sub_exact:
  "\<bar>t - u\<bar> \<le> max_duration \<Longrightarrow> time_sub t u = t - u"
  by (auto simp: time_sub_def max_duration_def min_duration_def)

lemma time_sub_self [simp]: "time_sub t t = 0"
  by (simp add: time_sub_def max_duration_def min_duration_def)

text \<open>
  \<^verbatim>\<open>timestamptz\<close> columns hold microseconds: pgx drops the nanoseconds below when it encodes
  a parameter.
\<close>

definition pg_ts :: "time \<Rightarrow> time" where "pg_ts t = t - t mod 1000"

lemma pg_ts_le: "pg_ts t \<le> t" and pg_ts_gt: "t - 1000 < pg_ts t"
  by (simp_all add: pg_ts_def)

lemma pg_ts_idem [simp]: "pg_ts (pg_ts t) = pg_ts t"
  by (simp add: pg_ts_def)

lemma pg_ts_mono: "t \<le> u \<Longrightarrow> pg_ts t \<le> pg_ts u"
  by (simp add: pg_ts_def minus_mod_eq_mult_div zdiv_mono1)

section \<open>Maps\<close>

type_synonym ('k, 'v) gomap = "('k \<times> 'v) list"

abbreviation mput :: "'k \<Rightarrow> 'v \<Rightarrow> ('k, 'v) gomap \<Rightarrow> ('k, 'v) gomap" where
  "mput \<equiv> AList.update"
abbreviation mdel :: "'k \<Rightarrow> ('k, 'v) gomap \<Rightarrow> ('k, 'v) gomap" where
  "mdel \<equiv> AList.delete"
abbreviation mkeys :: "('k, 'v) gomap \<Rightarrow> 'k list" where
  "mkeys m \<equiv> map fst m"
abbreviation mvals :: "('k, 'v) gomap \<Rightarrow> 'v list" where
  "mvals m \<equiv> map snd m"

lemma map_of_mput [simp]: "map_of (mput k v m) = (map_of m)(k \<mapsto> v)"
  by (rule update_conv')

lemma map_of_mdel [simp]: "map_of (mdel k m) = (map_of m)(k := None)"
  by (rule delete_conv')

lemma map_of_Some_val: "map_of m k = Some v \<Longrightarrow> v \<in> set (mvals m)"
  using map_of_SomeD [of m k v] by force

lemma mvals_iff_map_of:
  "distinct (mkeys m) \<Longrightarrow> v \<in> set (mvals m) \<longleftrightarrow> (\<exists>k. map_of m k = Some v)"
  by (metis (no_types, lifting) imageE list.set_map map_of_Some_val map_of_is_SomeI prod.collapse)

lemma mput_fresh: "k \<notin> set (mkeys m) \<Longrightarrow> mput k v m = m @ [(k, v)]"
  by (induction m) auto

lemma map_of_None_keys: "map_of m k = None \<longleftrightarrow> k \<notin> set (mkeys m)"
  by (simp add: map_of_eq_None_iff)

subsection \<open>Counting entries\<close>

definition mcount :: "('v \<Rightarrow> bool) \<Rightarrow> ('k, 'v) gomap \<Rightarrow> nat" where
  "mcount P m = length (filter P (mvals m))"

lemma mcount_simps [simp]:
  "mcount P [] = 0"
  "mcount P ((k, v) # m) = (if P v then 1 else 0) + mcount P m"
  by (simp_all add: mcount_def)

lemma mcount_append [simp]: "mcount P (m @ m') = mcount P m + mcount P m'"
  by (simp add: mcount_def)

lemma mcount_put_new [count_simps]:
  "map_of m k = None \<Longrightarrow> mcount P (mput k v m) = mcount P m + (if P v then 1 else 0)"
  by (simp add: map_of_None_keys mput_fresh)

lemma mcount_put_old [count_simps]:
  "map_of m k = Some u \<Longrightarrow>
     mcount P (mput k v m) + (if P u then 1 else 0) = mcount P m + (if P v then 1 else 0)"
  by (induction m) (auto split: if_splits)

lemma mcount_cong:
  "(\<And>v. v \<in> set (mvals m) \<Longrightarrow> P v = Q v) \<Longrightarrow> mcount P m = mcount Q m"
  unfolding mcount_def by (metis filter_cong)

lemma mcount_zero_iff: "mcount P m = 0 \<longleftrightarrow> (\<forall>v \<in> set (mvals m). \<not> P v)"
  by (auto simp: mcount_def filter_empty_conv)

lemma mcount_pos: "map_of m k = Some v \<Longrightarrow> P v \<Longrightarrow> 0 < mcount P m"
  using mcount_zero_iff [of P m] map_of_Some_val [of m k v] by fastforce

lemma mcount_perm: "mset m = mset m' \<Longrightarrow> mcount P m = mcount P m'"
proof -
  assume "mset m = mset m'"
  then have "mset (filter P (mvals m)) = mset (filter P (mvals m'))"
    by (simp add: mset_filter)
  then show ?thesis unfolding mcount_def by (metis size_mset)
qed

section \<open>Lists\<close>

lemma prefix_hd: "prefix t l \<Longrightarrow> t \<noteq> [] \<Longrightarrow> hd t = hd l"
  by (auto simp: prefix_def)

lemma sort_key_snoc:
  "(\<And>y. y \<in> set xs \<Longrightarrow> f y \<le> f x) \<Longrightarrow> sort_key f (xs @ [x]) = sort_key f xs @ [x]"
proof (induction xs)
  case (Cons y xs)
  have "insort_key f y (zs @ [x]) = insort_key f y zs @ [x]" for zs
    using Cons.prems [of y] by (induction zs) auto
  with Cons show ?case by simp
qed simp

lemma filter_all_same: "(\<And>x. x \<in> set xs \<Longrightarrow> P x) \<Longrightarrow> filter P xs = xs"
  by (induction xs) auto

text \<open>Storing under a key that is present replaces one entry in place.\<close>

lemma mput_split:
  assumes "map_of m k = Some u" and "distinct (mkeys m)"
  obtains xs ys where "m = xs @ (k, u) # ys" and "\<And>v. mput k v m = xs @ (k, v) # ys"
    and "k \<notin> set (mkeys xs)" and "k \<notin> set (mkeys ys)"
proof -
  from assms(1) obtain xs ys where m: "m = xs @ (k, u) # ys"
    by (meson map_of_SomeD split_list)
  with assms(2) have k: "k \<notin> set (mkeys xs)" "k \<notin> set (mkeys ys)" by auto
  have "mput k v (xs @ (k, u) # ys) = xs @ (k, v) # ys" for v
    using k(1) by (induction xs) auto
  then show thesis using k m by (intro that [of xs ys]) simp_all
qed

end
