(* ===== verification/GoStrings.thy ===== *)
theory GoStrings imports GoUnicode Prelude begin

text \<open>
  The functions of Go's \<^verbatim>\<open>strings\<close>, \<^verbatim>\<open>unicode/utf8\<close>, \<^verbatim>\<open>strconv\<close> and \<^verbatim>\<open>encoding/hex\<close> that the
  services call. A Go string is a sequence of bytes, so it is a HOL \<open>string\<close> (its characters
  are the 256 byte values); code points appear only inside the functions that decode UTF-8.
\<close>

section \<open>UTF-8\<close>

definition byte :: "char \<Rightarrow> int" where "byte c = int (of_char c)"
definition bchr :: "int \<Rightarrow> char" where "bchr i = char_of (nat i)"

definition RuneError :: rune where "RuneError = 65533"

definition utf8_encode :: "rune \<Rightarrow> string" where
  "utf8_encode r =
     (if 0 \<le> r \<and> r < 128 then [bchr r]
      else if 0 \<le> r \<and> r < 2048 then [bchr (192 + r div 64), bchr (128 + r mod 64)]
      else if r < 0 \<or> 1114111 < r \<or> (55296 \<le> r \<and> r \<le> 57343) then
        [CHR 0xEF, CHR 0xBF, CHR 0xBD]
      else if r < 65536 then
        [bchr (224 + r div 4096), bchr (128 + r div 64 mod 64), bchr (128 + r mod 64)]
      else
        [bchr (240 + r div 262144), bchr (128 + r div 4096 mod 64),
         bchr (128 + r div 64 mod 64), bchr (128 + r mod 64)])"

text \<open>
  \<^verbatim>\<open>utf8.DecodeRuneInString\<close>: the first code point and its width. The second byte's range
  depends on the first one, which excludes overlong forms, surrogates and values past U+10FFFF;
  any malformed sequence is \<open>RuneError\<close> of width 1.
\<close>

definition second_range :: "int \<Rightarrow> int \<times> int" where
  "second_range b =
     (if b = 224 then (160, 191) else if b = 237 then (128, 159)
      else if b = 240 then (144, 191) else if b = 244 then (128, 143) else (128, 191))"

definition in_range :: "int \<times> int \<Rightarrow> char \<Rightarrow> bool" where
  "in_range p c \<longleftrightarrow> fst p \<le> byte c \<and> byte c \<le> snd p"

definition utf8_decode :: "string \<Rightarrow> rune \<times> nat" where
  "utf8_decode s =
     (case s of [] \<Rightarrow> (RuneError, 0)
      | c0 # rest \<Rightarrow>
         (let b0 = byte c0 in
          if b0 < 128 then (b0, 1)
          else if 194 \<le> b0 \<and> b0 \<le> 223 then
            (case rest of
               c1 # _ \<Rightarrow> if in_range (128, 191) c1
                         then ((b0 - 192) * 64 + (byte c1 - 128), 2) else (RuneError, 1)
             | _ \<Rightarrow> (RuneError, 1))
          else if 224 \<le> b0 \<and> b0 \<le> 239 then
            (case rest of
               c1 # c2 # _ \<Rightarrow>
                 if in_range (second_range b0) c1 \<and> in_range (128, 191) c2
                 then ((b0 - 224) * 4096 + (byte c1 - 128) * 64 + (byte c2 - 128), 3)
                 else (RuneError, 1)
             | _ \<Rightarrow> (RuneError, 1))
          else if 240 \<le> b0 \<and> b0 \<le> 244 then
            (case rest of
               c1 # c2 # c3 # _ \<Rightarrow>
                 if in_range (second_range b0) c1 \<and> in_range (128, 191) c2
                    \<and> in_range (128, 191) c3
                 then ((b0 - 240) * 262144 + (byte c1 - 128) * 4096 + (byte c2 - 128) * 64
                       + (byte c3 - 128), 4)
                 else (RuneError, 1)
             | _ \<Rightarrow> (RuneError, 1))
          else (RuneError, 1)))"

text \<open>The code points a \<^verbatim>\<open>for range\<close> loop over a string sees, with the width of each.\<close>

function rune_widths :: "string \<Rightarrow> (rune \<times> nat) list" where
  "rune_widths [] = []"
| "rune_widths (c # s) =
     (let rw = utf8_decode (c # s) in rw # rune_widths (drop (snd rw - 1) s))"
  by pat_completeness auto
termination by (relation "measure length") auto

definition runes :: "string \<Rightarrow> rune list" where "runes s = map fst (rune_widths s)"

text \<open>\<^verbatim>\<open>utf8.ValidString\<close>: no code point of the string is a decoding error.\<close>

definition utf8_valid :: "string \<Rightarrow> bool" where
  "utf8_valid s \<longleftrightarrow> (RuneError, 1) \<notin> set (rune_widths s)"

definition ascii :: "string \<Rightarrow> bool" where
  "ascii s \<longleftrightarrow> list_all (\<lambda>c. byte c < 128) s"

lemma ascii_simps [simp]:
  "ascii []" "ascii (c # s) \<longleftrightarrow> byte c < 128 \<and> ascii s" "ascii (s @ t) \<longleftrightarrow> ascii s \<and> ascii t"
  by (simp_all add: ascii_def)

lemma rune_widths_ascii: "ascii s \<Longrightarrow> rune_widths s = map (\<lambda>c. (byte c, 1)) s"
  by (induction s) (auto simp: utf8_decode_def)

lemma utf8_valid_ascii: "ascii s \<Longrightarrow> utf8_valid s"
  by (auto simp: utf8_valid_def rune_widths_ascii RuneError_def ascii_def list_all_iff)

section \<open>Case\<close>

definition ascii_upper :: "char \<Rightarrow> char" where
  "ascii_upper c = (if 97 \<le> byte c \<and> byte c \<le> 122 then bchr (byte c - 32) else c)"
definition ascii_lower :: "char \<Rightarrow> char" where
  "ascii_lower c = (if 65 \<le> byte c \<and> byte c \<le> 90 then bchr (byte c + 32) else c)"

definition ToUpper :: "string \<Rightarrow> string" where
  "ToUpper s = (if ascii s then map ascii_upper s
     else concat (map (\<lambda>r. utf8_encode (rune_to_upper r)) (runes s)))"
definition ToLower :: "string \<Rightarrow> string" where
  "ToLower s = (if ascii s then map ascii_lower s
     else concat (map (\<lambda>r. utf8_encode (rune_to_lower r)) (runes s)))"

lemma byte_range: "0 \<le> byte c \<and> byte c < 256"
  by (simp add: byte_def)

lemma byte_bchr: "0 \<le> i \<Longrightarrow> i < 256 \<Longrightarrow> byte (bchr i) = i"
  by (simp add: byte_def bchr_def)

lemma bchr_byte [simp]: "bchr (byte c) = c"
  by (simp add: byte_def bchr_def)

lemma byte_ascii_lower: "byte (ascii_lower c) = (if 65 \<le> byte c \<and> byte c \<le> 90 then byte c + 32 else byte c)"
  by (simp add: ascii_lower_def byte_bchr)

lemma ToLower_ascii [simp]: "ascii s \<Longrightarrow> ascii (ToLower s)"
  by (induction s) (auto simp: ToLower_def byte_ascii_lower)

lemma ToLower_idem_ascii: "ascii s \<Longrightarrow> ToLower (ToLower s) = ToLower s"
proof -
  assume s: "ascii s"
  then have "ascii (map ascii_lower s)" using ToLower_ascii [OF s] by (simp add: ToLower_def)
  moreover have "ascii_lower (ascii_lower c) = ascii_lower c" for c
    by (simp add: ascii_lower_def byte_bchr)
  ultimately show ?thesis using s by (simp add: ToLower_def comp_def)
qed

section \<open>White space\<close>

text \<open>
  The UTF-8 encodings of the code points of \<^verbatim>\<open>unicode.IsSpace\<close>. \<^verbatim>\<open>strings.TrimSpace\<close> strips
  them from both ends; since each is a complete encoding, matching the bytes is the same as
  decoding the first and the last code point.
\<close>

definition space_encodings :: "string list" where
  "space_encodings =
     map (\<lambda>n. [char_of n]) [9::nat, 10, 11, 12, 13, 32]
     @ [[CHR 0xC2, CHR 0x85], [CHR 0xC2, CHR 0xA0], [CHR 0xE1, CHR 0x9A, CHR 0x80]]
     @ map (\<lambda>n. [CHR 0xE2, CHR 0x80, char_of n]) ([128..<139] @ [168, 169, 175 :: nat])
     @ [[CHR 0xE2, CHR 0x81, CHR 0x9F], [CHR 0xE3, CHR 0x80, CHR 0x80]]"

function drop_words :: "string list \<Rightarrow> string \<Rightarrow> string" where
  "drop_words ws s =
     (case find (\<lambda>w. w \<noteq> [] \<and> prefix w s) ws of
        None \<Rightarrow> s | Some w \<Rightarrow> drop_words ws (drop (length w) s))"
  by pat_completeness auto
termination
  by (relation "measure (\<lambda>(ws, s). length s)") (auto simp: find_Some_iff prefix_def)

declare drop_words.simps [simp del]

definition TrimSpace :: "string \<Rightarrow> string" where
  "TrimSpace s = rev (drop_words (map rev space_encodings) (rev (drop_words space_encodings s)))"

text \<open>No word of \<open>ws\<close> starts the string: nothing to trim at this end.\<close>

definition no_word :: "string list \<Rightarrow> string \<Rightarrow> bool" where
  "no_word ws s \<longleftrightarrow> (\<forall>w \<in> set ws. w \<noteq> [] \<longrightarrow> \<not> prefix w s)"

lemma drop_words_same: "no_word ws s \<Longrightarrow> drop_words ws s = s"
  by (subst drop_words.simps) (auto simp: no_word_def find_Some_iff split: option.split)

lemma drop_words_no_word: "no_word ws (drop_words ws s)"
proof (induction ws s rule: drop_words.induct)
  case (1 ws s)
  show ?case
  proof (cases "find (\<lambda>w. w \<noteq> [] \<and> prefix w s) ws")
    case None
    then have "no_word ws s" by (auto simp: no_word_def find_None_iff)
    then show ?thesis by (simp add: drop_words_same)
  next
    case (Some w)
    with "1.IH" show ?thesis by (simp add: drop_words.simps [of ws s])
  qed
qed

lemma drop_words_suffix: "suffix (drop_words ws s) s"
proof (induction ws s rule: drop_words.induct)
  case (1 ws s)
  show ?case
  proof (cases "find (\<lambda>w. w \<noteq> [] \<and> prefix w s) ws")
    case None
    then show ?thesis by (simp add: drop_words.simps [of ws s])
  next
    case (Some w)
    with "1.IH" have "suffix (drop_words ws (drop (length w) s)) (drop (length w) s)" by simp
    with Some show ?thesis
      by (simp add: drop_words.simps [of ws s]) (meson suffix_drop suffix_order.trans)
  qed
qed

lemma drop_words_Nil [simp]: "drop_words ws [] = []"
  using drop_words_suffix [of ws "[]"] by simp

lemma no_word_prefix: "no_word ws s \<Longrightarrow> prefix t s \<Longrightarrow> no_word ws t"
  unfolding no_word_def using prefix_order.trans by blast

definition trimmed :: "string \<Rightarrow> bool" where
  "trimmed s \<longleftrightarrow> no_word space_encodings s \<and> no_word (map rev space_encodings) (rev s)"

lemma TrimSpace_trimmed: "trimmed (TrimSpace s)"
proof -
  let ?l = "drop_words space_encodings s"
  let ?r = "drop_words (map rev space_encodings) (rev ?l)"
  have "prefix (rev ?r) ?l"
    using drop_words_suffix [of "map rev space_encodings" "rev ?l"] by (simp add: suffix_to_prefix)
  then have "no_word space_encodings (rev ?r)"
    using drop_words_no_word no_word_prefix by blast
  then show ?thesis
    by (simp add: trimmed_def TrimSpace_def drop_words_no_word)
qed

lemma TrimSpace_same: "trimmed s \<Longrightarrow> TrimSpace s = s"
  by (simp add: trimmed_def TrimSpace_def drop_words_same)

lemma TrimSpace_idem [simp]: "TrimSpace (TrimSpace s) = TrimSpace s"
  by (simp add: TrimSpace_same TrimSpace_trimmed)

lemma TrimSpace_Nil [simp]: "TrimSpace [] = []"
  by (simp add: TrimSpace_def)

lemma trimmed_iff: "trimmed s \<longleftrightarrow> TrimSpace s = s"
  using TrimSpace_same TrimSpace_trimmed by metis

text \<open>
  Evaluation: a string whose two ends are ASCII characters other than white space is trimmed.
  The collection \<open>str_eval\<close> computes the string functions on literals by \<open>simp\<close>.
\<close>

named_theorems str_eval

definition solid :: "char \<Rightarrow> bool" where
  "solid c \<longleftrightarrow> 32 < byte c \<and> byte c < 128"

definition solid_ends :: "string \<Rightarrow> bool" where
  "solid_ends s \<longleftrightarrow> s = [] \<or> (solid (hd s) \<and> solid (last s))"

lemma space_encodings_not_solid:
  "w \<in> set space_encodings \<Longrightarrow> w \<noteq> [] \<and> \<not> solid (hd w) \<and> \<not> solid (last w)"
  unfolding space_encodings_def
  by (auto simp: solid_def byte_def upt_rec)

lemma no_word_solid:
  assumes "\<And>w. w \<in> set ws \<Longrightarrow> w \<noteq> [] \<Longrightarrow> \<not> solid (hd w)" and "s = [] \<or> solid (hd s)"
  shows "no_word ws s"
  using assms prefix_hd by (fastforce simp: no_word_def)

lemma trimmed_solid:
  assumes "solid_ends s"
  shows "trimmed s"
proof -
  have "no_word space_encodings s"
    using assms by (intro no_word_solid) (auto simp: solid_ends_def dest: space_encodings_not_solid)
  moreover have "no_word (map rev space_encodings) (rev s)"
    using assms space_encodings_not_solid
    by (intro no_word_solid) (auto simp: solid_ends_def hd_rev)
  ultimately show ?thesis by (simp add: trimmed_def)
qed

lemma TrimSpace_solid [str_eval]: "solid_ends s \<Longrightarrow> TrimSpace s = s"
  by (simp add: TrimSpace_same trimmed_solid)

lemmas str_eval_defs [str_eval] =
  solid_ends_def solid_def byte_def bchr_def char_of_def ascii_def ToUpper_def ToLower_def ascii_upper_def ascii_lower_def bit_Suc_0_iff

section \<open>Prefixes, cutting and splitting\<close>

definition HasPrefix :: "string \<Rightarrow> string \<Rightarrow> bool" where
  "HasPrefix s p \<longleftrightarrow> take (length p) s = p"
definition TrimPrefix :: "string \<Rightarrow> string \<Rightarrow> string" where
  "TrimPrefix s p = (if HasPrefix s p then drop (length p) s else s)"
definition CutPrefix :: "string \<Rightarrow> string \<Rightarrow> string \<times> bool" where
  "CutPrefix s p = (if HasPrefix s p then (drop (length p) s, True) else (s, False))"

text \<open>\<^verbatim>\<open>strings.Trim\<close> with a cutset of ASCII characters.\<close>

definition Trim :: "string \<Rightarrow> string \<Rightarrow> string" where
  "Trim s cs = rev (dropWhile (\<lambda>c. c \<in> set cs) (rev (dropWhile (\<lambda>c. c \<in> set cs) s)))"

text \<open>\<^verbatim>\<open>strings.Split\<close> and \<^verbatim>\<open>strings.ReplaceAll\<close> with a separator of one character.\<close>

fun Split :: "string \<Rightarrow> char \<Rightarrow> string list" where
  "Split [] d = [[]]"
| "Split (c # s) d =
     (if c = d then [] # Split s d
      else (case Split s d of [] \<Rightarrow> [[c]] | p # ps \<Rightarrow> (c # p) # ps))"

definition ReplaceChar :: "string \<Rightarrow> char \<Rightarrow> char \<Rightarrow> string" where
  "ReplaceChar s a b = map (\<lambda>c. if c = a then b else c) s"

fun Join :: "string list \<Rightarrow> string \<Rightarrow> string" where
  "Join [] d = []"
| "Join [x] d = x"
| "Join (x # y # xs) d = x @ d @ Join (y # xs) d"

lemma HasPrefix_append [simp]: "HasPrefix (p @ s) p"
  by (simp add: HasPrefix_def)

lemma CutPrefix_append [simp]: "CutPrefix (p @ s) p = (s, True)"
  by (simp add: CutPrefix_def)

lemma Split_nonempty [simp]: "Split s d \<noteq> []"
  by (induction s) (auto split: list.splits)

lemma Split_no_sep: "d \<notin> set s \<Longrightarrow> Split s d = [s]"
  by (induction s) auto

lemma Split_append: "d \<notin> set s \<Longrightarrow> Split (s @ d # t) d = s # Split t d"
  by (induction s) auto

lemma Split_parts: "p \<in> set (Split s d) \<Longrightarrow> d \<notin> set p"
  by (induction s arbitrary: p) (auto split: list.splits if_splits)

lemma Join_Cons_char: "Join ((c # x) # xs) d = c # Join (x # xs) d"
  by (cases xs) auto

lemma Join_Split: "Join (Split s d) [d] = s"
proof (induction s)
  case (Cons c s)
  then show ?case
    by (cases "Split s d") (auto simp: Join_Cons_char)
qed simp

lemma dropWhile_rev_prefix: "prefix (rev (dropWhile P (rev l))) l"
  by (metis suffix_dropWhile suffix_to_prefix rev_rev_ident)

lemma set_Trim: "set (Trim s cs) \<subseteq> set s"
  by (auto simp: Trim_def dest!: set_dropWhileD)

lemma Trim_ends:
  assumes "Trim s cs \<noteq> []"
  shows "hd (Trim s cs) \<notin> set cs \<and> last (Trim s cs) \<notin> set cs"
proof -
  let ?P = "\<lambda>c. c \<in> set cs" and ?l = "dropWhile (\<lambda>c. c \<in> set cs) s"
  have "?l \<noteq> []" using assms unfolding Trim_def by (metis dropWhile.simps(1) rev.simps(1))
  from hd_dropWhile [of ?P s, OF this] have "hd ?l \<notin> set cs" .
  moreover have "hd (Trim s cs) = hd ?l"
    using assms prefix_hd [OF dropWhile_rev_prefix [of ?P ?l]] by (simp add: Trim_def)
  moreover have "last (Trim s cs) \<notin> set cs"
    using assms hd_dropWhile [of ?P "rev ?l"] by (simp add: Trim_def last_rev)
  ultimately show ?thesis by simp
qed

section \<open>Numbers\<close>

definition digit_char :: "nat \<Rightarrow> char" where "digit_char d = char_of (48 + d)"

fun nat_str :: "nat \<Rightarrow> string" where
  "nat_str n = (if n < 10 then [digit_char n] else nat_str (n div 10) @ [digit_char (n mod 10)])"

declare nat_str.simps [simp del]

definition Itoa :: "int \<Rightarrow> string" where
  "Itoa i = (if i < 0 then ''-'' @ nat_str (nat (- i)) else nat_str (nat i))"

definition is_digit :: "char \<Rightarrow> bool" where "is_digit c \<longleftrightarrow> 48 \<le> byte c \<and> byte c \<le> 57"

fun digits_val :: "int \<Rightarrow> string \<Rightarrow> int" where
  "digits_val acc [] = acc"
| "digits_val acc (c # s) = digits_val (acc * 10 + (byte c - 48)) s"

text \<open>
  \<^verbatim>\<open>strconv.Atoi\<close> on a 64-bit platform: an optional sign and at least one digit, the value in
  the range of \<^verbatim>\<open>int64\<close>; anything else is an error.
\<close>

definition Atoi :: "string \<Rightarrow> int option" where
  "Atoi s =
     (let neg = (s \<noteq> [] \<and> hd s = CHR ''-'');
          ds = (if s \<noteq> [] \<and> (hd s = CHR ''-'' \<or> hd s = CHR ''+'') then tl s else s)
      in if ds = [] \<or> \<not> list_all is_digit ds then None
         else (let v = (if neg then - digits_val 0 ds else digits_val 0 ds)
               in if - (2 ^ 63) \<le> v \<and> v < 2 ^ 63 then Some v else None))"

section \<open>Hexadecimal\<close>

definition hex_digit :: "nat \<Rightarrow> char" where
  "hex_digit d = (if d < 10 then char_of (48 + d) else char_of (87 + d))"

definition hex_byte :: "nat \<Rightarrow> string" where
  "hex_byte b = [hex_digit (b div 16), hex_digit (b mod 16)]"

section \<open>Text columns\<close>

text \<open>A \<^verbatim>\<open>TEXT\<close> column takes valid UTF-8 without a zero byte.\<close>

definition text_ok :: "string \<Rightarrow> bool" where
  "text_ok s \<longleftrightarrow> utf8_valid s \<and> CHR 0x00 \<notin> set s"

end
