(* ===== verification/Identity.thy ===== *)
theory Identity imports GoStrings begin

text \<open>
  \<^verbatim>\<open>internal/platform/identity/identity.go\<close>: roles. A \<^verbatim>\<open>Role\<close> is a Go string, so every function
  normalises its argument first.
\<close>

type_synonym Role = string

definition RoleUser :: Role where "RoleUser = ''USER''"
definition RoleOrganizer :: Role where "RoleOrganizer = ''ORGANIZER''"
definition RoleAdmin :: Role where "RoleAdmin = ''ADMIN''"

definition HeaderUserID :: string where "HeaderUserID = ''X-User-ID''"
definition HeaderUserRole :: string where "HeaderUserRole = ''X-User-Role''"

lemmas role_defs = RoleUser_def RoleOrganizer_def RoleAdmin_def

definition NormalizeRole :: "string \<Rightarrow> Role" where
  "NormalizeRole value =
     (let role = ToUpper (TrimSpace value) in if role = '''' then RoleUser else role)"

definition ValidRole :: "Role \<Rightarrow> bool" where
  "ValidRole role =
     (let r = NormalizeRole role in r = RoleUser \<or> r = RoleOrganizer \<or> r = RoleAdmin)"

definition CanPublishEvents :: "Role \<Rightarrow> bool" where
  "CanPublishEvents role =
     (let r = NormalizeRole role in r = RoleOrganizer \<or> r = RoleAdmin)"

definition CanAdmin :: "Role \<Rightarrow> bool" where
  "CanAdmin role = (let r = NormalizeRole role in r = RoleAdmin)"

lemma NormalizeRole_roles [simp]:
  "NormalizeRole RoleUser = RoleUser"
  "NormalizeRole RoleOrganizer = RoleOrganizer"
  "NormalizeRole RoleAdmin = RoleAdmin"
  by (simp_all add: NormalizeRole_def role_defs str_eval)

lemma NormalizeRole_empty [simp]: "NormalizeRole [] = RoleUser"
  by (simp add: NormalizeRole_def ToUpper_def)

lemma roles_distinct [simp]:
  "RoleUser \<noteq> RoleOrganizer" "RoleUser \<noteq> RoleAdmin" "RoleOrganizer \<noteq> RoleAdmin"
  "RoleOrganizer \<noteq> RoleUser" "RoleAdmin \<noteq> RoleUser" "RoleAdmin \<noteq> RoleOrganizer"
  by (simp_all add: role_defs)

lemma NormalizeRole_idem_valid:
  "ValidRole r \<Longrightarrow> NormalizeRole (NormalizeRole r) = NormalizeRole r"
  by (auto simp: ValidRole_def Let_def)

lemma CanAdmin_CanPublish: "CanAdmin r \<Longrightarrow> CanPublishEvents r"
  by (simp add: CanAdmin_def CanPublishEvents_def)

lemma CanPublish_ValidRole: "CanPublishEvents r \<Longrightarrow> ValidRole r"
  by (auto simp: ValidRole_def CanPublishEvents_def Let_def)

lemma CanPublish_normalized:
  "CanPublishEvents (NormalizeRole r) \<longleftrightarrow> CanPublishEvents r" if "ValidRole r"
  using NormalizeRole_idem_valid [OF that] by (simp add: CanPublishEvents_def)

lemma role_capabilities [simp]:
  "CanAdmin RoleAdmin" "\<not> CanAdmin RoleOrganizer" "\<not> CanAdmin RoleUser"
  "CanPublishEvents RoleAdmin" "CanPublishEvents RoleOrganizer" "\<not> CanPublishEvents RoleUser"
  "ValidRole RoleAdmin" "ValidRole RoleOrganizer" "ValidRole RoleUser"
  by (simp_all add: CanAdmin_def CanPublishEvents_def ValidRole_def)

end
