(* ===== verification/EventDomain.thy ===== *)
theory EventDomain imports Identity begin

text \<open>
  \<^verbatim>\<open>internal/services/eventregistration/domain.go\<close> and the message types of
  \<^verbatim>\<open>repository.go\<close>: events, registrations, their validation, and the payloads of the outbox
  messages. Record fields carry the initial of their struct. Identifiers come from
  \<^verbatim>\<open>NewID\<close>, whose results are arguments here.
\<close>

datatype EventStatus = EventPublished | EventCanceled | EventStatusOther string

datatype RegistrationStatus = NotJoined | Confirmed | Waitlisted | Canceled

fun EventStatus_string :: "EventStatus \<Rightarrow> string" where
  "EventStatus_string EventPublished = ''PUBLISHED''"
| "EventStatus_string EventCanceled = ''CANCELED''"
| "EventStatus_string (EventStatusOther s) = s"

fun RegistrationStatus_string :: "RegistrationStatus \<Rightarrow> string" where
  "RegistrationStatus_string NotJoined = ''NOT_JOINED''"
| "RegistrationStatus_string Confirmed = ''CONFIRMED''"
| "RegistrationStatus_string Waitlisted = ''WAITLISTED''"
| "RegistrationStatus_string Canceled = ''CANCELED''"

datatype event_error =
    ErrUnauthorized | ErrForbidden | ErrNotFound | ErrInvalidEvent | ErrInvalidCapacity
  | ErrCapacityBelowConfirmed | ErrEventCanceled | ErrEventStarted
  | ErrStore \<comment> \<open>any error of the database driver, passed on as it is\<close>

definition RoutingEventPublished :: string where "RoutingEventPublished = ''event.published''"
definition RoutingEventUpdated :: string where "RoutingEventUpdated = ''event.updated''"
definition RoutingEventCanceled :: string where "RoutingEventCanceled = ''event.canceled''"
definition RoutingJoinConfirmed :: string where "RoutingJoinConfirmed = ''join.confirmed''"
definition RoutingJoinWaitlisted :: string where "RoutingJoinWaitlisted = ''join.waitlisted''"
definition RoutingJoinCanceled :: string where "RoutingJoinCanceled = ''join.canceled''"
definition RoutingJoinPromoted :: string where "RoutingJoinPromoted = ''join.promoted''"

lemmas routing_defs =
  RoutingEventPublished_def RoutingEventUpdated_def RoutingEventCanceled_def
  RoutingJoinConfirmed_def RoutingJoinWaitlisted_def RoutingJoinCanceled_def
  RoutingJoinPromoted_def

record Event =
  e_ID :: string
  e_OrganizerID :: string
  e_Title :: string
  e_Description :: string
  e_City :: string
  e_Venue :: string
  e_StartsAt :: time
  e_Capacity :: int
  e_Status :: EventStatus
  e_CreatedAt :: time
  e_UpdatedAt :: time

record Registration =
  r_ID :: string
  r_EventID :: string
  r_UserID :: string
  r_Status :: RegistrationStatus
  r_WaitlistPosition :: int
  r_IdempotencyKey :: string
  r_CreatedAt :: time
  r_UpdatedAt :: time

record EventDetail =
  d_Event :: Event
  d_ConfirmedCount :: int
  d_ViewerJoinStatus :: RegistrationStatus

record JoinResult =
  j_Registration :: Registration
  j_Existing :: bool

record CancelJoinResult =
  c_Status :: RegistrationStatus
  c_Canceled :: "Registration option"
  c_Promoted :: "Registration option"
  c_AlreadyNoActiveReg :: bool

text \<open>The status test that the repositories repeat: the registration counts for the event.\<close>

definition active :: "Registration \<Rightarrow> bool" where
  "active reg \<longleftrightarrow> r_Status reg = Confirmed \<or> r_Status reg = Waitlisted"

section \<open>Validation\<close>

definition Validate :: "Event \<Rightarrow> time \<Rightarrow> event_error option" where
  "Validate e now =
     (if TrimSpace (e_OrganizerID e) = '''' then Some ErrUnauthorized
      else if TrimSpace (e_Title e) = '''' then Some ErrInvalidEvent
      else if TrimSpace (e_City e) = '''' then Some ErrInvalidEvent
      else if TrimSpace (e_Venue e) = '''' then Some ErrInvalidEvent
      else if \<not> time_after (e_StartsAt e) now then Some ErrEventStarted
      else if e_Capacity e \<le> 0 then Some ErrInvalidCapacity
      else if e_Status e \<noteq> EventPublished \<and> e_Status e \<noteq> EventCanceled then Some ErrInvalidEvent
      else None)"

definition NewEvent ::
  "string \<Rightarrow> string \<Rightarrow> string \<Rightarrow> string \<Rightarrow> string \<Rightarrow> string \<Rightarrow> time \<Rightarrow> int \<Rightarrow> time
   \<Rightarrow> event_error + Event" where
  "NewEvent newID organizerID title description city venue startsAt capacity now =
     (let event = \<lparr>e_ID = newID, e_OrganizerID = TrimSpace organizerID, e_Title = TrimSpace title,
                    e_Description = TrimSpace description, e_City = TrimSpace city,
                    e_Venue = TrimSpace venue, e_StartsAt = startsAt, e_Capacity = capacity,
                    e_Status = EventPublished, e_CreatedAt = now, e_UpdatedAt = now\<rparr>
      in check (Validate event now) (Inr event))"

definition ValidateCapacityChange :: "int \<Rightarrow> int \<Rightarrow> event_error option" where
  "ValidateCapacityChange newCapacity confirmedCount =
     (if newCapacity \<le> 0 then Some ErrInvalidCapacity
      else if newCapacity < confirmedCount then Some ErrCapacityBelowConfirmed
      else None)"

definition DecideJoinStatus :: "Event \<Rightarrow> int \<Rightarrow> time \<Rightarrow> event_error + RegistrationStatus" where
  "DecideJoinStatus event confirmedCount now =
     (if e_Status event = EventCanceled then Inl ErrEventCanceled
      else if \<not> time_after (e_StartsAt event) now then Inl ErrEventStarted
      else if confirmedCount < e_Capacity event then Inr Confirmed
      else Inr Waitlisted)"

lemma Validate_None_iff:
  "Validate e now = None \<longleftrightarrow>
     TrimSpace (e_OrganizerID e) \<noteq> '''' \<and> TrimSpace (e_Title e) \<noteq> '''' \<and>
     TrimSpace (e_City e) \<noteq> '''' \<and> TrimSpace (e_Venue e) \<noteq> '''' \<and>
     now < e_StartsAt e \<and> 0 < e_Capacity e \<and>
     (e_Status e = EventPublished \<or> e_Status e = EventCanceled)"
  by (auto simp: Validate_def time_after_def)

lemma NewEvent_Inr:
  "NewEvent nid org ti de ci ve st cap now = Inr e \<Longrightarrow>
     e_ID e = nid \<and> e_OrganizerID e = TrimSpace org \<and> e_Capacity e = cap \<and> 0 < cap \<and>
     e_Status e = EventPublished \<and> e_StartsAt e = st \<and> now < st \<and> Validate e now = None"
  by (auto simp: NewEvent_def Let_def check_Inr_iff Validate_None_iff)

lemma DecideJoinStatus_Inr:
  "DecideJoinStatus e n now = Inr s \<longleftrightarrow>
     e_Status e \<noteq> EventCanceled \<and> now < e_StartsAt e \<and>
     s = (if n < e_Capacity e then Confirmed else Waitlisted)"
  by (auto simp: DecideJoinStatus_def time_after_def)

lemma ValidateCapacityChange_None:
  "ValidateCapacityChange c n = None \<longleftrightarrow> 0 < c \<and> n \<le> c"
  by (auto simp: ValidateCapacityChange_def)

section \<open>Outbox and audit records\<close>

text \<open>
  Values of the \<^verbatim>\<open>map[string]any\<close> payloads that the service builds. A payload is the list of
  its entries.
\<close>

datatype payload_value = PString string | PInt int | PTime time

type_synonym payload = "(string, payload_value) gomap"

record OutboxMessage =
  o_ID :: string
  o_AggregateType :: string
  o_AggregateID :: string
  o_RoutingKey :: string
  o_Payload :: payload
  o_Status :: string
  o_CreatedAt :: time
  o_AvailableAt :: time
  o_SentAt :: "time option"

record AuditEvent =
  a_ID :: string
  a_ActorUserID :: string
  a_Action :: string
  a_TargetID :: string
  a_TargetType :: string
  a_Result :: string
  a_CorrelationID :: string
  a_Metadata :: payload
  a_CreatedAt :: time

definition eventPayload :: "Event \<Rightarrow> payload" where
  "eventPayload event =
     [(''eventId'', PString (e_ID event)), (''organizerId'', PString (e_OrganizerID event)),
      (''title'', PString (e_Title event)), (''city'', PString (e_City event)),
      (''venue'', PString (e_Venue event)), (''startsAt'', PTime (e_StartsAt event)),
      (''capacity'', PInt (e_Capacity event)),
      (''status'', PString (EventStatus_string (e_Status event)))]"

definition registrationPayload :: "Registration \<Rightarrow> payload" where
  "registrationPayload reg =
     [(''registrationId'', PString (r_ID reg)), (''eventId'', PString (r_EventID reg)),
      (''userId'', PString (r_UserID reg)),
      (''status'', PString (RegistrationStatus_string (r_Status reg))),
      (''waitlistPosition'', PInt (r_WaitlistPosition reg))]"

definition registrationTransitionPayload :: "Registration \<Rightarrow> RegistrationStatus \<Rightarrow> payload" where
  "registrationTransitionPayload reg previousStatus =
     mput ''previousStatus'' (PString (RegistrationStatus_string previousStatus))
       (registrationPayload reg)"

end
