(* ===== verification/RosterSpec.thy ===== *)
theory RosterSpec imports EventDomain begin

text \<open>
  What the event-registration service promises about one event, independently of how a
  repository stores it: a capacity, the set of confirmed users and the waitlist as a first-in
  first-out queue. The locale \<open>registration_store\<close> is the interface between the join and
  cancel operations of a repository and the facts about sequences of requests; both
  repositories interpret it.
\<close>

record Roster =
  ro_Capacity :: int
  ro_Confirmed :: "string set"
  ro_Waitlist :: "string list"

definition wf_roster :: "Roster \<Rightarrow> bool" where
  "wf_roster ro \<longleftrightarrow> finite (ro_Confirmed ro) \<and> int (card (ro_Confirmed ro)) \<le> ro_Capacity ro \<and>
     distinct (ro_Waitlist ro) \<and> ro_Confirmed ro \<inter> set (ro_Waitlist ro) = {}"

definition ro_free :: "Roster \<Rightarrow> nat" where
  "ro_free ro = nat (ro_Capacity ro - int (card (ro_Confirmed ro)))"

definition ro_members :: "Roster \<Rightarrow> string set" where
  "ro_members ro = ro_Confirmed ro \<union> set (ro_Waitlist ro)"

definition spec_join :: "string \<Rightarrow> Roster \<Rightarrow> Roster" where
  "spec_join u ro =
     (if u \<in> ro_members ro then ro
      else if int (card (ro_Confirmed ro)) < ro_Capacity ro
      then ro\<lparr>ro_Confirmed := insert u (ro_Confirmed ro)\<rparr>
      else ro\<lparr>ro_Waitlist := ro_Waitlist ro @ [u]\<rparr>)"

definition spec_cancel :: "string \<Rightarrow> Roster \<Rightarrow> Roster" where
  "spec_cancel u ro =
     (if u \<in> ro_Confirmed ro then
        (case ro_Waitlist ro of
           [] \<Rightarrow> ro\<lparr>ro_Confirmed := ro_Confirmed ro - {u}\<rparr>
         | w # ws \<Rightarrow> ro\<lparr>ro_Confirmed := insert w (ro_Confirmed ro - {u}), ro_Waitlist := ws\<rparr>)
      else ro\<lparr>ro_Waitlist := filter (\<lambda>v. v \<noteq> u) (ro_Waitlist ro)\<rparr>)"

text \<open>Nobody waits while a place is free.\<close>

definition seats_used :: "Roster \<Rightarrow> bool" where
  "seats_used ro \<longleftrightarrow> (ro_Waitlist ro \<noteq> [] \<longrightarrow> int (card (ro_Confirmed ro)) = ro_Capacity ro)"

lemma wf_spec_join: "wf_roster ro \<Longrightarrow> wf_roster (spec_join u ro)"
  by (auto simp: wf_roster_def spec_join_def ro_members_def)

lemma card_spec_cancel:
  assumes "wf_roster ro" and "u \<in> ro_Confirmed ro"
  shows "card (ro_Confirmed (spec_cancel u ro)) =
     (if ro_Waitlist ro = [] then card (ro_Confirmed ro) - 1 else card (ro_Confirmed ro))"
proof (cases "ro_Waitlist ro")
  case Nil
  then show ?thesis using assms by (simp add: spec_cancel_def wf_roster_def)
next
  case (Cons w ws)
  with assms have "w \<notin> ro_Confirmed ro" and fin: "finite (ro_Confirmed ro)"
    by (auto simp: wf_roster_def)
  then have "card (insert w (ro_Confirmed ro - {u})) = Suc (card (ro_Confirmed ro - {u}))"
    by simp
  also have "\<dots> = card (ro_Confirmed ro)"
    using fin assms(2) by (rule card_Suc_Diff1)
  finally show ?thesis using assms(2) Cons by (simp add: spec_cancel_def)
qed

lemma wf_spec_cancel:
  assumes "wf_roster ro"
  shows "wf_roster (spec_cancel u ro)"
proof (cases "u \<in> ro_Confirmed ro")
  case True
  then have "card (ro_Confirmed (spec_cancel u ro)) \<le> card (ro_Confirmed ro)"
    using card_spec_cancel [OF assms True] by simp
  with assms True show ?thesis
    by (auto simp: wf_roster_def spec_cancel_def split: list.splits)
next
  case False
  with assms show ?thesis by (auto simp: wf_roster_def spec_cancel_def)
qed

lemma seats_used_join: "wf_roster ro \<Longrightarrow> seats_used ro \<Longrightarrow> seats_used (spec_join u ro)"
  by (auto simp: seats_used_def spec_join_def wf_roster_def)

lemma seats_used_cancel:
  assumes "wf_roster ro" and "seats_used ro"
  shows "seats_used (spec_cancel u ro)"
proof (cases "u \<in> ro_Confirmed ro")
  case True
  with assms card_spec_cancel [OF assms(1) True] show ?thesis
    by (auto simp: seats_used_def spec_cancel_def split: list.splits if_splits)
next
  case False
  with assms show ?thesis by (auto simp: seats_used_def spec_cancel_def)
qed

lemma spec_join_member: "u \<in> ro_members (spec_join u ro)"
  by (auto simp: spec_join_def ro_members_def)

lemma spec_cancel_not_member: "wf_roster ro \<Longrightarrow> u \<notin> ro_members (spec_cancel u ro)"
  by (auto simp: spec_cancel_def ro_members_def wf_roster_def split: list.splits)

section \<open>Many users join\<close>

lemma fold_spec_join:
  assumes "wf_roster ro" and "distinct us" and "set us \<inter> ro_members ro = {}"
  shows "fold spec_join us ro =
     ro\<lparr>ro_Confirmed := ro_Confirmed ro \<union> set (take (ro_free ro) us),
        ro_Waitlist := ro_Waitlist ro @ drop (ro_free ro) us\<rparr>"
  using assms
proof (induction us arbitrary: ro)
  case (Cons u us)
  have u: "u \<notin> ro_members ro" using Cons.prems by auto
  have wf: "wf_roster (spec_join u ro)" using Cons.prems wf_spec_join by blast
  have disj: "set us \<inter> ro_members (spec_join u ro) = {}"
    using Cons.prems by (auto simp: spec_join_def ro_members_def)
  have fin: "finite (ro_Confirmed ro)" using Cons.prems by (simp add: wf_roster_def)
  show ?case
  proof (cases "int (card (ro_Confirmed ro)) < ro_Capacity ro")
    case True
    then have sj: "spec_join u ro = ro\<lparr>ro_Confirmed := insert u (ro_Confirmed ro)\<rparr>"
      using u by (simp add: spec_join_def)
    have "ro_free ro = Suc (ro_free (spec_join u ro))"
      using True u fin by (simp add: sj ro_free_def ro_members_def)
    then show ?thesis
      using Cons.IH [OF wf _ disj] Cons.prems(2) by (simp add: sj)
  next
    case False
    then have sj: "spec_join u ro = ro\<lparr>ro_Waitlist := ro_Waitlist ro @ [u]\<rparr>"
      using u by (simp add: spec_join_def)
    have "ro_free ro = 0" using False by (simp add: ro_free_def)
    moreover from this have "ro_free (spec_join u ro) = 0" by (simp add: sj ro_free_def)
    ultimately show ?thesis
      using Cons.IH [OF wf _ disj] Cons.prems(2) by (simp add: sj)
  qed
qed simp

section \<open>The interface\<close>

type_synonym 's join_op =
  "(nat \<Rightarrow> string) \<Rightarrow> string \<Rightarrow> string \<Rightarrow> string \<Rightarrow> time \<Rightarrow> 's \<Rightarrow> 's \<times> (event_error + JoinResult)"
type_synonym 's cancel_op =
  "(nat \<Rightarrow> string) \<Rightarrow> string \<Rightarrow> string \<Rightarrow> time \<Rightarrow> 's \<Rightarrow> 's \<times> (event_error + CancelJoinResult)"

text \<open>A join request: the identifiers it draws, the user, the idempotency key and the time.\<close>

type_synonym join_request = "(nat \<Rightarrow> string) \<times> string \<times> string \<times> time"

fun run_joins :: "'s join_op \<Rightarrow> string \<Rightarrow> join_request list \<Rightarrow> 's \<Rightarrow> 's" where
  "run_joins join ev [] s = s"
| "run_joins join ev ((nid, u, key, now) # qs) s =
     run_joins join ev qs (fst (join nid ev u key now s))"

text \<open>Each request of the run draws fresh identifiers and comes while the event is open.\<close>

fun joins_ok ::
  "'s join_op \<Rightarrow> ((nat \<Rightarrow> string) \<Rightarrow> 's \<Rightarrow> bool) \<Rightarrow> (string \<Rightarrow> time \<Rightarrow> 's \<Rightarrow> bool) \<Rightarrow> string
   \<Rightarrow> join_request list \<Rightarrow> 's \<Rightarrow> bool" where
  "joins_ok join fresh is_open ev [] s \<longleftrightarrow> True"
| "joins_ok join fresh is_open ev ((nid, u, key, now) # qs) s \<longleftrightarrow>
     fresh nid s \<and> is_open ev now s \<and>
     joins_ok join fresh is_open ev qs (fst (join nid ev u key now s))"

definition request_user :: "join_request \<Rightarrow> string" where
  "request_user q = fst (snd q)"

locale registration_store =
  fixes invar :: "'s \<Rightarrow> bool"
    and roster :: "string \<Rightarrow> 's \<Rightarrow> Roster option"
    and is_open :: "string \<Rightarrow> time \<Rightarrow> 's \<Rightarrow> bool"
    and fresh :: "(nat \<Rightarrow> string) \<Rightarrow> 's \<Rightarrow> bool" \<comment> \<open>the identifiers that a join draws are new\<close>
    and join :: "'s join_op"
    and cancel :: "'s cancel_op"
    and drawn :: "(nat \<Rightarrow> string) \<Rightarrow> 's \<Rightarrow> bool" \<comment> \<open>those that a cancellation draws\<close>
  assumes roster_wf: "invar s \<Longrightarrow> roster ev s = Some ro \<Longrightarrow> wf_roster ro"
    and open_roster: "invar s \<Longrightarrow> is_open ev now s \<Longrightarrow> \<exists>ro. roster ev s = Some ro"
    and join_invar: "invar s \<Longrightarrow> fresh nid s \<Longrightarrow> invar (fst (join nid ev u key now s))"
    and join_roster: "invar s \<Longrightarrow> fresh nid s \<Longrightarrow> is_open ev now s \<Longrightarrow> roster ev s = Some ro \<Longrightarrow>
        roster ev (fst (join nid ev u key now s)) = Some (spec_join u ro)"
    and join_other: "invar s \<Longrightarrow> fresh nid s \<Longrightarrow> ev' \<noteq> ev \<Longrightarrow>
        roster ev' (fst (join nid ev u key now s)) = roster ev' s"
    and cancel_invar: "invar s \<Longrightarrow> invar (fst (cancel nid ev u now s))"
    and cancel_roster: "invar s \<Longrightarrow> drawn nid s \<Longrightarrow> roster ev s = Some ro \<Longrightarrow>
        roster ev (fst (cancel nid ev u now s)) = Some (spec_cancel u ro)"
    and cancel_other: "invar s \<Longrightarrow> ev' \<noteq> ev \<Longrightarrow>
        roster ev' (fst (cancel nid ev u now s)) = roster ev' s"
begin

lemma run_joins_invar:
  "invar s \<Longrightarrow> joins_ok join fresh is_open ev qs s \<Longrightarrow> invar (run_joins join ev qs s)"
  by (induction qs arbitrary: s) (auto simp: join_invar)

lemma run_joins_roster:
  "invar s \<Longrightarrow> joins_ok join fresh is_open ev qs s \<Longrightarrow> roster ev s = Some ro \<Longrightarrow>
     roster ev (run_joins join ev qs s) = Some (fold spec_join (map request_user qs) ro)"
proof (induction qs arbitrary: s ro)
  case (Cons q qs)
  obtain nid u key now where q: "q = (nid, u, key, now)" by (cases q)
  have "request_user q = u" by (simp add: q request_user_def)
  with Cons.prems show ?case
    by (auto simp: q intro!: Cons.IH join_invar join_roster)
qed simp

lemma joins_fill_then_queue:
  assumes "invar s" and "joins_ok join fresh is_open ev qs s" and "roster ev s = Some ro"
    and "distinct (map request_user qs)" and "set (map request_user qs) \<inter> ro_members ro = {}"
  shows "roster ev (run_joins join ev qs s) =
     Some (ro\<lparr>ro_Confirmed := ro_Confirmed ro \<union> set (take (ro_free ro) (map request_user qs)),
              ro_Waitlist := ro_Waitlist ro @ drop (ro_free ro) (map request_user qs)\<rparr>)"
  using run_joins_roster [OF assms(1-3)] fold_spec_join [OF roster_wf [OF assms(1,3)] assms(4,5)]
  by simp

text \<open>Leaving and joining again puts a user behind everybody who waits.\<close>

lemma rejoin_goes_last:
  assumes "invar s" and "roster ev s = Some ro" and "seats_used ro" and "ro_Waitlist ro \<noteq> []"
    and "u \<in> ro_Confirmed ro" and drawn: "drawn nid s"
    and "fresh nid' (fst (cancel nid ev u now s))"
    and "is_open ev now' (fst (cancel nid ev u now s))"
  shows "roster ev (fst (join nid' ev u key now' (fst (cancel nid ev u now s)))) =
     Some (ro\<lparr>ro_Confirmed := insert (hd (ro_Waitlist ro)) (ro_Confirmed ro - {u}),
              ro_Waitlist := tl (ro_Waitlist ro) @ [u]\<rparr>)"
proof -
  have wf: "wf_roster ro" using roster_wf assms(1,2) by blast
  let ?s = "fst (cancel nid ev u now s)"
  have inv: "invar ?s" using cancel_invar assms(1) by blast
  have r: "roster ev ?s = Some (spec_cancel u ro)" using cancel_roster assms(1,2) drawn by blast
  have full: "int (card (ro_Confirmed (spec_cancel u ro))) = ro_Capacity ro"
    using card_spec_cancel [OF wf assms(5)] assms(3,4) by (simp add: seats_used_def)
  have cap: "ro_Capacity (spec_cancel u ro) = ro_Capacity ro"
    by (simp add: spec_cancel_def split: list.split)
  have "spec_join u (spec_cancel u ro) =
      (spec_cancel u ro)\<lparr>ro_Waitlist := ro_Waitlist (spec_cancel u ro) @ [u]\<rparr>"
    using spec_cancel_not_member [OF wf, of u] full cap by (simp add: spec_join_def)
  also have "\<dots> = ro\<lparr>ro_Confirmed := insert (hd (ro_Waitlist ro)) (ro_Confirmed ro - {u}),
              ro_Waitlist := tl (ro_Waitlist ro) @ [u]\<rparr>"
    using assms(4,5) by (cases "ro_Waitlist ro") (simp_all add: spec_cancel_def)
  finally show ?thesis using join_roster [OF inv assms(7,8) r] by simp
qed

end

end
