(* ===== verification/Registrations.thy ===== *)
theory Registrations imports RosterSpec "HOL-Library.Product_Lexorder" begin

text \<open>
  The registrations of an event as a list, and the roster it stands for. The tests are the
  conditions that the loops of \<^verbatim>\<open>repository.go\<close> and the \<^verbatim>\<open>WHERE\<close> clauses of
  \<^verbatim>\<open>postgres_repository.go\<close> repeat. The lemmas say how the roster changes when one registration
  is added or replaced, which is all that the two repositories do.
\<close>

definition confirmed_for :: "string \<Rightarrow> Registration \<Rightarrow> bool" where
  "confirmed_for eventID reg \<longleftrightarrow> r_EventID reg = eventID \<and> r_Status reg = Confirmed"
definition waitlisted_for :: "string \<Rightarrow> Registration \<Rightarrow> bool" where
  "waitlisted_for eventID reg \<longleftrightarrow> r_EventID reg = eventID \<and> r_Status reg = Waitlisted"
definition active_for :: "string \<Rightarrow> string \<Rightarrow> Registration \<Rightarrow> bool" where
  "active_for eventID userID reg \<longleftrightarrow>
     r_EventID reg = eventID \<and> r_UserID reg = userID \<and> active reg"

definition waitlist_key :: "Registration \<Rightarrow> int \<times> time" where
  "waitlist_key reg = (r_WaitlistPosition reg, r_CreatedAt reg)"

definition active_users :: "string \<Rightarrow> Registration list \<Rightarrow> string list" where
  "active_users ev regs = map r_UserID (filter (\<lambda>g. r_EventID g = ev \<and> active g) regs)"

definition confirmed_count :: "string \<Rightarrow> Registration list \<Rightarrow> nat" where
  "confirmed_count ev regs = length (filter (confirmed_for ev) regs)"

definition wait_users :: "string \<Rightarrow> Registration list \<Rightarrow> string list" where
  "wait_users ev regs = map r_UserID (sort_key waitlist_key (filter (waitlisted_for ev) regs))"

definition conf_users :: "string \<Rightarrow> Registration list \<Rightarrow> string set" where
  "conf_users ev regs = r_UserID ` set (filter (confirmed_for ev) regs)"

definition roster_of :: "int \<Rightarrow> string \<Rightarrow> Registration list \<Rightarrow> Roster" where
  "roster_of cap ev regs =
     \<lparr>ro_Capacity = cap, ro_Confirmed = conf_users ev regs, ro_Waitlist = wait_users ev regs\<rparr>"

text \<open>One active registration per user and event.\<close>

definition regs_ok :: "Registration list \<Rightarrow> bool" where
  "regs_ok regs \<longleftrightarrow> (\<forall>ev. distinct (active_users ev regs))"

lemmas for_defs = confirmed_for_def waitlisted_for_def active_for_def active_def

lemma roster_of_sel [simp]:
  "ro_Capacity (roster_of cap ev regs) = cap"
  "ro_Confirmed (roster_of cap ev regs) = conf_users ev regs"
  "ro_Waitlist (roster_of cap ev regs) = wait_users ev regs"
  by (simp_all add: roster_of_def)

lemma set_wait_users: "set (wait_users ev regs) = r_UserID ` set (filter (waitlisted_for ev) regs)"
  by (simp add: wait_users_def)

lemma members_roster_of: "ro_members (roster_of cap ev regs) = set (active_users ev regs)"
  by (auto simp: ro_members_def conf_users_def set_wait_users active_users_def for_defs)

lemma find_active: "find (active_for ev u) regs = None \<longleftrightarrow> u \<notin> set (active_users ev regs)"
  by (auto simp: find_None_iff active_users_def active_for_def)

lemma active_inj:
  assumes "regs_ok regs" and "g \<in> set regs" "h \<in> set regs" "active g" "active h"
    and "r_EventID g = r_EventID h" "r_UserID g = r_UserID h"
  shows "g = h"
proof -
  have "inj_on r_UserID (set (filter (\<lambda>x. r_EventID x = r_EventID g \<and> active x) regs))"
    using assms(1) by (simp add: regs_ok_def active_users_def distinct_map)
  then show ?thesis by (rule inj_onD) (use assms in auto)
qed

lemma distinct_part:
  assumes "regs_ok regs" and "\<And>g. P g \<Longrightarrow> r_EventID g = ev \<and> active g"
  shows "distinct (map r_UserID (filter P regs))"
proof -
  let ?A = "\<lambda>g. r_EventID g = ev \<and> active g"
  have "distinct (map r_UserID (filter ?A regs))"
    using assms(1) by (simp add: regs_ok_def active_users_def)
  then have "distinct (map r_UserID (filter P (filter ?A regs)))"
    by (rule distinct_map_filter)
  moreover have "filter P (filter ?A regs) = filter P regs"
    using assms(2) by (auto intro: filter_cong simp: filter_filter)
  ultimately show ?thesis by simp
qed

lemma card_conf_users: "regs_ok regs \<Longrightarrow> card (conf_users ev regs) = confirmed_count ev regs"
  unfolding conf_users_def confirmed_count_def
  by (metis (no_types, lifting) active_def confirmed_for_def distinct_card distinct_part
      length_map list.set_map)

lemma distinct_wait_users: "regs_ok regs \<Longrightarrow> distinct (wait_users ev regs)"
proof -
  assume "regs_ok regs"
  then have "distinct (map r_UserID (filter (waitlisted_for ev) regs))"
    by (rule distinct_part [of _ _ ev]) (simp add: for_defs)
  then show ?thesis by (simp add: wait_users_def distinct_map)
qed

lemma wf_roster_of:
  assumes "regs_ok regs" and "int (confirmed_count ev regs) \<le> cap"
  shows "wf_roster (roster_of cap ev regs)"
proof -
  have "conf_users ev regs \<inter> set (wait_users ev regs) = {}"
    using active_inj [OF assms(1)] by (fastforce simp: conf_users_def set_wait_users for_defs)
  then show ?thesis
    using assms card_conf_users [of regs ev] distinct_wait_users [of regs ev]
    by (simp add: wf_roster_def) (simp add: conf_users_def)
qed

section \<open>A new registration\<close>

lemma active_users_append [simp]:
  "active_users ev (xs @ ys) = active_users ev xs @ active_users ev ys"
  "active_users ev (g # ys) =
     (if r_EventID g = ev \<and> active g then r_UserID g # active_users ev ys else active_users ev ys)"
  "active_users ev [] = []"
  by (simp_all add: active_users_def)

lemma confirmed_count_append [simp]:
  "confirmed_count ev (xs @ ys) = confirmed_count ev xs + confirmed_count ev ys"
  "confirmed_count ev (g # ys) = (if confirmed_for ev g then 1 else 0) + confirmed_count ev ys"
  "confirmed_count ev [] = 0"
  by (simp_all add: confirmed_count_def)

lemma conf_users_append [simp]:
  "conf_users ev (xs @ ys) = conf_users ev xs \<union> conf_users ev ys"
  "conf_users ev (g # ys) =
     (if confirmed_for ev g then insert (r_UserID g) (conf_users ev ys) else conf_users ev ys)"
  "conf_users ev [] = {}"
  by (auto simp: conf_users_def)

lemma hd_sort_filter:
  "filter P xs \<noteq> [] \<Longrightarrow> f = hd (sort_key k (filter P xs)) \<Longrightarrow> P f \<and> f \<in> set xs"
proof -
  assume "filter P xs \<noteq> []" and f: "f = hd (sort_key k (filter P xs))"
  then have "sort_key k (filter P xs) \<noteq> []" by (metis set_empty set_sort)
  then have "f \<in> set (sort_key k (filter P xs))" unfolding f by (rule hd_in_set)
  then show ?thesis by simp
qed

lemma regs_ok_append:
  "regs_ok regs \<Longrightarrow> r_UserID g \<notin> set (active_users (r_EventID g) regs) \<Longrightarrow> regs_ok (regs @ [g])"
  by (auto simp: regs_ok_def)

lemma roster_append_other:
  "r_EventID g \<noteq> ev \<Longrightarrow> roster_of cap ev (regs @ [g]) = roster_of cap ev regs"
  by (simp add: roster_of_def for_defs wait_users_def)

lemma roster_append:
  assumes ok: "regs_ok regs" and g: "r_EventID g = ev" "r_UserID g = u"
    and new: "u \<notin> set (active_users ev regs)"
    and status: "r_Status g = (if int (confirmed_count ev regs) < cap then Confirmed else Waitlisted)"
    and last: "\<And>h. r_Status g = Waitlisted \<Longrightarrow> h \<in> set regs \<Longrightarrow> waitlisted_for ev h
                 \<Longrightarrow> waitlist_key h \<le> waitlist_key g"
  shows "roster_of cap ev (regs @ [g]) = spec_join u (roster_of cap ev regs)"
proof -
  have u: "u \<notin> ro_members (roster_of cap ev regs)" using new by (simp add: members_roster_of)
  show ?thesis
  proof (cases "int (confirmed_count ev regs) < cap")
    case True
    then have "confirmed_for ev g" "\<not> waitlisted_for ev g" using g status by (simp_all add: for_defs)
    then show ?thesis
      using True u g by (simp add: spec_join_def card_conf_users [OF ok])
        (simp add: roster_of_def wait_users_def)
  next
    case False
    then have c: "\<not> confirmed_for ev g" "waitlisted_for ev g" using g status by (simp_all add: for_defs)
    have "wait_users ev (regs @ [g]) = wait_users ev regs @ [u]"
      using c g last by (simp add: wait_users_def) (subst sort_key_snoc, auto simp: for_defs)
    then show ?thesis
      using False u c by (simp add: spec_join_def card_conf_users [OF ok] roster_of_def)
  qed
qed

section \<open>A registration that changes in place\<close>

lemma regs_ok_replace:
  assumes "regs_ok (xs @ g # ys)" and "r_EventID g' = r_EventID g" "r_UserID g' = r_UserID g"
    and "active g' \<Longrightarrow> active g"
  shows "regs_ok (xs @ g' # ys)"
  using assms by (auto simp: regs_ok_def split: if_splits)

lemma wait_users_remove:
  assumes ok: "regs_ok (xs @ g # ys)" and g: "waitlisted_for ev g" and g': "\<not> waitlisted_for ev g'"
  shows "wait_users ev (xs @ g' # ys) = filter (\<lambda>v. v \<noteq> r_UserID g) (wait_users ev (xs @ g # ys))"
proof -
  let ?W = "waitlisted_for ev" and ?n = "\<lambda>h. r_UserID h \<noteq> r_UserID g"
  have d: "distinct (map r_UserID (filter ?W (xs @ g # ys)))"
    using ok by (rule distinct_part [of _ _ ev]) (simp add: for_defs)
  have "filter (\<lambda>h. ?W h \<and> ?n h) zs = filter ?W zs" if "zs = xs \<or> zs = ys" for zs
    by (rule filter_cong) (use that d g in \<open>auto simp: image_iff\<close>)
  then have n: "filter ?n (filter ?W (xs @ g # ys)) = filter ?W (xs @ g' # ys)"
    using g g' by simp
  have "filter (\<lambda>v. v \<noteq> r_UserID g) (wait_users ev (xs @ g # ys)) =
      map r_UserID (filter ?n (sort_key waitlist_key (filter ?W (xs @ g # ys))))"
    by (simp add: wait_users_def filter_map comp_def)
  also have "\<dots> = map r_UserID (sort_key waitlist_key (filter ?n (filter ?W (xs @ g # ys))))"
    by (simp only: filter_sort)
  finally show ?thesis unfolding n by (simp add: wait_users_def)
qed

lemma wait_users_keep:
  "\<not> waitlisted_for ev g \<Longrightarrow> \<not> waitlisted_for ev g' \<Longrightarrow>
     wait_users ev (xs @ g' # ys) = wait_users ev (xs @ g # ys)"
  by (simp add: wait_users_def)

lemma conf_users_remove:
  assumes ok: "regs_ok (xs @ g # ys)" and g: "confirmed_for ev g" and g': "\<not> confirmed_for ev g'"
  shows "conf_users ev (xs @ g' # ys) = conf_users ev (xs @ g # ys) - {r_UserID g}"
proof -
  have "distinct (map r_UserID (filter (confirmed_for ev) (xs @ g # ys)))"
    using ok by (rule distinct_part [of _ _ ev]) (simp add: for_defs)
  then have "r_UserID g \<notin> conf_users ev xs" "r_UserID g \<notin> conf_users ev ys"
    using g by (auto simp: conf_users_def)
  then show ?thesis using g g' by auto
qed

lemma roster_replace_other:
  "r_EventID g \<noteq> ev \<Longrightarrow> r_EventID g' \<noteq> ev \<Longrightarrow>
     roster_of cap ev (xs @ g' # ys) = roster_of cap ev (xs @ g # ys)"
  by (simp add: roster_of_def for_defs wait_users_def)

lemma roster_cancel_waitlisted:
  assumes ok: "regs_ok (xs @ g # ys)" and g: "waitlisted_for ev g" and g': "\<not> active g'"
  shows "roster_of cap ev (xs @ g' # ys) = spec_cancel (r_UserID g) (roster_of cap ev (xs @ g # ys))"
proof -
  have "r_UserID g \<notin> conf_users ev (xs @ g # ys)"
    using active_inj [OF ok, of g] g by (fastforce simp: conf_users_def for_defs)
  moreover have "conf_users ev (xs @ g' # ys) = conf_users ev (xs @ g # ys)"
    using g g' by (simp add: for_defs)
  ultimately show ?thesis
    using wait_users_remove [OF ok g, of g'] g' by (simp add: spec_cancel_def roster_of_def for_defs)
qed

lemma roster_cancel_confirmed:
  assumes ok: "regs_ok (xs @ g # ys)" and g: "confirmed_for ev g" and g': "\<not> active g'"
    and w: "wait_users ev (xs @ g # ys) = []"
  shows "roster_of cap ev (xs @ g' # ys) = spec_cancel (r_UserID g) (roster_of cap ev (xs @ g # ys))"
proof -
  have "r_UserID g \<in> conf_users ev (xs @ g # ys)" using g by simp
  moreover have "wait_users ev (xs @ g' # ys) = []"
    using wait_users_keep [of ev g g' xs ys] w g g' by (simp add: for_defs)
  moreover have "conf_users ev (xs @ g' # ys) = conf_users ev (xs @ g # ys) - {r_UserID g}"
    using conf_users_remove [OF ok g, of g'] g' by (simp add: for_defs)
  ultimately show ?thesis
    using w by (simp add: spec_cancel_def roster_of_def)
qed

text \<open>The first of the waitlist takes the place: \<open>regs1\<close> is the list after the cancellation.\<close>

lemma roster_promote:
  assumes ok: "regs_ok (xs @ g # ys)" and g: "confirmed_for ev g"
    and g': "\<not> active g'" "r_EventID g' = r_EventID g" "r_UserID g' = r_UserID g"
    and regs1: "xs @ g' # ys = as @ f # bs"
    and f: "f = hd (sort_key waitlist_key (filter (waitlisted_for ev) (xs @ g' # ys)))"
    and ne: "filter (waitlisted_for ev) (xs @ g' # ys) \<noteq> []"
    and f': "r_EventID f' = r_EventID f" "r_UserID f' = r_UserID f" "r_Status f' = Confirmed"
  shows "roster_of cap ev (as @ f' # bs) = spec_cancel (r_UserID g) (roster_of cap ev (xs @ g # ys))"
proof -
  let ?W = "waitlisted_for ev"
  have ok1: "regs_ok (as @ f # bs)"
    unfolding regs1 [symmetric] by (rule regs_ok_replace [OF ok g'(2,3)]) (use g'(1) in simp)
  define L where "L = sort_key waitlist_key (filter ?W (xs @ g' # ys))"
  have L: "L \<noteq> []" "f = hd L" using ne f unfolding L_def by (metis set_empty set_sort, blast)
  have wf: "?W f" using hd_sort_filter [OF ne f] by blast
  have w1: "wait_users ev (as @ f # bs) = wait_users ev (xs @ g # ys)"
    unfolding regs1 [symmetric] using g g' by (intro wait_users_keep) (simp_all add: for_defs)
  have "wait_users ev (as @ f # bs) = map r_UserID L"
    unfolding regs1 [symmetric] L_def by (rule wait_users_def)
  then obtain ws where ws: "wait_users ev (as @ f # bs) = r_UserID f # ws"
    using L(1,2) by (cases L) auto
  have "wait_users ev (as @ f' # bs) = filter (\<lambda>v. v \<noteq> r_UserID f) (wait_users ev (as @ f # bs))"
    using wait_users_remove [OF ok1 wf] f' by (simp add: for_defs)
  also have "\<dots> = ws"
    using distinct_wait_users [OF ok1, of ev] ws by (auto intro: filter_all_same)
  finally have wait: "wait_users ev (as @ f' # bs) = ws" .
  have "conf_users ev (as @ f # bs) = conf_users ev (xs @ g # ys) - {r_UserID g}"
    unfolding regs1 [symmetric] using conf_users_remove [OF ok g, of g'] g' by (simp add: for_defs)
  then have conf: "conf_users ev (as @ f' # bs) =
      insert (r_UserID f) (conf_users ev (xs @ g # ys) - {r_UserID g})"
    using wf f' by (auto simp: for_defs)
  have "r_UserID g \<in> conf_users ev (xs @ g # ys)" using g by simp
  then show ?thesis
    using wait conf ws w1 by (simp add: spec_cancel_def roster_of_def)
qed

section \<open>Waitlist positions\<close>

text \<open>
  The waiting registrations of an event have distinct positions, so that the order of the
  waitlist does not depend on the order of the list.
\<close>

definition positions_ok :: "Registration list \<Rightarrow> bool" where
  "positions_ok regs \<longleftrightarrow>
     (\<forall>ev. distinct (map r_WaitlistPosition (filter (waitlisted_for ev) regs)))"

lemma positions_ok_append:
  "positions_ok regs \<Longrightarrow>
     (\<And>h. r_Status g = Waitlisted \<Longrightarrow> h \<in> set regs \<Longrightarrow> waitlisted_for (r_EventID g) h \<Longrightarrow>
        r_WaitlistPosition h < r_WaitlistPosition g) \<Longrightarrow>
     positions_ok (regs @ [g])"
  by (fastforce simp: positions_ok_def for_defs)

lemma positions_ok_replace:
  "positions_ok (xs @ g # ys) \<Longrightarrow> r_Status g' \<noteq> Waitlisted \<Longrightarrow> positions_ok (xs @ g' # ys)"
  by (auto simp: positions_ok_def waitlisted_for_def split: if_splits)

definition maxPosition :: "string \<Rightarrow> Registration list \<Rightarrow> int" where
  "maxPosition eventID regs =
     fold (\<lambda>reg maxPos. if r_EventID reg = eventID \<and> r_WaitlistPosition reg > maxPos
                        then r_WaitlistPosition reg else maxPos) regs 0"

lemma maxPosition_le_iff:
  "maxPosition ev regs \<le> b \<longleftrightarrow>
     0 \<le> b \<and> (\<forall>g \<in> set regs. r_EventID g = ev \<longrightarrow> r_WaitlistPosition g \<le> b)"
proof -
  have "fold (\<lambda>reg m. if r_EventID reg = ev \<and> r_WaitlistPosition reg > m
            then r_WaitlistPosition reg else m) regs a \<le> b \<longleftrightarrow>
     a \<le> b \<and> (\<forall>g \<in> set regs. r_EventID g = ev \<longrightarrow> r_WaitlistPosition g \<le> b)" for a
    by (induction regs arbitrary: a) (auto split: if_splits)
  then show ?thesis by (simp add: maxPosition_def)
qed

lemma maxPosition_ge:
  "g \<in> set regs \<Longrightarrow> r_EventID g = ev \<Longrightarrow> r_WaitlistPosition g \<le> maxPosition ev regs"
  using maxPosition_le_iff [of ev regs "maxPosition ev regs"] by simp

lemma maxPosition_nonneg: "0 \<le> maxPosition ev regs"
  using maxPosition_le_iff [of ev regs "maxPosition ev regs"] by simp

section \<open>The invariant of the stored events and registrations\<close>

text \<open>
  What both repositories keep: keys are identifiers, every registration belongs to an event,
  a user holds at most one active registration of an event, no event has more confirmed
  registrations than places, and a cancelled event has no active registration.
\<close>

definition event_ok :: "string \<Rightarrow> Event \<Rightarrow> Registration list \<Rightarrow> bool" where
  "event_ok k e regs \<longleftrightarrow>
     e_ID e = k \<and> (e_Status e = EventPublished \<or> e_Status e = EventCanceled) \<and>
     int (confirmed_count k regs) \<le> e_Capacity e \<and>
     (e_Status e = EventCanceled \<longrightarrow> active_users k regs = [])"

definition refs_ok :: "(string, Event) gomap \<Rightarrow> (string, Registration) gomap \<Rightarrow> bool" where
  "refs_ok es m \<longleftrightarrow> (\<forall>(k, g) \<in> set m. r_ID g = k \<and> map_of es (r_EventID g) \<noteq> None)"

lemma refs_ok_simps [simp]:
  "refs_ok es []"
  "refs_ok es ((k, g) # m) \<longleftrightarrow> r_ID g = k \<and> map_of es (r_EventID g) \<noteq> None \<and> refs_ok es m"
  "refs_ok es (m @ m') \<longleftrightarrow> refs_ok es m \<and> refs_ok es m'"
  by (auto simp: refs_ok_def)

lemma refs_ok_put_event: "refs_ok es m \<Longrightarrow> refs_ok (mput ev e es) m"
  by (auto simp: refs_ok_def)

definition store_inv :: "(string, Event) gomap \<Rightarrow> (string, Registration) gomap \<Rightarrow> bool" where
  "store_inv es m \<longleftrightarrow>
     distinct (mkeys es) \<and> distinct (mkeys m) \<and>
     refs_ok es m \<and> regs_ok (mvals m) \<and> positions_ok (mvals m) \<and>
     (\<forall>k e. map_of es k = Some e \<longrightarrow> event_ok k e (mvals m))"

definition store_roster ::
  "(string, Event) gomap \<Rightarrow> (string, Registration) gomap \<Rightarrow> string \<Rightarrow> Roster option" where
  "store_roster es m ev =
     map_option (\<lambda>e. roster_of (e_Capacity e) ev (mvals m)) (map_of es ev)"

lemma store_roster_wf: "store_inv es m \<Longrightarrow> store_roster es m ev = Some ro \<Longrightarrow> wf_roster ro"
  by (auto simp: store_inv_def store_roster_def event_ok_def intro!: wf_roster_of)

lemma store_lookup:
  "store_inv es m \<Longrightarrow> g \<in> set (mvals m) \<Longrightarrow> map_of m (r_ID g) = Some g"
  by (auto simp: store_inv_def refs_ok_def)

lemma confirmed_zero: "active_users k regs = [] \<Longrightarrow> confirmed_count k regs = 0"
  by (auto simp: active_users_def confirmed_count_def for_defs filter_empty_conv)

text \<open>A change of an event that keeps its identity and respects the confirmed count.\<close>

lemma store_inv_event:
  assumes "store_inv es m" and "event_ok ev e' (mvals m)"
  shows "store_inv (mput ev e' es) m"
  using assms by (auto simp: store_inv_def distinct_update refs_ok_put_event)

lemma active_users_imp_event:
  "store_inv es m \<Longrightarrow> map_of es ev = None \<Longrightarrow> active_users ev (mvals m) = []"
  by (fastforce simp: store_inv_def refs_ok_def active_users_def filter_empty_conv)

lemma store_inv_new_event:
  assumes "store_inv es m" and "map_of es (e_ID e) = None" and "0 \<le> e_Capacity e"
    and "e_Status e = EventPublished"
  shows "store_inv (mput (e_ID e) e es) m"
  using assms confirmed_zero active_users_imp_event
  by (intro store_inv_event) (auto simp: event_ok_def)

text \<open>A new registration.\<close>

lemma store_inv_join:
  assumes inv: "store_inv es m" and e: "map_of es ev = Some e" "e_Status e \<noteq> EventCanceled"
    and g: "r_EventID g = ev" "r_ID g = k" "k \<notin> set (mkeys m)"
    and new: "r_UserID g \<notin> set (active_users ev (mvals m))"
    and status: "r_Status g =
      (if int (confirmed_count ev (mvals m)) < e_Capacity e then Confirmed else Waitlisted)"
    and pos: "\<And>h. r_Status g = Waitlisted \<Longrightarrow> h \<in> set (mvals m) \<Longrightarrow> waitlisted_for ev h
                \<Longrightarrow> r_WaitlistPosition h < r_WaitlistPosition g"
  shows "store_inv es (mput k g m)"
proof -
  have 1: "regs_ok (mvals m @ [g])" "positions_ok (mvals m @ [g])"
    using inv g new pos by (auto simp: store_inv_def intro!: regs_ok_append positions_ok_append)
  have 2: "event_ok k' e' (mvals m @ [g])" if "map_of es k' = Some e'" for k' e'
  proof -
    from inv that have ok: "event_ok k' e' (mvals m)" by (simp add: store_inv_def)
    show ?thesis
      by (cases "k' = ev")
        (use ok e g status that in \<open>auto simp: event_ok_def for_defs split: if_splits\<close>)
  qed
  show ?thesis
    using inv g e 1 2 by (auto simp: store_inv_def mput_fresh)
qed

lemma store_roster_join:
  assumes inv: "store_inv es m" and e: "map_of es ev = Some e"
    and g: "r_EventID g = ev" "r_UserID g = u" "k \<notin> set (mkeys m)"
    and new: "u \<notin> set (active_users ev (mvals m))"
    and status: "r_Status g =
      (if int (confirmed_count ev (mvals m)) < e_Capacity e then Confirmed else Waitlisted)"
    and pos: "\<And>h. r_Status g = Waitlisted \<Longrightarrow> h \<in> set (mvals m) \<Longrightarrow> waitlisted_for ev h
                \<Longrightarrow> r_WaitlistPosition h < r_WaitlistPosition g"
  shows "store_roster es (mput k g m) ev = map_option (spec_join u) (store_roster es m ev)"
proof -
  have "roster_of (e_Capacity e) ev (mvals m @ [g]) =
      spec_join u (roster_of (e_Capacity e) ev (mvals m))"
    using inv g new status pos
    by (intro roster_append) (auto simp: store_inv_def waitlist_key_def less_imp_le)
  then show ?thesis using e g by (simp add: store_roster_def mput_fresh)
qed

lemma store_roster_join_other:
  "k \<notin> set (mkeys m) \<Longrightarrow> r_EventID g \<noteq> ev \<Longrightarrow>
     store_roster es (mput k g m) ev = store_roster es m ev"
  by (simp add: store_roster_def mput_fresh roster_append_other)

text \<open>A registration that is replaced.\<close>

lemma store_split:
  assumes inv: "store_inv es m" and g: "g \<in> set (mvals m)"
  obtains xs ys where "m = xs @ (r_ID g, g) # ys"
    and "\<And>g'. mput (r_ID g) g' m = xs @ (r_ID g, g') # ys"
proof -
  have "map_of m (r_ID g) = Some g" "distinct (mkeys m)"
    using store_lookup [OF inv g] inv by (auto simp: store_inv_def)
  then show thesis by (rule mput_split) (rule that)
qed

lemma store_inv_replace:
  assumes inv: "store_inv es m" and g: "g \<in> set (mvals m)"
    and g': "r_ID g' = r_ID g" "r_EventID g' = r_EventID g" "r_UserID g' = r_UserID g"
      "r_Status g' \<noteq> Waitlisted" "active g' \<Longrightarrow> active g"
    and conf: "\<And>e. r_Status g' = Confirmed \<Longrightarrow> map_of es (r_EventID g) = Some e \<Longrightarrow>
        int (confirmed_count (r_EventID g) (mvals m)) < e_Capacity e"
  shows "store_inv es (mput (r_ID g') g' m)"
proof -
  obtain xs ys where m: "m = xs @ (r_ID g, g) # ys"
    and put: "mput (r_ID g') g' m = xs @ (r_ID g, g') # ys"
    using store_split [OF inv g] g'(1) by metis
  have 1: "regs_ok (mvals xs @ g' # mvals ys)" "positions_ok (mvals xs @ g' # mvals ys)"
    using inv g' by (auto simp: store_inv_def m intro: regs_ok_replace positions_ok_replace)
  have 2: "event_ok k e (mvals xs @ g' # mvals ys)" if e: "map_of es k = Some e" for k e
  proof -
    from inv e have ok: "event_ok k e (mvals m)" by (simp add: store_inv_def)
    show ?thesis
      using ok e g' conf [of e]
      by (cases "r_EventID g = k") (auto simp: event_ok_def m for_defs split: if_splits)
  qed
  show ?thesis
    using inv 1 2 g'(1,2) unfolding store_inv_def put by (auto simp: m put)
qed

lemma store_roster_replace_other:
  assumes inv: "store_inv es m" and g: "g \<in> set (mvals m)" "r_EventID g \<noteq> ev"
    and g': "r_ID g' = r_ID g" "r_EventID g' = r_EventID g"
  shows "store_roster es (mput (r_ID g') g' m) ev = store_roster es m ev"
proof -
  obtain xs ys where m: "m = xs @ (r_ID g, g) # ys"
    and put: "mput (r_ID g') g' m = xs @ (r_ID g, g') # ys"
    using store_split [OF inv g(1)] g'(1) by metis
  show ?thesis
    unfolding put using g(2) g'(2) roster_replace_other [of g ev g']
    by (simp add: store_roster_def m)
qed

lemma store_roster_cancel:
  assumes inv: "store_inv es m" and g: "g \<in> set (mvals m)" "r_EventID g = ev" "active g"
    and g': "r_ID g' = r_ID g" "\<not> active g'"
    and w: "r_Status g = Confirmed \<Longrightarrow> filter (waitlisted_for ev) (mvals m) = []"
  shows "store_roster es (mput (r_ID g') g' m) ev =
     map_option (spec_cancel (r_UserID g)) (store_roster es m ev)"
proof -
  obtain xs ys where m: "m = xs @ (r_ID g, g) # ys"
    and put: "mput (r_ID g') g' m = xs @ (r_ID g, g') # ys"
    using store_split [OF inv g(1)] g'(1) by metis
  have ok: "regs_ok (mvals xs @ g # mvals ys)" using inv by (simp add: store_inv_def m)
  have "roster_of cap ev (mvals xs @ g' # mvals ys) =
      spec_cancel (r_UserID g) (roster_of cap ev (mvals xs @ g # mvals ys))" for cap
  proof (cases "r_Status g = Waitlisted")
    case True
    then show ?thesis
      using roster_cancel_waitlisted [OF ok, of ev g'] g g' by (simp add: for_defs)
  next
    case False
    then have "r_Status g = Confirmed" using g(3) by (simp add: active_def)
    then show ?thesis
      using roster_cancel_confirmed [OF ok, of ev g'] w g g' by (simp add: for_defs wait_users_def m)
  qed
  then show ?thesis unfolding put by (simp add: store_roster_def m map_option_case split: option.split)
qed

lemma store_roster_promote:
  assumes inv: "store_inv es m" and g: "g \<in> set (mvals m)" "confirmed_for ev g"
    and g': "r_ID g' = r_ID g" "r_EventID g' = r_EventID g" "r_UserID g' = r_UserID g" "\<not> active g'"
    and inv1: "store_inv es m1" and m1: "m1 = mput (r_ID g') g' m"
    and ne: "filter (waitlisted_for ev) (mvals m1) \<noteq> []"
    and f: "f = hd (sort_key waitlist_key (filter (waitlisted_for ev) (mvals m1)))"
    and f': "r_ID f' = r_ID f" "r_EventID f' = r_EventID f" "r_UserID f' = r_UserID f"
      "r_Status f' = Confirmed"
  shows "store_roster es (mput (r_ID f') f' m1) ev =
     map_option (spec_cancel (r_UserID g)) (store_roster es m ev)"
proof -
  obtain xs ys where m: "m = xs @ (r_ID g, g) # ys"
    and put: "m1 = xs @ (r_ID g, g') # ys"
    using store_split [OF inv g(1)] g'(1) m1 by metis
  have fm: "f \<in> set (mvals m1)" using hd_sort_filter [OF ne f] by simp
  obtain as bs where m1s: "m1 = as @ (r_ID f, f) # bs"
    and put1: "mput (r_ID f') f' m1 = as @ (r_ID f, f') # bs"
    using store_split [OF inv1 fm] f'(1) by metis
  have ok: "regs_ok (mvals xs @ g # mvals ys)" using inv by (simp add: store_inv_def m)
  have eq: "mvals xs @ g' # mvals ys = mvals as @ f # mvals bs"
    using arg_cong [OF put, of mvals] by (simp add: m1s)
  have v1: "mvals m1 = mvals xs @ g' # mvals ys" by (simp add: put)
  have "roster_of cap ev (mvals as @ f' # mvals bs) =
      spec_cancel (r_UserID g) (roster_of cap ev (mvals xs @ g # mvals ys))" for cap
    by (rule roster_promote [OF ok g(2) g'(4,2,3) eq f [unfolded v1] ne [unfolded v1] f'(2-4)])
  then show ?thesis
    unfolding put1 by (simp add: store_roster_def m map_option_case split: option.split)
qed

end
