(* ===== verification/EventMemory.thy ===== *)
theory EventMemory imports Registrations begin

text \<open>
  \<^verbatim>\<open>MemoryRepository\<close> of \<^verbatim>\<open>internal/services/eventregistration/repository.go\<close>. Every exported
  method holds the mutex from its first to its last statement, so a method is one function
  from state to state. \<open>nid\<close> gives the identifiers that \<^verbatim>\<open>NewID\<close> returns during the call, one
  for each of its call sites in source order, and \<open>corr\<close> is the correlation id of the request's
  context. A \<^verbatim>\<open>range\<close> loop visits the entries
  in list order; \<^verbatim>\<open>sort.Slice\<close> is \<open>sort_key\<close> (which of two equal entries comes first depends
  on the list order, which is arbitrary, as it is in Go).
\<close>

record MemoryRepository =
  m_events :: "(string, Event) gomap"
  m_registrations :: "(string, Registration) gomap"
  m_outbox :: "OutboxMessage list"
  m_auditEvents :: "AuditEvent list"

definition NewMemoryRepository :: MemoryRepository where
  "NewMemoryRepository =
     \<lparr>m_events = [], m_registrations = [], m_outbox = [], m_auditEvents = []\<rparr>"

section \<open>Queries under the lock\<close>

definition confirmedCountLocked :: "string \<Rightarrow> MemoryRepository \<Rightarrow> int" where
  "confirmedCountLocked eventID r = int (mcount (confirmed_for eventID) (m_registrations r))"

definition activeRegistrationLocked ::
  "string \<Rightarrow> string \<Rightarrow> MemoryRepository \<Rightarrow> Registration option" where
  "activeRegistrationLocked eventID userID r =
     find (active_for eventID userID) (mvals (m_registrations r))"

text \<open>The loop keeps the first registration with the greatest \<^verbatim>\<open>UpdatedAt\<close>.\<close>

definition later :: "string \<Rightarrow> string \<Rightarrow> Registration \<Rightarrow> Registration option \<Rightarrow> Registration option" where
  "later eventID userID reg latest =
     (if r_EventID reg = eventID \<and> r_UserID reg = userID
      then (case latest of
              None \<Rightarrow> Some reg
            | Some l \<Rightarrow> if time_after (r_UpdatedAt reg) (r_UpdatedAt l) then Some reg else latest)
      else latest)"

definition latestStatusLocked :: "string \<Rightarrow> string \<Rightarrow> MemoryRepository \<Rightarrow> RegistrationStatus" where
  "latestStatusLocked eventID userID r =
     (case fold (later eventID userID) (mvals (m_registrations r)) None of
        None \<Rightarrow> NotJoined | Some l \<Rightarrow> r_Status l)"

definition nextWaitlistPositionLocked :: "string \<Rightarrow> MemoryRepository \<Rightarrow> int" where
  "nextWaitlistPositionLocked eventID r = maxPosition eventID (mvals (m_registrations r)) + 1"

definition firstWaitlistedLocked :: "string \<Rightarrow> MemoryRepository \<Rightarrow> Registration option" where
  "firstWaitlistedLocked eventID r =
     (let waitlisted = filter (waitlisted_for eventID) (mvals (m_registrations r))
      in if waitlisted = [] then None else Some (hd (sort_key waitlist_key waitlisted)))"

definition zero_Event :: Event where
  "zero_Event = \<lparr>e_ID = '''', e_OrganizerID = '''', e_Title = '''', e_Description = '''',
     e_City = '''', e_Venue = '''', e_StartsAt = 0, e_Capacity = 0,
     e_Status = EventStatusOther '''', e_CreatedAt = 0, e_UpdatedAt = 0\<rparr>"

definition detailLocked :: "string \<Rightarrow> string \<Rightarrow> MemoryRepository \<Rightarrow> EventDetail" where
  "detailLocked eventID viewerID r =
     \<lparr>d_Event = (case map_of (m_events r) eventID of Some e \<Rightarrow> e | None \<Rightarrow> zero_Event),
      d_ConfirmedCount = confirmedCountLocked eventID r,
      d_ViewerJoinStatus =
        (if viewerID \<noteq> '''' then latestStatusLocked eventID viewerID r else NotJoined)\<rparr>"

definition addOutbox ::
  "string \<Rightarrow> string \<Rightarrow> string \<Rightarrow> string \<Rightarrow> payload \<Rightarrow> time \<Rightarrow> MemoryRepository \<Rightarrow> MemoryRepository" where
  "addOutbox newID aggregateType aggregateID routingKey payload now r =
     r\<lparr>m_outbox := m_outbox r @
        [\<lparr>o_ID = newID, o_AggregateType = aggregateType, o_AggregateID = aggregateID,
          o_RoutingKey = routingKey, o_Payload = payload, o_Status = ''PENDING'',
          o_CreatedAt = now, o_AvailableAt = now, o_SentAt = None\<rparr>]\<rparr>"

definition addAuditEvent ::
  "string \<Rightarrow> string \<Rightarrow> string \<Rightarrow> string \<Rightarrow> string \<Rightarrow> string \<Rightarrow> string \<Rightarrow> payload \<Rightarrow> time
   \<Rightarrow> MemoryRepository \<Rightarrow> MemoryRepository" where
  "addAuditEvent newID corr action actorID targetID targetType result metadata now r =
     r\<lparr>m_auditEvents := m_auditEvents r @
        [\<lparr>a_ID = newID, a_ActorUserID = actorID, a_Action = action, a_TargetID = targetID,
          a_TargetType = targetType, a_Result = result, a_CorrelationID = corr,
          a_Metadata = metadata, a_CreatedAt = now\<rparr>]\<rparr>"

section \<open>Events\<close>

definition CreateEvent :: "(nat \<Rightarrow> string) \<Rightarrow> Event \<Rightarrow> MemoryRepository
   \<Rightarrow> MemoryRepository \<times> (event_error + EventDetail)" where
  "CreateEvent nid event r =
     (let r1 = r\<lparr>m_events := mput (e_ID event) event (m_events r)\<rparr>;
          r2 = addOutbox (nid 0) ''event'' (e_ID event) RoutingEventPublished
                 (eventPayload event) (e_CreatedAt event) r1
      in (r2, Inr (detailLocked (e_ID event) '''' r2)))"

record UpdateEventCommand =
  u_Title :: "string option"
  u_Description :: "string option"
  u_City :: "string option"
  u_Venue :: "string option"
  u_StartsAt :: "time option"
  u_Capacity :: "int option"

definition apply_opt :: "'v option \<Rightarrow> ('v \<Rightarrow> Event \<Rightarrow> Event) \<Rightarrow> Event \<Rightarrow> Event" where
  "apply_opt field upd event = (case field of None \<Rightarrow> event | Some v \<Rightarrow> upd v event)"

text \<open>The body of \<^verbatim>\<open>UpdateEvent\<close> between the guards and the write, the same in both repositories.\<close>

definition applyUpdate :: "UpdateEventCommand \<Rightarrow> int \<Rightarrow> time \<Rightarrow> Event \<Rightarrow> event_error + Event" where
  "applyUpdate cmd confirmed now event =
     (let e1 = apply_opt (u_Title cmd) (\<lambda>v e. e\<lparr>e_Title := v\<rparr>) event;
          e2 = apply_opt (u_Description cmd) (\<lambda>v e. e\<lparr>e_Description := v\<rparr>) e1;
          e3 = apply_opt (u_City cmd) (\<lambda>v e. e\<lparr>e_City := v\<rparr>) e2;
          e4 = apply_opt (u_Venue cmd) (\<lambda>v e. e\<lparr>e_Venue := v\<rparr>) e3;
          e5 = apply_opt (u_StartsAt cmd) (\<lambda>v e. e\<lparr>e_StartsAt := v\<rparr>) e4
      in check (case u_Capacity cmd of None \<Rightarrow> None | Some c \<Rightarrow> ValidateCapacityChange c confirmed)
          (let e6 = apply_opt (u_Capacity cmd) (\<lambda>v e. e\<lparr>e_Capacity := v\<rparr>) e5;
               e7 = e6\<lparr>e_UpdatedAt := now\<rparr>
           in check (Validate e7 now) (Inr e7)))"

definition UpdateEvent ::
  "(nat \<Rightarrow> string) \<Rightarrow> string \<Rightarrow> string \<Rightarrow> Role \<Rightarrow> UpdateEventCommand \<Rightarrow> time \<Rightarrow> MemoryRepository
   \<Rightarrow> MemoryRepository \<times> (event_error + EventDetail)" where
  "UpdateEvent nid eventID organizerID role cmd now r =
     (case map_of (m_events r) eventID of
        None \<Rightarrow> (r, Inl ErrNotFound)
      | Some event \<Rightarrow>
          if e_OrganizerID event \<noteq> organizerID \<and> \<not> CanAdmin role then (r, Inl ErrForbidden)
          else if e_Status event = EventCanceled then (r, Inl ErrEventCanceled)
          else (case applyUpdate cmd (confirmedCountLocked eventID r) now event of
              Inl err \<Rightarrow> (r, Inl err)
            | Inr event' \<Rightarrow>
                let r1 = r\<lparr>m_events := mput eventID event' (m_events r)\<rparr>;
                    r2 = addOutbox (nid 0) ''event'' (e_ID event') RoutingEventUpdated
                           (eventPayload event') now r1
                in (r2, Inr (detailLocked eventID '''' r2))))"

definition cancel_active :: "string \<Rightarrow> time \<Rightarrow> Registration \<Rightarrow> Registration" where
  "cancel_active eventID now reg =
     (if r_EventID reg = eventID \<and> active reg
      then reg\<lparr>r_Status := Canceled, r_UpdatedAt := now\<rparr> else reg)"

definition CancelEvent ::
  "(nat \<Rightarrow> string) \<Rightarrow> string \<Rightarrow> string \<Rightarrow> string \<Rightarrow> Role \<Rightarrow> time \<Rightarrow> MemoryRepository
   \<Rightarrow> MemoryRepository \<times> (event_error + EventDetail)" where
  "CancelEvent nid corr eventID organizerID role now r =
     (case map_of (m_events r) eventID of
        None \<Rightarrow> (r, Inl ErrNotFound)
      | Some event \<Rightarrow>
          if e_OrganizerID event \<noteq> organizerID \<and> \<not> CanAdmin role then (r, Inl ErrForbidden)
          else if e_Status event = EventCanceled then
            (let r1 = addAuditEvent (nid 0) corr ''event.cancel'' organizerID eventID ''event'' ''noop''
                        [(''role'', PString role),
                         (''status'', PString (EventStatus_string (e_Status event)))] now r
             in (r1, Inr (detailLocked eventID '''' r1)))
          else
            (let previousStatus = e_Status event;
                 event' = event\<lparr>e_Status := EventCanceled, e_UpdatedAt := now\<rparr>;
                 r1 = r\<lparr>m_events := mput eventID event' (m_events r),
                        m_registrations :=
                          map (\<lambda>(id, reg). (id, cancel_active eventID now reg)) (m_registrations r)\<rparr>;
                 r2 = addOutbox (nid 0) ''event'' (e_ID event') RoutingEventCanceled
                        (eventPayload event') now r1;
                 r3 = addAuditEvent (nid 1) corr ''event.cancel'' organizerID eventID ''event'' ''success''
                        [(''role'', PString role),
                         (''previousStatus'', PString (EventStatus_string previousStatus)),
                         (''newStatus'', PString (EventStatus_string (e_Status event')))] now r2
             in (r3, Inr (detailLocked eventID '''' r3))))"

definition ListPublishedEvents :: "MemoryRepository \<Rightarrow> event_error + EventDetail list" where
  "ListPublishedEvents r =
     (let published = filter (\<lambda>(id, event). e_Status event = EventPublished) (m_events r);
          ids = map fst (sort_key (\<lambda>(id, event). (e_StartsAt event, e_ID event)) published)
      in Inr (map (\<lambda>id. detailLocked id '''' r) ids))"

definition GetEventDetail :: "string \<Rightarrow> string \<Rightarrow> MemoryRepository \<Rightarrow> event_error + EventDetail" where
  "GetEventDetail eventID viewerID r =
     (case map_of (m_events r) eventID of
        None \<Rightarrow> Inl ErrNotFound
      | Some _ \<Rightarrow> Inr (detailLocked eventID viewerID r))"

section \<open>Registrations\<close>

definition JoinEvent ::
  "(nat \<Rightarrow> string) \<Rightarrow> string \<Rightarrow> string \<Rightarrow> string \<Rightarrow> time \<Rightarrow> MemoryRepository
   \<Rightarrow> MemoryRepository \<times> (event_error + JoinResult)" where
  "JoinEvent nid eventID userID idempotencyKey now r =
     (case map_of (m_events r) eventID of
        None \<Rightarrow> (r, Inl ErrNotFound)
      | Some event \<Rightarrow>
         (case activeRegistrationLocked eventID userID r of
            Some existing \<Rightarrow> (r, Inr \<lparr>j_Registration = existing, j_Existing = True\<rparr>)
          | None \<Rightarrow>
             (case DecideJoinStatus event (confirmedCountLocked eventID r) now of
                Inl err \<Rightarrow> (r, Inl err)
              | Inr status \<Rightarrow>
                 (let reg = \<lparr>r_ID = nid 0, r_EventID = eventID, r_UserID = userID,
                             r_Status = status,
                             r_WaitlistPosition =
                               (if status = Waitlisted then nextWaitlistPositionLocked eventID r else 0),
                             r_IdempotencyKey = idempotencyKey, r_CreatedAt = now, r_UpdatedAt = now\<rparr>;
                      r1 = r\<lparr>m_registrations := mput (r_ID reg) reg (m_registrations r)\<rparr>;
                      routing = (if status = Waitlisted then RoutingJoinWaitlisted
                                 else RoutingJoinConfirmed);
                      r2 = addOutbox (nid 1) ''registration'' (r_ID reg) routing
                             (registrationPayload reg) now r1
                  in (r2, Inr \<lparr>j_Registration = reg, j_Existing = False\<rparr>)))))"

definition cancelRegistrationLocked ::
  "(nat \<Rightarrow> string) \<Rightarrow> string \<Rightarrow> string \<Rightarrow> time \<Rightarrow> MemoryRepository
   \<Rightarrow> MemoryRepository \<times> CancelJoinResult" where
  "cancelRegistrationLocked nid eventID userID now r =
     (case activeRegistrationLocked eventID userID r of
        None \<Rightarrow> (r, \<lparr>c_Status = latestStatusLocked eventID userID r, c_Canceled = None,
                      c_Promoted = None, c_AlreadyNoActiveReg = True\<rparr>)
      | Some reg0 \<Rightarrow>
         (let oldStatus = r_Status reg0;
              reg = reg0\<lparr>r_Status := Canceled, r_UpdatedAt := now\<rparr>;
              r1 = r\<lparr>m_registrations := mput (r_ID reg) reg (m_registrations r)\<rparr>;
              r2 = addOutbox (nid 0) ''registration'' (r_ID reg) RoutingJoinCanceled
                     (registrationTransitionPayload reg oldStatus) now r1;
              result = \<lparr>c_Status = Canceled, c_Canceled = Some reg, c_Promoted = None,
                        c_AlreadyNoActiveReg = False\<rparr>
          in if oldStatus = Confirmed then
               (case firstWaitlistedLocked eventID r2 of
                  None \<Rightarrow> (r2, result)
                | Some first \<Rightarrow>
                   (let promoted = first\<lparr>r_Status := Confirmed, r_WaitlistPosition := 0,
                                         r_UpdatedAt := now\<rparr>;
                        r3 = r2\<lparr>m_registrations :=
                                  mput (r_ID promoted) promoted (m_registrations r2)\<rparr>;
                        r4 = addOutbox (nid 1) ''registration'' (r_ID promoted) RoutingJoinPromoted
                               (registrationTransitionPayload promoted Waitlisted) now r3
                    in (r4, result\<lparr>c_Promoted := Some promoted\<rparr>)))
             else (r2, result)))"

definition CancelJoin ::
  "(nat \<Rightarrow> string) \<Rightarrow> string \<Rightarrow> string \<Rightarrow> time \<Rightarrow> MemoryRepository
   \<Rightarrow> MemoryRepository \<times> (event_error + CancelJoinResult)" where
  "CancelJoin nid eventID userID now r =
     (case map_of (m_events r) eventID of
        None \<Rightarrow> (r, Inl ErrNotFound)
      | Some _ \<Rightarrow> (let (r', result) = cancelRegistrationLocked nid eventID userID now r
                  in (r', Inr result)))"

definition CancelRegistration ::
  "(nat \<Rightarrow> string) \<Rightarrow> string \<Rightarrow> string \<Rightarrow> string \<Rightarrow> Role \<Rightarrow> string \<Rightarrow> time \<Rightarrow> MemoryRepository
   \<Rightarrow> MemoryRepository \<times> (event_error + CancelJoinResult)" where
  "CancelRegistration nid corr eventID actorID role targetUserID now r =
     (case map_of (m_events r) eventID of
        None \<Rightarrow> (r, Inl ErrNotFound)
      | Some event \<Rightarrow>
          if e_OrganizerID event \<noteq> actorID \<and> \<not> CanAdmin role then (r, Inl ErrForbidden)
          else
            (let (r', result) = cancelRegistrationLocked nid eventID targetUserID now r;
                 r'' = addAuditEvent (nid 2) corr ''registration.cancel_by_manager'' actorID
                         targetUserID ''registration'' ''success''
                         [(''eventId'', PString eventID), (''role'', PString role),
                          (''status'', PString (RegistrationStatus_string (c_Status result)))] now r'
             in (r'', Inr result)))"

definition GetJoinStatus :: "string \<Rightarrow> string \<Rightarrow> MemoryRepository \<Rightarrow> event_error + RegistrationStatus" where
  "GetJoinStatus eventID userID r =
     (case map_of (m_events r) eventID of
        None \<Rightarrow> Inl ErrNotFound
      | Some _ \<Rightarrow> Inr (latestStatusLocked eventID userID r))"

section \<open>Counters of the tests and of the service's reports\<close>

definition CountOutboxByRoutingKey :: "string \<Rightarrow> MemoryRepository \<Rightarrow> int" where
  "CountOutboxByRoutingKey routingKey r =
     int (length (filter (\<lambda>m. o_RoutingKey m = routingKey) (m_outbox r)))"
definition ConfirmedCount :: "string \<Rightarrow> MemoryRepository \<Rightarrow> int" where
  "ConfirmedCount eventID r = confirmedCountLocked eventID r"
definition WaitlistedCount :: "string \<Rightarrow> MemoryRepository \<Rightarrow> int" where
  "WaitlistedCount eventID r = int (mcount (waitlisted_for eventID) (m_registrations r))"
definition ActiveRegistrationCount :: "string \<Rightarrow> string \<Rightarrow> MemoryRepository \<Rightarrow> int" where
  "ActiveRegistrationCount eventID userID r =
     int (mcount (active_for eventID userID) (m_registrations r))"

end
