(* ===== verification/EventMemoryInv.thy ===== *)
theory EventMemoryInv imports EventMemory begin

text \<open>
  Correctness of the in-memory repository: its invariant and that every operation keeps it,
  the refinement of join and cancel to the roster of \<open>RosterSpec\<close>, the interpretation of the
  interface \<open>registration_store\<close>, and the reachable states.
\<close>

definition mem_inv :: "MemoryRepository \<Rightarrow> bool" where
  "mem_inv r \<longleftrightarrow> store_inv (m_events r) (m_registrations r)"

definition mem_roster :: "string \<Rightarrow> MemoryRepository \<Rightarrow> Roster option" where
  "mem_roster ev r = store_roster (m_events r) (m_registrations r) ev"

text \<open>The identifier that a join draws is not in use.\<close>

definition mem_fresh :: "(nat \<Rightarrow> string) \<Rightarrow> MemoryRepository \<Rightarrow> bool" where
  "mem_fresh nid r \<longleftrightarrow> nid 0 \<notin> set (mkeys (m_registrations r))"

definition mem_open :: "string \<Rightarrow> time \<Rightarrow> MemoryRepository \<Rightarrow> bool" where
  "mem_open ev now r \<longleftrightarrow>
     (case map_of (m_events r) ev of
        None \<Rightarrow> False
      | Some e \<Rightarrow> e_Status e \<noteq> EventCanceled \<and> time_after (e_StartsAt e) now)"

lemmas locked_defs =
  confirmedCountLocked_def activeRegistrationLocked_def nextWaitlistPositionLocked_def
  firstWaitlistedLocked_def

lemma addOutbox_sel [simp]:
  "m_events (addOutbox n t i k p now r) = m_events r"
  "m_registrations (addOutbox n t i k p now r) = m_registrations r"
  "m_auditEvents (addOutbox n t i k p now r) = m_auditEvents r"
  by (simp_all add: addOutbox_def)

lemma addAuditEvent_sel [simp]:
  "m_events (addAuditEvent n c a x t y z p now r) = m_events r"
  "m_registrations (addAuditEvent n c a x t y z p now r) = m_registrations r"
  "m_outbox (addAuditEvent n c a x t y z p now r) = m_outbox r"
  by (simp_all add: addAuditEvent_def)

lemma confirmedCountLocked_eq:
  "confirmedCountLocked ev r = int (confirmed_count ev (mvals (m_registrations r)))"
  by (simp add: confirmedCountLocked_def confirmed_count_def mcount_def)

lemma activeRegistrationLocked_None:
  "activeRegistrationLocked ev u r = None \<longleftrightarrow>
     u \<notin> set (active_users ev (mvals (m_registrations r)))"
  by (simp add: activeRegistrationLocked_def find_active)

lemma activeRegistrationLocked_Some:
  "activeRegistrationLocked ev u r = Some g \<Longrightarrow>
     g \<in> set (mvals (m_registrations r)) \<and> r_EventID g = ev \<and> r_UserID g = u \<and> active g"
  unfolding activeRegistrationLocked_def active_for_def find_Some_iff by (auto dest: nth_mem)

lemma mem_inv_event:
  "mem_inv r \<Longrightarrow> map_of (m_events r) ev = Some e \<Longrightarrow>
     event_ok ev e (mvals (m_registrations r))"
  by (simp add: mem_inv_def store_inv_def)

section \<open>Joining\<close>

text \<open>The registration that a join stores when the user has none.\<close>

definition joined :: "(nat \<Rightarrow> string) \<Rightarrow> string \<Rightarrow> string \<Rightarrow> string \<Rightarrow> time \<Rightarrow> RegistrationStatus
   \<Rightarrow> MemoryRepository \<Rightarrow> Registration" where
  "joined nid ev u key now status r =
     \<lparr>r_ID = nid 0, r_EventID = ev, r_UserID = u, r_Status = status,
      r_WaitlistPosition = (if status = Waitlisted then nextWaitlistPositionLocked ev r else 0),
      r_IdempotencyKey = key, r_CreatedAt = now, r_UpdatedAt = now\<rparr>"

definition seat_status :: "Event \<Rightarrow> MemoryRepository \<Rightarrow> RegistrationStatus" where
  "seat_status e r =
     (if confirmedCountLocked (e_ID e) r < e_Capacity e then Confirmed else Waitlisted)"

lemma JoinEvent_cases:
  "JoinEvent nid ev u key now r =
     (case map_of (m_events r) ev of
        None \<Rightarrow> (r, Inl ErrNotFound)
      | Some e \<Rightarrow>
         (case activeRegistrationLocked ev u r of
            Some g \<Rightarrow> (r, Inr \<lparr>j_Registration = g, j_Existing = True\<rparr>)
          | None \<Rightarrow>
             (case DecideJoinStatus e (confirmedCountLocked ev r) now of
                Inl err \<Rightarrow> (r, Inl err)
              | Inr status \<Rightarrow>
                 (let g = joined nid ev u key now status r
                  in (addOutbox (nid 1) ''registration'' (nid 0)
                        (if status = Waitlisted then RoutingJoinWaitlisted
                         else RoutingJoinConfirmed) (registrationPayload g) now
                        (r\<lparr>m_registrations := mput (nid 0) g (m_registrations r)\<rparr>),
                      Inr \<lparr>j_Registration = g, j_Existing = False\<rparr>)))))"
  by (simp add: JoinEvent_def joined_def Let_def split: option.split sum.split)

lemma JoinEvent_state:
  "fst (JoinEvent nid ev u key now r) = r \<or>
   (\<exists>e s. map_of (m_events r) ev = Some e \<and> activeRegistrationLocked ev u r = None \<and>
      DecideJoinStatus e (confirmedCountLocked ev r) now = Inr s \<and>
      m_events (fst (JoinEvent nid ev u key now r)) = m_events r \<and>
      m_registrations (fst (JoinEvent nid ev u key now r)) =
        mput (nid 0) (joined nid ev u key now s r) (m_registrations r))"
  by (auto simp: JoinEvent_cases Let_def split: option.splits sum.splits)

lemma joined_sel [simp]:
  "r_ID (joined nid ev u key now s r) = nid 0"
  "r_EventID (joined nid ev u key now s r) = ev"
  "r_UserID (joined nid ev u key now s r) = u"
  "r_Status (joined nid ev u key now s r) = s"
  "r_CreatedAt (joined nid ev u key now s r) = now"
  by (simp_all add: joined_def)

lemma joined_last:
  "(k, h) \<in> set (m_registrations r) \<Longrightarrow> waitlisted_for ev h \<Longrightarrow>
     r_WaitlistPosition h < r_WaitlistPosition (joined nid ev u key now Waitlisted r)"
  using maxPosition_ge [of h "mvals (m_registrations r)" ev]
  by (force simp: joined_def nextWaitlistPositionLocked_def waitlisted_for_def)

lemma JoinEvent_inv:
  assumes "mem_inv r" and "mem_fresh nid r"
  shows "mem_inv (fst (JoinEvent nid ev u key now r))"
  using JoinEvent_state [of nid ev u key now r]
proof (elim disjE exE conjE)
  fix e s
  assume "map_of (m_events r) ev = Some e" "activeRegistrationLocked ev u r = None"
    "DecideJoinStatus e (confirmedCountLocked ev r) now = Inr s"
    and es: "m_events (fst (JoinEvent nid ev u key now r)) = m_events r"
    and rs: "m_registrations (fst (JoinEvent nid ev u key now r)) =
        mput (nid 0) (joined nid ev u key now s r) (m_registrations r)"
  then have "store_inv (m_events r) (mput (nid 0) (joined nid ev u key now s r) (m_registrations r))"
    using assms
    by (intro store_inv_join [of _ _ ev e])
      (auto simp: mem_inv_def mem_fresh_def DecideJoinStatus_Inr confirmedCountLocked_eq
        activeRegistrationLocked_None intro: joined_last split: if_splits)
  then show ?thesis by (simp add: mem_inv_def es rs)
qed (simp add: assms)

lemma JoinEvent_roster:
  assumes "mem_inv r" and "mem_fresh nid r" and "mem_open ev now r"
    and "mem_roster ev r = Some ro"
  shows "mem_roster ev (fst (JoinEvent nid ev u key now r)) = Some (spec_join u ro)"
proof -
  obtain e where e: "map_of (m_events r) ev = Some e"
    and ro: "ro = roster_of (e_Capacity e) ev (mvals (m_registrations r))"
    using assms(4) by (auto simp: mem_roster_def store_roster_def)
  show ?thesis
  proof (cases "activeRegistrationLocked ev u r")
    case None
    define s where "s = (if confirmedCountLocked ev r < e_Capacity e then Confirmed else Waitlisted)"
    have "DecideJoinStatus e (confirmedCountLocked ev r) now = Inr s"
      using assms(3) e by (simp add: DecideJoinStatus_Inr mem_open_def s_def time_after_def)
    then have st: "m_events (fst (JoinEvent nid ev u key now r)) = m_events r"
        "m_registrations (fst (JoinEvent nid ev u key now r)) =
          mput (nid 0) (joined nid ev u key now s r) (m_registrations r)"
      using e None by (simp_all add: JoinEvent_cases Let_def)
    have "store_roster (m_events r) (mput (nid 0) (joined nid ev u key now s r) (m_registrations r)) ev
        = map_option (spec_join u) (store_roster (m_events r) (m_registrations r) ev)"
      using assms(1,2) e None
      by (intro store_roster_join [of _ _ ev e])
        (auto simp: mem_inv_def mem_fresh_def s_def confirmedCountLocked_eq
          activeRegistrationLocked_None intro: joined_last split: if_splits)
    then show ?thesis using assms(4) by (simp add: mem_roster_def st)
  next
    case (Some g)
    then have "u \<in> ro_members ro"
      using activeRegistrationLocked_None [of ev u r] by (simp add: ro members_roster_of)
    moreover have "fst (JoinEvent nid ev u key now r) = r" using Some e by (simp add: JoinEvent_cases)
    ultimately show ?thesis using assms(4) by (simp add: spec_join_def)
  qed
qed

lemma JoinEvent_other:
  "mem_fresh nid r \<Longrightarrow> ev' \<noteq> ev \<Longrightarrow>
     mem_roster ev' (fst (JoinEvent nid ev u key now r)) = mem_roster ev' r"
  using JoinEvent_state [of nid ev u key now r]
  by (auto simp: mem_roster_def mem_fresh_def intro!: store_roster_join_other)

section \<open>Leaving\<close>

definition left_reg :: "time \<Rightarrow> Registration \<Rightarrow> Registration" where
  "left_reg now g = g\<lparr>r_Status := Canceled, r_UpdatedAt := now\<rparr>"

definition promoted_reg :: "time \<Rightarrow> Registration \<Rightarrow> Registration" where
  "promoted_reg now f = f\<lparr>r_Status := Confirmed, r_WaitlistPosition := 0, r_UpdatedAt := now\<rparr>"

lemma left_reg_sel [simp]:
  "r_ID (left_reg now g) = r_ID g" "r_EventID (left_reg now g) = r_EventID g"
  "r_UserID (left_reg now g) = r_UserID g" "r_Status (left_reg now g) = Canceled"
  "r_WaitlistPosition (left_reg now g) = r_WaitlistPosition g"
  by (simp_all add: left_reg_def)

lemma promoted_reg_sel [simp]:
  "r_ID (promoted_reg now g) = r_ID g" "r_EventID (promoted_reg now g) = r_EventID g"
  "r_UserID (promoted_reg now g) = r_UserID g" "r_Status (promoted_reg now g) = Confirmed"
  by (simp_all add: promoted_reg_def)

text \<open>The registrations after a user with the registration \<open>g\<close> left.\<close>

definition regs_left :: "time \<Rightarrow> Registration \<Rightarrow> MemoryRepository \<Rightarrow> (string, Registration) gomap" where
  "regs_left now g r = mput (r_ID g) (left_reg now g) (m_registrations r)"

definition next_waiting :: "string \<Rightarrow> (string, Registration) gomap \<Rightarrow> Registration option" where
  "next_waiting ev m =
     (let ws = filter (waitlisted_for ev) (mvals m)
      in if ws = [] then None else Some (hd (sort_key waitlist_key ws)))"

definition promotes :: "string \<Rightarrow> time \<Rightarrow> Registration \<Rightarrow> MemoryRepository \<Rightarrow> Registration option" where
  "promotes ev now g r =
     (if r_Status g = Confirmed then next_waiting ev (regs_left now g r) else None)"

lemma cancelRegistrationLocked_cases:
  "cancelRegistrationLocked nid ev u now r =
     (case activeRegistrationLocked ev u r of
        None \<Rightarrow> (r, \<lparr>c_Status = latestStatusLocked ev u r, c_Canceled = None, c_Promoted = None,
                     c_AlreadyNoActiveReg = True\<rparr>)
      | Some g \<Rightarrow>
         (let r1 = addOutbox (nid 0) ''registration'' (r_ID g) RoutingJoinCanceled
                     (registrationTransitionPayload (left_reg now g) (r_Status g)) now
                     (r\<lparr>m_registrations := regs_left now g r\<rparr>)
          in (case promotes ev now g r of
                None \<Rightarrow> (r1, \<lparr>c_Status = Canceled, c_Canceled = Some (left_reg now g),
                              c_Promoted = None, c_AlreadyNoActiveReg = False\<rparr>)
              | Some f \<Rightarrow>
                  (addOutbox (nid 1) ''registration'' (r_ID f) RoutingJoinPromoted
                     (registrationTransitionPayload (promoted_reg now f) Waitlisted) now
                     (r1\<lparr>m_registrations :=
                           mput (r_ID f) (promoted_reg now f) (regs_left now g r)\<rparr>),
                   \<lparr>c_Status = Canceled, c_Canceled = Some (left_reg now g),
                    c_Promoted = Some (promoted_reg now f), c_AlreadyNoActiveReg = False\<rparr>))))"
proof (cases "activeRegistrationLocked ev u r")
  case (Some g)
  have f: "firstWaitlistedLocked ev (addOutbox n t i k p now (r\<lparr>m_registrations := m\<rparr>)) =
      next_waiting ev m" for n t i k p m
    by (simp add: firstWaitlistedLocked_def next_waiting_def)
  show ?thesis
    unfolding cancelRegistrationLocked_def Some option.case Let_def left_reg_def [symmetric]
      promoted_reg_def [symmetric]
    by (simp add: f promotes_def regs_left_def split: option.split)
qed (simp add: cancelRegistrationLocked_def)

lemma next_waiting_None: "next_waiting ev m = None \<longleftrightarrow> filter (waitlisted_for ev) (mvals m) = []"
  by (simp add: next_waiting_def Let_def)

lemma next_waiting_Some:
  "next_waiting ev m = Some f \<Longrightarrow>
     filter (waitlisted_for ev) (mvals m) \<noteq> [] \<and>
     f = hd (sort_key waitlist_key (filter (waitlisted_for ev) (mvals m)))"
  by (simp add: next_waiting_def Let_def split: if_splits)

lemma next_waiting_in:
  "next_waiting ev m = Some f \<Longrightarrow> waitlisted_for ev f \<and> f \<in> set (mvals m)"
  using next_waiting_Some [of ev m f]
    hd_sort_filter [of "waitlisted_for ev" "mvals m" f waitlist_key] by blast

lemma regs_left_inv:
  assumes "store_inv es (m_registrations r)" and "g \<in> set (mvals (m_registrations r))"
  shows "store_inv es (regs_left now g r)"
  using store_inv_replace [OF assms, of "left_reg now g"] by (simp add: regs_left_def active_def)

lemma regs_left_waiting:
  assumes inv: "store_inv es (m_registrations r)" and g: "g \<in> set (mvals (m_registrations r))"
    and c: "r_Status g = Confirmed"
  shows "filter (waitlisted_for ev) (mvals (regs_left now g r)) =
     filter (waitlisted_for ev) (mvals (m_registrations r))"
proof -
  obtain xs ys where "m_registrations r = xs @ (r_ID g, g) # ys"
    and "regs_left now g r = xs @ (r_ID g, left_reg now g) # ys"
    using store_split [OF inv g] unfolding regs_left_def by metis
  then show ?thesis using c by (simp add: waitlisted_for_def)
qed

lemma regs_left_count:
  assumes inv: "store_inv es (m_registrations r)" and g: "g \<in> set (mvals (m_registrations r))"
    and c: "confirmed_for ev g"
  shows "Suc (confirmed_count ev (mvals (regs_left now g r))) =
     confirmed_count ev (mvals (m_registrations r))"
proof -
  obtain xs ys where "m_registrations r = xs @ (r_ID g, g) # ys"
    and "regs_left now g r = xs @ (r_ID g, left_reg now g) # ys"
    using store_split [OF inv g] unfolding regs_left_def by metis
  then show ?thesis using c by (simp add: confirmed_for_def)
qed

lemma regs_promoted_inv:
  assumes inv: "mem_inv r" and g: "activeRegistrationLocked ev u r = Some g"
    and f: "promotes ev now g r = Some f"
  shows "store_inv (m_events r) (mput (r_ID f) (promoted_reg now f) (regs_left now g r))"
proof -
  have g': "g \<in> set (mvals (m_registrations r))" "r_EventID g = ev" "r_Status g = Confirmed"
    using activeRegistrationLocked_Some [OF g] f by (auto simp: promotes_def split: if_splits)
  have f': "waitlisted_for ev f" "f \<in> set (mvals (regs_left now g r))"
    using next_waiting_in [of ev _ f] f g'(3) by (auto simp: promotes_def)
  have s: "store_inv (m_events r) (m_registrations r)" using inv by (simp add: mem_inv_def)
  have "int (confirmed_count ev (mvals (regs_left now g r))) < e_Capacity e"
    if "map_of (m_events r) ev = Some e" for e
    using regs_left_count [OF s g'(1), of ev now] mem_inv_event [OF inv that] g'
    by (auto simp: event_ok_def confirmed_for_def)
  then have "store_inv (m_events r)
      (mput (r_ID (promoted_reg now f)) (promoted_reg now f) (regs_left now g r))"
    using f' by (intro store_inv_replace [OF regs_left_inv [OF s g'(1)] f'(2)])
      (auto simp: for_defs)
  then show ?thesis by simp
qed

lemma cancelRegistrationLocked_inv:
  assumes "mem_inv r"
  shows "mem_inv (fst (cancelRegistrationLocked nid ev u now r))"
proof (cases "activeRegistrationLocked ev u r")
  case (Some g)
  have "store_inv (m_events r) (regs_left now g r)"
    using regs_left_inv activeRegistrationLocked_Some [OF Some] assms by (auto simp: mem_inv_def)
  with Some assms show ?thesis
    by (auto simp: cancelRegistrationLocked_cases Let_def mem_inv_def regs_promoted_inv
        split: option.split)
qed (simp add: assms cancelRegistrationLocked_cases)

lemma cancelRegistrationLocked_roster:
  assumes inv: "mem_inv r" and ro: "mem_roster ev r = Some ro"
  shows "mem_roster ev (fst (cancelRegistrationLocked nid ev u now r)) = Some (spec_cancel u ro)"
proof (cases "activeRegistrationLocked ev u r")
  case None
  obtain e where "map_of (m_events r) ev = Some e"
    and "ro = roster_of (e_Capacity e) ev (mvals (m_registrations r))"
    using ro by (auto simp: mem_roster_def store_roster_def)
  then have "u \<notin> ro_members ro"
    using None by (simp add: activeRegistrationLocked_None members_roster_of)
  moreover from this have "filter (\<lambda>v. v \<noteq> u) (ro_Waitlist ro) = ro_Waitlist ro"
    by (intro filter_all_same) (auto simp: ro_members_def)
  ultimately have "spec_cancel u ro = ro" by (simp add: spec_cancel_def ro_members_def)
  with None ro show ?thesis by (simp add: cancelRegistrationLocked_cases)
next
  case (Some g)
  have s: "store_inv (m_events r) (m_registrations r)" using inv by (simp add: mem_inv_def)
  have g: "g \<in> set (mvals (m_registrations r))" "r_EventID g = ev" "r_UserID g = u" "active g"
    using activeRegistrationLocked_Some [OF Some] by auto
  show ?thesis
  proof (cases "promotes ev now g r")
    case None
    have "store_roster (m_events r) (mput (r_ID (left_reg now g)) (left_reg now g) (m_registrations r)) ev
        = map_option (spec_cancel (r_UserID g)) (store_roster (m_events r) (m_registrations r) ev)"
      using None regs_left_waiting [OF s g(1)] s g
      by (intro store_roster_cancel)
        (auto simp: promotes_def next_waiting_None active_def split: if_splits)
    then show ?thesis
      using None Some ro g(3)
      by (simp add: cancelRegistrationLocked_cases Let_def mem_roster_def regs_left_def)
  next
    case P: (Some f)
    then have c: "confirmed_for ev g" and nw: "next_waiting ev (regs_left now g r) = Some f"
      using g by (auto simp: promotes_def for_defs split: if_splits)
    note nw = next_waiting_Some [OF nw]
    have "store_roster (m_events r)
          (mput (r_ID (promoted_reg now f)) (promoted_reg now f) (regs_left now g r)) ev
        = map_option (spec_cancel (r_UserID g)) (store_roster (m_events r) (m_registrations r) ev)"
      by (rule store_roster_promote [OF s g(1) c _ _ _ _ regs_left_inv [OF s g(1)] _
            conjunct1 [OF nw] conjunct2 [OF nw], of "left_reg now g"])
        (simp_all add: regs_left_def active_def)
    then show ?thesis
      using P Some ro g(3) by (simp add: cancelRegistrationLocked_cases Let_def mem_roster_def)
  qed
qed

lemma cancelRegistrationLocked_other:
  assumes inv: "mem_inv r" and ev: "ev' \<noteq> ev"
  shows "mem_roster ev' (fst (cancelRegistrationLocked nid ev u now r)) = mem_roster ev' r"
proof (cases "activeRegistrationLocked ev u r")
  case (Some g)
  have s: "store_inv (m_events r) (m_registrations r)" using inv by (simp add: mem_inv_def)
  have g: "g \<in> set (mvals (m_registrations r))" "r_EventID g = ev"
    using activeRegistrationLocked_Some [OF Some] by auto
  have left: "store_roster (m_events r) (regs_left now g r) ev' =
      store_roster (m_events r) (m_registrations r) ev'"
    using store_roster_replace_other [OF s g(1), of ev' "left_reg now g"] g ev
    by (simp add: regs_left_def)
  have "store_roster (m_events r) (mput (r_ID f) (promoted_reg now f) (regs_left now g r)) ev' =
      store_roster (m_events r) (regs_left now g r) ev'" if "promotes ev now g r = Some f" for f
  proof -
    have "waitlisted_for ev f \<and> f \<in> set (mvals (regs_left now g r))"
      by (rule next_waiting_in) (use that in \<open>simp add: promotes_def split: if_splits\<close>)
    then show ?thesis
      using store_roster_replace_other [OF regs_left_inv [OF s g(1)],
          where g = f and ev = ev' and g' = "promoted_reg now f"] ev
      by (simp add: waitlisted_for_def)
  qed
  with left Some show ?thesis
    by (auto simp: cancelRegistrationLocked_cases Let_def mem_roster_def split: option.split)
qed (simp add: cancelRegistrationLocked_cases)

lemma CancelJoin_state:
  "fst (CancelJoin nid ev u now r) =
     (case map_of (m_events r) ev of None \<Rightarrow> r | Some _ \<Rightarrow> fst (cancelRegistrationLocked nid ev u now r))"
  by (simp add: CancelJoin_def split: option.split prod.split)

lemma CancelJoin_inv: "mem_inv r \<Longrightarrow> mem_inv (fst (CancelJoin nid ev u now r))"
  by (simp add: CancelJoin_state cancelRegistrationLocked_inv split: option.split)

lemma CancelJoin_roster:
  assumes "mem_inv r" and "mem_roster ev r = Some ro"
  shows "mem_roster ev (fst (CancelJoin nid ev u now r)) = Some (spec_cancel u ro)"
proof -
  have "map_of (m_events r) ev \<noteq> None"
    using assms(2) by (auto simp: mem_roster_def store_roster_def)
  then have "fst (CancelJoin nid ev u now r) = fst (cancelRegistrationLocked nid ev u now r)"
    by (auto simp: CancelJoin_state)
  then show ?thesis using cancelRegistrationLocked_roster [OF assms] by simp
qed

lemma CancelJoin_other:
  "mem_inv r \<Longrightarrow> ev' \<noteq> ev \<Longrightarrow> mem_roster ev' (fst (CancelJoin nid ev u now r)) = mem_roster ev' r"
  by (simp add: CancelJoin_state cancelRegistrationLocked_other split: option.split)

interpretation mem_store:
  registration_store mem_inv mem_roster mem_open mem_fresh JoinEvent CancelJoin
    "\<lambda>_ _. True"
proof
  show "wf_roster ro" if "mem_inv s" "mem_roster ev s = Some ro" for s ev ro
    using that by (simp add: mem_inv_def mem_roster_def store_roster_wf)
  show "\<exists>ro. mem_roster ev s = Some ro" if "mem_open ev now s" for ev now s
    using that by (auto simp: mem_open_def mem_roster_def store_roster_def split: option.splits)
qed (simp_all add: JoinEvent_inv JoinEvent_roster JoinEvent_other CancelJoin_inv CancelJoin_roster
      CancelJoin_other)

end
