(* ===== verification/EventMemorySteps.thy ===== *)
theory EventMemorySteps imports EventMemoryInv begin

text \<open>
  The remaining operations of the in-memory repository keep the invariant; the step relation of
  the repository over all its operations; the properties of the states it reaches.
\<close>

section \<open>Events\<close>

lemma store_inv_same_regs:
  "mem_inv r \<Longrightarrow> m_events r' = m_events r \<Longrightarrow> m_registrations r' = m_registrations r \<Longrightarrow> mem_inv r'"
  by (simp add: mem_inv_def)

lemma CreateEvent_inv:
  assumes "mem_inv r" and "map_of (m_events r) (e_ID e) = None"
    and "0 \<le> e_Capacity e" and "e_Status e = EventPublished"
  shows "mem_inv (fst (CreateEvent nid e r))"
  using store_inv_new_event [of "m_events r" "m_registrations r" e] assms
  by (simp add: mem_inv_def CreateEvent_def Let_def)

lemma apply_opt_keeps:
  "(\<And>v e. f (upd v e) = f e) \<Longrightarrow> f (apply_opt field upd e) = f e"
  by (simp add: apply_opt_def split: option.split)

lemma applyUpdate_Inr:
  assumes "applyUpdate cmd n now e = Inr e'"
  shows "e_ID e' = e_ID e \<and> e_OrganizerID e' = e_OrganizerID e \<and> e_Status e' = e_Status e \<and>
    e_CreatedAt e' = e_CreatedAt e \<and> e_UpdatedAt e' = now \<and>
    e_Capacity e' = (case u_Capacity cmd of None \<Rightarrow> e_Capacity e | Some c \<Rightarrow> c) \<and>
    (\<forall>c. u_Capacity cmd = Some c \<longrightarrow> n \<le> c) \<and> Validate e' now = None"
  using assms
  by (cases "u_Capacity cmd")
    (auto simp: applyUpdate_def Let_def check_Inr_iff ValidateCapacityChange_None apply_opt_keeps
      apply_opt_def split: option.splits)

text \<open>A successful update changes the one event and nothing else of the tables.\<close>

lemma UpdateEvent_state:
  "snd (UpdateEvent nid ev org role cmd now r) = Inr d \<Longrightarrow>
   \<exists>e e'. map_of (m_events r) ev = Some e \<and> e_Status e \<noteq> EventCanceled \<and>
      (e_OrganizerID e = org \<or> CanAdmin role) \<and>
      applyUpdate cmd (confirmedCountLocked ev r) now e = Inr e' \<and>
      m_events (fst (UpdateEvent nid ev org role cmd now r)) = mput ev e' (m_events r) \<and>
      m_registrations (fst (UpdateEvent nid ev org role cmd now r)) = m_registrations r"
  by (auto simp: UpdateEvent_def Let_def split: option.splits sum.splits if_splits)

lemma UpdateEvent_error:
  "snd (UpdateEvent nid ev org role cmd now r) = Inl err \<Longrightarrow>
     fst (UpdateEvent nid ev org role cmd now r) = r"
  by (auto simp: UpdateEvent_def Let_def split: option.splits sum.splits if_splits)

lemma updated_event_ok:
  assumes "mem_inv r" and "map_of (m_events r) ev = Some e"
    and "applyUpdate cmd (confirmedCountLocked ev r) now e = Inr e'"
  shows "event_ok ev e' (mvals (m_registrations r))"
  using mem_inv_event [OF assms(1,2)] applyUpdate_Inr [OF assms(3)]
  by (auto simp: event_ok_def confirmedCountLocked_eq split: option.splits)

lemma UpdateEvent_inv:
  assumes "mem_inv r"
  shows "mem_inv (fst (UpdateEvent nid ev org role cmd now r))"
proof (cases "snd (UpdateEvent nid ev org role cmd now r)")
  case (Inl err)
  then show ?thesis using UpdateEvent_error assms by simp
next
  case (Inr d)
  then obtain e e' where "map_of (m_events r) ev = Some e"
    and "applyUpdate cmd (confirmedCountLocked ev r) now e = Inr e'"
    and s: "m_events (fst (UpdateEvent nid ev org role cmd now r)) = mput ev e' (m_events r)"
      "m_registrations (fst (UpdateEvent nid ev org role cmd now r)) = m_registrations r"
    using UpdateEvent_state by blast
  then have "event_ok ev e' (mvals (m_registrations r))" using updated_event_ok assms by blast
  then show ?thesis using assms by (simp add: mem_inv_def s store_inv_event)
qed

section \<open>Cancelling an event\<close>

definition regs_canceled ::
  "string \<Rightarrow> time \<Rightarrow> (string, Registration) gomap \<Rightarrow> (string, Registration) gomap" where
  "regs_canceled ev now m = map (\<lambda>(id, reg). (id, cancel_active ev now reg)) m"

lemma mvals_regs_canceled: "mvals (regs_canceled ev now m) = map (cancel_active ev now) (mvals m)"
  by (induction m) (auto simp: regs_canceled_def)

lemma mkeys_regs_canceled: "mkeys (regs_canceled ev now m) = mkeys m"
  by (induction m) (auto simp: regs_canceled_def)

lemma cancel_active_sel [simp]:
  "r_ID (cancel_active ev now g) = r_ID g" "r_EventID (cancel_active ev now g) = r_EventID g"
  "r_UserID (cancel_active ev now g) = r_UserID g"
  "r_WaitlistPosition (cancel_active ev now g) = r_WaitlistPosition g"
  by (simp_all add: cancel_active_def)

lemma cancel_active_active:
  "active (cancel_active ev now g) \<longleftrightarrow> active g \<and> r_EventID g \<noteq> ev"
  by (auto simp: cancel_active_def active_def)

lemma cancel_active_for [simp]:
  "confirmed_for k (cancel_active ev now g) \<longleftrightarrow> confirmed_for k g \<and> k \<noteq> ev"
  "waitlisted_for k (cancel_active ev now g) \<longleftrightarrow> waitlisted_for k g \<and> k \<noteq> ev"
  by (auto simp: cancel_active_def for_defs)

lemma canceled_users:
  "active_users k (map (cancel_active ev now) gs) = (if k = ev then [] else active_users k gs)"
  by (simp add: active_users_def filter_map comp_def cancel_active_active)
    (auto intro: arg_cong [where f = "map r_UserID"] filter_cong)

lemma canceled_count:
  "confirmed_count k (map (cancel_active ev now) gs) = (if k = ev then 0 else confirmed_count k gs)"
  by (induction gs) auto

lemma canceled_positions:
  "positions_ok gs \<Longrightarrow> positions_ok (map (cancel_active ev now) gs)"
  unfolding positions_ok_def
proof (intro allI)
  fix k
  assume "\<forall>k. distinct (map r_WaitlistPosition (filter (waitlisted_for k) gs))"
  then show "distinct (map r_WaitlistPosition (filter (waitlisted_for k) (map (cancel_active ev now) gs)))"
    by (cases "k = ev") (simp_all add: filter_map comp_def)
qed

lemma canceled_refs: "refs_ok es (regs_canceled ev now m) \<longleftrightarrow> refs_ok es m"
  by (auto simp: refs_ok_def regs_canceled_def split: prod.splits)

lemma CancelEvent_state:
  "fst (CancelEvent nid corr ev org role now r) = r \<or>
   (m_events (fst (CancelEvent nid corr ev org role now r)) = m_events r \<and>
    m_registrations (fst (CancelEvent nid corr ev org role now r)) = m_registrations r) \<or>
   (\<exists>e. map_of (m_events r) ev = Some e \<and>
      m_events (fst (CancelEvent nid corr ev org role now r)) =
        mput ev (e\<lparr>e_Status := EventCanceled, e_UpdatedAt := now\<rparr>) (m_events r) \<and>
      m_registrations (fst (CancelEvent nid corr ev org role now r)) =
        regs_canceled ev now (m_registrations r))"
  by (simp add: CancelEvent_def Let_def regs_canceled_def split: option.splits)

lemma store_inv_canceled:
  assumes inv: "store_inv es m" and e: "map_of es ev = Some e"
  shows "store_inv (mput ev (e\<lparr>e_Status := EventCanceled, e_UpdatedAt := now\<rparr>) es)
    (regs_canceled ev now m)"
proof -
  have "regs_ok (mvals (regs_canceled ev now m))" "positions_ok (mvals (regs_canceled ev now m))"
    using inv unfolding mvals_regs_canceled
    by (simp_all add: store_inv_def regs_ok_def canceled_users canceled_positions del: map_map)
  moreover have "event_ok k e' (mvals (regs_canceled ev now m))"
    if "map_of (mput ev (e\<lparr>e_Status := EventCanceled, e_UpdatedAt := now\<rparr>) es) k = Some e'" for k e'
  proof (cases "k = ev")
    case True
    have "event_ok ev e (mvals m)" using inv e by (simp add: store_inv_def)
    with True that show ?thesis
      by (auto simp: event_ok_def mvals_regs_canceled canceled_users canceled_count simp del: map_map)
  next
    case False
    with that inv have "event_ok k e' (mvals m)" by (simp add: store_inv_def)
    with False show ?thesis
      by (simp add: event_ok_def mvals_regs_canceled canceled_users canceled_count del: map_map)
  qed
  ultimately show ?thesis
    using inv unfolding store_inv_def mkeys_regs_canceled
    by (intro conjI) (simp_all add: canceled_refs distinct_update refs_ok_put_event del: map_of_mput)
qed

lemma CancelEvent_inv:
  "mem_inv r \<Longrightarrow> mem_inv (fst (CancelEvent nid corr ev org role now r))"
  using CancelEvent_state [of nid corr ev org role now r]
  by (auto simp: mem_inv_def store_inv_canceled)

lemma CancelRegistration_state:
  "fst (CancelRegistration nid corr ev actor role u now r) = r \<or>
   (m_events (fst (CancelRegistration nid corr ev actor role u now r)) =
      m_events (fst (cancelRegistrationLocked nid ev u now r)) \<and>
    m_registrations (fst (CancelRegistration nid corr ev actor role u now r)) =
      m_registrations (fst (cancelRegistrationLocked nid ev u now r)))"
  by (simp add: CancelRegistration_def Let_def split: option.splits prod.splits)

lemma CancelRegistration_inv:
  "mem_inv r \<Longrightarrow> mem_inv (fst (CancelRegistration nid corr ev actor role u now r))"
  using CancelRegistration_state [of nid corr ev actor role u now r]
    cancelRegistrationLocked_inv [of r nid ev u now]
  by (auto simp: mem_inv_def)

section \<open>Counts of a list of registrations\<close>

lemma active_for_unique:
  "distinct (active_users ev gs) \<Longrightarrow> length (filter (active_for ev u) gs) \<le> 1"
proof (induction gs)
  case (Cons g gs)
  have "filter (active_for ev u) gs = []" if "u \<notin> set (active_users ev gs)"
    using that by (auto simp: active_users_def active_for_def filter_empty_conv)
  with Cons show ?case by (auto simp: active_for_def [of ev u g] split: if_splits)
qed simp

lemma active_none_counts:
  "active_users ev gs = [] \<Longrightarrow>
     confirmed_count ev gs = 0 \<and> length (filter (waitlisted_for ev) gs) = 0"
  by (auto simp: active_users_def confirmed_count_def for_defs filter_empty_conv)

section \<open>Reachable states\<close>

inductive mem_step :: "MemoryRepository \<Rightarrow> MemoryRepository \<Rightarrow> bool" where
  step_create: "NewEvent i org ti de ci ve st cap now = Inr e \<Longrightarrow> map_of (m_events r) i = None \<Longrightarrow>
    mem_step r (fst (CreateEvent nid e r))"
| step_update: "mem_step r (fst (UpdateEvent nid ev org role cmd now r))"
| step_cancel: "mem_step r (fst (CancelEvent nid corr ev org role now r))"
| step_join: "mem_fresh nid r \<Longrightarrow> mem_step r (fst (JoinEvent nid ev u key now r))"
| step_leave: "mem_step r (fst (CancelJoin nid ev u now r))"
| step_manager: "mem_step r (fst (CancelRegistration nid corr ev actor role u now r))"

inductive mem_reachable :: "MemoryRepository \<Rightarrow> bool" where
  reach_new: "mem_reachable NewMemoryRepository"
| reach_step: "mem_reachable r \<Longrightarrow> mem_step r r' \<Longrightarrow> mem_reachable r'"

lemma mem_inv_new: "mem_inv NewMemoryRepository"
  by (simp add: mem_inv_def NewMemoryRepository_def store_inv_def regs_ok_def positions_ok_def)

lemma mem_step_inv: "mem_step r r' \<Longrightarrow> mem_inv r \<Longrightarrow> mem_inv r'"
proof (induction rule: mem_step.induct)
  case (step_create i org ti de ci ve st cap now e r nid)
  then show ?case using NewEvent_Inr [OF step_create.hyps(1)] by (intro CreateEvent_inv) auto
qed (simp_all add: UpdateEvent_inv CancelEvent_inv JoinEvent_inv CancelJoin_inv CancelRegistration_inv)

lemma mem_reachable_inv: "mem_reachable r \<Longrightarrow> mem_inv r"
  by (induction rule: mem_reachable.induct) (auto intro: mem_inv_new mem_step_inv)

end
