(* ===== verification/EventMemoryProps.thy ===== *)
theory EventMemoryProps imports EventMemorySteps begin

text \<open>
  The properties of the in-memory event repository. The concrete states of the witnesses come
  first: an event with one place, taken by \<open>alice\<close>, and \<open>bob\<close> and \<open>carol\<close> on the waitlist.
\<close>

definition ex_ids :: "string \<Rightarrow> nat \<Rightarrow> string" where
  "ex_ids p n = (if n = 0 then p else if n = 1 then p @ ''-a'' else p @ ''-b'')"

definition ex_event :: Event where
  "ex_event = \<lparr>e_ID = ''ev'', e_OrganizerID = ''org'', e_Title = ''T'', e_Description = '''',
     e_City = ''C'', e_Venue = ''V'', e_StartsAt = 100, e_Capacity = 1,
     e_Status = EventPublished, e_CreatedAt = 1, e_UpdatedAt = 1\<rparr>"

definition ex_created :: MemoryRepository where
  "ex_created = fst (CreateEvent (ex_ids ''o'') ex_event NewMemoryRepository)"
definition ex_full :: MemoryRepository where
  "ex_full = fst (JoinEvent (ex_ids ''r1'') ''ev'' ''alice'' ''k1'' 2 ex_created)"
definition ex_wait :: MemoryRepository where
  "ex_wait = fst (JoinEvent (ex_ids ''r2'') ''ev'' ''bob'' ''k2'' 3 ex_full)"
definition ex_wait2 :: MemoryRepository where
  "ex_wait2 = fst (JoinEvent (ex_ids ''r3'') ''ev'' ''carol'' ''k3'' 4 ex_wait)"

definition ex_reg :: "string \<Rightarrow> string \<Rightarrow> RegistrationStatus \<Rightarrow> int \<Rightarrow> string \<Rightarrow> time \<Rightarrow> Registration" where
  "ex_reg i u s p k t = \<lparr>r_ID = i, r_EventID = ''ev'', r_UserID = u, r_Status = s,
     r_WaitlistPosition = p, r_IdempotencyKey = k, r_CreatedAt = t, r_UpdatedAt = t\<rparr>"

lemmas repo_eval = mcount_def maxPosition_def waitlist_key_def for_defs time_after_def
  confirmedCountLocked_def activeRegistrationLocked_def nextWaitlistPositionLocked_def
  DecideJoinStatus_def JoinEvent_def CreateEvent_def Let_def ex_ids_def

lemma ex_created_tables [simp]:
  "m_events ex_created = [(''ev'', ex_event)]" "m_registrations ex_created = []"
  by (simp_all add: ex_created_def CreateEvent_def Let_def NewMemoryRepository_def ex_event_def)

lemma ex_full_tables [simp]:
  "m_events ex_full = [(''ev'', ex_event)]"
  "m_registrations ex_full = [(''r1'', ex_reg ''r1'' ''alice'' Confirmed 0 ''k1'' 2)]"
  by (simp_all add: ex_full_def repo_eval ex_event_def ex_reg_def)

lemma ex_wait_tables [simp]:
  "m_events ex_wait = [(''ev'', ex_event)]"
  "m_registrations ex_wait =
     [(''r1'', ex_reg ''r1'' ''alice'' Confirmed 0 ''k1'' 2),
      (''r2'', ex_reg ''r2'' ''bob'' Waitlisted 1 ''k2'' 3)]"
  by (simp_all add: ex_wait_def repo_eval ex_event_def ex_reg_def)

lemma ex_wait2_tables [simp]:
  "m_events ex_wait2 = [(''ev'', ex_event)]"
  "m_registrations ex_wait2 =
     [(''r1'', ex_reg ''r1'' ''alice'' Confirmed 0 ''k1'' 2),
      (''r2'', ex_reg ''r2'' ''bob'' Waitlisted 1 ''k2'' 3),
      (''r3'', ex_reg ''r3'' ''carol'' Waitlisted 2 ''k3'' 4)]"
  by (simp_all add: ex_wait2_def repo_eval ex_event_def ex_reg_def)

lemma ex_event_new: "NewEvent ''ev'' ''org'' ''T'' '''' ''C'' ''V'' 100 1 1 = Inr ex_event"
  by (simp add: NewEvent_def Validate_def time_after_def ex_event_def str_eval Let_def)

lemma ex_created_reachable: "mem_reachable ex_created"
  unfolding ex_created_def
  by (rule reach_step [OF reach_new step_create [OF ex_event_new]]) (simp add: NewMemoryRepository_def)

lemma ex_full_reachable: "mem_reachable ex_full"
  unfolding ex_full_def
  by (rule reach_step [OF ex_created_reachable step_join]) (simp add: mem_fresh_def)

lemma ex_wait_reachable: "mem_reachable ex_wait"
  unfolding ex_wait_def
  by (rule reach_step [OF ex_full_reachable step_join]) (simp add: mem_fresh_def ex_ids_def)

lemma ex_wait2_reachable: "mem_reachable ex_wait2"
  unfolding ex_wait2_def
  by (rule reach_step [OF ex_wait_reachable step_join]) (simp add: mem_fresh_def ex_ids_def)

lemmas ex_wait2_inv = mem_reachable_inv [OF ex_wait2_reachable]
lemmas ex_wait_inv = mem_reachable_inv [OF ex_wait_reachable]
lemmas ex_full_inv = mem_reachable_inv [OF ex_full_reachable]
lemmas ex_created_inv = mem_reachable_inv [OF ex_created_reachable]

lemma ex_wait2_roster:
  "mem_roster ''ev'' ex_wait2 =
     Some \<lparr>ro_Capacity = 1, ro_Confirmed = {''alice''}, ro_Waitlist = [''bob'', ''carol'']\<rparr>"
  by (simp add: mem_roster_def store_roster_def roster_of_def wait_users_def waitlisted_for_def
      confirmed_for_def waitlist_key_def ex_reg_def ex_event_def)

lemma ex_created_roster:
  "mem_roster ''ev'' ex_created = Some \<lparr>ro_Capacity = 1, ro_Confirmed = {}, ro_Waitlist = []\<rparr>"
  by (simp add: mem_roster_def store_roster_def roster_of_def wait_users_def ex_event_def)

section \<open>Safety\<close>

text \<open>
  C1. In every state that the in-memory repository reaches through its operations, an event has
  no more confirmed registrations than its capacity, a user holds at most one active
  registration of an event, and a cancelled event has neither confirmed nor waiting users.
\<close>

theorem no_overbooking:
  assumes "mem_reachable r" and "map_of (m_events r) ev = Some e"
  shows "ConfirmedCount ev r \<le> e_Capacity e \<and> ActiveRegistrationCount ev u r \<le> 1 \<and>
    (e_Status e = EventCanceled \<longrightarrow> ConfirmedCount ev r = 0 \<and> WaitlistedCount ev r = 0)"
proof -
  let ?m = "mvals (m_registrations r)"
  have inv: "mem_inv r" using assms(1) by (rule mem_reachable_inv)
  have ok: "event_ok ev e ?m" using mem_inv_event [OF inv assms(2)] .
  have "distinct (active_users ev ?m)" using inv by (simp add: mem_inv_def store_inv_def regs_ok_def)
  then have "length (filter (active_for ev u) ?m) \<le> 1" by (rule active_for_unique)
  then show ?thesis
    using ok active_none_counts [of ev ?m]
    by (auto simp: event_ok_def ConfirmedCount_def ActiveRegistrationCount_def WaitlistedCount_def
        confirmedCountLocked_eq mcount_def)
qed

theorem no_overbooking_witness:
  "ConfirmedCount ''ev'' ex_wait2 \<le> 1 \<and> ActiveRegistrationCount ''ev'' ''bob'' ex_wait2 \<le> 1 \<and>
   ConfirmedCount ''ev'' ex_wait2 = 1 \<and> WaitlistedCount ''ev'' ex_wait2 = 2"
  using no_overbooking [OF ex_wait2_reachable, of "''ev''" ex_event "''bob''"]
  by (simp add: ConfirmedCount_def WaitlistedCount_def repo_eval ex_reg_def)

text \<open>
  C2. A join of an open event refines the abstract join of its roster: an active user keeps the
  place, a new user is confirmed while a place is free and is the last of the waitlist otherwise.
  The rosters of the other events do not change.
\<close>

theorem join_refines_spec:
  assumes "mem_inv r" and "mem_fresh nid r" and "mem_open ev now r" and "mem_roster ev r = Some ro"
  shows "mem_roster ev (fst (JoinEvent nid ev u key now r)) = Some (spec_join u ro) \<and>
    (\<forall>ev'. ev' \<noteq> ev \<longrightarrow> mem_roster ev' (fst (JoinEvent nid ev u key now r)) = mem_roster ev' r)"
  using mem_store.join_roster [OF assms] mem_store.join_other [OF assms(1,2)] by blast

theorem join_refines_spec_witness:
  "mem_roster ''ev'' (fst (JoinEvent (ex_ids ''r4'') ''ev'' ''dave'' ''k'' 5 ex_wait2)) =
     Some \<lparr>ro_Capacity = 1, ro_Confirmed = {''alice''}, ro_Waitlist = [''bob'', ''carol'', ''dave'']\<rparr>"
  using join_refines_spec [OF ex_wait2_inv, of "ex_ids ''r4''" "''ev''" 5 _ "''dave''" "''k''"]
    ex_wait2_roster
  by (simp add: mem_fresh_def mem_open_def ex_ids_def ex_event_def time_after_def spec_join_def
      ro_members_def)

text \<open>
  C3. Leaving an event refines the abstract cancellation: a confirmed user's place goes to the
  first of the waitlist, a waiting user is taken out of the waitlist, and everybody else keeps
  the place and the order.
\<close>

theorem cancel_refines_spec:
  assumes "mem_inv r" and "mem_roster ev r = Some ro"
  shows "mem_roster ev (fst (CancelJoin nid ev u now r)) = Some (spec_cancel u ro) \<and>
    (\<forall>ev'. ev' \<noteq> ev \<longrightarrow> mem_roster ev' (fst (CancelJoin nid ev u now r)) = mem_roster ev' r)"
  using mem_store.cancel_roster [OF assms(1) TrueI assms(2)] mem_store.cancel_other [OF assms(1)] by blast

theorem cancel_refines_spec_witness:
  "mem_roster ''ev'' (fst (CancelJoin (ex_ids ''x'') ''ev'' ''alice'' 5 ex_wait2)) =
     Some \<lparr>ro_Capacity = 1, ro_Confirmed = {''bob''}, ro_Waitlist = [''carol'']\<rparr>"
  using cancel_refines_spec [OF ex_wait2_inv ex_wait2_roster] by (simp add: spec_cancel_def)

text \<open>
  Distinct users who join one after the other fill the free places in their order, and the
  others wait in their order.
\<close>

theorem joins_fill_in_order:
  assumes "mem_inv r" and "joins_ok JoinEvent mem_fresh mem_open ev qs r"
    and "mem_roster ev r = Some ro" and "distinct (map request_user qs)"
    and "set (map request_user qs) \<inter> ro_members ro = {}"
  shows "mem_roster ev (run_joins JoinEvent ev qs r) =
    Some (ro\<lparr>ro_Confirmed := ro_Confirmed ro \<union> set (take (ro_free ro) (map request_user qs)),
             ro_Waitlist := ro_Waitlist ro @ drop (ro_free ro) (map request_user qs)\<rparr>)"
  using assms by (rule mem_store.joins_fill_then_queue)

theorem joins_fill_in_order_witness:
  "mem_roster ''ev'' (run_joins JoinEvent ''ev''
      [(ex_ids ''r1'', ''alice'', ''k1'', 2), (ex_ids ''r2'', ''bob'', ''k2'', 3)] ex_created) =
     Some \<lparr>ro_Capacity = 1, ro_Confirmed = {''alice''}, ro_Waitlist = [''bob'']\<rparr>"
  using joins_fill_in_order [OF ex_created_inv _ ex_created_roster,
      of "[(ex_ids ''r1'', ''alice'', ''k1'', 2), (ex_ids ''r2'', ''bob'', ''k2'', 3)]"]
  by (simp add: mem_fresh_def mem_open_def ex_full_def [symmetric] request_user_def ro_members_def
      ro_free_def) (simp add: ex_ids_def ex_event_def time_after_def)


section \<open>Requests that change nothing\<close>

text \<open>
  An operation of the in-memory repository that returns an error has changed nothing; a join
  of a user who is already registered returns the registration and changes nothing.
\<close>

theorem errors_change_nothing:
  "(snd (UpdateEvent nid ev org role cmd now r) = Inl err \<longrightarrow>
      fst (UpdateEvent nid ev org role cmd now r) = r) \<and>
   (snd (CancelEvent nid corr ev org role now r) = Inl err \<longrightarrow>
      fst (CancelEvent nid corr ev org role now r) = r) \<and>
   (snd (JoinEvent nid ev u key now r) = Inl err \<longrightarrow> fst (JoinEvent nid ev u key now r) = r) \<and>
   (\<forall>res. snd (JoinEvent nid ev u key now r) = Inr res \<and> j_Existing res \<longrightarrow>
      fst (JoinEvent nid ev u key now r) = r \<and>
      activeRegistrationLocked ev u r = Some (j_Registration res)) \<and>
   (snd (CancelJoin nid ev u now r) = Inl err \<longrightarrow> fst (CancelJoin nid ev u now r) = r) \<and>
   (snd (CancelRegistration nid corr ev actor role u now r) = Inl err \<longrightarrow>
      fst (CancelRegistration nid corr ev actor role u now r) = r)"
  by (auto simp: UpdateEvent_error CancelEvent_def JoinEvent_def CancelJoin_def
      CancelRegistration_def Let_def split: option.splits sum.splits if_splits prod.splits)

theorem errors_change_nothing_witness:
  "snd (CancelJoin (ex_ids ''x'') ''nope'' ''bob'' 5 ex_wait2) = Inl ErrNotFound \<and>
   fst (CancelJoin (ex_ids ''x'') ''nope'' ''bob'' 5 ex_wait2) = ex_wait2 \<and>
   fst (JoinEvent (ex_ids ''x'') ''ev'' ''bob'' ''k'' 5 ex_wait2) = ex_wait2"
  using errors_change_nothing [of "ex_ids ''x''" "''nope''" "''o''" "''USER''" _ 5 ex_wait2 ErrNotFound
      "''c''" "''bob''" "''k''" "''a''"]
    errors_change_nothing [of "ex_ids ''x''" "''ev''" "''o''" "''USER''" _ 5 ex_wait2 ErrNotFound
      "''c''" "''bob''" "''k''" "''a''"]
  by (simp add: CancelJoin_def JoinEvent_def activeRegistrationLocked_def for_defs ex_reg_def)

section \<open>Messages\<close>



section \<open>Cancelled events\<close>

text \<open>
  A cancelled event stays cancelled in every later state, nobody is ever registered for it
  again, and a join of it is refused with the error of a cancelled event.
\<close>

definition mem_canceled :: "string \<Rightarrow> MemoryRepository \<Rightarrow> bool" where
  "mem_canceled ev r \<longleftrightarrow> (\<exists>e. map_of (m_events r) ev = Some e \<and> e_Status e = EventCanceled)"

lemma mem_step_canceled: "mem_step r r' \<Longrightarrow> mem_canceled ev r \<Longrightarrow> mem_canceled ev r'"
proof (induction rule: mem_step.induct)
  case (step_create i org ti de ci ve st cap now e r nid)
  then show ?case
    using NewEvent_Inr [OF step_create.hyps(1)]
    by (auto simp: mem_canceled_def CreateEvent_def Let_def)
next
  case (step_update r nid ev' org role cmd now)
  show ?case
  proof (cases "snd (UpdateEvent nid ev' org role cmd now r)")
    case (Inl err)
    then show ?thesis using UpdateEvent_error step_update by simp
  next
    case (Inr d)
    then obtain e e' where "map_of (m_events r) ev' = Some e" "e_Status e \<noteq> EventCanceled"
      and "m_events (fst (UpdateEvent nid ev' org role cmd now r)) = mput ev' e' (m_events r)"
      using UpdateEvent_state by blast
    then show ?thesis using step_update by (auto simp: mem_canceled_def)
  qed
next
  case (step_cancel r nid corr ev' org role now)
  then show ?case
    using CancelEvent_state [of nid corr ev' org role now r] by (auto simp: mem_canceled_def)
next
  case (step_join nid r ev' u key now)
  then show ?case using JoinEvent_state [of nid ev' u key now r] by (auto simp: mem_canceled_def)
next
  case (step_leave r nid ev' u now)
  then show ?case
    by (simp add: mem_canceled_def CancelJoin_state cancelRegistrationLocked_cases Let_def
        split: option.split)
next
  case (step_manager r nid corr ev' actor role u now)
  then show ?case
    using CancelRegistration_state [of nid corr ev' actor role u now r]
    by (auto simp: mem_canceled_def cancelRegistrationLocked_cases Let_def split: option.splits)
qed

theorem canceled_is_final:
  assumes "mem_reachable r" and "mem_canceled ev r" and "mem_step\<^sup>*\<^sup>* r r'"
  shows "mem_canceled ev r' \<and> activeRegistrationLocked ev u r' = None \<and>
    JoinEvent nid ev u key now r' = (r', Inl ErrEventCanceled)"
proof -
  have "mem_canceled ev r' \<and> mem_reachable r'"
    using assms(3)
  proof induction
    case base
    then show ?case using assms by blast
  next
    case (step y z)
    then show ?case using mem_step_canceled reach_step by blast
  qed
  then obtain e where e: "map_of (m_events r') ev = Some e" "e_Status e = EventCanceled"
    and inv: "mem_inv r'" and c: "mem_canceled ev r'"
    using mem_reachable_inv unfolding mem_canceled_def by blast
  have "active_users ev (mvals (m_registrations r')) = []"
    using mem_inv_event [OF inv e(1)] e(2) by (simp add: event_ok_def)
  then have "activeRegistrationLocked ev u r' = None" by (simp add: activeRegistrationLocked_None)
  then show ?thesis using e c by (simp add: JoinEvent_cases DecideJoinStatus_def)
qed

theorem canceled_is_final_witness:
  "JoinEvent (ex_ids ''y'') ''ev'' ''dave'' ''k'' 6
     (fst (CancelEvent (ex_ids ''x'') ''c'' ''ev'' ''org'' ''USER'' 5 ex_wait2)) =
   (fst (CancelEvent (ex_ids ''x'') ''c'' ''ev'' ''org'' ''USER'' 5 ex_wait2), Inl ErrEventCanceled)"
proof -
  let ?r = "fst (CancelEvent (ex_ids ''x'') ''c'' ''ev'' ''org'' ''USER'' 5 ex_wait2)"
  have "mem_canceled ''ev'' ?r"
    by (simp add: mem_canceled_def CancelEvent_def Let_def ex_event_def)
  then show ?thesis
    using canceled_is_final [OF reach_step [OF ex_wait2_reachable step_cancel]] by blast
qed

section \<open>Raising the capacity\<close>

text \<open>
  C5. Raising the capacity promotes nobody: after a successful update the waitlist is as long as
  before, and the next new user who joins takes the free place although others are waiting.
\<close>

theorem capacity_raise_skips_waitlist:
  assumes "mem_inv r" and "mem_roster ev r = Some ro"
    and "snd (UpdateEvent nid ev org role cmd now r) = Inr d" and "u_Capacity cmd = Some cap"
    and "ro_Capacity ro < cap" and "u \<notin> ro_members ro"
    and "mem_fresh nid' r" and "now' < e_StartsAt (d_Event d)"
  shows "mem_roster ev (fst (UpdateEvent nid ev org role cmd now r)) = Some (ro\<lparr>ro_Capacity := cap\<rparr>) \<and>
    mem_roster ev (fst (JoinEvent nid' ev u key now' (fst (UpdateEvent nid ev org role cmd now r)))) =
      Some (ro\<lparr>ro_Capacity := cap, ro_Confirmed := insert u (ro_Confirmed ro)\<rparr>)"
proof -
  let ?r = "fst (UpdateEvent nid ev org role cmd now r)"
  obtain e e' where e: "map_of (m_events r) ev = Some e" "e_Status e \<noteq> EventCanceled"
    and up: "applyUpdate cmd (confirmedCountLocked ev r) now e = Inr e'"
    and s: "m_events ?r = mput ev e' (m_events r)" "m_registrations ?r = m_registrations r"
    using UpdateEvent_state [OF assms(3)] by blast
  have e': "e_Capacity e' = cap" "e_Status e' \<noteq> EventCanceled"
    using applyUpdate_Inr [OF up] assms(4) e by auto
  have d: "d_Event d = e'"
    using assms(3) e up by (auto simp: UpdateEvent_def Let_def detailLocked_def split: if_splits)
  have ro: "mem_roster ev ?r = Some (ro\<lparr>ro_Capacity := cap\<rparr>)"
    using assms(2) e e' by (auto simp: mem_roster_def store_roster_def s roster_of_def)
  have wf: "wf_roster ro" using mem_store.roster_wf assms(1,2) by blast
  have "mem_roster ev (fst (JoinEvent nid' ev u key now' ?r)) =
      Some (spec_join u (ro\<lparr>ro_Capacity := cap\<rparr>))"
  proof (rule mem_store.join_roster [OF UpdateEvent_inv [OF assms(1)] _ _ ro])
    show "mem_fresh nid' ?r" using assms(7) by (simp add: mem_fresh_def s)
    show "mem_open ev now' ?r" using e' assms(8) by (simp add: mem_open_def s d time_after_def)
  qed
  then show ?thesis
    using ro assms(5,6) wf by (simp add: spec_join_def ro_members_def wf_roster_def)
qed

definition ex_raise :: UpdateEventCommand where
  "ex_raise = \<lparr>u_Title = None, u_Description = None, u_City = None, u_Venue = None,
     u_StartsAt = None, u_Capacity = Some 2\<rparr>"

theorem capacity_raise_skips_waitlist_witness:
  "mem_roster ''ev'' (fst (JoinEvent (ex_ids ''r4'') ''ev'' ''dave'' ''k'' 6
      (fst (UpdateEvent (ex_ids ''x'') ''ev'' ''org'' ''USER'' ex_raise 5 ex_wait2)))) =
   Some \<lparr>ro_Capacity = 2, ro_Confirmed = {''dave'', ''alice''}, ro_Waitlist = [''bob'', ''carol'']\<rparr>"
proof -
  have "applyUpdate ex_raise 1 5 ex_event = Inr (ex_event\<lparr>e_Capacity := 2, e_UpdatedAt := 5\<rparr>)"
    by (simp add: applyUpdate_def ex_raise_def apply_opt_def ValidateCapacityChange_def Validate_def
        ex_event_def time_after_def str_eval Let_def)
  moreover have "confirmedCountLocked ''ev'' ex_wait2 = 1"
    by (simp add: confirmedCountLocked_def for_defs ex_reg_def)
  ultimately have "snd (UpdateEvent (ex_ids ''x'') ''ev'' ''org'' ''USER'' ex_raise 5 ex_wait2) =
      Inr \<lparr>d_Event = ex_event\<lparr>e_Capacity := 2, e_UpdatedAt := 5\<rparr>, d_ConfirmedCount = 1,
           d_ViewerJoinStatus = NotJoined\<rparr>"
    by (simp add: UpdateEvent_def Let_def detailLocked_def confirmedCountLocked_def for_defs
        ex_reg_def) (simp add: ex_event_def)
  from capacity_raise_skips_waitlist [OF ex_wait2_inv ex_wait2_roster this,
      of 2 "''dave''" "ex_ids ''r4''" 6 "''k''"]
  show ?thesis by (simp add: ex_raise_def ro_members_def mem_fresh_def ex_ids_def ex_event_def)
qed

end
