(* ===== verification/Tx.thy ===== *)
theory Tx imports Prelude begin

text \<open>
  Database transactions as the Postgres repositories use them. A statement may fail for a reason
  outside the program (a lost connection, a cancelled context, a value the column refuses): the
  list of faults says which of the statements to come do, an empty list that none does. A
  transaction works on a copy of the database, which a commit makes the database and an error
  throws away (\<^verbatim>\<open>defer rollback\<close>). A commit that reports an error may have been applied.

  The row lock that a transaction takes first (\<^verbatim>\<open>FOR UPDATE\<close>) makes the transactions on the same
  row run one after the other, so a transaction is one function on the database here.
\<close>

type_synonym faults = "bool list"

text \<open>A statement list of a transaction: the faults to come and the working copy are threaded.\<close>

type_synonym ('d, 'e, 'a) tx = "faults \<Rightarrow> 'd \<Rightarrow> ('e + 'a) \<times> faults \<times> 'd"

definition tx_return :: "'a \<Rightarrow> ('d, 'e, 'a) tx" where
  "tx_return a fs d = (Inr a, fs, d)"

definition tx_fail :: "'e \<Rightarrow> ('d, 'e, 'a) tx" where
  "tx_fail e fs d = (Inl e, fs, d)"

definition tx_bind :: "('d, 'e, 'a) tx \<Rightarrow> ('a \<Rightarrow> ('d, 'e, 'b) tx) \<Rightarrow> ('d, 'e, 'b) tx" where
  "tx_bind m k fs d =
     (case m fs d of
        (Inl e, fs', d') \<Rightarrow> (Inl e, fs', d')
      | (Inr a, fs', d') \<Rightarrow> k a fs' d')"

definition faulty :: "faults \<Rightarrow> bool" where
  "faulty fs \<longleftrightarrow> fs \<noteq> [] \<and> hd fs"

text \<open>A query that reads the working copy; \<open>e\<close> is the error that a fault gives.\<close>

definition tx_query :: "'e \<Rightarrow> ('d \<Rightarrow> 'a) \<Rightarrow> ('d, 'e, 'a) tx" where
  "tx_query e q fs d = (if faulty fs then (Inl e, tl fs, d) else (Inr (q d), tl fs, d))"

text \<open>A statement that writes; it fails as well when the row breaks a constraint.\<close>

definition tx_exec :: "'e \<Rightarrow> ('d \<Rightarrow> bool) \<Rightarrow> ('d \<Rightarrow> 'd) \<Rightarrow> ('d, 'e, unit) tx" where
  "tx_exec e allowed upd fs d =
     (if faulty fs \<or> \<not> allowed d then (Inl e, tl fs, d) else (Inr (), tl fs, upd d))"

datatype commit_outcome = Committed | CommitRefused | CommitUnknown

text \<open>
  \<^verbatim>\<open>Begin\<close> is the first statement; the commit is the last one of a body that returns no error.
  \<open>CommitUnknown\<close> is the commit that is applied and whose answer is lost.
\<close>

definition in_tx ::
  "'e \<Rightarrow> ('d, 'e, 'a) tx \<Rightarrow> faults \<Rightarrow> commit_outcome \<Rightarrow> 'd \<Rightarrow> 'd \<times> ('e + 'a)" where
  "in_tx e m fs c d =
     (if faulty fs then (d, Inl e)
      else (case m (tl fs) d of
              (Inl err, _, _) \<Rightarrow> (d, Inl err)
            | (Inr a, _, d') \<Rightarrow>
                (case c of
                   Committed \<Rightarrow> (d', Inr a)
                 | CommitRefused \<Rightarrow> (d, Inl e)
                 | CommitUnknown \<Rightarrow> (d', Inl e))))"

named_theorems tx_simps

lemma tx_run [tx_simps]:
  "tx_return a fs d = (Inr a, fs, d)"
  "tx_fail e fs d = (Inl e, fs, d)"
  "tx_query e q [] d = (Inr (q d), [], d)"
  "tx_exec e allowed upd [] d = (if allowed d then (Inr (), [], upd d) else (Inl e, [], d))"
  by (simp_all add: tx_return_def tx_fail_def tx_query_def tx_exec_def faulty_def)

lemma tx_bind_run [tx_simps]:
  "m fs d = (Inr a, fs', d') \<Longrightarrow> tx_bind m k fs d = k a fs' d'"
  "m fs d = (Inl e, fs', d') \<Longrightarrow> tx_bind m k fs d = (Inl e, fs', d')"
  by (simp_all add: tx_bind_def)

lemma in_tx_run [tx_simps]:
  "m [] d = (Inr a, fs', d') \<Longrightarrow> in_tx e m [] Committed d = (d', Inr a)"
  "m [] d = (Inl err, fs', d') \<Longrightarrow> in_tx e m [] c d = (d, Inl err)"
  by (simp_all add: in_tx_def faulty_def)

section \<open>Faults only cause errors\<close>

text \<open>
  A body that returns a value under some faults returns the same value and leaves the same
  database when no statement fails.
\<close>

definition faults_abort :: "('d, 'e, 'a) tx \<Rightarrow> bool" where
  "faults_abort m \<longleftrightarrow>
     (\<forall>fs d a fs' d'. m fs d = (Inr a, fs', d') \<longrightarrow> m [] d = (Inr a, [], d'))"

named_theorems faults_intros

lemma faults_abort_return [faults_intros]: "faults_abort (tx_return a)"
  by (simp add: faults_abort_def tx_return_def)

lemma faults_abort_fail [faults_intros]: "faults_abort (tx_fail e)"
  by (simp add: faults_abort_def tx_fail_def)

lemma faults_abort_query [faults_intros]: "faults_abort (tx_query e q)"
  by (simp add: faults_abort_def tx_query_def faulty_def)

lemma faults_abort_exec [faults_intros]: "faults_abort (tx_exec e allowed upd)"
  by (simp add: faults_abort_def tx_exec_def faulty_def)

lemma faults_abort_bind [faults_intros]:
  assumes "faults_abort m" and "\<And>a. faults_abort (k a)"
  shows "faults_abort (tx_bind m k)"
  unfolding faults_abort_def
proof (intro allI impI)
  fix fs d b fs' d'
  assume run: "tx_bind m k fs d = (Inr b, fs', d')"
  then obtain a fs1 d1 where m: "m fs d = (Inr a, fs1, d1)" and k: "k a fs1 d1 = (Inr b, fs', d')"
    by (auto simp: tx_bind_def split: prod.splits sum.splits)
  have "m [] d = (Inr a, [], d1)" using assms(1) m unfolding faults_abort_def by blast
  moreover have "k a [] d1 = (Inr b, [], d')" using assms(2) k unfolding faults_abort_def by blast
  ultimately show "tx_bind m k [] d = (Inr b, [], d')" by (simp add: tx_bind_def)
qed

lemma faults_abort_if [faults_intros]:
  "faults_abort m \<Longrightarrow> faults_abort m' \<Longrightarrow> faults_abort (if b then m else m')"
  by simp

lemma faults_abort_option [faults_intros]:
  "faults_abort m \<Longrightarrow> (\<And>x. faults_abort (k x)) \<Longrightarrow>
     faults_abort (case z of None \<Rightarrow> m | Some x \<Rightarrow> k x)"
  by (simp split: option.split)

lemma faults_abort_sum [faults_intros]:
  "(\<And>x. faults_abort (j x)) \<Longrightarrow> (\<And>x. faults_abort (k x)) \<Longrightarrow>
     faults_abort (case z of Inl x \<Rightarrow> j x | Inr x \<Rightarrow> k x)"
  by (simp split: sum.split)

lemma faults_abort_let [faults_intros]: "faults_abort (k x) \<Longrightarrow> faults_abort (Let x k)"
  by simp

text \<open>
  A transaction that returns a value did what the run without faults does, and one that returns
  an error left the database as it was or, when the commit's answer was lost, did all of it.
\<close>

lemma in_tx_atomic:
  assumes "faults_abort m"
  shows "(\<exists>a. snd (in_tx e m fs c d) = Inr a \<and> in_tx e m fs c d = in_tx e m [] Committed d) \<or>
    (\<exists>err. snd (in_tx e m fs c d) = Inl err) \<and>
      (fst (in_tx e m fs c d) = d \<or>
       c = CommitUnknown \<and> fst (in_tx e m fs c d) = fst (in_tx e m [] Committed d) \<and>
       (\<exists>a. snd (in_tx e m [] Committed d) = Inr a))"
proof (cases "faulty fs")
  case True
  then show ?thesis by (simp add: in_tx_def)
next
  case False
  obtain r fs' d' where m: "m (tl fs) d = (r, fs', d')" by (metis prod_cases3)
  show ?thesis
  proof (cases r)
    case (Inl err)
    then show ?thesis using False m by (simp add: in_tx_def)
  next
    case (Inr a)
    then have "m [] d = (Inr a, [], d')" using assms m unfolding faults_abort_def by blast
    then show ?thesis using False m Inr by (cases c) (simp_all add: in_tx_def faulty_def)
  qed
qed

lemma in_tx_error_free:
  "m [] d = (r, fs', d') \<Longrightarrow>
     in_tx e m [] Committed d = (case r of Inl err \<Rightarrow> (d, Inl err) | Inr a \<Rightarrow> (d', Inr a))"
  by (simp add: in_tx_def faulty_def split: sum.split)

end
