(* ===== verification/EventPostgres.thy ===== *)
theory EventPostgres imports Tx EventMemory begin

text \<open>
  \<^verbatim>\<open>PostgresRepository\<close> of \<^verbatim>\<open>internal/services/eventregistration/postgres_repository.go\<close>: the
  tables of \<^verbatim>\<open>migrations/eventregistration\<close> as association lists by primary key, one function per
  method, one \<open>tx_query\<close> or \<open>tx_exec\<close> per SQL statement. A row keeps microseconds of a time; a
  \<^verbatim>\<open>waitlist_position\<close> that is NULL is 0 here, the value that \<^verbatim>\<open>NULLIF\<close> and \<^verbatim>\<open>COALESCE\<close> put in its
  place on the way in and out. The constraints of the tables are conditions of the writing
  statements; encoding errors of a value are faults.
\<close>

record EventDB =
  db_events :: "(string, Event) gomap"
  db_registrations :: "(string, Registration) gomap"
  db_outbox :: "OutboxMessage list"
  db_audit :: "AuditEvent list"

text \<open>What the environment does during one call: faults of the transaction's statements, of its
  commit, and of the queries outside the transaction.\<close>

record Net =
  n_tx :: faults
  n_commit :: commit_outcome
  n_read :: faults

definition quiet :: Net where
  "quiet = \<lparr>n_tx = [], n_commit = Committed, n_read = []\<rparr>"

type_synonym 'a event_tx = "(EventDB, event_error, 'a) tx"

section \<open>Rows\<close>

definition int4 :: "int \<Rightarrow> bool" where
  "int4 n \<longleftrightarrow> - (2 ^ 31) \<le> n \<and> n < 2 ^ 31"

text \<open>\<^verbatim>\<open>length(trim(x)) > 0\<close>: SQL trims spaces only.\<close>

definition sql_nonblank :: "string \<Rightarrow> bool" where
  "sql_nonblank s \<longleftrightarrow> (\<exists>c \<in> set s. c \<noteq> CHR '' '')"

definition event_row :: "Event \<Rightarrow> Event" where
  "event_row e = e\<lparr>e_StartsAt := pg_ts (e_StartsAt e), e_CreatedAt := pg_ts (e_CreatedAt e),
                  e_UpdatedAt := pg_ts (e_UpdatedAt e)\<rparr>"

definition event_row_ok :: "Event \<Rightarrow> bool" where
  "event_row_ok e \<longleftrightarrow> sql_nonblank (e_Title e) \<and> sql_nonblank (e_City e) \<and> sql_nonblank (e_Venue e) \<and>
     int4 (e_Capacity e) \<and> 0 < e_Capacity e \<and>
     (e_Status e = EventPublished \<or> e_Status e = EventCanceled)"

definition registration_row :: "Registration \<Rightarrow> Registration" where
  "registration_row g = g\<lparr>r_CreatedAt := pg_ts (r_CreatedAt g), r_UpdatedAt := pg_ts (r_UpdatedAt g)\<rparr>"

text \<open>\<^verbatim>\<open>UPDATE ... WHERE id = $1\<close>.\<close>

definition update_rows :: "string \<Rightarrow> (Registration \<Rightarrow> Registration) \<Rightarrow>
    (string, Registration) gomap \<Rightarrow> (string, Registration) gomap" where
  "update_rows i f m = map (\<lambda>(k, g). (k, if r_ID g = i then f g else g)) m"

text \<open>\<^verbatim>\<open>LIMIT 1\<close>.\<close>

definition first_row :: "'a list \<Rightarrow> 'a option" where
  "first_row rows = (case rows of [] \<Rightarrow> None | g # _ \<Rightarrow> Some g)"

section \<open>Statements\<close>

definition selectEventForUpdate :: "string \<Rightarrow> Event event_tx" where
  "selectEventForUpdate ev =
     tx_bind (tx_query ErrStore (\<lambda>d. map_of (db_events d) ev))
       (\<lambda>row. case row of None \<Rightarrow> tx_fail ErrNotFound | Some e \<Rightarrow> tx_return e)"

definition confirmedCountTx :: "string \<Rightarrow> int event_tx" where
  "confirmedCountTx ev =
     tx_query ErrStore (\<lambda>d. int (mcount (confirmed_for ev) (db_registrations d)))"

definition activeRegistrationTx :: "string \<Rightarrow> string \<Rightarrow> Registration option event_tx" where
  "activeRegistrationTx ev u =
     tx_query ErrStore (\<lambda>d. first_row (sort_key r_CreatedAt
       (filter (active_for ev u) (mvals (db_registrations d)))))"

definition latest_status :: "string \<Rightarrow> string \<Rightarrow> (string, Registration) gomap \<Rightarrow> RegistrationStatus" where
  "latest_status ev u m =
     (case first_row (sort_key (\<lambda>g. (- r_UpdatedAt g, - r_CreatedAt g))
              (filter (\<lambda>g. r_EventID g = ev \<and> r_UserID g = u) (mvals m))) of
        None \<Rightarrow> NotJoined | Some g \<Rightarrow> r_Status g)"

definition latestStatusTx :: "string \<Rightarrow> string \<Rightarrow> RegistrationStatus event_tx" where
  "latestStatusTx ev u = tx_query ErrStore (\<lambda>d. latest_status ev u (db_registrations d))"

text \<open>\<^verbatim>\<open>COALESCE(MAX(waitlist_position), 0) + 1\<close>; \<^verbatim>\<open>MAX\<close> skips NULL.\<close>

definition next_position :: "string \<Rightarrow> (string, Registration) gomap \<Rightarrow> int" where
  "next_position ev m =
     (case filter (\<lambda>p. p \<noteq> 0) (map r_WaitlistPosition (filter (\<lambda>g. r_EventID g = ev) (mvals m))) of
        [] \<Rightarrow> 0 | p # ps \<Rightarrow> fold max ps p) + 1"

definition nextWaitlistPositionTx :: "string \<Rightarrow> int event_tx" where
  "nextWaitlistPositionTx ev = tx_query ErrStore (\<lambda>d. next_position ev (db_registrations d))"

text \<open>\<^verbatim>\<open>ORDER BY waitlist_position ASC, created_at ASC\<close>: NULL comes last.\<close>

definition waitlist_order :: "Registration \<Rightarrow> int \<times> int \<times> time" where
  "waitlist_order g =
     (if r_WaitlistPosition g = 0 then 1 else 0, r_WaitlistPosition g, r_CreatedAt g)"

definition firstWaitlistedTx :: "string \<Rightarrow> Registration option event_tx" where
  "firstWaitlistedTx ev =
     tx_query ErrStore (\<lambda>d. first_row (sort_key waitlist_order
       (filter (waitlisted_for ev) (mvals (db_registrations d)))))"

definition insertEvent :: "Event \<Rightarrow> unit event_tx" where
  "insertEvent e = tx_exec ErrStore
     (\<lambda>d. map_of (db_events d) (e_ID e) = None \<and> event_row_ok e)
     (\<lambda>d. d\<lparr>db_events := mput (e_ID e) (event_row e) (db_events d)\<rparr>)"

text \<open>The two \<^verbatim>\<open>UPDATE events ... WHERE id = $1\<close>: no row, no change.\<close>

definition update_event :: "string \<Rightarrow> (Event \<Rightarrow> Event) \<Rightarrow> EventDB \<Rightarrow> EventDB" where
  "update_event ev f d =
     (case map_of (db_events d) ev of
        None \<Rightarrow> d | Some row \<Rightarrow> d\<lparr>db_events := mput ev (f row) (db_events d)\<rparr>)"

definition updateEventRow :: "Event \<Rightarrow> unit event_tx" where
  "updateEventRow e = tx_exec ErrStore (\<lambda>d. event_row_ok e)
     (update_event (e_ID e) (\<lambda>row. row\<lparr>e_Title := e_Title e, e_Description := e_Description e,
        e_City := e_City e, e_Venue := e_Venue e, e_StartsAt := pg_ts (e_StartsAt e),
        e_Capacity := e_Capacity e, e_UpdatedAt := pg_ts (e_UpdatedAt e)\<rparr>))"

definition setEventStatus :: "string \<Rightarrow> EventStatus \<Rightarrow> time \<Rightarrow> unit event_tx" where
  "setEventStatus ev status now = tx_exec ErrStore
     (\<lambda>d. status = EventPublished \<or> status = EventCanceled)
     (update_event ev (\<lambda>row. row\<lparr>e_Status := status, e_UpdatedAt := pg_ts now\<rparr>))"

definition cancelActiveRows :: "string \<Rightarrow> time \<Rightarrow> unit event_tx" where
  "cancelActiveRows ev now = tx_exec ErrStore (\<lambda>d. True)
     (\<lambda>d. d\<lparr>db_registrations :=
              map (\<lambda>(k, g). (k, cancel_active ev (pg_ts now) g)) (db_registrations d)\<rparr>)"

definition insertRegistration :: "Registration \<Rightarrow> unit event_tx" where
  "insertRegistration g = tx_exec ErrStore
     (\<lambda>d. map_of (db_registrations d) (r_ID g) = None \<and> map_of (db_events d) (r_EventID g) \<noteq> None \<and>
          int4 (r_WaitlistPosition g) \<and> r_Status g \<noteq> NotJoined \<and>
          (active g \<longrightarrow>
             filter (active_for (r_EventID g) (r_UserID g)) (mvals (db_registrations d)) = []))
     (\<lambda>d. d\<lparr>db_registrations := mput (r_ID g) (registration_row g) (db_registrations d)\<rparr>)"

text \<open>The two \<^verbatim>\<open>UPDATE event_registrations SET status, waitlist_position = NULL, updated_at\<close>.\<close>

definition updateRegistrationStatus :: "string \<Rightarrow> RegistrationStatus \<Rightarrow> time \<Rightarrow> unit event_tx" where
  "updateRegistrationStatus i status now = tx_exec ErrStore (\<lambda>d. True)
     (\<lambda>d. d\<lparr>db_registrations := update_rows i
              (\<lambda>g. g\<lparr>r_Status := status, r_WaitlistPosition := 0, r_UpdatedAt := pg_ts now\<rparr>)
              (db_registrations d)\<rparr>)"

definition withCorrelation :: "string \<Rightarrow> payload \<Rightarrow> payload" where
  "withCorrelation corr p =
     (if corr \<noteq> '''' \<and> map_of p ''correlationId'' = None
      then mput ''correlationId'' (PString corr) p else p)"

definition insertOutbox ::
  "string \<Rightarrow> string \<Rightarrow> string \<Rightarrow> string \<Rightarrow> string \<Rightarrow> payload \<Rightarrow> time \<Rightarrow> unit event_tx" where
  "insertOutbox newID corr aggregateType aggregateID routingKey p now = tx_exec ErrStore
     (\<lambda>d. newID \<notin> o_ID ` set (db_outbox d))
     (\<lambda>d. d\<lparr>db_outbox := db_outbox d @
              [\<lparr>o_ID = newID, o_AggregateType = aggregateType, o_AggregateID = aggregateID,
                o_RoutingKey = routingKey, o_Payload = withCorrelation corr p,
                o_Status = ''PENDING'', o_CreatedAt = pg_ts now, o_AvailableAt = pg_ts now,
                o_SentAt = None\<rparr>]\<rparr>)"

definition insertEventAuditEvent :: "AuditEvent \<Rightarrow> unit event_tx" where
  "insertEventAuditEvent a = tx_exec ErrStore
     (\<lambda>d. a_ID a \<notin> a_ID ` set (db_audit d))
     (\<lambda>d. d\<lparr>db_audit := db_audit d @ [a\<lparr>a_CreatedAt := pg_ts (a_CreatedAt a)\<rparr>]\<rparr>)"

section \<open>Reads\<close>

definition pgGetJoinStatus ::
  "Net \<Rightarrow> string \<Rightarrow> string \<Rightarrow> EventDB \<Rightarrow> event_error + RegistrationStatus" where
  "pgGetJoinStatus net ev u d =
     snd (in_tx ErrStore (tx_bind (selectEventForUpdate ev) (\<lambda>_. latestStatusTx ev u))
            (n_tx net) (n_commit net) d)"

definition pg_detail :: "EventDB \<Rightarrow> Event \<Rightarrow> RegistrationStatus \<Rightarrow> EventDetail" where
  "pg_detail d e status =
     \<lparr>d_Event = e, d_ConfirmedCount = int (mcount (confirmed_for (e_ID e)) (db_registrations d)),
      d_ViewerJoinStatus = status\<rparr>"

definition pgGetEventDetail ::
  "Net \<Rightarrow> string \<Rightarrow> string \<Rightarrow> EventDB \<Rightarrow> event_error + EventDetail" where
  "pgGetEventDetail net ev viewerID d =
     (if faulty (n_read net) then Inl ErrStore
      else (case map_of (db_events d) ev of
              None \<Rightarrow> Inl ErrNotFound
            | Some e \<Rightarrow>
                if viewerID \<noteq> ''''
                then rbind (pgGetJoinStatus net ev viewerID d) (\<lambda>status. Inr (pg_detail d e status))
                else Inr (pg_detail d e NotJoined)))"

definition pgListPublishedEvents :: "Net \<Rightarrow> EventDB \<Rightarrow> event_error + EventDetail list" where
  "pgListPublishedEvents net d =
     (if faulty (n_read net) then Inl ErrStore
      else Inr (map (\<lambda>e. pg_detail d e NotJoined)
             (sort_key (\<lambda>e. (e_StartsAt e, e_ID e))
               (filter (\<lambda>e. e_Status e = EventPublished) (mvals (db_events d))))))"

text \<open>A write followed by the read of the detail, outside the transaction.\<close>

definition then_detail ::
  "Net \<Rightarrow> string \<Rightarrow> EventDB \<times> (event_error + unit) \<Rightarrow> EventDB \<times> (event_error + EventDetail)" where
  "then_detail net ev out =
     (case out of
        (d, Inl e) \<Rightarrow> (d, Inl e)
      | (d, Inr _) \<Rightarrow> (d, pgGetEventDetail net ev '''' d))"

section \<open>Events\<close>

definition createEventTx :: "(nat \<Rightarrow> string) \<Rightarrow> string \<Rightarrow> Event \<Rightarrow> unit event_tx" where
  "createEventTx nid corr event =
     tx_bind (insertEvent event) (\<lambda>_.
     insertOutbox (nid 0) corr ''event'' (e_ID event) RoutingEventPublished
       (eventPayload event) (e_CreatedAt event))"

definition pgCreateEvent :: "string \<Rightarrow> Net \<Rightarrow> (nat \<Rightarrow> string) \<Rightarrow> Event \<Rightarrow> EventDB
   \<Rightarrow> EventDB \<times> (event_error + EventDetail)" where
  "pgCreateEvent corr net nid event d =
     then_detail net (e_ID event)
       (in_tx ErrStore (createEventTx nid corr event) (n_tx net) (n_commit net) d)"

definition updateEventTx ::
  "(nat \<Rightarrow> string) \<Rightarrow> string \<Rightarrow> string \<Rightarrow> string \<Rightarrow> Role \<Rightarrow> UpdateEventCommand \<Rightarrow> time \<Rightarrow> unit event_tx" where
  "updateEventTx nid corr ev organizerID role cmd now =
     tx_bind (selectEventForUpdate ev) (\<lambda>event.
     if e_OrganizerID event \<noteq> organizerID \<and> \<not> CanAdmin role then tx_fail ErrForbidden
     else if e_Status event = EventCanceled then tx_fail ErrEventCanceled
     else tx_bind (confirmedCountTx ev) (\<lambda>confirmed.
       case applyUpdate cmd confirmed now event of
         Inl err \<Rightarrow> tx_fail err
       | Inr event' \<Rightarrow>
           tx_bind (updateEventRow event') (\<lambda>_.
           insertOutbox (nid 0) corr ''event'' (e_ID event') RoutingEventUpdated
             (eventPayload event') now)))"

definition pgUpdateEvent :: "string \<Rightarrow> Net \<Rightarrow> (nat \<Rightarrow> string) \<Rightarrow> string \<Rightarrow> string \<Rightarrow> Role
   \<Rightarrow> UpdateEventCommand \<Rightarrow> time \<Rightarrow> EventDB \<Rightarrow> EventDB \<times> (event_error + EventDetail)" where
  "pgUpdateEvent corr net nid ev organizerID role cmd now d =
     then_detail net ev
       (in_tx ErrStore (updateEventTx nid corr ev organizerID role cmd now) (n_tx net) (n_commit net) d)"

definition cancelEventTx ::
  "(nat \<Rightarrow> string) \<Rightarrow> string \<Rightarrow> string \<Rightarrow> string \<Rightarrow> Role \<Rightarrow> time \<Rightarrow> unit event_tx" where
  "cancelEventTx nid corr ev organizerID role now =
     tx_bind (selectEventForUpdate ev) (\<lambda>event.
     if e_OrganizerID event \<noteq> organizerID \<and> \<not> CanAdmin role then tx_fail ErrForbidden
     else
       (let previousStatus = e_Status event;
            event' = (if previousStatus \<noteq> EventCanceled
                      then event\<lparr>e_Status := EventCanceled, e_UpdatedAt := now\<rparr> else event);
            writes = (if previousStatus \<noteq> EventCanceled then
                 tx_bind (setEventStatus (e_ID event') (e_Status event') (e_UpdatedAt event')) (\<lambda>_.
                 tx_bind (cancelActiveRows (e_ID event) now) (\<lambda>_.
                 insertOutbox (nid 0) corr ''event'' (e_ID event') RoutingEventCanceled
                   (eventPayload event') now))
               else tx_return ())
        in tx_bind writes (\<lambda>_.
           insertEventAuditEvent
             \<lparr>a_ID = nid 1, a_ActorUserID = organizerID, a_Action = ''event.cancel'',
              a_TargetID = ev, a_TargetType = ''event'',
              a_Result = (if previousStatus = EventCanceled then ''noop'' else ''success''),
              a_CorrelationID = corr,
              a_Metadata = [(''role'', PString role),
                (''previousStatus'', PString (EventStatus_string previousStatus)),
                (''newStatus'', PString (EventStatus_string (e_Status event')))],
              a_CreatedAt = now\<rparr>)))"

definition pgCancelEvent :: "string \<Rightarrow> Net \<Rightarrow> (nat \<Rightarrow> string) \<Rightarrow> string \<Rightarrow> string \<Rightarrow> Role \<Rightarrow> time
   \<Rightarrow> EventDB \<Rightarrow> EventDB \<times> (event_error + EventDetail)" where
  "pgCancelEvent corr net nid ev organizerID role now d =
     then_detail net ev
       (in_tx ErrStore (cancelEventTx nid corr ev organizerID role now) (n_tx net) (n_commit net) d)"

section \<open>Registrations\<close>

definition joinEventTx ::
  "(nat \<Rightarrow> string) \<Rightarrow> string \<Rightarrow> string \<Rightarrow> string \<Rightarrow> string \<Rightarrow> time \<Rightarrow> JoinResult event_tx" where
  "joinEventTx nid corr ev u key now =
     tx_bind (selectEventForUpdate ev) (\<lambda>event.
     tx_bind (activeRegistrationTx ev u) (\<lambda>found.
     case found of
       Some existing \<Rightarrow> tx_return \<lparr>j_Registration = existing, j_Existing = True\<rparr>
     | None \<Rightarrow>
         tx_bind (confirmedCountTx ev) (\<lambda>confirmed.
         case DecideJoinStatus event confirmed now of
           Inl err \<Rightarrow> tx_fail err
         | Inr status \<Rightarrow>
             tx_bind (if status = Waitlisted then nextWaitlistPositionTx ev else tx_return 0) (\<lambda>pos.
             let reg = \<lparr>r_ID = nid 0, r_EventID = ev, r_UserID = u, r_Status = status,
                        r_WaitlistPosition = pos, r_IdempotencyKey = key,
                        r_CreatedAt = now, r_UpdatedAt = now\<rparr>
             in tx_bind (insertRegistration reg) (\<lambda>_.
                tx_bind (insertOutbox (nid 1) corr ''registration'' (r_ID reg)
                  (if status = Waitlisted then RoutingJoinWaitlisted else RoutingJoinConfirmed)
                  (registrationPayload reg) now) (\<lambda>_.
                tx_return \<lparr>j_Registration = reg, j_Existing = False\<rparr>))))))"

definition pgJoinEvent :: "string \<Rightarrow> Net \<Rightarrow> (nat \<Rightarrow> string) \<Rightarrow> string \<Rightarrow> string \<Rightarrow> string \<Rightarrow> time
   \<Rightarrow> EventDB \<Rightarrow> EventDB \<times> (event_error + JoinResult)" where
  "pgJoinEvent corr net nid ev u key now d =
     in_tx ErrStore (joinEventTx nid corr ev u key now) (n_tx net) (n_commit net) d"

definition promoteTx ::
  "(nat \<Rightarrow> string) \<Rightarrow> string \<Rightarrow> string \<Rightarrow> time \<Rightarrow> CancelJoinResult \<Rightarrow> CancelJoinResult event_tx" where
  "promoteTx nid corr ev now result =
     tx_bind (firstWaitlistedTx ev) (\<lambda>first.
     case first of
       None \<Rightarrow> tx_return result
     | Some row \<Rightarrow>
         (let promoted = row\<lparr>r_Status := Confirmed, r_WaitlistPosition := 0, r_UpdatedAt := now\<rparr>
          in tx_bind (updateRegistrationStatus (r_ID promoted) Confirmed now) (\<lambda>_.
             tx_bind (insertOutbox (nid 1) corr ''registration'' (r_ID promoted) RoutingJoinPromoted
               (registrationTransitionPayload promoted Waitlisted) now) (\<lambda>_.
             tx_return (result\<lparr>c_Promoted := Some promoted\<rparr>)))))"

definition cancelRegistrationTx ::
  "(nat \<Rightarrow> string) \<Rightarrow> string \<Rightarrow> string \<Rightarrow> string \<Rightarrow> time \<Rightarrow> CancelJoinResult event_tx" where
  "cancelRegistrationTx nid corr ev u now =
     tx_bind (activeRegistrationTx ev u) (\<lambda>found.
     case found of
       None \<Rightarrow> tx_bind (latestStatusTx ev u) (\<lambda>status.
         tx_return \<lparr>c_Status = status, c_Canceled = None, c_Promoted = None,
                    c_AlreadyNoActiveReg = True\<rparr>)
     | Some row \<Rightarrow>
         (let oldStatus = r_Status row;
              reg = row\<lparr>r_Status := Canceled, r_UpdatedAt := now, r_WaitlistPosition := 0\<rparr>;
              result = \<lparr>c_Status = Canceled, c_Canceled = Some reg, c_Promoted = None,
                        c_AlreadyNoActiveReg = False\<rparr>
          in tx_bind (updateRegistrationStatus (r_ID reg) Canceled now) (\<lambda>_.
             tx_bind (insertOutbox (nid 0) corr ''registration'' (r_ID reg) RoutingJoinCanceled
               (registrationTransitionPayload reg oldStatus) now) (\<lambda>_.
             if oldStatus = Confirmed then promoteTx nid corr ev now result
             else tx_return result))))"

definition pgCancelJoin :: "string \<Rightarrow> Net \<Rightarrow> (nat \<Rightarrow> string) \<Rightarrow> string \<Rightarrow> string \<Rightarrow> time
   \<Rightarrow> EventDB \<Rightarrow> EventDB \<times> (event_error + CancelJoinResult)" where
  "pgCancelJoin corr net nid ev u now d =
     in_tx ErrStore (tx_bind (selectEventForUpdate ev) (\<lambda>_. cancelRegistrationTx nid corr ev u now))
       (n_tx net) (n_commit net) d"

definition cancelByManagerTx :: "(nat \<Rightarrow> string) \<Rightarrow> string \<Rightarrow> string \<Rightarrow> string \<Rightarrow> Role \<Rightarrow> string
   \<Rightarrow> time \<Rightarrow> CancelJoinResult event_tx" where
  "cancelByManagerTx nid corr ev actorID role targetUserID now =
     tx_bind (selectEventForUpdate ev) (\<lambda>event.
     if e_OrganizerID event \<noteq> actorID \<and> \<not> CanAdmin role then tx_fail ErrForbidden
     else tx_bind (cancelRegistrationTx nid corr ev targetUserID now) (\<lambda>result.
       tx_bind (insertEventAuditEvent
         \<lparr>a_ID = nid 2, a_ActorUserID = actorID, a_Action = ''registration.cancel_by_manager'',
          a_TargetID = targetUserID, a_TargetType = ''registration'', a_Result = ''success'',
          a_CorrelationID = corr,
          a_Metadata = [(''eventId'', PString ev), (''role'', PString role),
            (''status'', PString (RegistrationStatus_string (c_Status result)))],
          a_CreatedAt = now\<rparr>) (\<lambda>_.
       tx_return result)))"

definition pgCancelRegistration :: "string \<Rightarrow> Net \<Rightarrow> (nat \<Rightarrow> string) \<Rightarrow> string \<Rightarrow> string \<Rightarrow> Role
   \<Rightarrow> string \<Rightarrow> time \<Rightarrow> EventDB \<Rightarrow> EventDB \<times> (event_error + CancelJoinResult)" where
  "pgCancelRegistration corr net nid ev actorID role targetUserID now d =
     in_tx ErrStore (cancelByManagerTx nid corr ev actorID role targetUserID now)
       (n_tx net) (n_commit net) d"

section \<open>Counters\<close>

definition pgCountOutboxByRoutingKey :: "Net \<Rightarrow> string \<Rightarrow> EventDB \<Rightarrow> event_error + int" where
  "pgCountOutboxByRoutingKey net routingKey d =
     (if faulty (n_read net) then Inl ErrStore
      else Inr (int (length (filter (\<lambda>m. o_RoutingKey m = routingKey) (db_outbox d)))))"
definition pgConfirmedCount :: "Net \<Rightarrow> string \<Rightarrow> EventDB \<Rightarrow> event_error + int" where
  "pgConfirmedCount net ev d =
     (if faulty (n_read net) then Inl ErrStore
      else Inr (int (mcount (confirmed_for ev) (db_registrations d))))"
definition pgWaitlistedCount :: "Net \<Rightarrow> string \<Rightarrow> EventDB \<Rightarrow> event_error + int" where
  "pgWaitlistedCount net ev d =
     (if faulty (n_read net) then Inl ErrStore
      else Inr (int (mcount (waitlisted_for ev) (db_registrations d))))"
definition pgActiveRegistrationCount :: "Net \<Rightarrow> string \<Rightarrow> string \<Rightarrow> EventDB \<Rightarrow> event_error + int" where
  "pgActiveRegistrationCount net ev u d =
     (if faulty (n_read net) then Inl ErrStore
      else Inr (int (mcount (active_for ev u) (db_registrations d))))"

end
