(* ===== verification/EventPostgresInv.thy ===== *)
theory EventPostgresInv imports EventPostgres begin

text \<open>
  Correctness of the Postgres repository. Every method's transaction is atomic under faults, so
  the lemmas reason about the run without faults; there it keeps the invariant that the in-memory
  repository keeps, and refines the same roster. The interface \<open>registration_store\<close> is
  interpreted on it.
\<close>

section \<open>The invariant\<close>

definition pg_inv :: "EventDB \<Rightarrow> bool" where
  "pg_inv d \<longleftrightarrow> store_inv (db_events d) (db_registrations d) \<and>
     (\<forall>g \<in> set (mvals (db_registrations d)). 0 \<le> r_WaitlistPosition g \<and>
        (r_Status g = Waitlisted \<longrightarrow> 0 < r_WaitlistPosition g))"

definition pg_roster :: "string \<Rightarrow> EventDB \<Rightarrow> Roster option" where
  "pg_roster ev d = store_roster (db_events d) (db_registrations d) ev"

definition pg_open :: "string \<Rightarrow> time \<Rightarrow> EventDB \<Rightarrow> bool" where
  "pg_open ev now d \<longleftrightarrow>
     (case map_of (db_events d) ev of
        None \<Rightarrow> False
      | Some e \<Rightarrow> e_Status e \<noteq> EventCanceled \<and> time_after (e_StartsAt e) now)"

text \<open>New identifiers, and a waitlist that has not used up the range of its column.\<close>

definition pg_drawn :: "(nat \<Rightarrow> string) \<Rightarrow> EventDB \<Rightarrow> bool" where
  "pg_drawn nid d \<longleftrightarrow> nid 0 \<noteq> nid 1 \<and> nid 0 \<notin> o_ID ` set (db_outbox d) \<and>
     nid 1 \<notin> o_ID ` set (db_outbox d)"

definition pg_fresh :: "(nat \<Rightarrow> string) \<Rightarrow> EventDB \<Rightarrow> bool" where
  "pg_fresh nid d \<longleftrightarrow> nid 0 \<notin> set (mkeys (db_registrations d)) \<and>
     nid 1 \<notin> o_ID ` set (db_outbox d) \<and>
     (\<forall>g \<in> set (mvals (db_registrations d)). r_WaitlistPosition g < 2 ^ 31 - 1)"

lemma sort_key_order_cong:
  assumes "\<And>x y. x \<in> set xs \<Longrightarrow> y \<in> set xs \<Longrightarrow> f x \<le> f y \<longleftrightarrow> g x \<le> g y"
  shows "sort_key f xs = sort_key g xs"
  using assms
proof (induction xs)
  case (Cons x xs)
  have "insort_key f x ys = insort_key g x ys" if "set ys \<subseteq> set xs" for ys
    using that Cons.prems by (induction ys) auto
  then show ?case using Cons by simp
qed simp

lemma sort_waitlist_order:
  assumes "pg_inv d"
  shows "sort_key waitlist_order (filter (waitlisted_for ev) (mvals (db_registrations d))) =
    sort_key waitlist_key (filter (waitlisted_for ev) (mvals (db_registrations d)))"
proof (rule sort_key_order_cong)
  have pos: "0 < r_WaitlistPosition x"
    if "x \<in> set (filter (waitlisted_for ev) (mvals (db_registrations d)))" for x
    using assms that by (auto simp: pg_inv_def waitlisted_for_def)
  fix x y
  assume "x \<in> set (filter (waitlisted_for ev) (mvals (db_registrations d)))"
    and "y \<in> set (filter (waitlisted_for ev) (mvals (db_registrations d)))"
  then show "waitlist_order x \<le> waitlist_order y \<longleftrightarrow> waitlist_key x \<le> waitlist_key y"
    using pos [of x] pos [of y] by (simp add: waitlist_order_def waitlist_key_def)
qed

lemma fold_max_ge: "a \<le> fold max xs (a::int) \<and> (\<forall>x \<in> set xs. x \<le> fold max xs a)"
proof (induction xs arbitrary: a)
  case (Cons x xs)
  show ?case using Cons [of "max x a"] by (auto simp: max.commute)
qed simp

lemma fold_max_in: "fold max xs (a::int) \<in> insert a (set xs)"
proof (induction xs arbitrary: a)
  case (Cons x xs)
  show ?case using Cons [of "max x a"] by (auto simp: max_def split: if_splits)
qed simp

lemma next_position_gt:
  assumes "g \<in> set (mvals m)" and "r_EventID g = ev" and "r_WaitlistPosition g \<noteq> 0"
  shows "r_WaitlistPosition g < next_position ev m"
proof -
  let ?ps = "filter (\<lambda>p. p \<noteq> 0) (map r_WaitlistPosition (filter (\<lambda>g. r_EventID g = ev) (mvals m)))"
  have in_ps: "r_WaitlistPosition g \<in> set ?ps" using assms by auto
  then obtain p ps where ps: "?ps = p # ps" by (cases ?ps) auto
  with in_ps have "r_WaitlistPosition g \<le> fold max ps p" using fold_max_ge [of p ps] by auto
  then show ?thesis unfolding next_position_def ps by simp
qed

lemma next_position_bounds:
  assumes "\<forall>g \<in> set (mvals m). 0 \<le> r_WaitlistPosition g \<and> r_WaitlistPosition g < b" and "0 < b"
  shows "0 < next_position ev m \<and> next_position ev m \<le> b"
proof -
  let ?ps = "filter (\<lambda>p. p \<noteq> 0) (map r_WaitlistPosition (filter (\<lambda>g. r_EventID g = ev) (mvals m)))"
  have ps: "\<forall>p \<in> set ?ps. 0 \<le> p \<and> p < b" using assms(1) by auto
  show ?thesis
  proof (cases ?ps)
    case Nil
    then show ?thesis unfolding next_position_def Nil using assms(2) by simp
  next
    case (Cons p qs)
    then have "0 \<le> fold max qs p \<and> fold max qs p < b"
      using ps fold_max_in [of qs p] by auto
    then show ?thesis unfolding next_position_def Cons by simp
  qed
qed

section \<open>Reading\<close>

lemma select_run:
  "selectEventForUpdate ev [] d =
     (case map_of (db_events d) ev of None \<Rightarrow> (Inl ErrNotFound, [], d) | Some e \<Rightarrow> (Inr e, [], d))"
  by (simp add: selectEventForUpdate_def tx_bind_def tx_simps split: option.split)

lemma first_row_sort:
  "first_row (sort_key k xs) = (if xs = [] then None else Some (hd (sort_key k xs)))"
proof (cases "sort_key k xs")
  case Nil
  then have "xs = []" by (metis set_empty set_sort)
  then show ?thesis by (simp add: first_row_def)
next
  case (Cons y ys)
  then have "xs \<noteq> []" by auto
  then show ?thesis by (simp add: first_row_def Cons)
qed

lemma active_row:
  "activeRegistrationTx ev u [] d = (Inr found, [], d) \<Longrightarrow>
   (case found of
      None \<Rightarrow> u \<notin> set (active_users ev (mvals (db_registrations d)))
    | Some g \<Rightarrow> g \<in> set (mvals (db_registrations d)) \<and> r_EventID g = ev \<and> r_UserID g = u \<and>
        active g)"
proof -
  let ?xs = "filter (active_for ev u) (mvals (db_registrations d))"
  assume "activeRegistrationTx ev u [] d = (Inr found, [], d)"
  then have found: "found = (if ?xs = [] then None else Some (hd (sort_key r_CreatedAt ?xs)))"
    by (simp add: activeRegistrationTx_def tx_simps first_row_sort)
  show ?thesis
  proof (cases "?xs = []")
    case True
    then show ?thesis
      using found by (auto simp: active_users_def active_for_def filter_empty_conv)
  next
    case False
    then show ?thesis
      using found hd_sort_filter [of "active_for ev u" "mvals (db_registrations d)" _ r_CreatedAt]
      by (auto simp: active_for_def)
  qed
qed

section \<open>Joining\<close>

definition pg_joined :: "(nat \<Rightarrow> string) \<Rightarrow> string \<Rightarrow> string \<Rightarrow> string \<Rightarrow> time \<Rightarrow> RegistrationStatus
   \<Rightarrow> EventDB \<Rightarrow> Registration" where
  "pg_joined nid ev u key now status d =
     \<lparr>r_ID = nid 0, r_EventID = ev, r_UserID = u, r_Status = status,
      r_WaitlistPosition = (if status = Waitlisted then next_position ev (db_registrations d) else 0),
      r_IdempotencyKey = key, r_CreatedAt = now, r_UpdatedAt = now\<rparr>"

lemma pg_joined_sel [simp]:
  "r_ID (pg_joined nid ev u key now s d) = nid 0"
  "r_EventID (pg_joined nid ev u key now s d) = ev"
  "r_UserID (pg_joined nid ev u key now s d) = u"
  "r_Status (pg_joined nid ev u key now s d) = s"
  by (simp_all add: pg_joined_def)

lemma registration_row_sel [simp]:
  "r_ID (registration_row g) = r_ID g" "r_EventID (registration_row g) = r_EventID g"
  "r_UserID (registration_row g) = r_UserID g" "r_Status (registration_row g) = r_Status g"
  "r_WaitlistPosition (registration_row g) = r_WaitlistPosition g"
  "active (registration_row g) \<longleftrightarrow> active g"
  by (simp_all add: registration_row_def active_def)

text \<open>The row that a message becomes.\<close>

definition pg_message :: "string \<Rightarrow> string \<Rightarrow> string \<Rightarrow> string \<Rightarrow> string \<Rightarrow> payload \<Rightarrow> time \<Rightarrow> OutboxMessage" where
  "pg_message i corr aggregateType aggregateID routingKey p now =
     \<lparr>o_ID = i, o_AggregateType = aggregateType, o_AggregateID = aggregateID, o_RoutingKey = routingKey,
      o_Payload = withCorrelation corr p, o_Status = ''PENDING'', o_CreatedAt = pg_ts now,
      o_AvailableAt = pg_ts now, o_SentAt = None\<rparr>"

lemma pg_message_sel [simp]:
  "o_ID (pg_message i corr t a k p now) = i" "o_AggregateType (pg_message i corr t a k p now) = t"
  "o_AggregateID (pg_message i corr t a k p now) = a" "o_RoutingKey (pg_message i corr t a k p now) = k"
  "o_Payload (pg_message i corr t a k p now) = withCorrelation corr p"
  "o_CreatedAt (pg_message i corr t a k p now) = pg_ts now"
  by (simp_all add: pg_message_def)

lemma insertOutbox_run:
  "insertOutbox i corr t a k p now [] d =
     (if i \<in> o_ID ` set (db_outbox d) then (Inl ErrStore, [], d)
      else (Inr (), [], d\<lparr>db_outbox := db_outbox d @ [pg_message i corr t a k p now]\<rparr>))"
  by (simp add: insertOutbox_def pg_message_def tx_simps)

text \<open>Messages under identifiers that are not in use.\<close>

definition pg_new_ids :: "OutboxMessage list \<Rightarrow> EventDB \<Rightarrow> bool" where
  "pg_new_ids ms d \<longleftrightarrow> distinct (map o_ID ms) \<and> o_ID ` set ms \<inter> o_ID ` set (db_outbox d) = {}"

text \<open>The run of a join without faults.\<close>

definition pg_join_message ::
  "(nat \<Rightarrow> string) \<Rightarrow> string \<Rightarrow> string \<Rightarrow> string \<Rightarrow> string \<Rightarrow> time \<Rightarrow> RegistrationStatus \<Rightarrow> EventDB \<Rightarrow> OutboxMessage" where
  "pg_join_message nid corr ev u key now s d =
     pg_message (nid 1) corr ''registration'' (nid 0)
       (if s = Waitlisted then RoutingJoinWaitlisted else RoutingJoinConfirmed)
       (registrationPayload (pg_joined nid ev u key now s d)) now"

lemma join_new_run:
  assumes "map_of (db_events d) ev = Some e"
    and "filter (active_for ev u) (mvals (db_registrations d)) = []"
    and "DecideJoinStatus e (int (mcount (confirmed_for ev) (db_registrations d))) now = Inr s"
  shows "joinEventTx nid corr ev u key now [] d =
    (if map_of (db_registrations d) (nid 0) = None \<and>
        int4 (r_WaitlistPosition (pg_joined nid ev u key now s d))
     then if nid 1 \<notin> o_ID ` set (db_outbox d)
       then (Inr \<lparr>j_Registration = pg_joined nid ev u key now s d, j_Existing = False\<rparr>, [],
         d\<lparr>db_registrations := mput (nid 0) (registration_row (pg_joined nid ev u key now s d))
                                 (db_registrations d),
           db_outbox := db_outbox d @ [pg_join_message nid corr ev u key now s d]\<rparr>)
       else (Inl ErrStore, [], d\<lparr>db_registrations := mput (nid 0)
              (registration_row (pg_joined nid ev u key now s d)) (db_registrations d)\<rparr>)
     else (Inl ErrStore, [], d))"
proof -
  have s: "s = Confirmed \<or> s = Waitlisted"
    using assms(3) by (auto simp: DecideJoinStatus_Inr)
  show ?thesis
    using assms s
    by (auto simp: joinEventTx_def tx_bind_def select_run activeRegistrationTx_def first_row_def
        confirmedCountTx_def nextWaitlistPositionTx_def insertRegistration_def insertOutbox_run
        pg_join_message_def pg_joined_def tx_simps Let_def)
qed

lemma join_cases:
  "(\<exists>r. joinEventTx nid corr ev u key now [] d = (r, [], d)) \<or>
   (\<exists>e s. map_of (db_events d) ev = Some e \<and>
      filter (active_for ev u) (mvals (db_registrations d)) = [] \<and>
      DecideJoinStatus e (int (mcount (confirmed_for ev) (db_registrations d))) now = Inr s)"
proof (cases "map_of (db_events d) ev")
  case None
  then show ?thesis by (simp add: joinEventTx_def tx_bind_def select_run)
next
  case (Some e)
  show ?thesis
  proof (cases "filter (active_for ev u) (mvals (db_registrations d)) = []")
    case True
    then show ?thesis
      using Some
      by (cases "DecideJoinStatus e (int (mcount (confirmed_for ev) (db_registrations d))) now")
        (auto simp: joinEventTx_def tx_bind_def select_run activeRegistrationTx_def first_row_def
          confirmedCountTx_def tx_simps)
  next
    case False
    then show ?thesis
      using Some
      by (simp add: joinEventTx_def tx_bind_def select_run activeRegistrationTx_def first_row_sort
          tx_simps)
  qed
qed


lemma pg_count: "mcount (confirmed_for ev) m = confirmed_count ev (mvals m)"
  by (simp add: mcount_def confirmed_count_def)

lemma no_active_user:
  "filter (active_for ev u) gs = [] \<longleftrightarrow> u \<notin> set (active_users ev gs)"
  by (auto simp: active_users_def active_for_def filter_empty_conv)

lemma pg_joined_last:
  assumes "pg_inv d" and "(k, h) \<in> set (db_registrations d)" and "waitlisted_for ev h"
  shows "r_WaitlistPosition h < r_WaitlistPosition (pg_joined nid ev u key now Waitlisted d)"
proof -
  have "h \<in> set (mvals (db_registrations d))" using assms(2) by force
  moreover from this have "r_WaitlistPosition h \<noteq> 0"
    using assms by (force simp: pg_inv_def waitlisted_for_def)
  ultimately show ?thesis
    using next_position_gt [of h "db_registrations d" ev] assms(3)
    by (simp add: pg_joined_def waitlisted_for_def)
qed

lemma pg_inv_positions:
  "pg_inv d \<Longrightarrow> 0 \<le> r_WaitlistPosition (pg_joined nid ev u key now s d) \<and>
     (s = Waitlisted \<longrightarrow> 0 < r_WaitlistPosition (pg_joined nid ev u key now s d))"
proof -
  assume inv: "pg_inv d"
  let ?P = "r_WaitlistPosition ` set (mvals (db_registrations d))"
  have "\<forall>g \<in> set (mvals (db_registrations d)). 0 \<le> r_WaitlistPosition g \<and>
      r_WaitlistPosition g < max 1 (Max ?P + 1)"
  proof
    fix g assume g: "g \<in> set (mvals (db_registrations d))"
    then have "r_WaitlistPosition g \<le> Max ?P" by (intro Max_ge) auto
    then show "0 \<le> r_WaitlistPosition g \<and> r_WaitlistPosition g < max 1 (Max ?P + 1)"
      using inv g unfolding pg_inv_def by (metis less_max_iff_disj zle_add1_eq_le add.commute)
  qed
  from next_position_bounds [OF this, of ev] show ?thesis by (auto simp: pg_joined_def less_max_iff_disj)
qed

lemma pg_joined_state:
  assumes inv: "pg_inv d" and e: "map_of (db_events d) ev = Some e"
    and none: "filter (active_for ev u) (mvals (db_registrations d)) = []"
    and s: "DecideJoinStatus e (int (mcount (confirmed_for ev) (db_registrations d))) now = Inr s"
    and k: "map_of (db_registrations d) (nid 0) = None"
    and g_def: "g = registration_row (pg_joined nid ev u key now s d)"
  shows "store_inv (db_events d) (mput (nid 0) g (db_registrations d))"
    and "store_roster (db_events d) (mput (nid 0) g (db_registrations d)) ev =
      map_option (spec_join u) (store_roster (db_events d) (db_registrations d) ev)"
    and "ev' \<noteq> ev \<Longrightarrow> store_roster (db_events d) (mput (nid 0) g (db_registrations d)) ev' =
      store_roster (db_events d) (db_registrations d) ev'"
proof -
  have st: "e_Status e \<noteq> EventCanceled" "s = (if int (confirmed_count ev (mvals (db_registrations d)))
      < e_Capacity e then Confirmed else Waitlisted)"
    using s by (auto simp: DecideJoinStatus_Inr pg_count)
  have k': "nid 0 \<notin> set (mkeys (db_registrations d))" using k by (rule iffD1 [OF map_of_None_keys])
  have pos: "r_WaitlistPosition h < r_WaitlistPosition g"
    if "r_Status g = Waitlisted" "h \<in> set (mvals (db_registrations d))" "waitlisted_for ev h" for h
    using pg_joined_last [OF inv, of _ h ev nid u key now] that by (auto simp: g_def)
  note si = inv [unfolded pg_inv_def, THEN conjunct1]
  show "store_inv (db_events d) (mput (nid 0) g (db_registrations d))"
    by (rule store_inv_join [OF si e st(1) _ _ k' _ _ pos])
      (use st(2) none in \<open>simp_all add: g_def no_active_user\<close>)
  show "store_roster (db_events d) (mput (nid 0) g (db_registrations d)) ev =
      map_option (spec_join u) (store_roster (db_events d) (db_registrations d) ev)"
    by (rule store_roster_join [OF si e _ _ k' _ _ pos])
      (use st(2) none in \<open>simp_all add: g_def no_active_user\<close>)
  show "store_roster (db_events d) (mput (nid 0) g (db_registrations d)) ev' =
      store_roster (db_events d) (db_registrations d) ev'" if "ev' \<noteq> ev"
    by (rule store_roster_join_other [OF k']) (use that in \<open>simp add: g_def\<close>)
qed

lemma pg_join_state:
  "fst (pgJoinEvent corr quiet nid ev u key now d) = d \<or>
   (\<exists>e s. map_of (db_events d) ev = Some e \<and>
      filter (active_for ev u) (mvals (db_registrations d)) = [] \<and>
      DecideJoinStatus e (int (mcount (confirmed_for ev) (db_registrations d))) now = Inr s \<and>
      map_of (db_registrations d) (nid 0) = None \<and>
      db_events (fst (pgJoinEvent corr quiet nid ev u key now d)) = db_events d \<and>
      db_registrations (fst (pgJoinEvent corr quiet nid ev u key now d)) =
        mput (nid 0) (registration_row (pg_joined nid ev u key now s d)) (db_registrations d) \<and>
      db_outbox (fst (pgJoinEvent corr quiet nid ev u key now d)) =
        db_outbox d @ [pg_join_message nid corr ev u key now s d] \<and> nid 1 \<notin> o_ID ` set (db_outbox d))"
  using join_cases [of nid corr ev u key now d]
proof (elim disjE exE conjE)
  fix r assume "joinEventTx nid corr ev u key now [] d = (r, [], d)"
  then show ?thesis
    by (simp add: pgJoinEvent_def quiet_def in_tx_error_free split: sum.split)
next
  fix e s
  assume "map_of (db_events d) ev = Some e"
    and "filter (active_for ev u) (mvals (db_registrations d)) = []"
    and "DecideJoinStatus e (int (mcount (confirmed_for ev) (db_registrations d))) now = Inr s"
  then show ?thesis
    using join_new_run [of d ev e u now s nid corr key]
    by (auto simp: pgJoinEvent_def quiet_def in_tx_error_free split: if_splits)
qed

lemma pg_join_inv:
  assumes "pg_inv d"
  shows "pg_inv (fst (pgJoinEvent corr quiet nid ev u key now d))"
  using pg_join_state [of corr nid ev u key now d]
proof (elim disjE exE conjE)
  fix e s
  assume a: "map_of (db_events d) ev = Some e"
      "filter (active_for ev u) (mvals (db_registrations d)) = []"
      "DecideJoinStatus e (int (mcount (confirmed_for ev) (db_registrations d))) now = Inr s"
      "map_of (db_registrations d) (nid 0) = None"
    and es: "db_events (fst (pgJoinEvent corr quiet nid ev u key now d)) = db_events d"
    and rs: "db_registrations (fst (pgJoinEvent corr quiet nid ev u key now d)) =
        mput (nid 0) (registration_row (pg_joined nid ev u key now s d)) (db_registrations d)"
  have k: "nid 0 \<notin> set (mkeys (db_registrations d))" using a(4) by (rule iffD1 [OF map_of_None_keys])
  show ?thesis
    using pg_joined_state(1) [where nid = nid, OF assms a refl] pg_inv_positions [OF assms, of nid ev u key now s] assms k
    by (auto simp: pg_inv_def es rs mput_fresh)
qed (simp add: assms)

lemma pg_join_other:
  assumes "pg_inv d" and "ev' \<noteq> ev"
  shows "pg_roster ev' (fst (pgJoinEvent corr quiet nid ev u key now d)) = pg_roster ev' d"
  using pg_join_state [of corr nid ev u key now d]
proof (elim disjE exE conjE)
  fix e s
  assume a: "map_of (db_events d) ev = Some e"
      "filter (active_for ev u) (mvals (db_registrations d)) = []"
      "DecideJoinStatus e (int (mcount (confirmed_for ev) (db_registrations d))) now = Inr s"
      "map_of (db_registrations d) (nid 0) = None"
    and "db_events (fst (pgJoinEvent corr quiet nid ev u key now d)) = db_events d"
      "db_registrations (fst (pgJoinEvent corr quiet nid ev u key now d)) =
        mput (nid 0) (registration_row (pg_joined nid ev u key now s d)) (db_registrations d)"
  then show ?thesis using pg_joined_state(3) [where nid = nid, OF assms(1) a refl assms(2)] by (simp add: pg_roster_def)
qed simp

lemma pg_join_roster:
  assumes inv: "pg_inv d" and fresh: "pg_fresh nid d" and op: "pg_open ev now d"
    and ro: "pg_roster ev d = Some ro"
  shows "pg_roster ev (fst (pgJoinEvent corr quiet nid ev u key now d)) = Some (spec_join u ro)"
proof -
  obtain e where e: "map_of (db_events d) ev = Some e"
    and ro': "ro = roster_of (e_Capacity e) ev (mvals (db_registrations d))"
    using ro by (auto simp: pg_roster_def store_roster_def)
  show ?thesis
  proof (cases "filter (active_for ev u) (mvals (db_registrations d)) = []")
    case True
    define s where "s = (if int (mcount (confirmed_for ev) (db_registrations d)) < e_Capacity e
      then Confirmed else Waitlisted)"
    have s: "DecideJoinStatus e (int (mcount (confirmed_for ev) (db_registrations d))) now = Inr s"
      using op e by (simp add: DecideJoinStatus_Inr pg_open_def s_def time_after_def)
    have k: "map_of (db_registrations d) (nid 0) = None"
      unfolding map_of_None_keys using fresh by (simp add: pg_fresh_def)
    have "\<forall>g \<in> set (mvals (db_registrations d)). 0 \<le> r_WaitlistPosition g \<and>
        r_WaitlistPosition g < 2 ^ 31 - 1"
      using inv fresh by (simp add: pg_inv_def pg_fresh_def)
    then have "int4 (r_WaitlistPosition (pg_joined nid ev u key now s d))"
      using next_position_bounds [of "db_registrations d" "2 ^ 31 - 1" ev]
      by (auto simp: pg_joined_def int4_def)
    then have "db_events (fst (pgJoinEvent corr quiet nid ev u key now d)) = db_events d"
      "db_registrations (fst (pgJoinEvent corr quiet nid ev u key now d)) =
        mput (nid 0) (registration_row (pg_joined nid ev u key now s d)) (db_registrations d)"
      using join_new_run [OF e True s, of nid corr key] k fresh
      by (simp_all add: pgJoinEvent_def quiet_def in_tx_error_free pg_fresh_def)
    then show ?thesis
      using pg_joined_state(2) [where nid = nid, OF inv e True s k refl] ro by (simp add: pg_roster_def)
  next
    case False
    then have "u \<in> ro_members ro" by (simp add: ro' members_roster_of no_active_user)
    moreover have "fst (pgJoinEvent corr quiet nid ev u key now d) = d"
      using e False
      by (simp add: pgJoinEvent_def quiet_def in_tx_error_free joinEventTx_def tx_bind_def select_run
          activeRegistrationTx_def first_row_sort tx_simps)
    ultimately show ?thesis using ro by (simp add: spec_join_def)
  qed
qed


section \<open>Leaving\<close>

definition pg_left :: "time \<Rightarrow> Registration \<Rightarrow> Registration" where
  "pg_left now g = g\<lparr>r_Status := Canceled, r_WaitlistPosition := 0, r_UpdatedAt := pg_ts now\<rparr>"

definition pg_promoted :: "time \<Rightarrow> Registration \<Rightarrow> Registration" where
  "pg_promoted now g = g\<lparr>r_Status := Confirmed, r_WaitlistPosition := 0, r_UpdatedAt := pg_ts now\<rparr>"

lemma pg_left_sel [simp]:
  "r_ID (pg_left now g) = r_ID g" "r_EventID (pg_left now g) = r_EventID g"
  "r_UserID (pg_left now g) = r_UserID g" "r_Status (pg_left now g) = Canceled"
  "r_WaitlistPosition (pg_left now g) = 0" "\<not> active (pg_left now g)"
  by (simp_all add: pg_left_def active_def)

lemma pg_promoted_sel [simp]:
  "r_ID (pg_promoted now g) = r_ID g" "r_EventID (pg_promoted now g) = r_EventID g"
  "r_UserID (pg_promoted now g) = r_UserID g" "r_Status (pg_promoted now g) = Confirmed"
  "r_WaitlistPosition (pg_promoted now g) = 0"
  by (simp_all add: pg_promoted_def)

lemma update_rows_put:
  assumes inv: "store_inv es m" and g: "g \<in> set (mvals m)"
  shows "update_rows (r_ID g) f m = mput (r_ID g) (f g) m"
proof -
  obtain xs ys where m: "m = xs @ (r_ID g, g) # ys"
    and put: "\<And>g'. mput (r_ID g) g' m = xs @ (r_ID g, g') # ys"
    by (rule store_split [OF inv g]) (rule that)
  have "distinct (mkeys m)" and refs: "refs_ok es m" using inv by (auto simp: store_inv_def)
  then have "r_ID g \<notin> fst ` set xs" "r_ID g \<notin> fst ` set ys" by (auto simp: m)
  moreover have "r_ID h = k" if "(k, h) \<in> set xs \<union> set ys" for k h
    using refs that unfolding refs_ok_def m by auto
  ultimately have other: "r_ID h \<noteq> r_ID g" if "(k, h) \<in> set xs \<union> set ys" for k h
    using that by force
  have "map (\<lambda>(k, h). (k, if r_ID h = r_ID g then f h else h)) zs = zs"
    if "set zs \<subseteq> set xs \<union> set ys" for zs
    using that by (induction zs) (use other in \<open>fastforce+\<close>)
  then show ?thesis unfolding put by (simp add: update_rows_def m)
qed

lemma update_status_run:
  "updateRegistrationStatus i status now [] d =
     (Inr (), [], d\<lparr>db_registrations := update_rows i
        (\<lambda>g. g\<lparr>r_Status := status, r_WaitlistPosition := 0, r_UpdatedAt := pg_ts now\<rparr>)
        (db_registrations d)\<rparr>)"
  by (simp add: updateRegistrationStatus_def tx_simps)

text \<open>The tables after \<open>g\<close> left and the first of the waitlist, if any, was promoted.\<close>

definition pg_regs_left :: "time \<Rightarrow> Registration \<Rightarrow> EventDB \<Rightarrow> (string, Registration) gomap" where
  "pg_regs_left now g d = mput (r_ID g) (pg_left now g) (db_registrations d)"

definition pg_first_waiting :: "string \<Rightarrow> (string, Registration) gomap \<Rightarrow> Registration option" where
  "pg_first_waiting ev m = first_row (sort_key waitlist_order (filter (waitlisted_for ev) (mvals m)))"

definition pg_regs_after :: "string \<Rightarrow> time \<Rightarrow> Registration \<Rightarrow> EventDB \<Rightarrow> (string, Registration) gomap" where
  "pg_regs_after ev now g d =
     (if r_Status g = Confirmed
      then (case pg_first_waiting ev (pg_regs_left now g d) of
              None \<Rightarrow> pg_regs_left now g d
            | Some f \<Rightarrow> mput (r_ID f) (pg_promoted now f) (pg_regs_left now g d))
      else pg_regs_left now g d)"

lemma pg_left_inv:
  assumes "pg_inv d" and "g \<in> set (mvals (db_registrations d))"
  shows "store_inv (db_events d) (pg_regs_left now g d)"
  using store_inv_replace [of "db_events d" "db_registrations d" g "pg_left now g"] assms
  by (simp add: pg_inv_def pg_regs_left_def)

lemma mput_val: "h \<in> set (mvals (mput k v m)) \<Longrightarrow> h = v \<or> h \<in> set (mvals m)"
  by (induction m) (auto split: if_splits)

lemma pg_left_positions:
  assumes "pg_inv d" and "h \<in> set (mvals (pg_regs_left now g d))"
  shows "0 \<le> r_WaitlistPosition h \<and> (r_Status h = Waitlisted \<longrightarrow> 0 < r_WaitlistPosition h)"
  using mput_val [OF assms(2) [unfolded pg_regs_left_def]] assms(1) by (auto simp: pg_inv_def)

lemma pg_left_db_inv:
  assumes "pg_inv d" and "g \<in> set (mvals (db_registrations d))"
  shows "pg_inv (d\<lparr>db_registrations := pg_regs_left now g d\<rparr>)"
  using pg_left_inv [OF assms] pg_left_positions [OF assms(1)] by (simp add: pg_inv_def)

lemma pg_first_waiting_some:
  assumes "pg_inv (d\<lparr>db_registrations := m\<rparr>)" and "pg_first_waiting ev m = Some f"
  shows "filter (waitlisted_for ev) (mvals m) \<noteq> []"
    and "f = hd (sort_key waitlist_key (filter (waitlisted_for ev) (mvals m)))"
    and "waitlisted_for ev f" and "f \<in> set (mvals m)"
proof -
  show ne: "filter (waitlisted_for ev) (mvals m) \<noteq> []"
    using assms(2) by (auto simp: pg_first_waiting_def first_row_sort split: if_splits)
  show f: "f = hd (sort_key waitlist_key (filter (waitlisted_for ev) (mvals m)))"
    using assms(2) ne sort_waitlist_order [OF assms(1), of ev]
    by (simp add: pg_first_waiting_def first_row_sort split: if_splits)
  show "waitlisted_for ev f" "f \<in> set (mvals m)" using hd_sort_filter [OF ne f] by auto
qed

lemma pg_left_split:
  assumes inv: "pg_inv d" and g: "g \<in> set (mvals (db_registrations d))"
  obtains xs ys where "db_registrations d = xs @ (r_ID g, g) # ys"
    and "pg_regs_left now g d = xs @ (r_ID g, pg_left now g) # ys"
  using store_split [of "db_events d" "db_registrations d" g] assms
  unfolding pg_inv_def pg_regs_left_def by metis

lemma pg_after_inv:
  assumes inv: "pg_inv d" and g: "g \<in> set (mvals (db_registrations d))" "r_EventID g = ev" "active g"
  shows "pg_inv (d\<lparr>db_registrations := pg_regs_after ev now g d\<rparr>)"
proof (cases "r_Status g = Confirmed \<and> pg_first_waiting ev (pg_regs_left now g d) \<noteq> None")
  case False
  then have "pg_regs_after ev now g d = pg_regs_left now g d"
    by (auto simp: pg_regs_after_def)
  then show ?thesis using pg_left_db_inv [OF inv g(1)] by simp
next
  case True
  then obtain f where f: "pg_first_waiting ev (pg_regs_left now g d) = Some f" by blast
  note pf = pg_first_waiting_some [OF pg_left_db_inv [OF inv g(1)] f]
  obtain xs ys where m: "db_registrations d = xs @ (r_ID g, g) # ys"
    and l: "pg_regs_left now g d = xs @ (r_ID g, pg_left now g) # ys"
    by (rule pg_left_split [OF inv g(1)])
  have "int (confirmed_count ev (mvals (pg_regs_left now g d))) < e_Capacity e"
    if "map_of (db_events d) ev = Some e" for e
  proof -
    have "event_ok ev e (mvals (db_registrations d))"
      using inv that by (simp add: pg_inv_def store_inv_def)
    then show ?thesis using True g(2) by (simp add: event_ok_def m l for_defs)
  qed
  then have "store_inv (db_events d)
      (mput (r_ID (pg_promoted now f)) (pg_promoted now f) (pg_regs_left now g d))"
    using pf(3,4) by (intro store_inv_replace [OF pg_left_inv [OF inv g(1)]]) (auto simp: for_defs)
  moreover have "0 \<le> r_WaitlistPosition h \<and> (r_Status h = Waitlisted \<longrightarrow> 0 < r_WaitlistPosition h)"
    if "h \<in> set (mvals (mput (r_ID f) (pg_promoted now f) (pg_regs_left now g d)))" for h
    using mput_val [OF that] pg_left_positions [OF inv, of h now g] by auto
  ultimately show ?thesis using True f by (simp add: pg_inv_def pg_regs_after_def)
qed

lemma pg_after_roster:
  assumes inv: "pg_inv d" and g: "g \<in> set (mvals (db_registrations d))" "r_EventID g = ev" "active g"
  shows "store_roster (db_events d) (pg_regs_after ev now g d) ev =
    map_option (spec_cancel (r_UserID g)) (store_roster (db_events d) (db_registrations d) ev)"
proof (cases "r_Status g = Confirmed \<and> pg_first_waiting ev (pg_regs_left now g d) \<noteq> None")
  case False
  obtain xs ys where m: "db_registrations d = xs @ (r_ID g, g) # ys"
    and l: "pg_regs_left now g d = xs @ (r_ID g, pg_left now g) # ys"
    by (rule pg_left_split [OF inv g(1)])
  have "filter (waitlisted_for ev) (mvals (db_registrations d)) = []" if "r_Status g = Confirmed"
    using False that
    by (auto simp: pg_first_waiting_def first_row_sort m l waitlisted_for_def split: if_splits)
  moreover have "pg_regs_after ev now g d =
      mput (r_ID (pg_left now g)) (pg_left now g) (db_registrations d)"
    using False by (auto simp: pg_regs_after_def pg_regs_left_def)
  ultimately show ?thesis
    using store_roster_cancel [of "db_events d" "db_registrations d" g ev "pg_left now g"] inv g
    by (simp add: pg_inv_def)
next
  case True
  then obtain f where f: "pg_first_waiting ev (pg_regs_left now g d) = Some f" by blast
  note pf = pg_first_waiting_some [OF pg_left_db_inv [OF inv g(1)] f]
  have si: "store_inv (db_events d) (db_registrations d)" using inv by (simp add: pg_inv_def)
  have "store_roster (db_events d)
      (mput (r_ID (pg_promoted now f)) (pg_promoted now f) (pg_regs_left now g d)) ev =
    map_option (spec_cancel (r_UserID g)) (store_roster (db_events d) (db_registrations d) ev)"
    by (rule store_roster_promote [OF si g(1) _ _ _ _ _ pg_left_inv [OF inv g(1)] _ pf(1,2),
          of "pg_left now g"])
      (use g True in \<open>simp_all add: pg_regs_left_def confirmed_for_def\<close>)
  then show ?thesis using True f by (simp add: pg_regs_after_def)
qed

lemma pg_after_other:
  assumes inv: "pg_inv d" and g: "g \<in> set (mvals (db_registrations d))" "r_EventID g = ev"
    and ev: "ev' \<noteq> ev"
  shows "store_roster (db_events d) (pg_regs_after ev now g d) ev' =
    store_roster (db_events d) (db_registrations d) ev'"
proof -
  have si: "store_inv (db_events d) (db_registrations d)" using inv by (simp add: pg_inv_def)
  have left: "store_roster (db_events d) (pg_regs_left now g d) ev' =
      store_roster (db_events d) (db_registrations d) ev'"
    using store_roster_replace_other [OF si g(1), of ev' "pg_left now g"] g ev
    by (simp add: pg_regs_left_def)
  have "store_roster (db_events d) (mput (r_ID f) (pg_promoted now f) (pg_regs_left now g d)) ev' =
      store_roster (db_events d) (pg_regs_left now g d) ev'"
    if "pg_first_waiting ev (pg_regs_left now g d) = Some f" for f
    using pg_first_waiting_some(3,4) [OF pg_left_db_inv [OF inv g(1)] that] ev
      store_roster_replace_other [OF pg_left_inv [OF inv g(1)],
        where g = f and ev = ev' and g' = "pg_promoted now f"]
    by (simp add: waitlisted_for_def)
  with left show ?thesis by (auto simp: pg_regs_after_def split: option.split)
qed

text \<open>A cancellation without faults: nothing, or all of it, with its messages.\<close>

definition pg_promote_messages ::
  "(nat \<Rightarrow> string) \<Rightarrow> string \<Rightarrow> time \<Rightarrow> Registration option \<Rightarrow> OutboxMessage list" where
  "pg_promote_messages nid corr now first =
     (case first of
        None \<Rightarrow> []
      | Some f \<Rightarrow> [pg_message (nid 1) corr ''registration'' (r_ID f) RoutingJoinPromoted
          (registrationTransitionPayload
            (f\<lparr>r_Status := Confirmed, r_WaitlistPosition := 0, r_UpdatedAt := now\<rparr>) Waitlisted) now])"

definition pg_cancel_message :: "(nat \<Rightarrow> string) \<Rightarrow> string \<Rightarrow> time \<Rightarrow> Registration \<Rightarrow> OutboxMessage" where
  "pg_cancel_message nid corr now g =
     pg_message (nid 0) corr ''registration'' (r_ID g) RoutingJoinCanceled
       (registrationTransitionPayload
         (g\<lparr>r_Status := Canceled, r_UpdatedAt := now, r_WaitlistPosition := 0\<rparr>) (r_Status g)) now"

definition pg_cancel_messages ::
  "(nat \<Rightarrow> string) \<Rightarrow> string \<Rightarrow> string \<Rightarrow> time \<Rightarrow> Registration \<Rightarrow> EventDB \<Rightarrow> OutboxMessage list" where
  "pg_cancel_messages nid corr ev now g d = pg_cancel_message nid corr now g #
     (if r_Status g = Confirmed
      then pg_promote_messages nid corr now (pg_first_waiting ev (pg_regs_left now g d)) else [])"

lemma promoteTx_run:
  assumes inv: "store_inv (db_events d) (db_registrations d)"
  shows "(\<exists>err d'. promoteTx nid corr ev now res [] d = (Inl err, [], d') \<and> nid 1 \<in> o_ID ` set (db_outbox d)) \<or>
    (pg_first_waiting ev (db_registrations d) \<noteq> None \<longrightarrow> nid 1 \<notin> o_ID ` set (db_outbox d)) \<and>
    (\<exists>res'. promoteTx nid corr ev now res [] d = (Inr res', [],
      d\<lparr>db_registrations := (case pg_first_waiting ev (db_registrations d) of
          None \<Rightarrow> db_registrations d
        | Some f \<Rightarrow> mput (r_ID f) (pg_promoted now f) (db_registrations d)),
        db_outbox := db_outbox d @ pg_promote_messages nid corr now (pg_first_waiting ev (db_registrations d))\<rparr>))"
proof (cases "pg_first_waiting ev (db_registrations d)")
  case None
  then show ?thesis
    by (simp add: promoteTx_def firstWaitlistedTx_def tx_bind_def tx_simps pg_first_waiting_def
        pg_promote_messages_def)
next
  case (Some f)
  then have f: "f \<in> set (mvals (db_registrations d))"
    using hd_sort_filter [of "waitlisted_for ev" "mvals (db_registrations d)" f waitlist_order]
    by (auto simp: pg_first_waiting_def first_row_sort split: if_splits)
  have up: "update_rows (r_ID f)
      (\<lambda>g. g\<lparr>r_Status := Confirmed, r_WaitlistPosition := 0, r_UpdatedAt := pg_ts now\<rparr>)
      (db_registrations d) = mput (r_ID f) (pg_promoted now f) (db_registrations d)"
    using update_rows_put [OF inv f] by (simp add: pg_promoted_def)
  show ?thesis
    using Some
    by (cases "nid 1 \<in> o_ID ` set (db_outbox d)")
      (simp_all add: promoteTx_def firstWaitlistedTx_def tx_bind_def tx_simps Let_def
        pg_first_waiting_def update_status_run up insertOutbox_run pg_promote_messages_def)
qed

lemma cancel_active_run:
  assumes a: "activeRegistrationTx ev u [] d = (Inr (Some g), [], d)"
    and inv: "pg_inv d" and g: "g \<in> set (mvals (db_registrations d))"
    and fresh: "nid 0 \<notin> o_ID ` set (db_outbox d)"
  shows "\<exists>res. cancelRegistrationTx nid corr ev u now [] d =
    (if r_Status g = Confirmed then promoteTx nid corr ev now res else tx_return res) []
      (d\<lparr>db_registrations := pg_regs_left now g d, db_outbox := db_outbox d @ [pg_cancel_message nid corr now g]\<rparr>)"
proof -
  have "update_rows (r_ID g) (\<lambda>g. g\<lparr>r_Status := Canceled, r_WaitlistPosition := 0, r_UpdatedAt := pg_ts now\<rparr>)
      (db_registrations d) = pg_regs_left now g d"
    using update_rows_put [of "db_events d" _ g] inv g by (simp add: pg_inv_def pg_regs_left_def pg_left_def)
  then show ?thesis
    using a fresh
    by (auto simp: cancelRegistrationTx_def tx_bind_def Let_def update_status_run insertOutbox_run
        pg_cancel_message_def)
qed

end
