(* ===== verification/EventPostgresSteps.thy ===== *)
theory EventPostgresSteps imports EventPostgresInv EventMemorySteps begin

text \<open>
  Cancellation in the Postgres repository, its interpretation of \<open>registration_store\<close>, and the
  step relation of the repository under any faults.
\<close>

lemma cancelRegistrationTx_run:
  assumes inv: "pg_inv d"
  shows "(\<exists>err d'. cancelRegistrationTx nid corr ev u now [] d = (Inl err, [], d') \<and> \<not> pg_drawn nid d) \<or>
    (\<exists>res. cancelRegistrationTx nid corr ev u now [] d = (Inr res, [], d)) \<and>
      u \<notin> set (active_users ev (mvals (db_registrations d))) \<or>
    (\<exists>res g. g \<in> set (mvals (db_registrations d)) \<and> r_EventID g = ev \<and> r_UserID g = u \<and> active g \<and>
      pg_new_ids (pg_cancel_messages nid corr ev now g d) d \<and>
      cancelRegistrationTx nid corr ev u now [] d = (Inr res, [],
        d\<lparr>db_registrations := pg_regs_after ev now g d,
          db_outbox := db_outbox d @ pg_cancel_messages nid corr ev now g d\<rparr>))"
proof -
  obtain found where a: "activeRegistrationTx ev u [] d = (Inr found, [], d)"
    by (simp add: activeRegistrationTx_def tx_simps)
  show ?thesis
  proof (cases found)
    case None
    then show ?thesis
      using a active_row [OF a] by (simp add: cancelRegistrationTx_def tx_bind_def latestStatusTx_def tx_simps)
  next
    case (Some g)
    have g: "g \<in> set (mvals (db_registrations d))" "r_EventID g = ev" "r_UserID g = u" "active g"
      using active_row [OF a] Some by auto
    show ?thesis
    proof (cases "nid 0 \<in> o_ID ` set (db_outbox d)")
      case True
      then show ?thesis
        using a Some
        by (simp add: cancelRegistrationTx_def tx_bind_def Let_def update_status_run insertOutbox_run pg_drawn_def)
    next
      case False
      define d2 where "d2 = d\<lparr>db_registrations := pg_regs_left now g d,
        db_outbox := db_outbox d @ [pg_cancel_message nid corr now g]\<rparr>"
      obtain res where run: "cancelRegistrationTx nid corr ev u now [] d =
          (if r_Status g = Confirmed then promoteTx nid corr ev now res else tx_return res) [] d2"
        using cancel_active_run [where nid = nid, OF a [unfolded Some] inv g(1) False] unfolding d2_def by blast
      have left: "db_registrations d2 = pg_regs_left now g d" by (simp add: d2_def)
      have "store_inv (db_events d2) (db_registrations d2)"
        using pg_left_inv [OF inv g(1)] by (simp add: d2_def)
      from promoteTx_run [OF this, of nid corr ev now res, unfolded left]
      have "(\<exists>err d'. cancelRegistrationTx nid corr ev u now [] d = (Inl err, [], d') \<and> \<not> pg_drawn nid d) \<or>
        pg_new_ids (pg_cancel_messages nid corr ev now g d) d \<and>
        (\<exists>res. cancelRegistrationTx nid corr ev u now [] d = (Inr res, [],
          d\<lparr>db_registrations := pg_regs_after ev now g d,
            db_outbox := db_outbox d @ pg_cancel_messages nid corr ev now g d\<rparr>))"
        unfolding run pg_regs_after_def pg_cancel_messages_def
        by (cases "r_Status g = Confirmed")
          (use False in \<open>auto simp: d2_def pg_cancel_message_def pg_drawn_def tx_return_def pg_new_ids_def
            pg_promote_messages_def split: option.splits\<close>)
      then show ?thesis using g by blast
    qed
  qed
qed

text \<open>The database after a cancellation that ran without faults.\<close>

definition pg_after_cancel :: "(nat \<Rightarrow> string) \<Rightarrow> string \<Rightarrow> string \<Rightarrow> string \<Rightarrow> time \<Rightarrow> EventDB \<Rightarrow> EventDB \<Rightarrow> bool" where
  "pg_after_cancel nid corr ev u now d d' \<longleftrightarrow> db_events d' = db_events d \<and>
     (u \<notin> set (active_users ev (mvals (db_registrations d))) \<and>
        db_registrations d' = db_registrations d \<and> db_outbox d' = db_outbox d \<or>
      (\<exists>g \<in> set (mvals (db_registrations d)). r_EventID g = ev \<and> r_UserID g = u \<and> active g \<and>
         db_registrations d' = pg_regs_after ev now g d \<and>
         pg_new_ids (pg_cancel_messages nid corr ev now g d) d \<and>
         db_outbox d' = db_outbox d @ pg_cancel_messages nid corr ev now g d))"

lemma pg_after_cancel_inv: "pg_inv d \<Longrightarrow> pg_after_cancel nid corr ev u now d d' \<Longrightarrow> pg_inv d'"
  unfolding pg_after_cancel_def
proof (elim conjE disjE bexE)
  fix g
  assume "pg_inv d" "g \<in> set (mvals (db_registrations d))" "r_EventID g = ev" "active g"
  from pg_after_inv [OF this] show "pg_inv d'"
    if "db_events d' = db_events d" "db_registrations d' = pg_regs_after ev now g d"
    using that by (simp add: pg_inv_def)
qed (simp add: pg_inv_def)

lemma pg_after_cancel_roster:
  assumes inv: "pg_inv d" and out: "pg_after_cancel nid corr ev u now d d'" and ro: "pg_roster ev d = Some ro"
  shows "pg_roster ev d' = Some (spec_cancel u ro)"
  using out unfolding pg_after_cancel_def
proof (elim conjE disjE bexE)
  assume es: "db_events d' = db_events d" "db_registrations d' = db_registrations d"
    and u: "u \<notin> set (active_users ev (mvals (db_registrations d)))"
  obtain e where "map_of (db_events d) ev = Some e"
    and "ro = roster_of (e_Capacity e) ev (mvals (db_registrations d))"
    using ro by (auto simp: pg_roster_def store_roster_def)
  then have "u \<notin> ro_members ro" using u by (simp add: members_roster_of)
  moreover from this have "filter (\<lambda>v. v \<noteq> u) (ro_Waitlist ro) = ro_Waitlist ro"
    by (intro filter_all_same) (auto simp: ro_members_def)
  ultimately have "spec_cancel u ro = ro" by (simp add: spec_cancel_def ro_members_def)
  then show ?thesis using ro es by (simp add: pg_roster_def)
next
  fix g
  assume "db_events d' = db_events d" "db_registrations d' = pg_regs_after ev now g d"
    and "g \<in> set (mvals (db_registrations d))" "r_EventID g = ev" "r_UserID g = u" "active g"
  then show ?thesis using pg_after_roster [OF inv, of g ev now] ro by (simp add: pg_roster_def)
qed

lemma pg_after_cancel_other:
  "pg_inv d \<Longrightarrow> pg_after_cancel nid corr ev u now d d' \<Longrightarrow> ev' \<noteq> ev \<Longrightarrow> pg_roster ev' d' = pg_roster ev' d"
  unfolding pg_after_cancel_def
proof (elim conjE disjE bexE)
  fix g
  assume "pg_inv d" "g \<in> set (mvals (db_registrations d))" "r_EventID g = ev" "ev' \<noteq> ev"
  from pg_after_other [OF this] show "pg_roster ev' d' = pg_roster ev' d"
    if "db_events d' = db_events d" "db_registrations d' = pg_regs_after ev now g d"
    using that by (simp add: pg_roster_def)
qed (simp add: pg_roster_def)

lemma pg_cancel_state:
  assumes "pg_inv d"
  shows "fst (pgCancelJoin corr quiet nid ev u now d) = d \<and>
      (map_of (db_events d) ev = None \<or> \<not> pg_drawn nid d) \<or>
    pg_after_cancel nid corr ev u now d (fst (pgCancelJoin corr quiet nid ev u now d))"
proof (cases "map_of (db_events d) ev")
  case None
  then show ?thesis
    by (simp add: pgCancelJoin_def quiet_def in_tx_error_free tx_bind_def select_run)
next
  case (Some e)
  have "pgCancelJoin corr quiet nid ev u now d =
      in_tx ErrStore (cancelRegistrationTx nid corr ev u now) [] Committed d"
    using Some by (simp add: pgCancelJoin_def quiet_def in_tx_def faulty_def tx_bind_def select_run)
  then show ?thesis
    using cancelRegistrationTx_run [OF assms, of nid corr ev u now]
    by (auto simp: pg_after_cancel_def in_tx_error_free)
qed

lemma pg_cancel_inv: "pg_inv d \<Longrightarrow> pg_inv (fst (pgCancelJoin corr quiet nid ev u now d))"
  using pg_cancel_state [of d corr nid ev u now] by (auto intro: pg_after_cancel_inv)

lemma pg_cancel_roster:
  assumes "pg_inv d" and "pg_drawn nid d" and "pg_roster ev d = Some ro"
  shows "pg_roster ev (fst (pgCancelJoin corr quiet nid ev u now d)) = Some (spec_cancel u ro)"
proof -
  have "map_of (db_events d) ev \<noteq> None" using assms(3) by (auto simp: pg_roster_def store_roster_def)
  then have "pg_after_cancel nid corr ev u now d (fst (pgCancelJoin corr quiet nid ev u now d))"
    using pg_cancel_state [OF assms(1), of corr nid ev u now] assms(2) by auto
  then show ?thesis using pg_after_cancel_roster assms by blast
qed

lemma pg_cancel_other:
  "pg_inv d \<Longrightarrow> ev' \<noteq> ev \<Longrightarrow>
     pg_roster ev' (fst (pgCancelJoin corr quiet nid ev u now d)) = pg_roster ev' d"
  using pg_cancel_state [of d corr nid ev u now] by (auto intro: pg_after_cancel_other)

interpretation pg_store: registration_store pg_inv pg_roster pg_open pg_fresh
  "pgJoinEvent corr quiet" "pgCancelJoin corr quiet" pg_drawn for corr
proof
  show "wf_roster ro" if "pg_inv s" "pg_roster ev s = Some ro" for s ev ro
    using that unfolding pg_inv_def pg_roster_def by (blast intro: store_roster_wf)
  show "\<exists>ro. pg_roster ev s = Some ro" if "pg_open ev now s" for ev now s
    using that by (auto simp: pg_open_def pg_roster_def store_roster_def split: option.splits)
qed (simp_all add: pg_join_inv pg_join_roster pg_join_other pg_cancel_inv pg_cancel_roster
      pg_cancel_other)

section \<open>The bodies abort on faults\<close>

lemmas body_defs = createEventTx_def updateEventTx_def cancelEventTx_def joinEventTx_def
  cancelRegistrationTx_def cancelByManagerTx_def promoteTx_def Let_def

lemmas statement_defs = selectEventForUpdate_def confirmedCountTx_def activeRegistrationTx_def
  latestStatusTx_def nextWaitlistPositionTx_def firstWaitlistedTx_def insertEvent_def
  updateEventRow_def setEventStatus_def cancelActiveRows_def insertRegistration_def
  updateRegistrationStatus_def insertOutbox_def insertEventAuditEvent_def

lemma bodies_abort [faults_intros]:
  "faults_abort (createEventTx nid corr event)"
  "faults_abort (updateEventTx nid corr ev org role cmd now)"
  "faults_abort (cancelEventTx nid corr ev org role now)"
  "faults_abort (joinEventTx nid corr ev u key now)"
  "faults_abort (cancelRegistrationTx nid corr ev u now)"
  "faults_abort (cancelByManagerTx nid corr ev actor role u now)"
  unfolding body_defs statement_defs by (intro faults_intros allI)+

lemma cancel_join_abort [faults_intros]:
  "faults_abort (tx_bind (selectEventForUpdate ev) (\<lambda>_. cancelRegistrationTx nid corr ev u now))"
  unfolding selectEventForUpdate_def by (intro faults_intros)


section \<open>Events\<close>

text \<open>The database after a transaction that runs without faults.\<close>

definition tx_final :: "(EventDB, event_error, 'a) tx \<Rightarrow> EventDB \<Rightarrow> EventDB" where
  "tx_final m d = fst (in_tx ErrStore m [] Committed d)"

lemma in_tx_final:
  "faults_abort m \<Longrightarrow> fst (in_tx ErrStore m fs c d) = d \<or> fst (in_tx ErrStore m fs c d) = tx_final m d"
  using in_tx_atomic [of m ErrStore fs c d] unfolding tx_final_def by metis

lemma then_detail_fst: "fst (then_detail net ev out) = fst out"
  by (simp add: then_detail_def split: prod.split sum.split)

lemma tx_final_eq:
  "m [] d = (r, fs, d') \<Longrightarrow> tx_final m d = (case r of Inl _ \<Rightarrow> d | Inr _ \<Rightarrow> d')"
  by (simp add: tx_final_def in_tx_def faulty_def split: sum.split)

lemma create_final_cases:
  "tx_final (createEventTx nid corr e) d = d \<or>
   map_of (db_events d) (e_ID e) = None \<and> event_row_ok e \<and> nid 0 \<notin> o_ID ` set (db_outbox d) \<and>
   tx_final (createEventTx nid corr e) d =
     d\<lparr>db_events := mput (e_ID e) (event_row e) (db_events d), db_outbox := db_outbox d @
       [pg_message (nid 0) corr ''event'' (e_ID e) RoutingEventPublished (eventPayload e) (e_CreatedAt e)]\<rparr>"
  by (simp add: tx_final_def in_tx_def faulty_def createEventTx_def insertEvent_def insertOutbox_run
      tx_bind_def tx_simps)

lemma create_final:
  assumes inv: "pg_inv d" and e: "e_Status e = EventPublished"
  shows "pg_inv (tx_final (createEventTx nid corr e) d)"
  using create_final_cases [of nid corr e d]
proof (elim disjE conjE)
  assume new: "map_of (db_events d) (e_ID e) = None" "event_row_ok e"
    and out: "tx_final (createEventTx nid corr e) d = d\<lparr>db_events := mput (e_ID e) (event_row e) (db_events d),
      db_outbox := db_outbox d @
        [pg_message (nid 0) corr ''event'' (e_ID e) RoutingEventPublished (eventPayload e) (e_CreatedAt e)]\<rparr>"
  have "store_inv (mput (e_ID (event_row e)) (event_row e) (db_events d)) (db_registrations d)"
    using new inv e by (intro store_inv_new_event) (auto simp: pg_inv_def event_row_def event_row_ok_def)
  then show ?thesis using inv by (simp add: out pg_inv_def event_row_def)
qed (simp add: inv)

lemma pg_inv_same_tables:
  "pg_inv d \<Longrightarrow> db_events d' = db_events d \<Longrightarrow> db_registrations d' = db_registrations d \<Longrightarrow> pg_inv d'"
  by (simp add: pg_inv_def)

lemma update_final_cases:
  "tx_final (updateEventTx nid corr ev org role cmd now) d = d \<or>
   (\<exists>e e'. map_of (db_events d) ev = Some e \<and> e_Status e \<noteq> EventCanceled \<and>
      applyUpdate cmd (int (mcount (confirmed_for ev) (db_registrations d))) now e = Inr e' \<and>
      db_events (tx_final (updateEventTx nid corr ev org role cmd now) d) =
        db_events (update_event (e_ID e') (\<lambda>row. row\<lparr>e_Title := e_Title e', e_Description := e_Description e',
          e_City := e_City e', e_Venue := e_Venue e', e_StartsAt := pg_ts (e_StartsAt e'),
          e_Capacity := e_Capacity e', e_UpdatedAt := pg_ts (e_UpdatedAt e')\<rparr>) d) \<and>
      db_registrations (tx_final (updateEventTx nid corr ev org role cmd now) d) = db_registrations d \<and>
      db_outbox (tx_final (updateEventTx nid corr ev org role cmd now) d) = db_outbox d @
        [pg_message (nid 0) corr ''event'' (e_ID e') RoutingEventUpdated (eventPayload e') now] \<and>
      nid 0 \<notin> o_ID ` set (db_outbox d) \<and> event_row_ok e')"
  by (auto simp: tx_final_def in_tx_def faulty_def updateEventTx_def select_run confirmedCountTx_def
      updateEventRow_def insertOutbox_run update_event_def tx_bind_def tx_simps
      split: option.splits sum.splits if_splits)

lemma update_final:
  assumes inv: "pg_inv d"
  shows "pg_inv (tx_final (updateEventTx nid corr ev org role cmd now) d)"
  using update_final_cases [of nid corr ev org role cmd now d]
proof (elim disjE exE conjE)
  fix e e' :: Event
  let ?d = "tx_final (updateEventTx nid corr ev org role cmd now) d"
  let ?row = "e\<lparr>e_Title := e_Title e', e_Description := e_Description e', e_City := e_City e',
    e_Venue := e_Venue e', e_StartsAt := pg_ts (e_StartsAt e'), e_Capacity := e_Capacity e',
    e_UpdatedAt := pg_ts (e_UpdatedAt e')\<rparr>"
  assume e: "map_of (db_events d) ev = Some e"
    and up: "applyUpdate cmd (int (mcount (confirmed_for ev) (db_registrations d))) now e = Inr e'"
    and es: "db_events ?d = db_events (update_event (e_ID e') (\<lambda>row. row\<lparr>e_Title := e_Title e',
          e_Description := e_Description e', e_City := e_City e', e_Venue := e_Venue e',
          e_StartsAt := pg_ts (e_StartsAt e'), e_Capacity := e_Capacity e',
          e_UpdatedAt := pg_ts (e_UpdatedAt e')\<rparr>) d)"
    and rs: "db_registrations ?d = db_registrations d"
  have ok: "event_ok ev e (mvals (db_registrations d))"
    using inv e by (simp add: pg_inv_def store_inv_def)
  then have id: "e_ID e' = ev" using applyUpdate_Inr [OF up] by (simp add: event_ok_def)
  have "event_ok ev ?row (mvals (db_registrations d))"
    using ok applyUpdate_Inr [OF up] by (auto simp: event_ok_def pg_count split: option.splits)
  then have "store_inv (mput ev ?row (db_events d)) (db_registrations d)"
    using inv by (intro store_inv_event) (simp_all add: pg_inv_def)
  then show ?thesis using inv by (simp add: pg_inv_def es rs id update_event_def e)
qed (simp add: inv)

lemma cancel_final_cases:
  "(db_events (tx_final (cancelEventTx nid corr ev org role now) d) = db_events d \<and>
    db_registrations (tx_final (cancelEventTx nid corr ev org role now) d) = db_registrations d \<and>
    db_outbox (tx_final (cancelEventTx nid corr ev org role now) d) = db_outbox d) \<or>
   (\<exists>e. map_of (db_events d) ev = Some e \<and> e_Status e \<noteq> EventCanceled \<and> nid 0 \<notin> o_ID ` set (db_outbox d) \<and>
      db_outbox (tx_final (cancelEventTx nid corr ev org role now) d) = db_outbox d @
        [pg_message (nid 0) corr ''event'' (e_ID e) RoutingEventCanceled
          (eventPayload (e\<lparr>e_Status := EventCanceled, e_UpdatedAt := now\<rparr>)) now] \<and>
      db_events (tx_final (cancelEventTx nid corr ev org role now) d) =
        db_events (update_event (e_ID e)
          (\<lambda>row. row\<lparr>e_Status := EventCanceled, e_UpdatedAt := pg_ts now\<rparr>) d) \<and>
      db_registrations (tx_final (cancelEventTx nid corr ev org role now) d) =
        regs_canceled (e_ID e) (pg_ts now) (db_registrations d))"
  by (simp add: tx_final_def in_tx_def faulty_def cancelEventTx_def select_run setEventStatus_def
      cancelActiveRows_def insertOutbox_run insertEventAuditEvent_def update_event_def
      regs_canceled_def tx_bind_def tx_simps Let_def split: option.splits sum.splits)

lemma cancel_final:
  assumes inv: "pg_inv d"
  shows "pg_inv (tx_final (cancelEventTx nid corr ev org role now) d)"
  using cancel_final_cases [of nid corr ev org role now d]
proof (elim disjE exE conjE)
  fix e
  let ?d = "tx_final (cancelEventTx nid corr ev org role now) d"
  assume e: "map_of (db_events d) ev = Some e"
    and es: "db_events ?d = db_events (update_event (e_ID e)
          (\<lambda>row. row\<lparr>e_Status := EventCanceled, e_UpdatedAt := pg_ts now\<rparr>) d)"
    and rs: "db_registrations ?d = regs_canceled (e_ID e) (pg_ts now) (db_registrations d)"
  have id: "e_ID e = ev" using inv e by (auto simp: pg_inv_def store_inv_def event_ok_def)
  have "store_inv (mput ev (e\<lparr>e_Status := EventCanceled, e_UpdatedAt := pg_ts now\<rparr>) (db_events d))
      (regs_canceled ev (pg_ts now) (db_registrations d))"
    using inv e by (intro store_inv_canceled) (simp_all add: pg_inv_def)
  moreover have "0 \<le> r_WaitlistPosition g \<and> (r_Status g = Waitlisted \<longrightarrow> 0 < r_WaitlistPosition g)"
    if "g \<in> set (mvals (regs_canceled ev (pg_ts now) (db_registrations d)))" for g
  proof -
    have "g \<in> cancel_active ev (pg_ts now) ` set (mvals (db_registrations d))"
      using that unfolding mvals_regs_canceled by (simp only: set_map)
    then obtain h where g: "g = cancel_active ev (pg_ts now) h"
      and h: "h \<in> set (mvals (db_registrations d))" by (rule imageE)
    have "0 \<le> r_WaitlistPosition h" "r_Status h = Waitlisted \<longrightarrow> 0 < r_WaitlistPosition h"
      using inv h unfolding pg_inv_def by blast+
    then show ?thesis by (simp add: g cancel_active_def)
  qed
  ultimately show ?thesis by (simp add: pg_inv_def es rs id update_event_def e)
next
  assume "db_events (tx_final (cancelEventTx nid corr ev org role now) d) = db_events d"
    and "db_registrations (tx_final (cancelEventTx nid corr ev org role now) d) = db_registrations d"
  with inv show ?thesis by (simp add: pg_inv_def)
qed

lemma manager_final_cases:
  assumes inv: "pg_inv d"
  shows "db_events (tx_final (cancelByManagerTx nid corr ev actor role u now) d) = db_events d \<and>
      db_registrations (tx_final (cancelByManagerTx nid corr ev actor role u now) d) = db_registrations d \<and>
      db_outbox (tx_final (cancelByManagerTx nid corr ev actor role u now) d) = db_outbox d \<or>
    pg_after_cancel nid corr ev u now d (tx_final (cancelByManagerTx nid corr ev actor role u now) d)"
proof (cases "map_of (db_events d) ev")
  case None
  then show ?thesis
    by (simp add: tx_final_def in_tx_def faulty_def cancelByManagerTx_def select_run tx_bind_def)
next
  case (Some e)
  obtain r fs d1 where run: "cancelRegistrationTx nid corr ev u now [] d = (r, fs, d1)"
    by (metis prod_cases3)
  have fs: "fs = []" if "r = Inr res" for res
    using bodies_abort(5) [of nid corr ev u now] run that unfolding faults_abort_def
    by (metis prod.inject)
  let ?d = "tx_final (cancelByManagerTx nid corr ev actor role u now) d"
  have "?d = d \<or> (\<exists>res. r = Inr res \<and> db_events ?d = db_events d1 \<and>
      db_registrations ?d = db_registrations d1 \<and> db_outbox ?d = db_outbox d1)"
    using Some run fs
    by (auto simp: tx_final_def in_tx_def faulty_def cancelByManagerTx_def select_run tx_bind_def
        insertEventAuditEvent_def tx_simps split: sum.splits)
  then show ?thesis
    using cancelRegistrationTx_run [OF inv, of nid corr ev u now] run by (auto simp: pg_after_cancel_def)
qed

lemma manager_final:
  "pg_inv d \<Longrightarrow> pg_inv (tx_final (cancelByManagerTx nid corr ev actor role u now) d)"
  using manager_final_cases [of d nid corr ev actor role u now] pg_after_cancel_inv pg_inv_same_tables by blast

section \<open>Reachable databases\<close>

text \<open>
  One call of the repository. The identifiers, the faults of its statements and the outcome of
  its commit are arbitrary: the constraints of the tables refuse identifiers in use.
\<close>

inductive pg_step :: "EventDB \<Rightarrow> EventDB \<Rightarrow> bool" where
  pg_create: "NewEvent i org ti de ci ve st cap now = Inr e \<Longrightarrow>
    pg_step d (fst (pgCreateEvent corr net nid e d))"
| pg_update: "pg_step d (fst (pgUpdateEvent corr net nid ev org role cmd now d))"
| pg_cancel: "pg_step d (fst (pgCancelEvent corr net nid ev org role now d))"
| pg_join: "pg_step d (fst (pgJoinEvent corr net nid ev u key now d))"
| pg_leave: "pg_step d (fst (pgCancelJoin corr net nid ev u now d))"
| pg_manager: "pg_step d (fst (pgCancelRegistration corr net nid ev actor role u now d))"

definition emptyEventDB :: EventDB where
  "emptyEventDB = \<lparr>db_events = [], db_registrations = [], db_outbox = [], db_audit = []\<rparr>"

inductive pg_reachable :: "EventDB \<Rightarrow> bool" where
  pg_empty: "pg_reachable emptyEventDB"
| pg_more: "pg_reachable d \<Longrightarrow> pg_step d d' \<Longrightarrow> pg_reachable d'"

lemma in_tx_inv:
  "faults_abort m \<Longrightarrow> pg_inv d \<Longrightarrow> pg_inv (tx_final m d) \<Longrightarrow> pg_inv (fst (in_tx ErrStore m fs c d))"
  using in_tx_final [of m fs c d] by auto

lemma join_final: "pg_inv d \<Longrightarrow> pg_inv (tx_final (joinEventTx nid corr ev u key now) d)"
  using pg_join_inv [of d corr nid ev u key now] by (simp add: pgJoinEvent_def quiet_def tx_final_def)

lemma leave_final:
  "pg_inv d \<Longrightarrow> pg_inv (tx_final
     (tx_bind (selectEventForUpdate ev) (\<lambda>_. cancelRegistrationTx nid corr ev u now)) d)"
  using pg_cancel_inv [of d corr nid ev u now] by (simp add: pgCancelJoin_def quiet_def tx_final_def)

lemma pg_step_inv: "pg_step d d' \<Longrightarrow> pg_inv d \<Longrightarrow> pg_inv d'"
proof (induction rule: pg_step.induct)
  case (pg_create i org ti de ci ve st cap now e d corr net nid)
  then show ?case
    using NewEvent_Inr [OF pg_create.hyps]
    by (auto simp: pgCreateEvent_def then_detail_fst intro!: in_tx_inv create_final bodies_abort)
next
  case (pg_update d corr net nid ev org role cmd now)
  then show ?case
    by (auto simp: pgUpdateEvent_def then_detail_fst intro!: in_tx_inv update_final bodies_abort)
next
  case (pg_cancel d corr net nid ev org role now)
  then show ?case
    by (auto simp: pgCancelEvent_def then_detail_fst intro!: in_tx_inv cancel_final bodies_abort)
next
  case (pg_join d corr net nid ev u key now)
  then show ?case by (auto simp: pgJoinEvent_def intro!: in_tx_inv join_final bodies_abort)
next
  case (pg_leave d corr net nid ev u now)
  then show ?case by (auto simp: pgCancelJoin_def intro!: in_tx_inv leave_final cancel_join_abort)
next
  case (pg_manager d corr net nid ev actor role u now)
  then show ?case by (auto simp: pgCancelRegistration_def intro!: in_tx_inv manager_final bodies_abort)
qed

lemma pg_reachable_inv: "pg_reachable d \<Longrightarrow> pg_inv d"
proof (induction rule: pg_reachable.induct)
  case pg_empty
  then show ?case by (simp add: pg_inv_def emptyEventDB_def store_inv_def regs_ok_def positions_ok_def)
next
  case (pg_more d d')
  then show ?case by (blast intro: pg_step_inv)
qed

end
