(* ===== verification/EventPostgresProps.thy ===== *)
theory EventPostgresProps imports EventPostgresSteps EventMemoryProps begin

text \<open>
  The properties of the Postgres event repository, and its agreement with the in-memory one. The
  witnesses use an event with one place that \<open>alice\<close> took.
\<close>

definition ex_pg_event :: Event where
  "ex_pg_event = \<lparr>e_ID = ''ev'', e_OrganizerID = ''org'', e_Title = ''T'', e_Description = '''',
     e_City = ''C'', e_Venue = ''V'', e_StartsAt = 90000, e_Capacity = 1,
     e_Status = EventPublished, e_CreatedAt = 1000, e_UpdatedAt = 1000\<rparr>"

definition ex_created_db :: EventDB where
  "ex_created_db = fst (pgCreateEvent ''corr'' quiet (ex_ids ''o'') ex_pg_event emptyEventDB)"
definition ex_full_db :: EventDB where
  "ex_full_db = fst (pgJoinEvent ''corr'' quiet (ex_ids ''r1'') ''ev'' ''alice'' ''k1'' 2000 ex_created_db)"

lemmas pg_eval = quiet_def in_tx_def faulty_def tx_bind_def tx_simps Let_def ex_ids_def pg_ts_def
  select_run activeRegistrationTx_def confirmedCountTx_def nextWaitlistPositionTx_def
  insertRegistration_def insertOutbox_def for_defs first_row_def mcount_def DecideJoinStatus_def
  time_after_def next_position_def int4_def

lemma ex_pg_event_new: "NewEvent ''ev'' ''org'' ''T'' '''' ''C'' ''V'' 90000 1 1000 = Inr ex_pg_event"
  by (simp add: NewEvent_def Validate_def time_after_def ex_pg_event_def str_eval Let_def)

lemma ex_created_db_tables [simp]:
  "db_events ex_created_db = [(''ev'', ex_pg_event)]" "db_registrations ex_created_db = []"
  "map o_ID (db_outbox ex_created_db) = [''o'']"
  by (simp_all add: ex_created_db_def pgCreateEvent_def then_detail_fst createEventTx_def
      insertEvent_def emptyEventDB_def event_row_ok_def sql_nonblank_def event_row_def
      ex_pg_event_def pg_eval)

lemma ex_created_db_ids: "o_ID ` set (db_outbox ex_created_db) = {''o''}"
  by (simp flip: set_map)

lemma ex_full_db_tables [simp]:
  "db_events ex_full_db = [(''ev'', ex_pg_event)]"
  "db_registrations ex_full_db = [(''r1'', ex_reg ''r1'' ''alice'' Confirmed 0 ''k1'' 2000)]"
  by (simp_all add: ex_full_db_def pgJoinEvent_def joinEventTx_def registration_row_def ex_reg_def
      pg_eval ex_created_db_ids) (simp_all add: ex_pg_event_def)


lemma ex_full_db_ids: "o_ID ` set (db_outbox ex_full_db) = {''o'', ''r1-a''}"
proof -
  have "map o_ID (db_outbox ex_full_db) = map o_ID (db_outbox ex_created_db) @ [''r1-a'']"
    by (simp add: ex_full_db_def pgJoinEvent_def joinEventTx_def registration_row_def pg_eval
        ex_created_db_ids) (simp add: ex_pg_event_def)
  then show ?thesis by (simp flip: set_map)
qed

lemma ex_created_db_reachable: "pg_reachable ex_created_db"
  unfolding ex_created_db_def by (rule pg_more [OF pg_empty pg_create [OF ex_pg_event_new]])

lemma ex_full_db_reachable: "pg_reachable ex_full_db"
  unfolding ex_full_db_def by (rule pg_more [OF ex_created_db_reachable pg_join])

lemmas ex_full_db_inv = pg_reachable_inv [OF ex_full_db_reachable]
lemmas ex_created_db_inv = pg_reachable_inv [OF ex_created_db_reachable]

lemma ex_full_db_roster:
  "pg_roster ''ev'' ex_full_db =
     Some \<lparr>ro_Capacity = 1, ro_Confirmed = {''alice''}, ro_Waitlist = []\<rparr>"
  by (simp add: pg_roster_def store_roster_def roster_of_def wait_users_def waitlisted_for_def
      confirmed_for_def ex_reg_def ex_pg_event_def)

section \<open>Calls under faults\<close>

lemma quiet [simp]: "n_tx quiet = []" "n_commit quiet = Committed"
  by (simp_all add: quiet_def)

text \<open>
  What a call under \<open>net\<close> did, with \<open>full\<close> what it does without faults: all of it, or nothing, or
  all of it with an error because the answer of the commit was lost.
\<close>

definition all_or_nothing ::
  "Net \<Rightarrow> EventDB \<Rightarrow> EventDB \<times> (event_error + 'a) \<Rightarrow> EventDB \<times> (event_error + 'a) \<Rightarrow> bool" where
  "all_or_nothing net d out full \<longleftrightarrow>
     (case snd out of
        Inr _ \<Rightarrow> out = full
      | Inl _ \<Rightarrow> fst out = d \<or> n_commit net = CommitUnknown \<and> fst out = fst full)"

lemma all_or_nothing_tx:
  "faults_abort m \<Longrightarrow> all_or_nothing net d (in_tx ErrStore m (n_tx net) (n_commit net) d)
     (in_tx ErrStore m [] Committed d)"
  using in_tx_atomic [of m ErrStore "n_tx net" "n_commit net" d] by (auto simp: all_or_nothing_def)

text \<open>A join without faults: nothing, or the registration and its message.\<close>

definition announced ::
  "string \<Rightarrow> string \<Rightarrow> EventDB \<Rightarrow> EventDB \<Rightarrow> Registration \<Rightarrow> OutboxMessage \<Rightarrow> bool" where
  "announced ev u d d' g m \<longleftrightarrow> map_of (db_registrations d) (r_ID g) = None \<and> r_EventID g = ev \<and>
     r_UserID g = u \<and> db_registrations d' = mput (r_ID g) g (db_registrations d) \<and>
     db_outbox d' = db_outbox d @ [m] \<and> o_AggregateID m = r_ID g \<and> o_Status m = ''PENDING'' \<and>
     o_RoutingKey m = (if r_Status g = Waitlisted then RoutingJoinWaitlisted else RoutingJoinConfirmed) \<and>
     map_of (o_Payload m) ''userId'' = Some (PString u)"

lemma join_final_announced:
  "tx_final (joinEventTx nid corr ev u key now) d = d \<or>
   (\<exists>g m. announced ev u d (tx_final (joinEventTx nid corr ev u key now) d) g m)"
  using join_cases [of nid corr ev u key now d]
proof (elim disjE exE conjE)
  fix r assume "joinEventTx nid corr ev u key now [] d = (r, [], d)"
  then show ?thesis by (simp add: tx_final_eq split: sum.split)
next
  fix e s
  let ?g = "registration_row (pg_joined nid ev u key now s d)"
  assume "map_of (db_events d) ev = Some e" "filter (active_for ev u) (mvals (db_registrations d)) = []"
    "DecideJoinStatus e (int (mcount (confirmed_for ev) (db_registrations d))) now = Inr s"
  note run = join_new_run [OF this, of nid corr key]
  have user: "map_of (withCorrelation corr (registrationPayload (pg_joined nid ev u key now s d)))
      ''userId'' = Some (PString u)"
    by (simp add: withCorrelation_def registrationPayload_def)
  show ?thesis
  proof (cases "map_of (db_registrations d) (nid 0) = None \<and> nid 1 \<notin> o_ID ` set (db_outbox d) \<and>
      int4 (r_WaitlistPosition (pg_joined nid ev u key now s d))")
    case True
    then have "\<exists>m. announced ev u d (tx_final (joinEventTx nid corr ev u key now) d) ?g m"
      using run user by (simp add: announced_def tx_final_eq pg_join_message_def) (simp add: pg_message_def)
    then show ?thesis by blast
  next
    case False
    then have "\<exists>d'. joinEventTx nid corr ev u key now [] d = (Inl ErrStore, [], d')"
      unfolding run by auto
    then show ?thesis by (auto simp: tx_final_eq)
  qed
qed

section \<open>Safety under faults\<close>

text \<open>
  C9. Whatever statements and commits fail during the calls, the Postgres repository never
  reaches a database in which an event has more confirmed registrations than its capacity, a user
  has two active registrations of an event, or a cancelled event has a confirmed or waiting user.
\<close>

theorem pg_no_overbooking:
  assumes "pg_reachable d" and "map_of (db_events d) ev = Some e"
  shows "\<exists>confirmed active waiting.
    pgConfirmedCount quiet ev d = Inr confirmed \<and> confirmed \<le> e_Capacity e \<and>
    pgActiveRegistrationCount quiet ev u d = Inr active \<and> active \<le> 1 \<and>
    pgWaitlistedCount quiet ev d = Inr waiting \<and>
    (e_Status e = EventCanceled \<longrightarrow> confirmed = 0 \<and> waiting = 0)"
proof -
  let ?m = "mvals (db_registrations d)"
  have inv: "pg_inv d" using assms(1) by (rule pg_reachable_inv)
  have ok: "event_ok ev e ?m" using inv assms(2) by (simp add: pg_inv_def store_inv_def)
  have "distinct (active_users ev ?m)" using inv by (simp add: pg_inv_def store_inv_def regs_ok_def)
  then have "length (filter (active_for ev u) ?m) \<le> 1" by (rule active_for_unique)
  then show ?thesis
    using ok active_none_counts [of ev ?m]
    by (auto simp: event_ok_def pgConfirmedCount_def pgActiveRegistrationCount_def
        pgWaitlistedCount_def quiet_def faulty_def pg_count mcount_def confirmed_count_def)
qed

theorem pg_no_overbooking_witness:
  "\<exists>confirmed. pgConfirmedCount quiet ''ev'' ex_full_db = Inr confirmed \<and> confirmed \<le> 1"
  using pg_no_overbooking [OF ex_full_db_reachable, of "''ev''" ex_pg_event "''alice''"]
  by (auto simp: ex_pg_event_def)


text \<open>
  C11. The Postgres repository refines the same abstract roster as the in-memory one: a join of
  an open event is the abstract join and a cancellation the abstract cancellation, and no call
  changes the roster of another event.
\<close>

theorem pg_refines_spec:
  assumes "pg_inv d" and "pg_roster ev d = Some ro"
  shows "(pg_fresh nid d \<and> pg_open ev now d \<longrightarrow>
      pg_roster ev (fst (pgJoinEvent corr quiet nid ev u key now d)) = Some (spec_join u ro)) \<and>
    (pg_drawn nid d \<longrightarrow>
      pg_roster ev (fst (pgCancelJoin corr quiet nid ev u now d)) = Some (spec_cancel u ro)) \<and>
    (\<forall>ev'. ev' \<noteq> ev \<longrightarrow>
      pg_roster ev' (fst (pgJoinEvent corr net nid ev u key now d)) = pg_roster ev' d \<and>
      pg_roster ev' (fst (pgCancelJoin corr net nid ev u now d)) = pg_roster ev' d)"
proof (intro conjI allI impI)
  fix ev' assume "ev' \<noteq> ev"
  then show "pg_roster ev' (fst (pgJoinEvent corr net nid ev u key now d)) = pg_roster ev' d"
    using in_tx_final [OF bodies_abort(4), of nid corr ev u key now "n_tx net" "n_commit net" d]
      pg_store.join_other [OF assms(1), of nid ev' ev corr u key now] pg_join_other [OF assms(1)]
    by (auto simp: pgJoinEvent_def tx_final_def quiet_def)
  from \<open>ev' \<noteq> ev\<close> show "pg_roster ev' (fst (pgCancelJoin corr net nid ev u now d)) = pg_roster ev' d"
    using in_tx_final [OF cancel_join_abort, of ev nid corr u now "n_tx net" "n_commit net" d]
      pg_store.cancel_other [OF assms(1), of ev' ev corr nid u now]
    by (auto simp: pgCancelJoin_def tx_final_def quiet_def)
qed (use pg_store.join_roster [OF assms(1) _ _ assms(2)] pg_store.cancel_roster [OF assms(1) _ assms(2)]
     in blast)+

theorem pg_refines_spec_witness:
  "pg_roster ''ev'' (fst (pgJoinEvent ''c'' quiet (ex_ids ''r2'') ''ev'' ''bob'' ''k'' 3000 ex_full_db)) =
     Some \<lparr>ro_Capacity = 1, ro_Confirmed = {''alice''}, ro_Waitlist = [''bob'']\<rparr>"
  using pg_refines_spec [OF ex_full_db_inv ex_full_db_roster, of "ex_ids ''r2''" 3000 "''c''" "''bob''" "''k''"]
  by (simp add: pg_fresh_def pg_open_def ex_full_db_ids ex_ids_def ex_reg_def ex_pg_event_def
      time_after_def spec_join_def ro_members_def)

text \<open>
  C12. A registration and its outbox message are written together or not at all, also under
  faults: after a join either the tables are as they were, or exactly one registration of the
  event was added together with one pending message that names it and has the routing key of its
  status.
\<close>

theorem pg_join_transactional_outbox:
  "fst (pgJoinEvent corr net nid ev u key now d) = d \<or>
   (\<exists>g m. announced ev u d (fst (pgJoinEvent corr net nid ev u key now d)) g m)"
  using in_tx_final [OF bodies_abort(4), of nid corr ev u key now "n_tx net" "n_commit net" d]
    join_final_announced [of nid corr ev u key now d]
  by (auto simp: pgJoinEvent_def)

section \<open>The two repositories agree\<close>

text \<open>
  C13. Two stores, one in memory and one in Postgres, that hold the same roster of an event hold
  the same roster after the same joins, and after the same cancellation.
\<close>

theorem repositories_agree:
  assumes "mem_inv r" and "pg_inv d" and "mem_roster ev r = Some ro" and "pg_roster ev d = Some ro"
    and "joins_ok JoinEvent mem_fresh mem_open ev qs r"
    and "joins_ok (pgJoinEvent corr quiet) pg_fresh pg_open ev qs d"
    and "pg_drawn nid (run_joins (pgJoinEvent corr quiet) ev qs d)"
  shows "mem_roster ev (run_joins JoinEvent ev qs r) =
      pg_roster ev (run_joins (pgJoinEvent corr quiet) ev qs d) \<and>
    mem_roster ev (fst (CancelJoin nid' ev u now (run_joins JoinEvent ev qs r))) =
      pg_roster ev (fst (pgCancelJoin corr quiet nid ev u now
        (run_joins (pgJoinEvent corr quiet) ev qs d)))"
proof -
  note m = mem_store.run_joins_roster [OF assms(1,5,3)]
  note p = pg_store.run_joins_roster [OF assms(2,6,4)]
  have mi: "mem_inv (run_joins JoinEvent ev qs r)" by (rule mem_store.run_joins_invar [OF assms(1,5)])
  have pi: "pg_inv (run_joins (pgJoinEvent corr quiet) ev qs d)"
    by (rule pg_store.run_joins_invar [OF assms(2,6)])
  show ?thesis
    using m p mem_store.cancel_roster [OF mi TrueI m, of nid' u now]
      pg_store.cancel_roster [OF pi assms(7) p, where u = u and now = now and corr = corr] by simp
qed

theorem repositories_agree_witness:
  "mem_roster ''ev'' ex_full =
     pg_roster ''ev'' (run_joins (pgJoinEvent ''corr'' quiet) ''ev''
       [(ex_ids ''r1'', ''alice'', ''k1'', 2000)] ex_created_db)"
proof -
  have run: "run_joins (pgJoinEvent ''corr'' quiet) ''ev'' [(ex_ids ''r1'', ''alice'', ''k1'', 2000)]
      ex_created_db = ex_full_db" by (simp add: ex_full_db_def)
  have "mem_roster ''ev'' (run_joins JoinEvent ''ev'' [] ex_full) =
      pg_roster ''ev'' (run_joins (pgJoinEvent ''corr'' quiet) ''ev'' [] ex_full_db)"
  proof (rule conjunct1 [OF repositories_agree [OF ex_full_inv ex_full_db_inv _ ex_full_db_roster,
          of "[]" "''corr''" "ex_ids ''x''" _ "''alice''" 5]])
    show "mem_roster ''ev'' ex_full = Some \<lparr>ro_Capacity = 1, ro_Confirmed = {''alice''}, ro_Waitlist = []\<rparr>"
      by (simp add: mem_roster_def store_roster_def roster_of_def wait_users_def waitlisted_for_def
          confirmed_for_def ex_reg_def ex_event_def)
    show "pg_drawn (ex_ids ''x'') (run_joins (pgJoinEvent ''corr'' quiet) ''ev'' [] ex_full_db)"
      by (simp add: pg_drawn_def ex_full_db_ids) (simp add: ex_ids_def)
  qed simp_all
  then show ?thesis unfolding run by simp
qed

end
