(* ===== verification/Messaging.thy ===== *)
theory Messaging imports GoStrings "HOL-Library.Word" begin

text \<open>
  \<^verbatim>\<open>internal/platform/messaging\<close>: the envelope of a message, the retry policy of a consumer and
  the topology of exchanges and queues. The broker itself is not modelled: a publication is the
  value that is handed to it, and a declaration the argument of the channel's method.
\<close>

definition EventExchange :: string where "EventExchange = ''cityevents.events''"
definition DeadLetterExchange :: string where "DeadLetterExchange = ''cityevents.dlx''"
definition RetryExchange :: string where "RetryExchange = ''cityevents.retry''"
definition RetryReturnExchange :: string where "RetryReturnExchange = ''cityevents.retry.return''"
definition FeedQueue :: string where "FeedQueue = ''cityevents.feed.projection''"
definition FeedDeadLetterQueue :: string where
  "FeedDeadLetterQueue = ''cityevents.feed.projection.dlq''"
definition NotificationQueue :: string where
  "NotificationQueue = ''cityevents.notification.delivery''"
definition NotificationDeadLetterQueue :: string where
  "NotificationDeadLetterQueue = ''cityevents.notification.delivery.dlq''"

lemmas queue_names = EventExchange_def DeadLetterExchange_def RetryExchange_def
  RetryReturnExchange_def FeedQueue_def FeedDeadLetterQueue_def NotificationQueue_def
  NotificationDeadLetterQueue_def

section \<open>JSON values\<close>

text \<open>
  What \<^verbatim>\<open>json.Unmarshal\<close> puts into a \<^verbatim>\<open>map[string]any\<close>. Of a number the program reads its nearest
  integer and the text that \<^verbatim>\<open>fmt.Sprint\<close> prints, of a boolean, array or object the text.
\<close>

datatype json = JNull | JString string | JNumber int string | JOther string

type_synonym json_object = "(string, json) gomap"

section \<open>Envelopes\<close>

record Envelope =
  v_MessageID :: string
  v_RoutingKey :: string
  v_AggregateType :: string
  v_AggregateID :: string
  v_OccurredAt :: time
  v_CorrelationID :: string
  v_Payload :: "json_object option"  \<comment> \<open>\<open>None\<close> is the nil map\<close>

text \<open>The error message, or \<open>None\<close>.\<close>

definition ValidateEnvelope :: "Envelope \<Rightarrow> string option" where
  "ValidateEnvelope e =
     (if v_MessageID e = '''' then Some ''message id is required''
      else if v_RoutingKey e = '''' then Some ''routing key is required''
      else if v_AggregateType e = '''' then Some ''aggregate type is required''
      else if v_AggregateID e = '''' then Some ''aggregate id is required''
      else if v_OccurredAt e = 0 then Some ''occurred at is required''
      else if v_Payload e = None then Some ''payload is required''
      else None)"

definition NewEnvelope :: "string \<Rightarrow> string \<Rightarrow> string \<Rightarrow> string \<Rightarrow> string \<Rightarrow> time \<Rightarrow> json_object option
   \<Rightarrow> string + Envelope" where
  "NewEnvelope messageID routingKey aggregateType aggregateID correlationID occurredAt payload =
     (let envelope = \<lparr>v_MessageID = TrimSpace messageID, v_RoutingKey = TrimSpace routingKey,
            v_AggregateType = TrimSpace aggregateType, v_AggregateID = TrimSpace aggregateID,
            v_OccurredAt = occurredAt, v_CorrelationID = TrimSpace correlationID,
            v_Payload = payload\<rparr>
      in check (ValidateEnvelope envelope) (Inr envelope))"

text \<open>\<^verbatim>\<open>unmarshal\<close> is \<^verbatim>\<open>json.Unmarshal\<close> into an \<open>Envelope\<close>, \<^verbatim>\<open>marshal\<close> its inverse.\<close>

definition DecodeEnvelope :: "(string \<Rightarrow> string + Envelope) \<Rightarrow> string \<Rightarrow> string + Envelope" where
  "DecodeEnvelope unmarshal body =
     rbind (unmarshal body) (\<lambda>envelope. check (ValidateEnvelope envelope) (Inr envelope))"

definition MarshalJSONBytes :: "(Envelope \<Rightarrow> string + string) \<Rightarrow> Envelope \<Rightarrow> string + string" where
  "MarshalJSONBytes marshal e = check (ValidateEnvelope e) (marshal e)"

lemma ValidateEnvelope_None:
  "ValidateEnvelope e = None \<longleftrightarrow> v_MessageID e \<noteq> '''' \<and> v_RoutingKey e \<noteq> '''' \<and>
     v_AggregateType e \<noteq> '''' \<and> v_AggregateID e \<noteq> '''' \<and> v_OccurredAt e \<noteq> 0 \<and>
     v_Payload e \<noteq> None"
  by (simp add: ValidateEnvelope_def)

lemma NewEnvelope_Inr:
  "NewEnvelope i k t a c at p = Inr e \<Longrightarrow>
     v_MessageID e = TrimSpace i \<and> v_RoutingKey e = TrimSpace k \<and> v_AggregateID e = TrimSpace a \<and>
     v_OccurredAt e = at \<and> v_Payload e = p \<and> v_CorrelationID e = TrimSpace c \<and>
     ValidateEnvelope e = None"
  by (auto simp: NewEnvelope_def Let_def check_Inr_iff)

section \<open>Retries\<close>

definition MaxConsumerRetries :: int where "MaxConsumerRetries = 5"

definition consumerRetryDelays :: "duration list" where
  "consumerRetryDelays = [5 * second, 30 * second, 2 * minute, 10 * minute, 30 * minute]"

record retryPolicy =
  p_queue :: string
  p_retryRoutingKey :: string
  p_deadLetterRoutingKey :: string
  p_eventBindings :: "string list"

definition retryPolicies :: "(string, retryPolicy) gomap" where
  "retryPolicies =
     [(FeedQueue,
       \<lparr>p_queue = FeedQueue, p_retryRoutingKey = FeedQueue @ ''.retry'',
        p_deadLetterRoutingKey = FeedDeadLetterQueue, p_eventBindings = [''event.*'', ''join.*'']\<rparr>),
      (NotificationQueue,
       \<lparr>p_queue = NotificationQueue, p_retryRoutingKey = NotificationQueue @ ''.retry'',
        p_deadLetterRoutingKey = NotificationDeadLetterQueue,
        p_eventBindings = [''join.confirmed'', ''join.waitlisted'', ''join.promoted'',
          ''join.canceled'', ''event.canceled'']\<rparr>)]"

definition RetryCountHeader :: string where "RetryCountHeader = ''x-cityevents-retry-count''"
definition RetryDelayMillisHeader :: string where
  "RetryDelayMillisHeader = ''x-cityevents-retry-delay-ms''"
definition LastErrorHeader :: string where "LastErrorHeader = ''x-cityevents-last-error''"
definition OriginalRoutingHeader :: string where
  "OriginalRoutingHeader = ''x-cityevents-original-routing-key''"
definition DeadLetterReasonHeader :: string where
  "DeadLetterReasonHeader = ''x-cityevents-dead-letter-reason''"

lemmas header_names = RetryCountHeader_def RetryDelayMillisHeader_def LastErrorHeader_def
  OriginalRoutingHeader_def DeadLetterReasonHeader_def

text \<open>The dynamic types of a value in an AMQP table that the program tells apart.\<close>

datatype amqp_value =
    AInt "64 word" | AInt8 "8 word" | AInt16 "16 word" | AInt32 "32 word" | AInt64 "64 word"
  | AUint8 "8 word" | AUint16 "16 word" | AUint32 "32 word" | AUint64 "64 word"
  | AString string | AOther

type_synonym amqp_table = "(string, amqp_value) gomap"

definition nonNegative :: "int \<Rightarrow> int" where
  "nonNegative value = (if value < 0 then 0 else value)"

text \<open>
  \<^verbatim>\<open>fmt.Sscanf(s, "%d", &n)\<close>: blanks other than a newline, a sign, and the digits up to the first
  other byte; \<open>None\<close> where it returns an error.
\<close>

definition scan_d :: "string \<Rightarrow> int option" where
  "scan_d s =
     (let t = drop_words (removeAll [CHR 0x0A] space_encodings) s;
          negative = (t \<noteq> [] \<and> hd t = CHR ''-'');
          ds = takeWhile is_digit (if t \<noteq> [] \<and> (hd t = CHR ''-'' \<or> hd t = CHR ''+'') then tl t else t)
      in Atoi ((if negative then ''-'' else '''') @ ds))"

text \<open>A conversion \<^verbatim>\<open>int(value)\<close> to the 64-bit \<^verbatim>\<open>int\<close> keeps the bits.\<close>

definition DeliveryRetryCount :: "amqp_table \<Rightarrow> int" where
  "DeliveryRetryCount headers =
     (case map_of headers RetryCountHeader of
        Some (AInt v) \<Rightarrow> nonNegative (sint v)
      | Some (AInt8 v) \<Rightarrow> nonNegative (sint v)
      | Some (AInt16 v) \<Rightarrow> nonNegative (sint v)
      | Some (AInt32 v) \<Rightarrow> nonNegative (sint v)
      | Some (AInt64 v) \<Rightarrow> nonNegative (sint v)
      | Some (AUint8 v) \<Rightarrow> uint v
      | Some (AUint16 v) \<Rightarrow> uint v
      | Some (AUint32 v) \<Rightarrow> uint v
      | Some (AUint64 v) \<Rightarrow> sint v
      | Some (AString s) \<Rightarrow> (case scan_d s of Some n \<Rightarrow> nonNegative n | None \<Rightarrow> 0)
      | _ \<Rightarrow> 0)"

definition retryQueueName :: "string \<Rightarrow> int \<Rightarrow> string" where
  "retryQueueName queue attempt = queue @ ''.retry.'' @ Itoa attempt"

definition retryRoutingKey :: "string \<Rightarrow> int \<Rightarrow> string" where
  "retryRoutingKey queue attempt =
     (case map_of retryPolicies queue of
        None \<Rightarrow> queue @ ''.retry.'' @ Itoa attempt
      | Some policy \<Rightarrow> p_retryRoutingKey policy @ ''.'' @ Itoa attempt)"

text \<open>\<open>cause\<close> is the text of the error, \<open>None\<close> where it is nil.\<close>

definition trimHeaderError :: "string \<Rightarrow> string" where
  "trimHeaderError err = take 500 (TrimSpace err)"

definition failureHeaders :: "amqp_table \<Rightarrow> int \<Rightarrow> duration \<Rightarrow> string option \<Rightarrow> amqp_table" where
  "failureHeaders headers retryCount delay cause =
     (let out1 = mput RetryCountHeader (AInt32 (word_of_int retryCount)) headers;
          out2 = mput RetryDelayMillisHeader (AInt64 (word_of_int (delay div 1000000))) out1;
          out3 = (if map_of out2 OriginalRoutingHeader = None
                  then mput OriginalRoutingHeader (AString '''') out2 else out2)
      in (case cause of None \<Rightarrow> out3
          | Some err \<Rightarrow> mput LastErrorHeader (AString (trimHeaderError err)) out3))"

text \<open>The headers that \<^verbatim>\<open>publishWithConfirm\<close> puts on the message.\<close>

definition withOriginalRouting :: "string \<Rightarrow> amqp_table \<Rightarrow> amqp_table" where
  "withOriginalRouting routingKey headers =
     (if map_of headers OriginalRoutingHeader = Some (AString '''')
      then mput OriginalRoutingHeader (AString routingKey) headers else headers)"

datatype FailedDeliveryAction = FailedDeliveryRetried | FailedDeliveryDeadLettered

record Publishing =
  b_Exchange :: string
  b_RoutingKey :: string
  b_Headers :: amqp_table

text \<open>
  \<open>PublishPanics\<close> is the index out of range of \<^verbatim>\<open>consumerRetryDelays[nextRetry-1]\<close>; otherwise the
  outcome depends on the broker, whose error is \<open>publish_err\<close>.
\<close>

datatype failed_delivery =
    NoRetryPolicy
  | PublishPanics
  | PublishRefused Publishing
  | Republished FailedDeliveryAction Publishing

definition PublishFailedDelivery ::
  "string \<Rightarrow> string \<Rightarrow> amqp_table \<Rightarrow> string option \<Rightarrow> (Publishing \<Rightarrow> bool) \<Rightarrow> failed_delivery" where
  "PublishFailedDelivery queue routingKey headers cause accepts =
     (case map_of retryPolicies queue of
        None \<Rightarrow> NoRetryPolicy
      | Some policy \<Rightarrow>
         (let retryCount = DeliveryRetryCount headers in
          if retryCount \<ge> MaxConsumerRetries then
            (let hs = mput DeadLetterReasonHeader (AString ''max_retries_exhausted'')
                        (failureHeaders headers retryCount 0 cause);
                 msg = \<lparr>b_Exchange = DeadLetterExchange,
                        b_RoutingKey = p_deadLetterRoutingKey policy,
                        b_Headers = withOriginalRouting routingKey hs\<rparr>
             in if accepts msg then Republished FailedDeliveryDeadLettered msg
                else PublishRefused msg)
          else
            (let nextRetry = retryCount + 1 in
             if nextRetry - 1 < 0 \<or> nextRetry - 1 \<ge> int (length consumerRetryDelays)
             then PublishPanics
             else
               (let delay = consumerRetryDelays ! nat (nextRetry - 1);
                    msg = \<lparr>b_Exchange = RetryExchange,
                           b_RoutingKey = retryRoutingKey queue nextRetry,
                           b_Headers = withOriginalRouting routingKey
                             (failureHeaders headers nextRetry delay cause)\<rparr>
                in if accepts msg then Republished FailedDeliveryRetried msg
                   else PublishRefused msg))))"

definition DeliveryRoutingKey :: "string \<Rightarrow> amqp_table \<Rightarrow> string" where
  "DeliveryRoutingKey routingKey headers =
     (case map_of headers OriginalRoutingHeader of
        Some (AString value) \<Rightarrow> (let routed = TrimSpace value in if routed \<noteq> '''' then routed else routingKey)
      | _ \<Rightarrow> routingKey)"

section \<open>Consumers\<close>

text \<open>
  What the loops of \<^verbatim>\<open>Consumer.Run\<close> do with one delivery: whether the broker is told
  to keep it (\<open>Requeued\<close>), that it is done, or that a copy went to the retry or dead-letter
  exchange.
\<close>

datatype settled = Acked | AckedRepublished FailedDeliveryAction Publishing | Requeued | Crashed

definition settle_failed :: "string \<Rightarrow> string \<Rightarrow> amqp_table \<Rightarrow> string \<Rightarrow> (Publishing \<Rightarrow> bool) \<Rightarrow> settled" where
  "settle_failed queue routingKey headers err accepts =
     (case PublishFailedDelivery queue routingKey headers (Some err) accepts of
        Republished action msg \<Rightarrow> AckedRepublished action msg
      | PublishPanics \<Rightarrow> Crashed
      | _ \<Rightarrow> Requeued)"

section \<open>Topology\<close>

datatype topology_item =
    DeclareExchange string string
  | DeclareQueue string "(string \<times> string) list" "duration option" \<comment> \<open>name, string arguments, TTL\<close>
  | BindQueue string string string \<comment> \<open>queue, binding key, exchange\<close>

definition deadLetterBindings :: "retryPolicy \<Rightarrow> string list" where
  "deadLetterBindings policy =
     rev (fold (\<lambda>binding bindings. if binding \<in> set bindings then bindings else binding # bindings)
       ([p_deadLetterRoutingKey policy, p_queue policy] @ p_eventBindings policy) [])"

definition declareConsumerTopology :: "retryPolicy \<Rightarrow> topology_item list" where
  "declareConsumerTopology policy =
     [DeclareQueue (p_queue policy) [(''x-dead-letter-exchange'', DeadLetterExchange)] None,
      DeclareQueue (p_deadLetterRoutingKey policy) [] None] @
     map (\<lambda>binding. BindQueue (p_queue policy) binding EventExchange) (p_eventBindings policy) @
     [BindQueue (p_queue policy) (p_queue policy) RetryReturnExchange] @
     map (\<lambda>binding. BindQueue (p_deadLetterRoutingKey policy) binding DeadLetterExchange)
       (deadLetterBindings policy) @
     concat (map (\<lambda>(attempt, delay).
         [DeclareQueue (retryQueueName (p_queue policy) (int attempt + 1))
            [(''x-dead-letter-exchange'', RetryReturnExchange),
             (''x-dead-letter-routing-key'', p_queue policy)] (Some delay),
          BindQueue (retryQueueName (p_queue policy) (int attempt + 1))
            (retryRoutingKey (p_queue policy) (int attempt + 1)) RetryExchange])
       (enumerate 0 consumerRetryDelays))"

definition DeclareTopology :: "topology_item list" where
  "DeclareTopology =
     [DeclareExchange EventExchange ''topic'', DeclareExchange DeadLetterExchange ''topic'',
      DeclareExchange RetryExchange ''direct'', DeclareExchange RetryReturnExchange ''direct''] @
     concat (map (\<lambda>queue. case map_of retryPolicies queue of
        None \<Rightarrow> [] | Some policy \<Rightarrow> declareConsumerTopology policy) [FeedQueue, NotificationQueue])"

end
