(* ===== verification/MessagingProps.thy ===== *)
theory MessagingProps imports Messaging begin

text \<open>Properties of the consumer retry policy and of the declared topology.\<close>

lemma nat_str_digit: "n < 10 \<Longrightarrow> nat_str n = [digit_char n]"
  by (simp add: nat_str.simps)

lemma Itoa_digit: "0 \<le> i \<Longrightarrow> i < 10 \<Longrightarrow> Itoa i = [digit_char (nat i)]"
  by (simp add: Itoa_def nat_str_digit)

lemma policy_feed [simp]: "map_of retryPolicies FeedQueue =
    Some \<lparr>p_queue = FeedQueue, p_retryRoutingKey = FeedQueue @ ''.retry'',
          p_deadLetterRoutingKey = FeedDeadLetterQueue, p_eventBindings = [''event.*'', ''join.*'']\<rparr>"
  by (simp add: retryPolicies_def)

lemma policy_notification [simp]: "map_of retryPolicies NotificationQueue =
    Some \<lparr>p_queue = NotificationQueue, p_retryRoutingKey = NotificationQueue @ ''.retry'',
          p_deadLetterRoutingKey = NotificationDeadLetterQueue,
          p_eventBindings = [''join.confirmed'', ''join.waitlisted'', ''join.promoted'',
            ''join.canceled'', ''event.canceled'']\<rparr>"
  by (simp add: retryPolicies_def queue_names)

lemma retryRoutingKey_queue:
  "queue \<in> {FeedQueue, NotificationQueue} \<Longrightarrow> retryRoutingKey queue n = retryQueueName queue n"
  by (auto simp: retryRoutingKey_def retryQueueName_def)

lemma retry_count_set [simp]:
  "0 \<le> n \<Longrightarrow> n < 2 ^ 31 \<Longrightarrow>
     DeliveryRetryCount (mput RetryCountHeader (AInt32 (word_of_int n)) hs) = n"
  by (simp add: DeliveryRetryCount_def nonNegative_def signed_of_int signed_take_bit_int_eq_self)

lemma retry_count_other:
  "k \<noteq> RetryCountHeader \<Longrightarrow> DeliveryRetryCount (mput k v hs) = DeliveryRetryCount hs"
  by (simp add: DeliveryRetryCount_def)

lemma retry_header_neq [simp]:
  "RetryDelayMillisHeader \<noteq> RetryCountHeader" "OriginalRoutingHeader \<noteq> RetryCountHeader"
  "LastErrorHeader \<noteq> RetryCountHeader" "DeadLetterReasonHeader \<noteq> RetryCountHeader"
  "RetryDelayMillisHeader \<noteq> OriginalRoutingHeader" "RetryCountHeader \<noteq> OriginalRoutingHeader"
  "LastErrorHeader \<noteq> OriginalRoutingHeader" "DeadLetterReasonHeader \<noteq> OriginalRoutingHeader"
  by (simp_all add: header_names)

lemma sint_neg_iff: "sint (v :: 64 word) < 0 \<longleftrightarrow> 2 ^ 63 \<le> uint v"
proof -
  have bounds: "0 \<le> uint v" "uint v < 2 ^ 64" using uint_lt2p [of v] by simp_all
  have "sint v = (uint v + 2 ^ 63) mod 2 ^ 64 - 2 ^ 63"
    using int_word_sint [where x = "uint v" and 'a = 64]
    by simp
  moreover have "(uint v + 2 ^ 63) mod 2 ^ 64 =
      (if uint v < 2 ^ 63 then uint v + 2 ^ 63 else uint v - 2 ^ 63)"
  proof (cases "uint v < 2 ^ 63")
    case True
    then show ?thesis using bounds by (simp add: mod_pos_pos_trivial)
  next
    case False
    have "(uint v + 2 ^ 63) mod 2 ^ 64 = (uint v - 2 ^ 63 + 2 ^ 64) mod 2 ^ 64"
      by (rule arg_cong [where f = "\<lambda>n. n mod 2 ^ 64"]) simp
    also have "\<dots> = uint v - 2 ^ 63" using False bounds by (simp only: mod_add_self2) simp
    finally show ?thesis using False by simp
  qed
  ultimately show ?thesis using bounds by auto
qed

lemma failureHeaders_count:
  "0 \<le> n \<Longrightarrow> n < 2 ^ 31 \<Longrightarrow> DeliveryRetryCount (failureHeaders hs n d cause) = n"
  by (simp add: failureHeaders_def Let_def retry_count_other split: option.split)

lemma withOriginal_count [simp]:
  "DeliveryRetryCount (withOriginalRouting k hs) = DeliveryRetryCount hs"
  by (simp add: withOriginalRouting_def retry_count_other)

section \<open>Retries\<close>

text \<open>
  What the broker does with a message that is published to a retry key: a queue bound to it keeps
  the message for its time to live and dead-letters it to the return exchange, which has the
  consumer's queue bound.
\<close>

definition retry_route :: "string \<Rightarrow> string \<Rightarrow> duration \<Rightarrow> bool" where
  "retry_route queue key delay \<longleftrightarrow>
     (\<exists>q. BindQueue q key RetryExchange \<in> set DeclareTopology \<and>
        DeclareQueue q [(''x-dead-letter-exchange'', RetryReturnExchange),
          (''x-dead-letter-routing-key'', queue)] (Some delay) \<in> set DeclareTopology) \<and>
     BindQueue queue queue RetryReturnExchange \<in> set DeclareTopology"

lemma topology_policy:
  "map_of retryPolicies queue = Some policy \<Longrightarrow> queue \<in> {FeedQueue, NotificationQueue} \<Longrightarrow>
     set (declareConsumerTopology policy) \<subseteq> set DeclareTopology \<and> p_queue policy = queue"
  by (auto simp: DeclareTopology_def)

lemma deadLetterBindings_set:
  "set (deadLetterBindings p) =
     {p_deadLetterRoutingKey p, p_queue p} \<union> set (p_eventBindings p)"
proof -
  have "set (fold (\<lambda>b bs. if b \<in> set bs then bs else b # bs) xs bs) = set xs \<union> set bs"
    for xs bs :: "string list"
    by (induction xs arbitrary: bs) auto
  then show ?thesis by (auto simp: deadLetterBindings_def)
qed

lemma retry_declared:
  assumes "(n, d) \<in> set (enumerate 0 consumerRetryDelays)"
  shows "{DeclareQueue (retryQueueName (p_queue p) (int n + 1))
        [(''x-dead-letter-exchange'', RetryReturnExchange), (''x-dead-letter-routing-key'', p_queue p)]
        (Some d),
      BindQueue (retryQueueName (p_queue p) (int n + 1))
        (retryRoutingKey (p_queue p) (int n + 1)) RetryExchange,
      BindQueue (p_queue p) (p_queue p) RetryReturnExchange} \<subseteq> set (declareConsumerTopology p)"
proof -
  let ?f = "\<lambda>(attempt, delay). [DeclareQueue (retryQueueName (p_queue p) (int attempt + 1))
        [(''x-dead-letter-exchange'', RetryReturnExchange), (''x-dead-letter-routing-key'', p_queue p)]
        (Some delay),
      BindQueue (retryQueueName (p_queue p) (int attempt + 1))
        (retryRoutingKey (p_queue p) (int attempt + 1)) RetryExchange]"
  have "set (?f (n, d)) \<subseteq> set (concat (map ?f (enumerate 0 consumerRetryDelays)))"
    unfolding set_concat set_map using assms by blast
  then show ?thesis unfolding declareConsumerTopology_def set_append by simp
qed

lemma retry_routed:
  assumes "queue \<in> {FeedQueue, NotificationQueue}" and "n < length consumerRetryDelays"
  shows "retry_route queue (retryRoutingKey queue (int n + 1)) (consumerRetryDelays ! n)"
proof -
  obtain policy where p: "map_of retryPolicies queue = Some policy" using assms(1) by auto
  note top = topology_policy [OF p assms(1)]
  have "(n, consumerRetryDelays ! n) \<in> set (enumerate 0 consumerRetryDelays)"
    using assms(2) by (simp add: in_set_enumerate_eq)
  from retry_declared [OF this, of policy]
  show ?thesis using conjunct1 [OF top] conjunct2 [OF top] unfolding retry_route_def by blast
qed

text \<open>
  C14. A consumer that fails on a delivery for the n-th time publishes it to the retry exchange
  under a key whose queue delays it by the n-th delay and returns it to the consumer's queue, with
  the count n in its headers; the sixth failure sends it to the consumer's dead-letter queue, so
  that a message is retried five times at most.
\<close>

theorem failed_delivery_retried_or_dead:
  assumes "queue \<in> {FeedQueue, NotificationQueue}" and "0 \<le> DeliveryRetryCount headers"
  shows "\<exists>msg. PublishFailedDelivery queue key headers cause (\<lambda>_. True) =
      Republished (if DeliveryRetryCount headers < 5 then FailedDeliveryRetried
                   else FailedDeliveryDeadLettered) msg \<and>
    (DeliveryRetryCount headers < 5 \<longrightarrow>
      b_Exchange msg = RetryExchange \<and>
      DeliveryRetryCount (b_Headers msg) = DeliveryRetryCount headers + 1 \<and>
      retry_route queue (b_RoutingKey msg)
        ([5 * second, 30 * second, 2 * minute, 10 * minute, 30 * minute]
          ! nat (DeliveryRetryCount headers))) \<and>
    (5 \<le> DeliveryRetryCount headers \<longrightarrow>
      b_Exchange msg = DeadLetterExchange \<and>
      BindQueue (b_RoutingKey msg) (b_RoutingKey msg) DeadLetterExchange \<in> set DeclareTopology)"
proof (cases "DeliveryRetryCount headers < 5")
  case True
  let ?n = "nat (DeliveryRetryCount headers)"
  obtain policy where p: "map_of retryPolicies queue = Some policy" using assms(1) by auto
  have n: "?n < length consumerRetryDelays" "int ?n = DeliveryRetryCount headers"
    using assms(2) True by (simp_all add: consumerRetryDelays_def)
  have "retry_route queue (retryRoutingKey queue (DeliveryRetryCount headers + 1))
      (consumerRetryDelays ! ?n)"
    using retry_routed [OF assms(1) n(1)] n(2) by simp
  then show ?thesis
    using True assms(2) p
    by (simp add: PublishFailedDelivery_def MaxConsumerRetries_def Let_def failureHeaders_count
        consumerRetryDelays_def)
next
  case False
  have "BindQueue (p_deadLetterRoutingKey policy) (p_deadLetterRoutingKey policy) DeadLetterExchange
      \<in> set DeclareTopology" if "map_of retryPolicies queue = Some policy" for policy
  proof -
    have "p_deadLetterRoutingKey policy \<in> set (deadLetterBindings policy)"
      by (simp add: deadLetterBindings_set)
    then show ?thesis
      using topology_policy [OF that assms(1)] by (auto simp: declareConsumerTopology_def)
  qed
  then show ?thesis
    using False assms(1) by (auto simp: PublishFailedDelivery_def MaxConsumerRetries_def Let_def)
qed

theorem failed_delivery_retried_or_dead_witness:
  "\<exists>msg. PublishFailedDelivery FeedQueue ''join.confirmed'' [(RetryCountHeader, AInt32 4)] None (\<lambda>_. True) =
      Republished FailedDeliveryRetried msg \<and> DeliveryRetryCount (b_Headers msg) = 5"
  using failed_delivery_retried_or_dead [of FeedQueue "[(RetryCountHeader, AInt32 4)]" "''join.confirmed''" None]
  by (auto simp: DeliveryRetryCount_def nonNegative_def)

text \<open>
  The only header that makes the republication of a failed delivery index the delays out of
  range is an unsigned 64-bit retry count of at least 2^63, which the conversion to int turns into
  a negative number: the consumer then panics.
\<close>

theorem retry_panics_iff:
  assumes "queue \<in> {FeedQueue, NotificationQueue}"
  shows "PublishFailedDelivery queue key headers cause accepts = PublishPanics \<longleftrightarrow>
    (\<exists>v. map_of headers RetryCountHeader = Some (AUint64 v) \<and> 2 ^ 63 \<le> uint v)"
proof -
  have "PublishFailedDelivery queue key headers cause accepts = PublishPanics \<longleftrightarrow>
      DeliveryRetryCount headers < 0"
    using assms
    by (auto simp: PublishFailedDelivery_def Let_def MaxConsumerRetries_def consumerRetryDelays_def
        split: if_splits)
  also have "\<dots> \<longleftrightarrow> (\<exists>v. map_of headers RetryCountHeader = Some (AUint64 v) \<and> sint v < 0)"
    by (auto simp: DeliveryRetryCount_def nonNegative_def not_less split: option.splits amqp_value.splits)
  also have "\<dots> \<longleftrightarrow> (\<exists>v. map_of headers RetryCountHeader = Some (AUint64 v) \<and> 2 ^ 63 \<le> uint v)"
    by (simp add: sint_neg_iff)
  finally show ?thesis .
qed

theorem retry_panics_iff_witness:
  "PublishFailedDelivery FeedQueue ''join.confirmed'' [(RetryCountHeader, AUint64 (- 1))] None (\<lambda>_. True)
     = PublishPanics"
  using retry_panics_iff [of FeedQueue "''join.confirmed''" "[(RetryCountHeader, AUint64 (- 1))]" None "\<lambda>_. True"]
  by (auto simp: unsigned_minus_1_eq_mask mask_eq_exp_minus_1)

end
