(* ===== verification/OutboxRelay.thy ===== *)
theory OutboxRelay imports Messaging Tx "HOL-Library.Product_Lexorder" begin

text \<open>
  \<^verbatim>\<open>internal/services/outboxrelay/relay.go\<close>: the relay that publishes the rows of
  \<^verbatim>\<open>outbox_messages\<close>. Its state is the table and the messages that the broker has accepted; what
  the publisher, the database and the clocks do during a batch is an argument.
\<close>

definition DefaultBatchSize :: int where "DefaultBatchSize = 100"
definition MaxOutboxPublishAttempts :: int where "MaxOutboxPublishAttempts = 8"

definition outboxRetryBackoffs :: "duration list" where
  "outboxRetryBackoffs =
     [1 * second, 4 * second, 15 * second, 1 * minute, 5 * minute, 15 * minute, 1 * hour]"

datatype OutboxStatus = OutboxPending | OutboxSent | OutboxFailed | OutboxDead

record OutboxRow =
  x_ID :: string
  x_AggregateType :: string
  x_AggregateID :: string
  x_RoutingKey :: string
  x_Payload :: "json_object option"
  x_Status :: OutboxStatus
  x_CreatedAt :: time
  x_AvailableAt :: time
  x_Attempts :: int
  x_LastError :: string
  x_SentAt :: "time option"

record RelayState =
  y_rows :: "OutboxRow list"
  y_broker :: "(string \<times> Envelope) list" \<comment> \<open>routing key and envelope, in the order of acceptance\<close>

text \<open>
  \<open>PublishLost\<close> is an accepted message whose confirmation did not arrive (timeout, closed
  channel); the strings are the texts of the errors.
\<close>

datatype publish_result = PublishAcked | PublishRejected string | PublishLost string

record BatchEnv =
  z_now :: time \<comment> \<open>\<^verbatim>\<open>r.now()\<close> at the start\<close>
  z_failNow :: time \<comment> \<open>\<^verbatim>\<open>r.now()\<close> when a failure is marked\<close>
  z_dbNow :: time \<comment> \<open>\<^verbatim>\<open>now()\<close> of the transaction\<close>
  z_locked :: "string \<Rightarrow> bool" \<comment> \<open>rows that another relay holds\<close>
  z_publish :: "Envelope \<Rightarrow> publish_result"
  z_faults :: faults
  z_commit :: commit_outcome

section \<open>Decisions\<close>

definition retryBackoff :: "int \<Rightarrow> duration" where
  "retryBackoff attempts =
     (if attempts \<le> 0 then outboxRetryBackoffs ! 0
      else if attempts > int (length outboxRetryBackoffs)
      then outboxRetryBackoffs ! (length outboxRetryBackoffs - 1)
      else outboxRetryBackoffs ! nat (attempts - 1))"

definition shouldMarkOutboxDead :: "int \<Rightarrow> bool" where
  "shouldMarkOutboxDead attempts \<longleftrightarrow> attempts \<ge> MaxOutboxPublishAttempts"

definition failureMessage :: "string option \<Rightarrow> string" where
  "failureMessage cause =
     (case cause of
        None \<Rightarrow> ''''
      | Some err \<Rightarrow> (let message = TrimSpace err
                    in if length message > 500 then take 500 message else message))"

definition recordEnvelope :: "OutboxRow \<Rightarrow> string + Envelope" where
  "recordEnvelope r =
     (let correlationID =
        (case x_Payload r of
           None \<Rightarrow> ''''
         | Some p \<Rightarrow> (case map_of p ''correlationId'' of Some (JString value) \<Rightarrow> value | _ \<Rightarrow> ''''))
      in NewEnvelope (x_ID r) (x_RoutingKey r) (x_AggregateType r) (x_AggregateID r) correlationID
           (x_CreatedAt r) (x_Payload r))"

section \<open>Statements\<close>

definition selectAvailable :: "BatchEnv \<Rightarrow> int \<Rightarrow> OutboxRow list \<Rightarrow> OutboxRow list" where
  "selectAvailable env limit rows =
     take (nat limit)
       (sort_key (\<lambda>r. (x_CreatedAt r, x_ID r))
         (filter (\<lambda>r. (x_Status r = OutboxPending \<or> x_Status r = OutboxFailed) \<and>
                      x_AvailableAt r \<le> pg_ts (z_now env) \<and> \<not> z_locked env (x_ID r)) rows))"

definition set_row :: "string \<Rightarrow> (OutboxRow \<Rightarrow> OutboxRow) \<Rightarrow> OutboxRow list \<Rightarrow> OutboxRow list" where
  "set_row i f rows = map (\<lambda>r. if x_ID r = i then f r else r) rows"

definition sent_row :: "BatchEnv \<Rightarrow> OutboxRow \<Rightarrow> OutboxRow" where
  "sent_row env r = r\<lparr>x_Status := OutboxSent, x_SentAt := Some (z_dbNow env), x_LastError := ''''\<rparr>"

definition failed_row :: "BatchEnv \<Rightarrow> int \<Rightarrow> string \<Rightarrow> OutboxRow \<Rightarrow> OutboxRow" where
  "failed_row env attempts cause r =
     r\<lparr>x_Status := OutboxFailed, x_Attempts := attempts,
       x_AvailableAt := pg_ts (z_failNow env + retryBackoff attempts),
       x_LastError := failureMessage (Some cause)\<rparr>"

definition dead_row :: "BatchEnv \<Rightarrow> int \<Rightarrow> string \<Rightarrow> OutboxRow \<Rightarrow> OutboxRow" where
  "dead_row env attempts cause r =
     r\<lparr>x_Status := OutboxDead, x_Attempts := attempts, x_AvailableAt := z_dbNow env,
       x_LastError := failureMessage (Some cause)\<rparr>"

text \<open>
  The result of the loop: the count, the error if any, and whether a statement failed, after
  which the transaction can only be rolled back.
\<close>

record BatchOutcome =
  k_published :: int
  k_error :: "string option"
  k_aborted :: bool

definition markPublishFailure ::
  "BatchEnv \<Rightarrow> OutboxRow \<Rightarrow> string \<Rightarrow> faults \<Rightarrow> OutboxRow list \<Rightarrow> bool \<times> OutboxRow list" where
  "markPublishFailure env r cause fs rows =
     (let attempts = x_Attempts r + 1;
          mark = (if shouldMarkOutboxDead attempts then dead_row env attempts cause
                  else failed_row env attempts cause)
      in if faulty fs \<or> \<not> text_ok (failureMessage (Some cause)) then (True, rows)
         else (False, set_row (x_ID r) mark rows))"

section \<open>A batch\<close>

fun publish_records ::
  "BatchEnv \<Rightarrow> OutboxRow list \<Rightarrow> int \<Rightarrow> faults \<Rightarrow> RelayState \<Rightarrow> BatchOutcome \<times> RelayState" where
  "publish_records env [] published fs s =
     (\<lparr>k_published = published, k_error = None, k_aborted = False\<rparr>, s)"
| "publish_records env (r # records) published fs s =
     (case recordEnvelope r of
        Inl err \<Rightarrow>
          (let (aborted, rows) = markPublishFailure env r err fs (y_rows s)
           in (\<lparr>k_published = published, k_error = Some err, k_aborted = aborted\<rparr>, s\<lparr>y_rows := rows\<rparr>))
      | Inr envelope \<Rightarrow>
          (let result = z_publish env envelope;
               s1 = (case result of
                       PublishRejected _ \<Rightarrow> s
                     | _ \<Rightarrow> s\<lparr>y_broker := y_broker s @ [(x_RoutingKey r, envelope)]\<rparr>)
           in case result of
                PublishAcked \<Rightarrow>
                  if faulty fs
                  then (\<lparr>k_published = published, k_error = Some ''mark sent'', k_aborted = True\<rparr>, s1)
                  else publish_records env records (published + 1) (tl fs)
                         (s1\<lparr>y_rows := set_row (x_ID r) (sent_row env) (y_rows s1)\<rparr>)
              | PublishRejected err \<Rightarrow>
                  (let (aborted, rows) = markPublishFailure env r err fs (y_rows s1)
                   in (\<lparr>k_published = published, k_error = Some err, k_aborted = aborted\<rparr>,
                       s1\<lparr>y_rows := rows\<rparr>))
              | PublishLost err \<Rightarrow>
                  (let (aborted, rows) = markPublishFailure env r err fs (y_rows s1)
                   in (\<lparr>k_published = published, k_error = Some err, k_aborted = aborted\<rparr>,
                       s1\<lparr>y_rows := rows\<rparr>))))"

text \<open>
  \<^verbatim>\<open>withBatch\<close> commits also after an error of the loop, which keeps the marks; the commit of a
  transaction in which a statement failed rolls it back. What the broker accepted stays.
\<close>

definition withBatch :: "BatchEnv \<Rightarrow> int \<Rightarrow> RelayState \<Rightarrow> RelayState \<times> int \<times> string option" where
  "withBatch env limit s =
     (let fs = z_faults env in
      if faulty fs then (s, 0, Some ''begin'')
      else if faulty (tl fs) then (s, 0, Some ''select'')
      else
        (let (out, s') = publish_records env (selectAvailable env limit (y_rows s)) 0 (tl (tl fs)) s;
             rolled_back = s'\<lparr>y_rows := y_rows s\<rparr>
         in if k_aborted out then (rolled_back, k_published out, k_error out)
            else (case z_commit env of
                    Committed \<Rightarrow> (s', k_published out, k_error out)
                  | CommitRefused \<Rightarrow> (rolled_back, k_published out, Some ''commit'')
                  | CommitUnknown \<Rightarrow> (s', k_published out, Some ''commit''))))"

definition PublishBatch :: "BatchEnv \<Rightarrow> int \<Rightarrow> RelayState \<Rightarrow> RelayState \<times> int \<times> string option" where
  "PublishBatch env limit s =
     withBatch env (if limit \<le> 0 then DefaultBatchSize else limit) s"

end
