(* ===== verification/OutboxRelayProps.thy ===== *)
theory OutboxRelayProps imports OutboxRelay begin

text \<open>Correctness of the relay over any sequence of batches, faults and newly written rows.\<close>

section \<open>The invariant\<close>

definition broker_has :: "OutboxRow \<Rightarrow> (string \<times> Envelope) list \<Rightarrow> bool" where
  "broker_has r broker \<longleftrightarrow>
     (\<exists>e. (x_RoutingKey r, e) \<in> set broker \<and> v_MessageID e = TrimSpace (x_ID r) \<and>
        v_Payload e = x_Payload r)"

definition row_ok :: "(string \<times> Envelope) list \<Rightarrow> OutboxRow \<Rightarrow> bool" where
  "row_ok broker r \<longleftrightarrow>
     0 \<le> x_Attempts r \<and> x_Attempts r \<le> MaxOutboxPublishAttempts \<and>
     (case x_Status r of
        OutboxPending \<Rightarrow> x_Attempts r < MaxOutboxPublishAttempts
      | OutboxFailed \<Rightarrow> x_Attempts r < MaxOutboxPublishAttempts
      | OutboxDead \<Rightarrow> x_Attempts r = MaxOutboxPublishAttempts
      | OutboxSent \<Rightarrow> broker_has r broker)"

definition relay_inv :: "RelayState \<Rightarrow> bool" where
  "relay_inv s \<longleftrightarrow> distinct (map x_ID (y_rows s)) \<and> (\<forall>r \<in> set (y_rows s). row_ok (y_broker s) r)"

lemma broker_has_append: "broker_has r b \<Longrightarrow> broker_has r (b @ c)"
  by (auto simp: broker_has_def)

lemma row_ok_append: "row_ok b r \<Longrightarrow> row_ok (b @ c) r"
  by (auto simp: row_ok_def broker_has_append split: OutboxStatus.splits)

lemma set_row_ids [simp]: "(\<And>r. x_ID (f r) = x_ID r) \<Longrightarrow> map x_ID (set_row i f rows) = map x_ID rows"
  by (simp add: set_row_def comp_def if_distrib cong: if_cong)

lemma set_row_in:
  "r' \<in> set (set_row i f rows) \<Longrightarrow> \<exists>r \<in> set rows. r' = (if x_ID r = i then f r else r)"
  by (auto simp: set_row_def)

lemma marks_keep_id [simp]:
  "x_ID (sent_row env r) = x_ID r" "x_ID (failed_row env n c r) = x_ID r"
  "x_ID (dead_row env n c r) = x_ID r"
  by (simp_all add: sent_row_def failed_row_def dead_row_def)

lemma distinct_row: "distinct (map x_ID rows) \<Longrightarrow> r \<in> set rows \<Longrightarrow> r' \<in> set rows \<Longrightarrow>
    x_ID r = x_ID r' \<Longrightarrow> r = r'"
  by (meson distinct_map inj_on_eq_iff)

lemma recordEnvelope_Inr:
  "recordEnvelope r = Inr e \<Longrightarrow> v_MessageID e = TrimSpace (x_ID r) \<and> v_Payload e = x_Payload r"
  by (auto simp: recordEnvelope_def Let_def dest: NewEnvelope_Inr)

text \<open>A row that a batch selected and has not yet treated is still as it was.\<close>

lemma selected:
  "r \<in> set (selectAvailable env limit rows) \<Longrightarrow>
     r \<in> set rows \<and> (x_Status r = OutboxPending \<or> x_Status r = OutboxFailed) \<and>
     x_AvailableAt r \<le> pg_ts (z_now env)"
  by (auto simp: selectAvailable_def dest: in_set_takeD)

lemma selected_distinct:
  "distinct (map x_ID rows) \<Longrightarrow> distinct (map x_ID (selectAvailable env limit rows))"
proof -
  assume "distinct (map x_ID rows)"
  then have "distinct (map x_ID (sort_key (\<lambda>r. (x_CreatedAt r, x_ID r))
      (filter (\<lambda>r. (x_Status r = OutboxPending \<or> x_Status r = OutboxFailed) \<and>
                   x_AvailableAt r \<le> pg_ts (z_now env) \<and> \<not> z_locked env (x_ID r)) rows)))"
    by (simp add: distinct_map inj_on_def)
  then show ?thesis unfolding selectAvailable_def by (simp add: take_map [symmetric])
qed

lemma set_row_inv:
  assumes inv: "relay_inv s" and r: "r \<in> set (y_rows s)"
    and f: "\<And>r. x_ID (f r) = x_ID r" and ok: "row_ok (y_broker s) (f r)"
  shows "relay_inv (s\<lparr>y_rows := set_row (x_ID r) f (y_rows s)\<rparr>)"
proof -
  have "row_ok (y_broker s) r'" if r': "r' \<in> set (set_row (x_ID r) f (y_rows s))" for r'
  proof -
    obtain q where q: "q \<in> set (y_rows s)" "r' = (if x_ID q = x_ID r then f q else q)"
      using set_row_in [OF r'] by auto
    show ?thesis
    proof (cases "x_ID q = x_ID r")
      case True
      then have "q = r" using inv q(1) r distinct_row unfolding relay_inv_def by blast
      then show ?thesis using q ok by simp
    next
      case False
      then show ?thesis using q inv by (simp add: relay_inv_def)
    qed
  qed
  then show ?thesis using inv f by (simp add: relay_inv_def)
qed

lemma failure_mark_ok:
  assumes "row_ok b r" and "x_Status r = OutboxPending \<or> x_Status r = OutboxFailed"
  shows "row_ok b (if shouldMarkOutboxDead (x_Attempts r + 1)
    then dead_row env (x_Attempts r + 1) cause r else failed_row env (x_Attempts r + 1) cause r)"
  using assms
  by (auto simp: row_ok_def shouldMarkOutboxDead_def dead_row_def failed_row_def
      split: OutboxStatus.splits)

lemma markPublishFailure_inv:
  assumes "relay_inv s" and "r \<in> set (y_rows s)"
    and "x_Status r = OutboxPending \<or> x_Status r = OutboxFailed"
    and "markPublishFailure env r cause fs (y_rows s) = (aborted, rows)"
  shows "relay_inv (s\<lparr>y_rows := rows\<rparr>)"
proof -
  let ?f = "if shouldMarkOutboxDead (x_Attempts r + 1) then dead_row env (x_Attempts r + 1) cause
    else failed_row env (x_Attempts r + 1) cause"
  have "row_ok (y_broker s) r" using assms(1,2) by (simp add: relay_inv_def)
  from failure_mark_ok [OF this assms(3), of env cause]
  have "relay_inv (s\<lparr>y_rows := set_row (x_ID r) ?f (y_rows s)\<rparr>)"
    by (intro set_row_inv [OF assms(1,2)]) (simp_all split: if_splits)
  then show ?thesis
    using assms(1,4) by (auto simp: markPublishFailure_def Let_def split: if_splits)
qed

lemma broker_inv: "relay_inv s \<Longrightarrow> relay_inv (s\<lparr>y_broker := y_broker s @ c\<rparr>)"
  by (simp add: relay_inv_def row_ok_append)

lemma publish_records_inv:
  assumes "relay_inv s" and "distinct (map x_ID records)"
    and "\<And>r. r \<in> set records \<Longrightarrow> r \<in> set (y_rows s) \<and>
      (x_Status r = OutboxPending \<or> x_Status r = OutboxFailed)"
  shows "relay_inv (snd (publish_records env records n fs s))"
  using assms
proof (induction records arbitrary: n fs s)
  case (Cons r records)
  have r: "r \<in> set (y_rows s)" "x_Status r = OutboxPending \<or> x_Status r = OutboxFailed"
    using Cons.prems(3) by auto
  have fail: "relay_inv (t\<lparr>y_rows := snd (markPublishFailure env r cause fs (y_rows t))\<rparr>)"
    if "relay_inv t" "y_rows t = y_rows s" for t cause
    using markPublishFailure_inv [OF that(1), of r env cause fs] that(2) r by (metis surjective_pairing)
  show ?case
  proof (cases "recordEnvelope r")
    case (Inl err)
    then show ?thesis using fail [of s err] Cons.prems(1) by (simp add: Let_def split_def)
  next
    case (Inr e)
    let ?s1 = "s\<lparr>y_broker := y_broker s @ [(x_RoutingKey r, e)]\<rparr>"
    have s1: "relay_inv ?s1" by (rule broker_inv [OF Cons.prems(1)])
    show ?thesis
    proof (cases "z_publish env e")
      case PublishAcked
      have "broker_has r (y_broker ?s1)"
        using recordEnvelope_Inr [OF Inr] by (auto simp: broker_has_def)
      then have "row_ok (y_broker ?s1) (sent_row env r)"
        using s1 r(1) by (auto simp: relay_inv_def row_ok_def sent_row_def broker_has_def)
      then have s2: "relay_inv (?s1\<lparr>y_rows := set_row (x_ID r) (sent_row env) (y_rows ?s1)\<rparr>)"
        using r(1) by (intro set_row_inv [OF s1]) simp_all
      have "q \<in> set (set_row (x_ID r) (sent_row env) (y_rows s))" if "q \<in> set records" for q
      proof -
        have "x_ID q \<noteq> x_ID r" using Cons.prems(2) imageI [OF that, of x_ID] by auto
        then show ?thesis using Cons.prems(3) [of q] that by (force simp: set_row_def)
      qed
      then have "relay_inv (snd (publish_records env records (n + 1) (tl fs)
          (?s1\<lparr>y_rows := set_row (x_ID r) (sent_row env) (y_rows ?s1)\<rparr>)))"
        using Cons.prems(2,3) by (intro Cons.IH s2) auto
      then show ?thesis using Inr PublishAcked s1 by (simp add: Let_def)
    next
      case (PublishRejected err)
      then show ?thesis using Inr fail [of s err] Cons.prems(1) by (simp add: Let_def split_def)
    next
      case (PublishLost err)
      then show ?thesis using Inr fail [OF s1, of err] by (simp add: Let_def split_def)
    qed
  qed
qed simp

lemma publish_records_broker:
  "\<exists>c. y_broker (snd (publish_records env records n fs s)) = y_broker s @ c"
proof (induction records arbitrary: n fs s)
  case (Cons r records)
  show ?case
  proof (cases "recordEnvelope r")
    case (Inr e)
    then show ?thesis
      using Cons [of "n + 1" "tl fs" "s\<lparr>y_broker := y_broker s @ [(x_RoutingKey r, e)],
          y_rows := set_row (x_ID r) (sent_row env) (y_rows s)\<rparr>"]
      by (cases "z_publish env e") (auto simp: Let_def split_def)
  qed (simp add: Let_def split_def)
qed simp

lemma PublishBatch_inv:
  assumes inv: "relay_inv s"
  shows "relay_inv (fst (PublishBatch env limit s))"
proof -
  define lim where "lim = (if limit \<le> 0 then DefaultBatchSize else limit)"
  obtain out s' where run: "publish_records env (selectAvailable env lim (y_rows s)) 0
      (tl (tl (z_faults env))) s = (out, s')" by (cases "publish_records env
        (selectAvailable env lim (y_rows s)) 0 (tl (tl (z_faults env))) s")
  have "distinct (map x_ID (y_rows s))" using inv by (simp add: relay_inv_def)
  then have "relay_inv (snd (publish_records env (selectAvailable env lim (y_rows s)) 0
      (tl (tl (z_faults env))) s))"
    by (intro publish_records_inv [OF inv selected_distinct]) (auto dest: selected)
  then have "relay_inv s'" by (simp add: run)
  moreover obtain c where "y_broker s' = y_broker s @ c"
    using publish_records_broker [of env _ 0 "tl (tl (z_faults env))" s] run by (metis snd_conv)
  then have "relay_inv (s'\<lparr>y_rows := y_rows s\<rparr>)"
    using inv by (simp add: relay_inv_def row_ok_append)
  ultimately show ?thesis
    using inv run by (auto simp: PublishBatch_def withBatch_def lim_def [symmetric] Let_def
        split: commit_outcome.split)
qed

text \<open>The services write new pending rows; the relay runs batches.\<close>

inductive relay_step :: "RelayState \<Rightarrow> RelayState \<Rightarrow> bool" where
  relay_insert: "x_ID r \<notin> x_ID ` set (y_rows s) \<Longrightarrow> x_Status r = OutboxPending \<Longrightarrow> x_Attempts r = 0 \<Longrightarrow>
    relay_step s (s\<lparr>y_rows := y_rows s @ [r]\<rparr>)"
| relay_batch: "relay_step s (fst (PublishBatch env limit s))"

inductive relay_reachable :: "RelayState \<Rightarrow> bool" where
  relay_start: "relay_reachable \<lparr>y_rows = [], y_broker = []\<rparr>"
| relay_more: "relay_reachable s \<Longrightarrow> relay_step s s' \<Longrightarrow> relay_reachable s'"

lemma relay_step_inv: "relay_step s s' \<Longrightarrow> relay_inv s \<Longrightarrow> relay_inv s'"
proof (induction rule: relay_step.induct)
  case (relay_insert r s)
  then show ?case by (auto simp: relay_inv_def row_ok_def MaxOutboxPublishAttempts_def)
qed (rule PublishBatch_inv)

lemma relay_reachable_inv: "relay_reachable s \<Longrightarrow> relay_inv s"
proof (induction rule: relay_reachable.induct)
  case relay_start
  then show ?case by (simp add: relay_inv_def)
qed (rule relay_step_inv)

section \<open>Properties\<close>

definition ex_row :: OutboxRow where
  "ex_row = \<lparr>x_ID = ''m1'', x_AggregateType = ''event'', x_AggregateID = ''ev'',
     x_RoutingKey = ''event.published'', x_Payload = Some [], x_Status = OutboxPending,
     x_CreatedAt = 5, x_AvailableAt = 5, x_Attempts = 0, x_LastError = '''', x_SentAt = None\<rparr>"

definition ex_envelope :: Envelope where
  "ex_envelope = \<lparr>v_MessageID = ''m1'', v_RoutingKey = ''event.published'',
     v_AggregateType = ''event'', v_AggregateID = ''ev'', v_OccurredAt = 5, v_CorrelationID = '''',
     v_Payload = Some []\<rparr>"

definition ex_env :: "publish_result \<Rightarrow> BatchEnv" where
  "ex_env result = \<lparr>z_now = 9000, z_failNow = 9000, z_dbNow = 9000, z_locked = (\<lambda>_. False),
     z_publish = (\<lambda>_. result), z_faults = [], z_commit = Committed\<rparr>"

definition ex_relay :: RelayState where
  "ex_relay = \<lparr>y_rows = [ex_row], y_broker = []\<rparr>"

lemma ex_row_envelope: "recordEnvelope ex_row = Inr ex_envelope"
  by (simp add: recordEnvelope_def NewEnvelope_def ValidateEnvelope_def ex_row_def ex_envelope_def
      str_eval Let_def)

lemma ex_relay_reachable: "relay_reachable ex_relay"
  using relay_more [OF relay_start relay_insert [of ex_row]] by (simp add: ex_relay_def ex_row_def)

text \<open>
  C16. No message is lost: in every state that the services and the relay reach, under any faults
  of the database and the broker, a row that is marked sent has been accepted by the broker with
  its id, routing key and payload.
\<close>

theorem sent_rows_published:
  assumes "relay_reachable s" and "r \<in> set (y_rows s)" and "x_Status r = OutboxSent"
  shows "\<exists>e. (x_RoutingKey r, e) \<in> set (y_broker s) \<and> v_MessageID e = TrimSpace (x_ID r) \<and>
    v_Payload e = x_Payload r"
  using relay_reachable_inv [OF assms(1)] assms(2,3)
  by (auto simp: relay_inv_def row_ok_def broker_has_def)

lemma ex_batch_sent:
  "PublishBatch (ex_env PublishAcked) 10 ex_relay =
     (\<lparr>y_rows = [sent_row (ex_env PublishAcked) ex_row],
       y_broker = [(''event.published'', ex_envelope)]\<rparr>, 1, None)"
  using ex_row_envelope
  by (simp add: PublishBatch_def withBatch_def ex_env_def faulty_def selectAvailable_def ex_relay_def
      pg_ts_def set_row_def Let_def) (simp add: ex_row_def set_row_def)

theorem sent_rows_published_witness:
  "\<exists>e. (''event.published'', e) \<in> set (y_broker (fst (PublishBatch (ex_env PublishAcked) 10 ex_relay))) \<and>
     v_MessageID e = ''m1''"
proof -
  have "sent_row (ex_env PublishAcked) ex_row
      \<in> set (y_rows (fst (PublishBatch (ex_env PublishAcked) 10 ex_relay)))"
    by (simp add: ex_batch_sent)
  from sent_rows_published [OF relay_more [OF ex_relay_reachable relay_batch] this]
  show ?thesis by (auto simp: sent_row_def ex_row_def str_eval)
qed



text \<open>Records that the broker confirms, followed by others.\<close>

lemma publish_prefix:
  assumes "\<And>r. r \<in> set good \<Longrightarrow> \<exists>e. recordEnvelope r = Inr e \<and> z_publish env e = PublishAcked"
  shows "publish_records env (good @ records) n [] s =
    publish_records env records (n + int (length good)) []
     \<lparr>y_rows = map (\<lambda>q. if x_ID q \<in> x_ID ` set good then sent_row env q else q) (y_rows s),
      y_broker = y_broker s @ map (\<lambda>r. (x_RoutingKey r, projr (recordEnvelope r))) good\<rparr>"
  using assms
proof (induction good arbitrary: n s)
  case (Cons r good)
  obtain e where e: "recordEnvelope r = Inr e" "z_publish env e = PublishAcked"
    using Cons.prems(1) by auto
  let ?s = "s\<lparr>y_broker := y_broker s @ [(x_RoutingKey r, e)],
    y_rows := set_row (x_ID r) (sent_row env) (y_rows s)\<rparr>"
  have "publish_records env (good @ records) (n + 1) [] ?s =
    publish_records env records (n + 1 + int (length good)) []
     \<lparr>y_rows = map (\<lambda>q. if x_ID q \<in> x_ID ` set good then sent_row env q else q) (y_rows ?s),
      y_broker = y_broker ?s @ map (\<lambda>r. (x_RoutingKey r, projr (recordEnvelope r))) good\<rparr>"
    by (rule Cons.IH) (rule Cons.prems(1), simp)
  moreover have "map (\<lambda>q. if x_ID q \<in> x_ID ` set good then sent_row env q else q)
        (set_row (x_ID r) (sent_row env) (y_rows s)) =
      map (\<lambda>q. if x_ID q \<in> x_ID ` set (r # good) then sent_row env q else q) (y_rows s)"
    by (simp add: set_row_def sent_row_def)
  ultimately show ?case using e by (simp add: Let_def faulty_def ac_simps)
next
  case Nil
  show ?case by (cases s) simp
qed




lemma ex_failure_text: "failureMessage (Some ''broker down'') = ''broker down''"
  by (simp add: failureMessage_def str_eval)


definition cut_error :: string where
  "cut_error = replicate 499 (CHR ''a'') @ [CHR 0xC3, CHR 0xA9, CHR ''b'']"

lemma cut_error_widths:
  "rune_widths (replicate n (CHR ''a'') @ t) = replicate n (97, 1) @ rune_widths t"
  by (induction n) (simp_all add: utf8_decode_def byte_def Let_def)

lemma cut_error_invalid:
  "utf8_valid cut_error \<and> \<not> utf8_valid (failureMessage (Some cut_error))"
proof -
  have "rune_widths [CHR 0xC3, CHR 0xA9, CHR ''b''] = [(233, 2), (98, 1)]"
    by (simp add: utf8_decode_def in_range_def byte_def Let_def)
  then have valid: "utf8_valid cut_error"
    unfolding cut_error_def utf8_valid_def cut_error_widths by (simp add: RuneError_def)
  have "solid_ends cut_error" by (simp add: cut_error_def solid_ends_def solid_def byte_def)
  then have "TrimSpace cut_error = cut_error" by (rule TrimSpace_solid)
  then have "failureMessage (Some cut_error) = replicate 499 (CHR ''a'') @ [CHR 0xC3]"
    by (simp add: failureMessage_def cut_error_def take_append)
  moreover have "rune_widths [CHR 0xC3] = [(RuneError, 1)]"
    by (simp add: utf8_decode_def byte_def Let_def)
  ultimately have "\<not> utf8_valid (failureMessage (Some cut_error))"
    by (simp add: utf8_valid_def cut_error_widths)
  with valid show ?thesis by blast
qed

text \<open>
  C20. An error text that is cut inside a character blocks the relay: the database refuses the
  cut text, the transaction is rolled back with all marks of the batch, although the broker has
  accepted the messages before the failing one; since the attempts of the failing row never grow,
  the same happens in every batch.
\<close>

theorem cut_error_text_blocks:
  assumes "selectAvailable env limit (y_rows s) = good @ r # records"
    and "\<And>q. q \<in> set good \<Longrightarrow> \<exists>e. recordEnvelope q = Inr e \<and> z_publish env e = PublishAcked"
    and "recordEnvelope r = Inr e" and "z_publish env e = PublishRejected cut_error"
    and "0 < limit" and "z_faults env = []"
  shows "utf8_valid cut_error \<and> y_rows (fst (PublishBatch env limit s)) = y_rows s \<and>
    y_broker (fst (PublishBatch env limit s)) =
      y_broker s @ map (\<lambda>q. (x_RoutingKey q, projr (recordEnvelope q))) good"
  using cut_error_invalid publish_prefix [of good env "r # records" 0 s, OF assms(2)] assms(1,3,4,5,6)
  by (simp add: PublishBatch_def withBatch_def faulty_def markPublishFailure_def text_ok_def Let_def)

theorem cut_error_text_blocks_witness:
  "y_rows (fst (PublishBatch (ex_env (PublishRejected cut_error)) 10 ex_relay)) = [ex_row]"
proof -
  have sel: "selectAvailable (ex_env (PublishRejected cut_error)) 10 (y_rows ex_relay) = [] @ ex_row # []"
    by (simp add: selectAvailable_def ex_env_def ex_relay_def pg_ts_def) (simp add: ex_row_def)
  from cut_error_text_blocks [OF sel _ ex_row_envelope]
  show ?thesis by (simp add: ex_env_def ex_relay_def)
qed

end
