(* ===== verification/FeedProjection.thy ===== *)
theory FeedProjection imports Messaging Tx begin

text \<open>
  \<^verbatim>\<open>internal/services/feedprojection/projector.go\<close>: the consumer that keeps the table
  \<^verbatim>\<open>feed_events\<close> from the messages of the event service. \<open>parse_time\<close> is
  \<^verbatim>\<open>time.Parse(time.RFC3339Nano, _)\<close>, \<open>dbNow\<close> the \<^verbatim>\<open>now()\<close> of the transaction.
\<close>

definition DefaultConsumerName :: string where "DefaultConsumerName = ''feed-projection''"

record FeedEvent =
  f_EventID :: string
  f_Title :: string
  f_City :: string
  f_Venue :: string
  f_StartsAt :: "time option"
  f_Capacity :: int
  f_Status :: string
  f_ConfirmedCount :: int
  f_UpdatedAt :: time

record FeedDB =
  fd_events :: "(string, FeedEvent) gomap"
  fd_processed :: "(string \<times> string) list" \<comment> \<open>the primary keys: consumer and message id\<close>

type_synonym 'a feed_tx = "(FeedDB, string, 'a) tx"

section \<open>Fields of a payload\<close>

definition stringField :: "json_object \<Rightarrow> string \<Rightarrow> string" where
  "stringField payload key =
     (case map_of payload key of
        None \<Rightarrow> '''' | Some JNull \<Rightarrow> ''''
      | Some (JString s) \<Rightarrow> TrimSpace s
      | Some (JNumber _ t) \<Rightarrow> TrimSpace t
      | Some (JOther t) \<Rightarrow> TrimSpace t)"

definition intField :: "json_object \<Rightarrow> string \<Rightarrow> int" where
  "intField payload key =
     (case map_of payload key of
        None \<Rightarrow> 0 | Some JNull \<Rightarrow> 0
      | Some (JNumber i _) \<Rightarrow> i
      | Some (JString s) \<Rightarrow> (case scan_d s of Some n \<Rightarrow> n | None \<Rightarrow> 0)
      | Some (JOther s) \<Rightarrow> (case scan_d s of Some n \<Rightarrow> n | None \<Rightarrow> 0))"

definition timeField :: "(string \<Rightarrow> time option) \<Rightarrow> json_object \<Rightarrow> string \<Rightarrow> string + time option" where
  "timeField parse_time payload key =
     (let raw = stringField payload key in
      if raw = '''' then Inr None
      else (case parse_time raw of
              None \<Rightarrow> Inl (''invalid '' @ key)
            | Some t \<Rightarrow> Inr (Some t)))"

section \<open>Statements\<close>

definition claimMessage :: "string \<Rightarrow> Envelope \<Rightarrow> bool feed_tx" where
  "claimMessage consumerName envelope fs d =
     (let key = (consumerName, v_MessageID envelope) in
      if faulty fs then (Inl ''claim'', tl fs, d)
      else if key \<in> set (fd_processed d) then (Inr False, tl fs, d)
      else (Inr True, tl fs, d\<lparr>fd_processed := fd_processed d @ [key]\<rparr>))"

definition upsert_row :: "time \<Rightarrow> FeedEvent \<Rightarrow> FeedDB \<Rightarrow> FeedDB" where
  "upsert_row dbNow new d =
     d\<lparr>fd_events := mput (f_EventID new)
         (case map_of (fd_events d) (f_EventID new) of
            None \<Rightarrow> new
          | Some old \<Rightarrow> old\<lparr>f_Title := f_Title new, f_City := f_City new, f_Venue := f_Venue new,
              f_StartsAt := f_StartsAt new, f_Capacity := f_Capacity new, f_Status := f_Status new,
              f_UpdatedAt := dbNow\<rparr>) (fd_events d)\<rparr>"

definition feed_int4 :: "int \<Rightarrow> bool" where
  "feed_int4 n \<longleftrightarrow> - (2 ^ 31) \<le> n \<and> n < 2 ^ 31"

definition upsertEvent :: "(string \<Rightarrow> time option) \<Rightarrow> time \<Rightarrow> json_object \<Rightarrow> unit feed_tx" where
  "upsertEvent parse_time dbNow payload =
     (let eventID = stringField payload ''eventId'' in
      if eventID = '''' then tx_fail ''event payload missing eventId''
      else (case timeField parse_time payload ''startsAt'' of
              Inl err \<Rightarrow> tx_fail err
            | Inr startsAt \<Rightarrow>
                (let capacity = intField payload ''capacity'' in
                 tx_exec ''upsert'' (\<lambda>_. feed_int4 capacity \<and> 0 \<le> capacity)
                   (upsert_row dbNow
                     \<lparr>f_EventID = eventID, f_Title = stringField payload ''title'',
                      f_City = stringField payload ''city'', f_Venue = stringField payload ''venue'',
                      f_StartsAt = map_option pg_ts startsAt, f_Capacity = capacity,
                      f_Status = stringField payload ''status'', f_ConfirmedCount = 0,
                      f_UpdatedAt = dbNow\<rparr>))))"

text \<open>The row of an event that the feed has not seen: the defaults of the columns.\<close>

definition stub_row :: "time \<Rightarrow> string \<Rightarrow> int \<Rightarrow> FeedEvent" where
  "stub_row dbNow eventID confirmed =
     \<lparr>f_EventID = eventID, f_Title = '''', f_City = '''', f_Venue = '''', f_StartsAt = None,
      f_Capacity = 0, f_Status = ''PUBLISHED'', f_ConfirmedCount = confirmed, f_UpdatedAt = dbNow\<rparr>"

definition changed_count :: "FeedDB \<Rightarrow> string \<Rightarrow> int \<Rightarrow> int" where
  "changed_count d eventID delta =
     (case map_of (fd_events d) eventID of
        None \<Rightarrow> max delta 0 | Some old \<Rightarrow> max (f_ConfirmedCount old + delta) 0)"

definition changeConfirmedCount :: "time \<Rightarrow> string \<Rightarrow> int \<Rightarrow> unit feed_tx" where
  "changeConfirmedCount dbNow eventID delta =
     (if TrimSpace eventID = '''' then tx_fail ''join payload missing eventId''
      else tx_exec ''count'' (\<lambda>d. feed_int4 (changed_count d eventID delta))
        (\<lambda>d. d\<lparr>fd_events := mput eventID
            (case map_of (fd_events d) eventID of
               None \<Rightarrow> stub_row dbNow eventID (changed_count d eventID delta)
             | Some old \<Rightarrow> old\<lparr>f_ConfirmedCount := changed_count d eventID delta,
                              f_UpdatedAt := dbNow\<rparr>) (fd_events d)\<rparr>))"

section \<open>Messages\<close>

definition applyEnvelope :: "(string \<Rightarrow> time option) \<Rightarrow> time \<Rightarrow> Envelope \<Rightarrow> unit feed_tx" where
  "applyEnvelope parse_time dbNow envelope =
     (let key = v_RoutingKey envelope;
          payload = (case v_Payload envelope of None \<Rightarrow> [] | Some p \<Rightarrow> p)
      in if key \<in> {''event.published'', ''event.updated'', ''event.canceled''}
         then upsertEvent parse_time dbNow payload
         else if key = ''join.confirmed''
         then changeConfirmedCount dbNow (stringField payload ''eventId'') 1
         else if key = ''join.waitlisted'' then tx_return ()
         else if key = ''join.canceled'' then
           (if stringField payload ''previousStatus'' \<noteq> ''CONFIRMED'' then tx_return ()
            else changeConfirmedCount dbNow (stringField payload ''eventId'') (- 1))
         else if key = ''join.promoted''
         then changeConfirmedCount dbNow (stringField payload ''eventId'') 1
         else tx_fail (''unsupported routing key '' @ key))"

datatype handled = HandledDuplicate | HandledProcessed

definition handleTx :: "(string \<Rightarrow> time option) \<Rightarrow> time \<Rightarrow> Envelope \<Rightarrow> handled feed_tx" where
  "handleTx parse_time dbNow envelope =
     tx_bind (claimMessage DefaultConsumerName envelope) (\<lambda>claimed.
       if \<not> claimed then tx_return HandledDuplicate
       else tx_bind (applyEnvelope parse_time dbNow envelope) (\<lambda>_. tx_return HandledProcessed))"

definition HandleEnvelope :: "(string \<Rightarrow> time option) \<Rightarrow> time \<Rightarrow> faults \<Rightarrow> commit_outcome \<Rightarrow> Envelope
   \<Rightarrow> FeedDB \<Rightarrow> FeedDB \<times> (string + handled)" where
  "HandleEnvelope parse_time dbNow fs c envelope d =
     (case ValidateEnvelope envelope of
        Some err \<Rightarrow> (d, Inl err)
      | None \<Rightarrow> in_tx ''database'' (handleTx parse_time dbNow envelope) fs c d)"

definition GetFeedEvent :: "string \<Rightarrow> FeedDB \<Rightarrow> FeedEvent option" where
  "GetFeedEvent eventID d = map_of (fd_events d) eventID"

definition ProcessedCount :: "FeedDB \<Rightarrow> int" where
  "ProcessedCount d = int (length (filter (\<lambda>k. fst k = DefaultConsumerName) (fd_processed d)))"

section \<open>Consumer\<close>

definition consume_feed :: "(string \<Rightarrow> string + Envelope) \<Rightarrow> (string \<Rightarrow> time option) \<Rightarrow> time \<Rightarrow> faults
   \<Rightarrow> commit_outcome \<Rightarrow> (Publishing \<Rightarrow> bool) \<Rightarrow> string \<Rightarrow> string \<Rightarrow> amqp_table \<Rightarrow> FeedDB \<Rightarrow> FeedDB \<times> settled" where
  "consume_feed unmarshal parse_time dbNow fs c accepts body routingKey headers d =
     (case DecodeEnvelope unmarshal body of
        Inl err \<Rightarrow> (d, settle_failed FeedQueue routingKey headers err accepts)
      | Inr envelope \<Rightarrow>
          (case HandleEnvelope parse_time dbNow fs c envelope d of
             (d', Inr _) \<Rightarrow> (d', Acked)
           | (d', Inl err) \<Rightarrow> (d', settle_failed FeedQueue routingKey headers err accepts)))"

end
