(* ===== verification/Consumers.thy ===== *)
theory Consumers imports Tx begin

text \<open>
  What the handler of a queue consumer promises so that a broker may deliver a message any number of
  times: the contract that the feed projection and the notification service share. \<open>x\<close> is what one
  attempt meets (faults of the database, the outcome of its commit, clocks, drawn identifiers), and
  \<open>clean x\<close> the same attempt without faults.
\<close>

locale idempotent_consumer =
  fixes handle :: "'x \<Rightarrow> 'm \<Rightarrow> 'd \<Rightarrow> 'd \<times> ('e + 'r)"
    and clean :: "'x \<Rightarrow> 'x"
    and seen :: "'m \<Rightarrow> 'd \<Rightarrow> bool"
  assumes faults_only_abort:
      "handle x m d = handle (clean x) m d \<or>
       (\<exists>e. snd (handle x m d) = Inl e) \<and> fst (handle x m d) \<in> {d, fst (handle (clean x) m d)}"
    and error_keeps: "snd (handle (clean x) m d) = Inl e \<Longrightarrow> fst (handle (clean x) m d) = d"
    and marks: "snd (handle (clean x) m d) = Inr r \<Longrightarrow> seen m (fst (handle (clean x) m d))"
    and seen_keeps: "seen m d \<Longrightarrow> fst (handle (clean x) m d) = d"
begin

text \<open>An attempt leaves the state, or does what some attempt without faults does.\<close>

lemma attempt_states:
  "fst (handle x m d) = d \<or> fst (handle x m d) = fst (handle (clean x) m d) \<and> seen m (fst (handle x m d))"
proof (cases "snd (handle (clean x) m d)")
  case (Inl e)
  then show ?thesis
    using error_keeps [OF Inl] faults_only_abort [of x m d] by auto
next
  case (Inr r)
  then show ?thesis using marks [OF Inr] faults_only_abort [of x m d] by auto
qed

lemma seen_stays: "seen m d \<Longrightarrow> fold (\<lambda>x d. fst (handle x m d)) xs d = d"
proof (induction xs arbitrary: d)
  case (Cons x xs)
  have "fst (handle x m d) = d" using attempt_states [of x m d] seen_keeps [OF Cons.prems] by auto
  then show ?case using Cons by simp
qed simp

lemma attempts_states:
  "fold (\<lambda>x d. fst (handle x m d)) xs d = d \<or>
   (\<exists>x \<in> set xs. fold (\<lambda>x d. fst (handle x m d)) xs d = fst (handle (clean x) m d) \<and>
      seen m (fst (handle (clean x) m d)))"
proof (induction xs arbitrary: d)
  case (Cons x xs)
  show ?case
  proof (cases "fst (handle x m d) = d")
    case True
    then show ?thesis using Cons.IH [of d] by auto
  next
    case False
    then have h: "fst (handle x m d) = fst (handle (clean x) m d)" "seen m (fst (handle x m d))"
      using attempt_states [of x m d] by auto
    then show ?thesis using seen_stays [OF h(2), of xs] by auto
  qed
qed simp

text \<open>
  A message that is delivered until one attempt succeeds has the effect of exactly one attempt
  without faults, and later deliveries change nothing.
\<close>

lemma exactly_once:
  assumes "snd (handle x m (fold (\<lambda>x d. fst (handle x m d)) xs d)) = Inr r"
  shows "\<exists>y \<in> set (xs @ [x]).
      fold (\<lambda>x d. fst (handle x m d)) (xs @ [x]) d = fst (handle (clean y) m d) \<and>
      seen m (fst (handle (clean y) m d)) \<and>
      fold (\<lambda>x d. fst (handle x m d)) later (fst (handle (clean y) m d)) = fst (handle (clean y) m d)"
proof -
  let ?e = "fold (\<lambda>x d. fst (handle x m d)) xs d"
  have h: "handle x m ?e = handle (clean x) m ?e" using faults_only_abort [of x m ?e] assms by auto
  then have s: "seen m (fst (handle x m ?e))" using assms marks by metis
  consider "?e = d" | y where "y \<in> set xs" "?e = fst (handle (clean y) m d)" "seen m ?e"
    using attempts_states [of m xs d] by auto
  then show ?thesis
  proof cases
    case 1
    then show ?thesis using h s seen_stays [OF s, of later] by auto
  next
    case 2
    then have "fst (handle x m ?e) = ?e" using h seen_keeps by simp
    then show ?thesis using 2 s seen_stays [OF s, of later] by auto
  qed
qed

end

end
