(* ===== verification/FeedProjectionProps.thy ===== *)
theory FeedProjectionProps imports FeedProjection Consumers begin

text \<open>
  The feed projection under redelivery: handling is atomic, a handled message is remembered, and
  delivering a message until it is acknowledged applies it once.
\<close>

lemma faults_abort_claim [faults_intros]: "faults_abort (claimMessage c v)"
  by (auto simp: faults_abort_def claimMessage_def Let_def faulty_def split: if_splits)

lemma faults_abort_count [faults_intros]: "faults_abort (changeConfirmedCount now ev n)"
  unfolding changeConfirmedCount_def by (intro faults_intros)

lemma faults_abort_upsert [faults_intros]: "faults_abort (upsertEvent pt now p)"
  unfolding upsertEvent_def Let_def by (intro faults_intros)

lemma handle_aborts: "faults_abort (handleTx pt now v)"
  unfolding handleTx_def applyEnvelope_def Let_def by (intro faults_intros)

text \<open>The database after the message was handled without faults.\<close>

definition handled_once :: "(string \<Rightarrow> time option) \<Rightarrow> time \<Rightarrow> Envelope \<Rightarrow> FeedDB \<Rightarrow> FeedDB" where
  "handled_once pt now v d = fst (HandleEnvelope pt now [] Committed v d)"

lemma HandleEnvelope_atomic:
  "(\<exists>h. snd (HandleEnvelope pt now fs c v d) = Inr h \<and>
      HandleEnvelope pt now fs c v d = HandleEnvelope pt now [] Committed v d) \<or>
   (\<exists>err. snd (HandleEnvelope pt now fs c v d) = Inl err) \<and>
     fst (HandleEnvelope pt now fs c v d) \<in> {d, handled_once pt now v d}"
  using in_tx_atomic [OF handle_aborts, of "''database''" pt now v fs c d]
  by (auto simp: HandleEnvelope_def handled_once_def split: option.split)

definition seen :: "Envelope \<Rightarrow> FeedDB \<Rightarrow> bool" where
  "seen v d \<longleftrightarrow> (DefaultConsumerName, v_MessageID v) \<in> set (fd_processed d)"

lemma count_keeps_processed:
  "changeConfirmedCount now ev n fs d = (r, fs', d') \<Longrightarrow> fd_processed d' = fd_processed d"
  by (auto simp: changeConfirmedCount_def tx_exec_def tx_fail_def split: if_splits)

lemma apply_keeps_processed:
  "applyEnvelope pt now v fs d = (r, fs', d') \<Longrightarrow> fd_processed d' = fd_processed d"
  by (auto simp: applyEnvelope_def upsertEvent_def upsert_row_def Let_def tx_exec_def tx_fail_def
      tx_return_def dest: count_keeps_processed split: if_splits sum.splits)

lemma handle_seen:
  "seen v d \<Longrightarrow> handleTx pt now v [] d = (Inr HandledDuplicate, [], d)"
  by (simp add: handleTx_def tx_bind_def claimMessage_def seen_def faulty_def tx_return_def)

lemma handled_once_seen: "seen v d \<Longrightarrow> handled_once pt now v d = d"
  by (simp add: handled_once_def HandleEnvelope_def handle_seen in_tx_error_free split: option.split)

lemma handle_marks:
  assumes "snd (HandleEnvelope pt now [] Committed v d) = Inr h"
  shows "seen v (handled_once pt now v d)"
proof (cases "seen v d")
  case True
  then show ?thesis by (simp add: handled_once_seen)
next
  case False
  let ?d1 = "d\<lparr>fd_processed := fd_processed d @ [(DefaultConsumerName, v_MessageID v)]\<rparr>"
  obtain r fs' d' where app: "applyEnvelope pt now v [] ?d1 = (r, fs', d')" by (metis prod_cases3)
  have "fd_processed d' = fd_processed ?d1" using app by (rule apply_keeps_processed)
  moreover have "handleTx pt now v [] d =
      (case r of Inl e \<Rightarrow> (Inl e, fs', d') | Inr _ \<Rightarrow> (Inr HandledProcessed, fs', d'))"
    using False app
    by (simp add: handleTx_def tx_bind_def claimMessage_def seen_def faulty_def tx_return_def
        split: sum.split)
  ultimately show ?thesis
    using assms
    by (auto simp: handled_once_def HandleEnvelope_def in_tx_error_free seen_def
        split: option.splits sum.splits)
qed

lemma handle_error_keeps:
  "snd (HandleEnvelope pt now [] Committed v d) = Inl err \<Longrightarrow> handled_once pt now v d = d"
  by (auto simp: handled_once_def HandleEnvelope_def in_tx_def split: option.splits sum.splits
      prod.splits if_splits)

section \<open>Exactly once\<close>

text \<open>What an attempt to handle a message meets: the time of the database, faults, the commit.\<close>

type_synonym attempt = "time \<times> faults \<times> commit_outcome"

definition attempt_handle ::
  "(string \<Rightarrow> time option) \<Rightarrow> attempt \<Rightarrow> Envelope \<Rightarrow> FeedDB \<Rightarrow> FeedDB \<times> (string + handled)" where
  "attempt_handle pt x v d = (case x of (now, fs, c) \<Rightarrow> HandleEnvelope pt now fs c v d)"

definition clean_attempt :: "attempt \<Rightarrow> attempt" where
  "clean_attempt x = (fst x, [], Committed)"

definition deliver :: "(string \<Rightarrow> time option) \<Rightarrow> Envelope \<Rightarrow> attempt list \<Rightarrow> FeedDB \<Rightarrow> FeedDB" where
  "deliver pt v xs d = fold (\<lambda>x d. fst (attempt_handle pt x v d)) xs d"

interpretation feed_consumer: idempotent_consumer "attempt_handle pt" clean_attempt seen for pt
proof
  fix x :: attempt and v d
  obtain now fs c where x: "x = (now, fs, c)" by (cases x)
  show "attempt_handle pt x v d = attempt_handle pt (clean_attempt x) v d \<or>
    (\<exists>e. snd (attempt_handle pt x v d) = Inl e) \<and>
      fst (attempt_handle pt x v d) \<in> {d, fst (attempt_handle pt (clean_attempt x) v d)}"
    using HandleEnvelope_atomic [of pt now fs c v d]
    by (auto simp: attempt_handle_def clean_attempt_def x handled_once_def)
qed (auto simp: attempt_handle_def clean_attempt_def
    dest: handle_error_keeps handle_marks handled_once_seen simp flip: handled_once_def)

text \<open>
  C21. A message that is delivered again and again, under any faults of the database, until one
  attempt is acknowledged, changes the feed exactly as handling it once without faults does; any
  later delivery of the same message changes nothing.
\<close>

theorem feed_exactly_once:
  assumes "snd (attempt_handle pt x v (deliver pt v xs d)) = Inr h"
  shows "\<exists>(now, _) \<in> set (xs @ [x]). deliver pt v (xs @ [x]) d = handled_once pt now v d \<and>
    deliver pt v later (handled_once pt now v d) = handled_once pt now v d"
proof -
  have clean: "fst (attempt_handle pt (clean_attempt y) v d) = handled_once pt (fst y) v d" for y
    by (simp add: attempt_handle_def clean_attempt_def handled_once_def)
  obtain y where "y \<in> set (xs @ [x])"
    and "deliver pt v (xs @ [x]) d = handled_once pt (fst y) v d"
    and "deliver pt v later (handled_once pt (fst y) v d) = handled_once pt (fst y) v d"
    using feed_consumer.exactly_once [OF assms [unfolded deliver_def], of later]
    unfolding clean deliver_def by blast
  then show ?thesis by (intro bexI [of _ y]) (auto split: prod.split)
qed

definition ex_join :: "string \<Rightarrow> string \<Rightarrow> string \<Rightarrow> Envelope" where
  "ex_join i key previous = \<lparr>v_MessageID = i, v_RoutingKey = key, v_AggregateType = ''registration'',
     v_AggregateID = ''r1'', v_OccurredAt = 5, v_CorrelationID = '''',
     v_Payload = Some [(''eventId'', JString ''ev''), (''previousStatus'', JString previous)]\<rparr>"

lemmas feed_eval = HandleEnvelope_def ValidateEnvelope_def ex_join_def in_tx_def faulty_def
  handleTx_def tx_bind_def claimMessage_def applyEnvelope_def stringField_def changeConfirmedCount_def
  changed_count_def stub_row_def tx_exec_def tx_return_def feed_int4_def str_eval Let_def

theorem feed_exactly_once_witness:
  "\<exists>now \<in> {7, 8}. deliver (\<lambda>_. None) (ex_join ''m1'' ''join.confirmed'' '''')
      [(7, [], CommitUnknown), (8, [], Committed)] \<lparr>fd_events = [], fd_processed = []\<rparr> =
   \<lparr>fd_events = [(''ev'', stub_row now ''ev'' 1)], fd_processed = [(DefaultConsumerName, ''m1'')]\<rparr>"
proof -
  let ?v = "ex_join ''m1'' ''join.confirmed'' ''''"
  let ?d = "\<lparr>fd_events = [], fd_processed = []\<rparr>"
  have "snd (attempt_handle (\<lambda>_. None) (8, [], Committed) ?v
      (deliver (\<lambda>_. None) ?v [(7, [], CommitUnknown)] ?d)) = Inr HandledDuplicate"
    by (simp add: deliver_def attempt_handle_def feed_eval)
  from feed_exactly_once [OF this] show ?thesis
    by (simp add: handled_once_def) (auto simp: feed_eval)
qed

section \<open>Messages out of order\<close>

text \<open>
  The projection depends on the order of the messages: the cancellation of a confirmed
  registration that overtakes its confirmation is lost in the clamp of the count at zero, and the
  feed then counts one attendee of an event that has none; in order the count is zero.
\<close>

theorem reordered_join_counts_one:
  "map_option f_ConfirmedCount (GetFeedEvent ''ev''
     (fold (\<lambda>v d. handled_once pt now v d)
       [ex_join ''m2'' ''join.canceled'' ''CONFIRMED'', ex_join ''m1'' ''join.confirmed'' '''']
       \<lparr>fd_events = [], fd_processed = []\<rparr>)) = Some 1 \<and>
   map_option f_ConfirmedCount (GetFeedEvent ''ev''
     (fold (\<lambda>v d. handled_once pt now v d)
       [ex_join ''m1'' ''join.confirmed'' '''', ex_join ''m2'' ''join.canceled'' ''CONFIRMED'']
       \<lparr>fd_events = [], fd_processed = []\<rparr>)) = Some 0"
  by (simp add: GetFeedEvent_def handled_once_def feed_eval)

end
