(* ===== verification/Notification.thy ===== *)
theory Notification imports Messaging Tx "HOL-Library.Product_Lexorder" begin

text \<open>
  \<^verbatim>\<open>internal/services/notification\<close>: the consumer that records one notification for a message, and
  the delivery workers that claim recorded notifications under a lease and hand them to a provider.
  Drawn identifiers, clocks, faults of the database and the provider are arguments.
\<close>

definition NotificationConsumerName :: string where
  "NotificationConsumerName = ''notification-delivery''"
definition DevEmailDomain :: string where "DevEmailDomain = ''cityevents.local''"

datatype NotificationStatus = StatusPending | StatusProcessing | StatusSent | StatusFailed

datatype notification_error =
    ErrUnsupportedRoutingKey | ErrMissingRecipient | ErrStaleDeliveryClaim
  | ErrInvalidEnvelope string | ErrNoRows | ErrDatabase | ErrSend string
  | ErrJoined notification_error notification_error

record Notification =
  t_ID :: string
  t_MessageID :: string
  t_RecipientUserID :: string
  t_RecipientEmail :: string
  t_RoutingKey :: string
  t_Subject :: string
  t_Body :: string
  t_Status :: NotificationStatus
  t_LastError :: string
  t_IdempotencyKey :: string
  t_DeliveryAttempts :: int
  t_NextAttemptAt :: time
  t_LockedUntil :: "time option"
  t_CreatedAt :: time
  t_UpdatedAt :: time

record Delivery =
  w_ID :: string
  w_NotificationID :: string
  w_Provider :: string
  w_Status :: NotificationStatus
  w_ProviderMessageID :: string
  w_Error :: string
  w_CreatedAt :: time

record Decision =
  g_RecipientUserID :: string
  g_RecipientEmail :: string
  g_Subject :: string
  g_Body :: string

section \<open>Decisions\<close>

definition notificationField :: "json_object \<Rightarrow> string \<Rightarrow> string" where
  "notificationField payload key =
     (case map_of payload key of
        None \<Rightarrow> '''' | Some JNull \<Rightarrow> ''''
      | Some (JString s) \<Rightarrow> TrimSpace s
      | Some (JNumber _ t) \<Rightarrow> TrimSpace t
      | Some (JOther t) \<Rightarrow> TrimSpace t)"

definition DevEmailForUser :: "string \<Rightarrow> string" where
  "DevEmailForUser userID =
     (let local1 = ReplaceChar (TrimSpace (ToLower userID)) (CHR '' '') (CHR ''-'');
          local2 = (if local1 = '''' then ''unknown'' else local1)
      in local2 @ ''@'' @ DevEmailDomain)"

text \<open>\<open>template\<close> is the text before and the text after the event's id.\<close>

definition joinDecision :: "json_object \<Rightarrow> string \<Rightarrow> string \<times> string \<Rightarrow> notification_error + Decision" where
  "joinDecision payload subject template =
     (let userID = notificationField payload ''userId'' in
      if userID = '''' then Inl ErrMissingRecipient
      else Inr \<lparr>g_RecipientUserID = userID, g_RecipientEmail = DevEmailForUser userID,
             g_Subject = subject,
             g_Body = fst template @ notificationField payload ''eventId'' @ snd template\<rparr>)"

definition Decide :: "Envelope \<Rightarrow> notification_error + Decision" where
  "Decide envelope =
     (let key = v_RoutingKey envelope;
          payload = (case v_Payload envelope of None \<Rightarrow> [] | Some p \<Rightarrow> p)
      in if key = ''join.confirmed''
         then joinDecision payload ''You are confirmed''
           (''Your registration for event '', '' is confirmed.'')
         else if key = ''join.waitlisted''
         then joinDecision payload ''You are waitlisted''
           (''You are on the waitlist for event '', ''.'')
         else if key = ''join.promoted''
         then joinDecision payload ''You were promoted''
           (''You were promoted from the waitlist for event '', ''.'')
         else if key = ''join.canceled''
         then joinDecision payload ''Your registration was canceled''
           (''Your registration for event '', '' was canceled.'')
         else if key = ''event.canceled'' then
           (let userID = notificationField payload ''organizerId'' in
            if userID = '''' then Inl ErrMissingRecipient
            else Inr \<lparr>g_RecipientUserID = userID, g_RecipientEmail = DevEmailForUser userID,
                   g_Subject = ''Your event was canceled'',
                   g_Body = ''Event '' @ notificationField payload ''eventId'' @
                     '' was canceled. Attendee fan-out requires verified recipient lookup in a later phase.''\<rparr>)
         else Inl ErrUnsupportedRoutingKey)"

section \<open>Provider\<close>

record Message =
  s_ID :: string
  s_IdempotencyKey :: string
  s_To :: string
  s_Subject :: string
  s_Body :: string

text \<open>\<open>stamp\<close> is the current time in the format \<^verbatim>\<open>20060102150405\<close>.\<close>

definition smtpMessageID :: "string \<Rightarrow> Message \<Rightarrow> string" where
  "smtpMessageID stamp msg =
     (let key1 = TrimSpace (s_IdempotencyKey msg);
          key2 = (if key1 = '''' then TrimSpace (s_ID msg) else key1);
          key3 = map (\<lambda>c. if c \<in> {CHR ''@'', CHR ''<'', CHR ''>'', CHR '' ''} then CHR ''-'' else c) key2;
          key4 = (if key3 = '''' then stamp else key3)
      in key4 @ ''@cityevents.local'')"

definition crlf :: string where "crlf = [CHR 0x0D, CHR 0x0A]"

text \<open>\<^verbatim>\<open>smtp.SendMail\<close> is a parameter: the address, the sender, the recipients, the text.\<close>

definition smtp_from :: string where "smtp_from = ''no-reply@cityevents.local''"

definition smtp_text :: "string \<Rightarrow> Message \<Rightarrow> string" where
  "smtp_text messageID msg =
     ''From: '' @ smtp_from @ crlf @ ''To: '' @ s_To msg @ crlf @ ''Subject: '' @ s_Subject msg @ crlf @
     ''Message-ID: <'' @ messageID @ ''>'' @ crlf @ ''Content-Type: text/plain; charset=UTF-8'' @ crlf @
     crlf @ s_Body msg @ crlf"

definition smtpSend :: "(string \<Rightarrow> string \<Rightarrow> string list \<Rightarrow> string \<Rightarrow> string option) \<Rightarrow> string \<Rightarrow> string option
   \<Rightarrow> string \<Rightarrow> Message \<Rightarrow> string + string" where
  "smtpSend sendMail addr ctxErr stamp msg =
     check ctxErr
       (let messageID = smtpMessageID stamp msg in
        check (sendMail addr smtp_from [s_To msg] (smtp_text messageID msg)) (Inr messageID))"

section \<open>The database\<close>

record NotificationDB =
  nd_notifications :: "Notification list"
  nd_deliveries :: "Delivery list"
  nd_processed :: "(string \<times> string) list" \<comment> \<open>the primary keys: consumer and message id\<close>

type_synonym 'a notification_tx = "(NotificationDB, notification_error, 'a) tx"

definition DefaultDeliveryLease :: duration where "DefaultDeliveryLease = 30 * second"
definition MaxDeliveryAttempts :: int where "MaxDeliveryAttempts = 5"
definition deliveryRetryBackoffs :: "duration list" where
  "deliveryRetryBackoffs = [5 * second, 30 * second, 2 * minute, 10 * minute]"

definition deliveryBackoff :: "int \<Rightarrow> duration" where
  "deliveryBackoff attempts =
     (if attempts \<le> 0 then deliveryRetryBackoffs ! 0
      else if attempts > int (length deliveryRetryBackoffs)
      then deliveryRetryBackoffs ! (length deliveryRetryBackoffs - 1)
      else deliveryRetryBackoffs ! nat (attempts - 1))"

definition trimError :: "string \<Rightarrow> string" where
  "trimError err =
     (let message = TrimSpace err in if length message > 500 then take 500 message else message)"

definition claimNotification :: "string \<Rightarrow> Envelope \<Rightarrow> bool notification_tx" where
  "claimNotification consumerName envelope fs d =
     (let key = (consumerName, v_MessageID envelope) in
      if faulty fs then (Inl ErrDatabase, tl fs, d)
      else if key \<in> set (nd_processed d) then (Inr False, tl fs, d)
      else (Inr True, tl fs, d\<lparr>nd_processed := nd_processed d @ [key]\<rparr>))"

definition find_message :: "string \<Rightarrow> NotificationDB \<Rightarrow> Notification option" where
  "find_message messageID d = find (\<lambda>n. t_MessageID n = messageID) (nd_notifications d)"

definition findByMessageIDTx :: "string \<Rightarrow> Notification notification_tx" where
  "findByMessageIDTx messageID =
     tx_bind (tx_query ErrDatabase (find_message messageID)) (\<lambda>found.
       case found of None \<Rightarrow> tx_fail ErrNoRows | Some n \<Rightarrow> tx_return n)"

text \<open>The row as the table holds it.\<close>

definition notification_row :: "Notification \<Rightarrow> Notification" where
  "notification_row n =
     n\<lparr>t_NextAttemptAt := pg_ts (t_NextAttemptAt n), t_LockedUntil := map_option pg_ts (t_LockedUntil n),
       t_CreatedAt := pg_ts (t_CreatedAt n), t_UpdatedAt := pg_ts (t_UpdatedAt n)\<rparr>"

definition insertNotification :: "Notification \<Rightarrow> unit notification_tx" where
  "insertNotification n = tx_exec ErrDatabase
     (\<lambda>d. t_ID n \<notin> t_ID ` set (nd_notifications d) \<and>
          t_MessageID n \<notin> t_MessageID ` set (nd_notifications d))
     (\<lambda>d. d\<lparr>nd_notifications := nd_notifications d @ [notification_row n]\<rparr>)"

definition insertDelivery :: "Delivery \<Rightarrow> unit notification_tx" where
  "insertDelivery w = tx_exec ErrDatabase
     (\<lambda>d. w_ID w \<notin> w_ID ` set (nd_deliveries d) \<and>
          w_NotificationID w \<in> t_ID ` set (nd_notifications d))
     (\<lambda>d. d\<lparr>nd_deliveries := nd_deliveries d @ [w\<lparr>w_CreatedAt := pg_ts (w_CreatedAt w)\<rparr>]\<rparr>)"

section \<open>Recording\<close>

datatype ProcessResult =
    ProcessIgnored | ProcessDuplicate Notification | ProcessCreated Notification

definition new_notification :: "string \<Rightarrow> time \<Rightarrow> Envelope \<Rightarrow> Decision \<Rightarrow> Notification" where
  "new_notification newID now envelope decision =
     \<lparr>t_ID = newID, t_MessageID = v_MessageID envelope,
      t_RecipientUserID = g_RecipientUserID decision, t_RecipientEmail = g_RecipientEmail decision,
      t_RoutingKey = v_RoutingKey envelope, t_Subject = g_Subject decision, t_Body = g_Body decision,
      t_Status = StatusPending, t_LastError = '''', t_IdempotencyKey = v_MessageID envelope,
      t_DeliveryAttempts = 0, t_NextAttemptAt = now, t_LockedUntil = None,
      t_CreatedAt = now, t_UpdatedAt = now\<rparr>"

definition processTx :: "string \<Rightarrow> time \<Rightarrow> Envelope \<Rightarrow> Decision \<Rightarrow> ProcessResult notification_tx" where
  "processTx newID now envelope decision =
     tx_bind (claimNotification NotificationConsumerName envelope) (\<lambda>claimed.
       if \<not> claimed then
         tx_bind (findByMessageIDTx (v_MessageID envelope)) (\<lambda>n. tx_return (ProcessDuplicate n))
       else
         (let n = new_notification newID now envelope decision in
          tx_bind (insertNotification n) (\<lambda>_. tx_return (ProcessCreated n))))"

definition ProcessEnvelope :: "string \<Rightarrow> time \<Rightarrow> faults \<Rightarrow> commit_outcome \<Rightarrow> Envelope \<Rightarrow> NotificationDB
   \<Rightarrow> NotificationDB \<times> (notification_error + ProcessResult)" where
  "ProcessEnvelope newID now fs c envelope d =
     (case ValidateEnvelope envelope of
        Some err \<Rightarrow> (d, Inl (ErrInvalidEnvelope err))
      | None \<Rightarrow>
         (case Decide envelope of
            Inl err \<Rightarrow> (d, if err = ErrUnsupportedRoutingKey then Inr ProcessIgnored else Inl err)
          | Inr decision \<Rightarrow> in_tx ErrDatabase (processTx newID now envelope decision) fs c d))"

section \<open>Delivery\<close>

definition claimable :: "time \<Rightarrow> Notification \<Rightarrow> bool" where
  "claimable now n \<longleftrightarrow> t_DeliveryAttempts n < MaxDeliveryAttempts \<and>
     ((t_Status n = StatusPending \<or> t_Status n = StatusFailed) \<and> t_NextAttemptAt n \<le> pg_ts now \<or>
      t_Status n = StatusProcessing \<and> (\<exists>l \<in> set_option (t_LockedUntil n). l \<le> pg_ts now))"

text \<open>\<open>locked\<close> are the rows that another transaction holds, which \<^verbatim>\<open>SKIP LOCKED\<close> skips.\<close>

definition selectNextDelivery :: "time \<Rightarrow> (string \<Rightarrow> bool) \<Rightarrow> NotificationDB \<Rightarrow> Notification option" where
  "selectNextDelivery now locked d =
     (let rows = sort_key (\<lambda>n. (t_CreatedAt n, t_ID n))
        (filter (\<lambda>n. claimable now n \<and> \<not> locked (t_ID n)) (nd_notifications d))
      in if rows = [] then None else Some (hd rows))"

definition claimed_by :: "time \<Rightarrow> time \<Rightarrow> Notification \<Rightarrow> Notification" where
  "claimed_by now lockedUntil n =
     n\<lparr>t_Status := StatusProcessing, t_DeliveryAttempts := t_DeliveryAttempts n + 1,
       t_LockedUntil := Some lockedUntil, t_UpdatedAt := now\<rparr>"

definition claimDelivery :: "string \<Rightarrow> time \<Rightarrow> time \<Rightarrow> unit notification_tx" where
  "claimDelivery i lockedUntil now = tx_exec ErrDatabase
     (\<lambda>d. length (filter (\<lambda>n. t_ID n = i) (nd_notifications d)) = 1)
     (\<lambda>d. d\<lparr>nd_notifications := map (\<lambda>n. if t_ID n = i
          then claimed_by (pg_ts now) (pg_ts lockedUntil) n else n) (nd_notifications d)\<rparr>)"

definition claimNextTx :: "time \<Rightarrow> duration \<Rightarrow> (string \<Rightarrow> bool) \<Rightarrow> Notification option notification_tx" where
  "claimNextTx now lease locked =
     tx_bind (tx_query ErrDatabase (selectNextDelivery now locked)) (\<lambda>found.
       case found of
         None \<Rightarrow> tx_return None
       | Some n \<Rightarrow>
           (let lockedUntil = now + lease in
            tx_bind (claimDelivery (t_ID n) lockedUntil now) (\<lambda>_.
              tx_return (Some (claimed_by now lockedUntil n)))))"

definition ClaimNextDelivery :: "time \<Rightarrow> duration \<Rightarrow> (string \<Rightarrow> bool) \<Rightarrow> faults \<Rightarrow> commit_outcome
   \<Rightarrow> NotificationDB \<Rightarrow> NotificationDB \<times> (notification_error + Notification option)" where
  "ClaimNextDelivery now lease locked fs c d =
     in_tx ErrDatabase
       (claimNextTx now (if lease \<le> 0 then DefaultDeliveryLease else lease) locked) fs c d"

text \<open>The row that a claim still holds; a \<^verbatim>\<open>NULL\<close> equals nothing.\<close>

definition holds_claim :: "Notification \<Rightarrow> time option \<Rightarrow> Notification \<Rightarrow> bool" where
  "holds_claim n claimLockedUntil row \<longleftrightarrow>
     t_ID row = t_ID n \<and> t_Status row = StatusProcessing \<and>
     claimLockedUntil \<noteq> None \<and> t_LockedUntil row = map_option pg_ts claimLockedUntil"

definition updateDeliveryState :: "Notification \<Rightarrow> time \<Rightarrow> time option \<Rightarrow> unit notification_tx" where
  "updateDeliveryState n nextAttemptAt claimLockedUntil fs d =
     (if faulty fs \<or> \<not> text_ok (t_LastError n) then (Inl ErrDatabase, tl fs, d)
      else if length (filter (holds_claim n claimLockedUntil) (nd_notifications d)) \<noteq> 1
      then (Inl ErrStaleDeliveryClaim, tl fs, d)
      else (Inr (), tl fs,
        d\<lparr>nd_notifications := map (\<lambda>row. if holds_claim n claimLockedUntil row
            then row\<lparr>t_Status := t_Status n, t_LastError := t_LastError n,
                   t_NextAttemptAt := pg_ts nextAttemptAt, t_LockedUntil := None,
                   t_UpdatedAt := pg_ts (t_UpdatedAt n)\<rparr>
            else row) (nd_notifications d)\<rparr>))"

definition MarkDeliverySent :: "string \<Rightarrow> Notification \<Rightarrow> string \<Rightarrow> time \<Rightarrow> faults \<Rightarrow> commit_outcome
   \<Rightarrow> NotificationDB \<Rightarrow> NotificationDB \<times> (notification_error + Notification)" where
  "MarkDeliverySent newID n providerMessageID now fs c d =
     (let n' = n\<lparr>t_Status := StatusSent, t_LastError := '''', t_UpdatedAt := now, t_LockedUntil := None\<rparr>;
          w = \<lparr>w_ID = newID, w_NotificationID = t_ID n, w_Provider = ''smtp'', w_Status = StatusSent,
               w_ProviderMessageID = providerMessageID, w_Error = '''', w_CreatedAt = now\<rparr>
      in in_tx ErrDatabase
           (tx_bind (updateDeliveryState n' (t_NextAttemptAt n) (t_LockedUntil n)) (\<lambda>_.
            tx_bind (insertDelivery w) (\<lambda>_. tx_return n'))) fs c d)"

definition MarkDeliveryFailed :: "string \<Rightarrow> Notification \<Rightarrow> string \<Rightarrow> time \<Rightarrow> faults \<Rightarrow> commit_outcome
   \<Rightarrow> NotificationDB \<Rightarrow> NotificationDB \<times> (notification_error + Notification)" where
  "MarkDeliveryFailed newID n cause now fs c d =
     (let next = (if t_DeliveryAttempts n \<ge> MaxDeliveryAttempts then now
                  else now + deliveryBackoff (t_DeliveryAttempts n));
          n' = n\<lparr>t_Status := StatusFailed, t_LastError := trimError cause, t_UpdatedAt := now,
                 t_LockedUntil := None, t_NextAttemptAt := next\<rparr>;
          w = \<lparr>w_ID = newID, w_NotificationID = t_ID n, w_Provider = ''smtp'', w_Status = StatusFailed,
               w_ProviderMessageID = '''', w_Error = trimError cause, w_CreatedAt = now\<rparr>
      in in_tx ErrDatabase
           (tx_bind (updateDeliveryState n' next (t_LockedUntil n)) (\<lambda>_.
            tx_bind (insertDelivery w) (\<lambda>_. tx_return n'))) fs c d)"

text \<open>
  One round of a worker. \<open>others\<close> is what the other workers and the consumer do to the database
  while the provider sends; \<open>send\<close> is the provider.
\<close>

record WorkerEnv =
  h_now :: time \<comment> \<open>\<^verbatim>\<open>w.now()\<close> at the claim\<close>
  h_markNow :: time \<comment> \<open>\<^verbatim>\<open>w.now()\<close> at the mark\<close>
  h_locked :: "string \<Rightarrow> bool"
  h_claim :: "faults \<times> commit_outcome"
  h_mark :: "faults \<times> commit_outcome"
  h_send :: "Message \<Rightarrow> string + string"
  h_newID :: string

definition ProcessOne :: "WorkerEnv \<Rightarrow> duration \<Rightarrow> (NotificationDB \<Rightarrow> NotificationDB) \<Rightarrow> NotificationDB
   \<Rightarrow> NotificationDB \<times> bool \<times> notification_error option" where
  "ProcessOne env lease others d =
     (case ClaimNextDelivery (h_now env) lease (h_locked env) (fst (h_claim env)) (snd (h_claim env)) d of
        (d1, Inl err) \<Rightarrow> (d1, False, Some err)
      | (d1, Inr None) \<Rightarrow> (d1, False, None)
      | (d1, Inr (Some n)) \<Rightarrow>
          (case h_send env \<lparr>s_ID = t_ID n, s_IdempotencyKey = t_IdempotencyKey n,
                  s_To = t_RecipientEmail n, s_Subject = t_Subject n, s_Body = t_Body n\<rparr> of
             Inl sendErr \<Rightarrow>
               (case MarkDeliveryFailed (h_newID env) n sendErr (h_markNow env)
                       (fst (h_mark env)) (snd (h_mark env)) (others d1) of
                  (d2, Inl err) \<Rightarrow> (d2, True, Some (ErrJoined (ErrSend sendErr) err))
                | (d2, Inr _) \<Rightarrow> (d2, True, Some (ErrSend sendErr)))
           | Inr result \<Rightarrow>
               (case MarkDeliverySent (h_newID env) n result (h_markNow env)
                       (fst (h_mark env)) (snd (h_mark env)) (others d1) of
                  (d2, Inl err) \<Rightarrow> (d2, True, Some err)
                | (d2, Inr _) \<Rightarrow> (d2, True, None))))"

section \<open>Reads and the consumer\<close>

definition NotificationCount :: "NotificationDB \<Rightarrow> int" where
  "NotificationCount d = int (length (nd_notifications d))"

definition DeliveryCount :: "NotificationDB \<Rightarrow> int" where
  "DeliveryCount d = int (length (nd_deliveries d))"

definition notificationProcessedCount :: "NotificationDB \<Rightarrow> int" where
  "notificationProcessedCount d =
     int (length (filter (\<lambda>k. fst k = NotificationConsumerName) (nd_processed d)))"

definition GetByMessageID :: "string \<Rightarrow> NotificationDB \<Rightarrow> Notification option" where
  "GetByMessageID messageID d = find_message (TrimSpace messageID) d"

text \<open>\<open>err_text\<close> is \<^verbatim>\<open>err.Error()\<close>.\<close>

definition consume_notification :: "(string \<Rightarrow> string + Envelope) \<Rightarrow> (notification_error \<Rightarrow> string) \<Rightarrow> string
   \<Rightarrow> time \<Rightarrow> faults \<Rightarrow> commit_outcome \<Rightarrow> (Publishing \<Rightarrow> bool) \<Rightarrow> string \<Rightarrow> string \<Rightarrow> amqp_table
   \<Rightarrow> NotificationDB \<Rightarrow> NotificationDB \<times> settled" where
  "consume_notification unmarshal err_text newID now fs c accepts body routingKey headers d =
     (case DecodeEnvelope unmarshal body of
        Inl err \<Rightarrow> (d, settle_failed NotificationQueue routingKey headers err accepts)
      | Inr envelope \<Rightarrow>
          (case ProcessEnvelope newID now fs c envelope d of
             (d', Inr _) \<Rightarrow> (d', Acked)
           | (d', Inl err) \<Rightarrow>
               (d', settle_failed NotificationQueue routingKey headers (err_text err) accepts)))"

end
