(* ===== verification/NotificationInv.thy ===== *)
theory NotificationInv imports Notification Consumers begin

text \<open>
  The invariant of the notification tables, the steps of consumers and workers, and the recording
  of a message as an idempotent consumer.
\<close>

section \<open>Faults\<close>

lemma faults_abort_claimNotification [faults_intros]: "faults_abort (claimNotification c v)"
  by (auto simp: faults_abort_def claimNotification_def Let_def faulty_def split: if_splits)

lemma faults_abort_updateDeliveryState [faults_intros]: "faults_abort (updateDeliveryState n t l)"
  by (auto simp: faults_abort_def updateDeliveryState_def faulty_def split: if_splits)

lemma notification_tx_aborts [faults_intros]:
  "faults_abort (findByMessageIDTx i)" "faults_abort (insertNotification n)"
  "faults_abort (insertDelivery w)" "faults_abort (claimDelivery i l now)"
  unfolding findByMessageIDTx_def insertNotification_def insertDelivery_def claimDelivery_def
  by (intro faults_intros)+

lemma processTx_aborts: "faults_abort (processTx i now v dec)"
  unfolding processTx_def by (intro faults_intros)

lemma claimNextTx_aborts: "faults_abort (claimNextTx now lease locked)"
  unfolding claimNextTx_def by (intro faults_intros)

text \<open>A transaction leaves the database, or leaves what it makes without faults.\<close>

lemma in_tx_states:
  assumes "faults_abort m" and "in_tx e m fs c d = (d', r)"
  shows "d' = d \<and> (\<exists>err. r = Inl err) \<or>
    (\<exists>a fs'. m [] d = (Inr a, fs', d') \<and> (r = Inr a \<or> (\<exists>err. r = Inl err)))"
proof -
  obtain q gs d2 where m: "m [] d = (q, gs, d2)" by (metis prod_cases3)
  show ?thesis
    using in_tx_atomic [OF assms(1), of e fs c d] assms(2) m
    by (cases q) (auto simp: in_tx_error_free [of m, OF m])
qed

section \<open>Invariant\<close>

definition deliveries_of :: "string \<Rightarrow> Delivery list \<Rightarrow> Delivery list" where
  "deliveries_of i ws = filter (\<lambda>w. w_NotificationID w = i) ws"

definition sent_deliveries_of :: "string \<Rightarrow> Delivery list \<Rightarrow> Delivery list" where
  "sent_deliveries_of i ws = filter (\<lambda>w. w_NotificationID w = i \<and> w_Status w = StatusSent) ws"

definition row_inv :: "Delivery list \<Rightarrow> Notification \<Rightarrow> bool" where
  "row_inv ws n \<longleftrightarrow>
     0 \<le> t_DeliveryAttempts n \<and> t_DeliveryAttempts n \<le> MaxDeliveryAttempts \<and>
     (t_Status n = StatusProcessing \<longrightarrow> t_LockedUntil n \<noteq> None) \<and>
     int (length (deliveries_of (t_ID n) ws)) + (if t_Status n = StatusProcessing then 1 else 0)
       \<le> t_DeliveryAttempts n \<and>
     length (sent_deliveries_of (t_ID n) ws) = (if t_Status n = StatusSent then 1 else 0)"

definition nt_inv :: "NotificationDB \<Rightarrow> bool" where
  "nt_inv d \<longleftrightarrow>
     distinct (map t_ID (nd_notifications d)) \<and>
     distinct (map t_MessageID (nd_notifications d)) \<and>
     nd_processed d = map (\<lambda>n. (NotificationConsumerName, t_MessageID n)) (nd_notifications d) \<and>
     (\<forall>n \<in> set (nd_notifications d). row_inv (nd_deliveries d) n) \<and>
     (\<forall>w \<in> set (nd_deliveries d). w_NotificationID w \<in> t_ID ` set (nd_notifications d))"

lemma nt_inv_map:
  assumes "nt_inv d"
    and "\<And>n. n \<in> set (nd_notifications d) \<Longrightarrow>
      t_ID (g n) = t_ID n \<and> t_MessageID (g n) = t_MessageID n \<and> row_inv ws (g n)"
    and "\<And>w. w \<in> set ws \<Longrightarrow> w_NotificationID w \<in> t_ID ` set (nd_notifications d)"
  shows "nt_inv (d\<lparr>nd_notifications := map g (nd_notifications d), nd_deliveries := ws\<rparr>)"
proof -
  have "map t_ID (map g (nd_notifications d)) = map t_ID (nd_notifications d)"
    "map t_MessageID (map g (nd_notifications d)) = map t_MessageID (nd_notifications d)"
    "map (\<lambda>n. (NotificationConsumerName, t_MessageID n)) (map g (nd_notifications d)) =
     map (\<lambda>n. (NotificationConsumerName, t_MessageID n)) (nd_notifications d)"
    "t_ID ` set (map g (nd_notifications d)) = t_ID ` set (nd_notifications d)"
    using assms(2) by (auto simp: image_image)
  moreover have "\<forall>r \<in> set (map g (nd_notifications d)). row_inv ws r" using assms(2) by simp
  ultimately show ?thesis
    using assms(1,3) unfolding nt_inv_def by (simp del: map_map set_map)
qed

lemma nt_inv_empty [simp]: "nt_inv \<lparr>nd_notifications = [], nd_deliveries = [], nd_processed = []\<rparr>"
  by (simp add: nt_inv_def)

section \<open>Recording\<close>

lemma processTx_run:
  "processTx i now v dec [] d =
     (if (NotificationConsumerName, v_MessageID v) \<in> set (nd_processed d)
      then (case find_message (v_MessageID v) d of
              None \<Rightarrow> (Inl ErrNoRows, [], d)
            | Some n \<Rightarrow> (Inr (ProcessDuplicate n), [], d))
      else if i \<in> t_ID ` set (nd_notifications d) \<or>
              v_MessageID v \<in> t_MessageID ` set (nd_notifications d)
      then (Inl ErrDatabase, [],
        d\<lparr>nd_processed := nd_processed d @ [(NotificationConsumerName, v_MessageID v)]\<rparr>)
      else (Inr (ProcessCreated (new_notification i now v dec)), [],
        d\<lparr>nd_processed := nd_processed d @ [(NotificationConsumerName, v_MessageID v)],
          nd_notifications := nd_notifications d @ [notification_row (new_notification i now v dec)]\<rparr>))"
  by (auto simp: processTx_def tx_bind_def claimNotification_def faulty_def findByMessageIDTx_def
      tx_simps insertNotification_def new_notification_def Let_def split: option.split)

lemma row_inv_new:
  assumes "\<forall>w \<in> set ws. w_NotificationID w \<noteq> i"
  shows "row_inv ws (notification_row (new_notification i now v dec))"
proof -
  have "deliveries_of i ws = []" "sent_deliveries_of i ws = []"
    using assms by (auto simp: deliveries_of_def sent_deliveries_of_def filter_empty_conv)
  then show ?thesis
    by (simp add: row_inv_def notification_row_def new_notification_def MaxDeliveryAttempts_def)
qed

lemma process_keeps_inv:
  assumes "nt_inv d" and "ProcessEnvelope i now fs c v d = (d', r)"
  shows "nt_inv d'"
proof (cases "d' = d")
  case False
  then obtain dec where run: "in_tx ErrDatabase (processTx i now v dec) fs c d = (d', r)"
    using assms(2) by (auto simp: ProcessEnvelope_def split: option.splits sum.splits if_splits)
  obtain a fs' where a: "processTx i now v dec [] d = (Inr a, fs', d')"
    using in_tx_states [OF processTx_aborts run] False by blast
  let ?n = "notification_row (new_notification i now v dec)"
  have fresh: "i \<notin> t_ID ` set (nd_notifications d)"
    "v_MessageID v \<notin> t_MessageID ` set (nd_notifications d)"
    and d': "d' = d\<lparr>nd_processed := nd_processed d @ [(NotificationConsumerName, v_MessageID v)],
        nd_notifications := nd_notifications d @ [?n]\<rparr>"
    using a False by (auto simp: processTx_run split: if_splits option.splits)
  have n: "t_ID ?n = i" "t_MessageID ?n = v_MessageID v"
    by (simp_all add: notification_row_def new_notification_def)
  have "row_inv (nd_deliveries d) ?n"
    using assms(1) fresh by (intro row_inv_new) (auto simp: nt_inv_def)
  with assms(1) fresh show ?thesis unfolding d' by (auto simp: nt_inv_def n)
qed (use assms in simp)

section \<open>Claims\<close>

lemma selectNextDelivery_Some:
  "selectNextDelivery now locked d = Some n \<Longrightarrow>
     n \<in> set (nd_notifications d) \<and> claimable now n \<and> \<not> locked (t_ID n)"
proof -
  assume sel: "selectNextDelivery now locked d = Some n"
  let ?rows = "sort_key (\<lambda>n. (t_CreatedAt n, t_ID n))
     (filter (\<lambda>n. claimable now n \<and> \<not> locked (t_ID n)) (nd_notifications d))"
  have "?rows \<noteq> [] \<and> n = hd ?rows" using sel by (simp add: selectNextDelivery_def Let_def split: if_splits)
  then have "n \<in> set ?rows" using hd_in_set by blast
  then show ?thesis by simp
qed

lemma unique_row:
  "distinct (map t_ID rows) \<Longrightarrow> n \<in> set rows \<Longrightarrow>
     filter (\<lambda>m. t_ID m = t_ID n) rows = [n]"
  by (induction rows) (auto simp: filter_empty_conv image_iff)

lemma same_row:
  "distinct (map t_ID rows) \<Longrightarrow> n \<in> set rows \<Longrightarrow> m \<in> set rows \<Longrightarrow> t_ID m = t_ID n \<Longrightarrow> m = n"
  by (auto simp: distinct_map dest: inj_onD)

definition claimed_db :: "time \<Rightarrow> time \<Rightarrow> string \<Rightarrow> NotificationDB \<Rightarrow> NotificationDB" where
  "claimed_db now lockedUntil i d =
     d\<lparr>nd_notifications := map (\<lambda>n. if t_ID n = i
         then claimed_by (pg_ts now) (pg_ts lockedUntil) n else n) (nd_notifications d)\<rparr>"

lemma claimNextTx_run:
  assumes "nt_inv d"
  shows "claimNextTx now lease locked [] d =
    (case selectNextDelivery now locked d of
       None \<Rightarrow> (Inr None, [], d)
     | Some n \<Rightarrow> (Inr (Some (claimed_by now (now + lease) n)), [], claimed_db now (now + lease) (t_ID n) d))"
proof (cases "selectNextDelivery now locked d")
  case None
  then show ?thesis by (simp add: claimNextTx_def tx_bind_def tx_simps)
next
  case (Some n)
  have "length (filter (\<lambda>m. t_ID m = t_ID n) (nd_notifications d)) = 1"
    using assms selectNextDelivery_Some [OF Some] by (simp add: nt_inv_def unique_row)
  then show ?thesis
    using Some by (simp add: claimNextTx_def tx_bind_def tx_simps claimDelivery_def claimed_db_def Let_def)
qed

text \<open>The effect of a claim, whatever its faults: nothing, or the selected row is taken.\<close>

lemma claim_cases:
  assumes "nt_inv d" and "ClaimNextDelivery now lease locked fs c d = (d', r)"
  obtains "d' = d" and "\<And>n. r \<noteq> Inr (Some n)"
  | n l where "selectNextDelivery now locked d = Some n" and "d' = claimed_db now l (t_ID n) d"
      and "l = now + (if lease \<le> 0 then DefaultDeliveryLease else lease)"
      and "\<And>m. r = Inr (Some m) \<Longrightarrow> m = claimed_by now l n"
proof -
  let ?lease = "if lease \<le> 0 then DefaultDeliveryLease else lease"
  have "in_tx ErrDatabase (claimNextTx now ?lease locked) fs c d = (d', r)"
    using assms(2) unfolding ClaimNextDelivery_def .
  from in_tx_states [OF claimNextTx_aborts this] show thesis
    using that claimNextTx_run [OF assms(1), of now ?lease locked]
    by (cases "selectNextDelivery now locked d") auto
qed

lemma claimed_db_inv:
  assumes "nt_inv d" and "selectNextDelivery now locked d = Some n"
  shows "nt_inv (claimed_db now l (t_ID n) d)"
proof -
  note n = selectNextDelivery_Some [OF assms(2)]
  have "nt_inv (d\<lparr>nd_notifications := map (\<lambda>m. if t_ID m = t_ID n
      then claimed_by (pg_ts now) (pg_ts l) m else m) (nd_notifications d),
      nd_deliveries := nd_deliveries d\<rparr>)"
  proof (rule nt_inv_map [OF assms(1)])
    fix m
    assume m: "m \<in> set (nd_notifications d)"
    then have inv: "row_inv (nd_deliveries d) m" using assms(1) by (simp add: nt_inv_def)
    have "t_ID m = t_ID n \<Longrightarrow> claimable now m"
      using n m assms(1) same_row [of "nd_notifications d" n m] by (simp add: nt_inv_def)
    then show "t_ID (if t_ID m = t_ID n then claimed_by (pg_ts now) (pg_ts l) m else m) = t_ID m \<and>
      t_MessageID (if t_ID m = t_ID n then claimed_by (pg_ts now) (pg_ts l) m else m) = t_MessageID m \<and>
      row_inv (nd_deliveries d) (if t_ID m = t_ID n then claimed_by (pg_ts now) (pg_ts l) m else m)"
      using inv by (auto simp: row_inv_def claimed_by_def claimable_def)
  qed (use assms(1) in \<open>auto simp: nt_inv_def\<close>)
  then show ?thesis by (simp add: claimed_db_def)
qed

section \<open>Marks\<close>

definition marked_row :: "Notification \<Rightarrow> time \<Rightarrow> Notification \<Rightarrow> Notification" where
  "marked_row n next row = row\<lparr>t_Status := t_Status n, t_LastError := t_LastError n,
     t_NextAttemptAt := pg_ts next, t_LockedUntil := None, t_UpdatedAt := pg_ts (t_UpdatedAt n)\<rparr>"

definition mark_body :: "Notification \<Rightarrow> time \<Rightarrow> time option \<Rightarrow> Delivery \<Rightarrow> Notification notification_tx" where
  "mark_body n next l w =
     tx_bind (updateDeliveryState n next l) (\<lambda>_. tx_bind (insertDelivery w) (\<lambda>_. tx_return n))"

lemma mark_body_aborts: "faults_abort (mark_body n next l w)"
  unfolding mark_body_def by (intro faults_intros)

lemma sent_as_body:
  "\<exists>n' next w. MarkDeliverySent i n p now fs c d = in_tx ErrDatabase (mark_body n' next (t_LockedUntil n) w) fs c d \<and>
     t_ID n' = t_ID n \<and> t_Status n' = StatusSent \<and> w_NotificationID w = t_ID n \<and> w_Status w = StatusSent"
  unfolding MarkDeliverySent_def mark_body_def Let_def
  by (intro exI conjI, rule refl) simp_all

lemma failed_as_body:
  "\<exists>n' next w. MarkDeliveryFailed i n err now fs c d = in_tx ErrDatabase (mark_body n' next (t_LockedUntil n) w) fs c d \<and>
     t_ID n' = t_ID n \<and> t_Status n' = StatusFailed \<and> w_NotificationID w = t_ID n \<and> w_Status w = StatusFailed"
  unfolding MarkDeliveryFailed_def mark_body_def Let_def
  by (intro exI conjI, rule refl) simp_all

text \<open>A mark that changes the database found the claimed row and added one delivery for it.\<close>

lemma mark_body_effect:
  assumes "mark_body n next l w [] d = (Inr a, fs', d')"
  shows "\<exists>row. row \<in> set (nd_notifications d) \<and> holds_claim n l row \<and>
    d' = d\<lparr>nd_notifications := map (\<lambda>r. if holds_claim n l r then marked_row n next r else r)
             (nd_notifications d),
           nd_deliveries := nd_deliveries d @ [w\<lparr>w_CreatedAt := pg_ts (w_CreatedAt w)\<rparr>]\<rparr>"
proof -
  have one: "length (filter (holds_claim n l) (nd_notifications d)) = 1"
    and d': "d' = d\<lparr>nd_notifications := map (\<lambda>r. if holds_claim n l r then marked_row n next r else r)
             (nd_notifications d),
           nd_deliveries := nd_deliveries d @ [w\<lparr>w_CreatedAt := pg_ts (w_CreatedAt w)\<rparr>]\<rparr>"
    using assms
    by (auto simp: mark_body_def updateDeliveryState_def insertDelivery_def tx_bind_def tx_simps
        faulty_def marked_row_def [abs_def] split: if_splits)
  obtain row where "row \<in> set (filter (holds_claim n l) (nd_notifications d))"
    using one by (metis length_0_conv list.set_intros(1) neq_Nil_conv zero_neq_one)
  then show ?thesis using d' by auto
qed

lemma mark_effect_inv:
  assumes "nt_inv d" and "row \<in> set (nd_notifications d)" and "holds_claim n l row"
    and "t_Status n = st" and "w_Status w = st" and "st = StatusSent \<or> st = StatusFailed"
    and "w_NotificationID w = t_ID n"
  shows "nt_inv (d\<lparr>nd_notifications := map (\<lambda>r. if holds_claim n l r then marked_row n next r else r)
             (nd_notifications d), nd_deliveries := nd_deliveries d @ [w]\<rparr>)"
proof (rule nt_inv_map [OF assms(1)])
  fix m
  assume m: "m \<in> set (nd_notifications d)"
  then have inv: "row_inv (nd_deliveries d) m" using assms(1) by (simp add: nt_inv_def)
  have row: "t_ID row = t_ID n" using assms(3) by (simp add: holds_claim_def)
  have new: "deliveries_of i (nd_deliveries d @ [w]) = deliveries_of i (nd_deliveries d) @
      (if i = t_ID n then [w] else [])"
    "sent_deliveries_of i (nd_deliveries d @ [w]) = sent_deliveries_of i (nd_deliveries d) @
      (if i = t_ID n \<and> st = StatusSent then [w] else [])" for i
    using assms(5,7) by (auto simp: deliveries_of_def sent_deliveries_of_def)
  have "t_ID m = t_ID n \<longleftrightarrow> holds_claim n l m"
    using m row assms(1-3) same_row [of "nd_notifications d" row m]
    by (auto simp: nt_inv_def holds_claim_def)
  then have "row_inv (nd_deliveries d @ [w]) (if holds_claim n l m then marked_row n next m else m)"
    using inv assms(4,6) by (auto simp: row_inv_def new marked_row_def holds_claim_def)
  then show "t_ID (if holds_claim n l m then marked_row n next m else m) = t_ID m \<and>
    t_MessageID (if holds_claim n l m then marked_row n next m else m) = t_MessageID m \<and>
    row_inv (nd_deliveries d @ [w]) (if holds_claim n l m then marked_row n next m else m)"
    by (simp add: marked_row_def)
next
  fix x
  assume "x \<in> set (nd_deliveries d @ [w])"
  moreover have "t_ID n \<in> t_ID ` set (nd_notifications d)"
    using assms(2,3) unfolding holds_claim_def by (metis imageI)
  ultimately show "w_NotificationID x \<in> t_ID ` set (nd_notifications d)"
    using assms(1,7) by (auto simp: nt_inv_def)
qed

lemma mark_keeps_inv:
  assumes "nt_inv d" and "in_tx ErrDatabase (mark_body n next l w) fs c d = (d', r)"
    and "t_Status n = st" and "w_Status w = st" and "st = StatusSent \<or> st = StatusFailed"
    and "w_NotificationID w = t_ID n"
  shows "nt_inv d'"
proof (cases "d' = d")
  case False
  then obtain a fs' where run: "mark_body n next l w [] d = (Inr a, fs', d')"
    using in_tx_states [OF mark_body_aborts assms(2)] by blast
  from mark_body_effect [OF run] obtain row where "row \<in> set (nd_notifications d)" "holds_claim n l row"
    and "d' = d\<lparr>nd_notifications := map (\<lambda>r. if holds_claim n l r then marked_row n next r else r)
             (nd_notifications d), nd_deliveries := nd_deliveries d @ [w\<lparr>w_CreatedAt := pg_ts (w_CreatedAt w)\<rparr>]\<rparr>"
    by blast
  then show ?thesis
    using mark_effect_inv [OF assms(1), of row n l st "w\<lparr>w_CreatedAt := pg_ts (w_CreatedAt w)\<rparr>" "next"]
      assms(3-6) by simp
qed (use assms in simp)

end
