(* ===== verification/NotificationProps.thy ===== *)
theory NotificationProps imports NotificationInv begin

text \<open>
  Consumers and delivery workers running concurrently: the step relation, its reachable states and
  the properties of recording, claiming and marking.
\<close>

section \<open>Recording is idempotent\<close>

text \<open>What an attempt meets: the identifier it draws, its clock, faults, the commit.\<close>

type_synonym record_attempt = "string \<times> time \<times> faults \<times> commit_outcome"

definition record_message :: "record_attempt \<Rightarrow> Envelope \<Rightarrow> NotificationDB
   \<Rightarrow> NotificationDB \<times> (notification_error + ProcessResult)" where
  "record_message x v d = (case x of (i, now, fs, c) \<Rightarrow> ProcessEnvelope i now fs c v d)"

definition clean_record :: "record_attempt \<Rightarrow> record_attempt" where
  "clean_record x = (case x of (i, now, _) \<Rightarrow> (i, now, [], Committed))"

definition recorded :: "Envelope \<Rightarrow> NotificationDB \<Rightarrow> bool" where
  "recorded v d \<longleftrightarrow> Decide v = Inl ErrUnsupportedRoutingKey \<or>
     (NotificationConsumerName, v_MessageID v) \<in> set (nd_processed d)"

lemma ProcessEnvelope_clean:
  assumes "ValidateEnvelope v = None" and "Decide v = Inr dec"
  shows "ProcessEnvelope i now [] Committed v d =
    (case processTx i now v dec [] d of
       (Inl err, _, _) \<Rightarrow> (d, Inl err) | (Inr a, _, d') \<Rightarrow> (d', Inr a))"
  using assms by (simp add: ProcessEnvelope_def in_tx_def faulty_def split: prod.split sum.split)

lemma ProcessEnvelope_early:
  assumes "ValidateEnvelope v \<noteq> None \<or> (\<forall>dec. Decide v \<noteq> Inr dec)"
  shows "ProcessEnvelope i now fs c v d = ProcessEnvelope i now [] Committed v d"
    and "fst (ProcessEnvelope i now fs c v d) = d"
    and "snd (ProcessEnvelope i now fs c v d) = Inr r \<Longrightarrow> recorded v d"
  using assms by (auto simp: ProcessEnvelope_def recorded_def split: option.splits sum.splits if_splits)

lemma record_states:
  "fst (record_message (clean_record x) v d) = d \<or> recorded v (fst (record_message (clean_record x) v d))"
  "snd (record_message (clean_record x) v d) = Inr r \<Longrightarrow>
     recorded v (fst (record_message (clean_record x) v d))"
  "snd (record_message (clean_record x) v d) = Inl e \<Longrightarrow>
     fst (record_message (clean_record x) v d) = d"
  "recorded v d \<Longrightarrow> fst (record_message (clean_record x) v d) = d"
proof -
  obtain i now fs c where x: "x = (i, now, fs, c)" by (cases x)
  let ?P = "ProcessEnvelope i now [] Committed v d"
  have *: "(fst ?P = d \<or> recorded v (fst ?P)) \<and> (\<forall>r. snd ?P = Inr r \<longrightarrow> recorded v (fst ?P)) \<and>
     (\<forall>e. snd ?P = Inl e \<longrightarrow> fst ?P = d) \<and> (recorded v d \<longrightarrow> fst ?P = d)"
  proof (cases "ValidateEnvelope v = None \<and> (\<exists>dec. Decide v = Inr dec)")
    case True
    then obtain dec where "ValidateEnvelope v = None" "Decide v = Inr dec" by blast
    then show ?thesis
      by (simp add: ProcessEnvelope_clean processTx_run recorded_def split: option.split)
  next
    case False
    then have "ValidateEnvelope v \<noteq> None \<or> (\<forall>dec. Decide v \<noteq> Inr dec)" by auto
    note early = ProcessEnvelope_early [OF this, of i now "[]" Committed d]
    then show ?thesis by simp
  qed
  then show "fst (record_message (clean_record x) v d) = d \<or> recorded v (fst (record_message (clean_record x) v d))"
    "snd (record_message (clean_record x) v d) = Inr r \<Longrightarrow>
     recorded v (fst (record_message (clean_record x) v d))"
    "snd (record_message (clean_record x) v d) = Inl e \<Longrightarrow> fst (record_message (clean_record x) v d) = d"
    "recorded v d \<Longrightarrow> fst (record_message (clean_record x) v d) = d"
    by (simp_all add: x record_message_def clean_record_def)
qed

lemma record_faults:
  "record_message x v d = record_message (clean_record x) v d \<or>
   (\<exists>e. snd (record_message x v d) = Inl e) \<and>
     fst (record_message x v d) \<in> {d, fst (record_message (clean_record x) v d)}"
proof -
  obtain i now fs c where x: "x = (i, now, fs, c)" by (cases x)
  show ?thesis
  proof (cases "ValidateEnvelope v = None \<and> (\<exists>dec. Decide v = Inr dec)")
    case True
    then obtain dec where "ValidateEnvelope v = None" "Decide v = Inr dec" by blast
    then have P: "ProcessEnvelope i now fs c v d = in_tx ErrDatabase (processTx i now v dec) fs c d" for fs c
      by (simp add: ProcessEnvelope_def)
    show ?thesis
      using in_tx_atomic [OF processTx_aborts, of ErrDatabase i now v dec fs c d]
      unfolding x record_message_def clean_record_def prod.case P by blast
  next
    case False
    then have "ValidateEnvelope v \<noteq> None \<or> (\<forall>dec. Decide v \<noteq> Inr dec)" by auto
    from ProcessEnvelope_early(1) [OF this] show ?thesis
      by (simp add: x record_message_def clean_record_def)
  qed
qed

interpretation notification_consumer: idempotent_consumer record_message clean_record recorded
  by unfold_locales (fact record_faults record_states)+

section \<open>Steps\<close>

text \<open>
  The state is the database with the claims that workers hold. A worker that dies drops its claim;
  a claim whose commit answer is lost is held by nobody.
\<close>

inductive nt_step ::
  "NotificationDB \<times> Notification list \<Rightarrow> NotificationDB \<times> Notification list \<Rightarrow> bool" where
  nt_process: "nt_step (d, cl) (fst (ProcessEnvelope i now fs c v d), cl)"
| nt_claim: "ClaimNextDelivery now lease locked fs c d = (d', r) \<Longrightarrow>
    nt_step (d, cl) (d', (case r of Inr (Some n) \<Rightarrow> n # cl | _ \<Rightarrow> cl))"
| nt_sent: "n \<in> set cl \<Longrightarrow> nt_step (d, cl) (fst (MarkDeliverySent i n p now fs c d), removeAll n cl)"
| nt_failed: "n \<in> set cl \<Longrightarrow>
    nt_step (d, cl) (fst (MarkDeliveryFailed i n err now fs c d), removeAll n cl)"
| nt_crash: "nt_step (d, cl) (d, removeAll n cl)"

inductive_cases nt_stepE: "nt_step (d, cl) s"

inductive nt_reachable :: "NotificationDB \<times> Notification list \<Rightarrow> bool" where
  nt_empty: "nt_reachable (\<lparr>nd_notifications = [], nd_deliveries = [], nd_processed = []\<rparr>, [])"
| nt_next: "nt_reachable s \<Longrightarrow> nt_step s s' \<Longrightarrow> nt_reachable s'"

lemma nt_step_inv: "nt_step s s' \<Longrightarrow> nt_inv (fst s) \<Longrightarrow> nt_inv (fst s')"
proof (induction rule: nt_step.induct)
  case (nt_process d cl i now fs c v)
  then show ?case using process_keeps_inv by (metis fst_conv prod.collapse)
next
  case (nt_claim now lease locked fs c d d' r cl)
  then have "nt_inv d" by simp
  from claim_cases [OF this nt_claim.hyps] this show ?case by (metis claimed_db_inv fst_conv)
next
  case (nt_sent n cl d i p now fs c)
  then show ?case
    using sent_as_body [of i n p now fs c d] mark_keeps_inv [of d] by (metis fst_conv prod.collapse)
next
  case (nt_failed n cl d i err now fs c)
  then show ?case
    using failed_as_body [of i n err now fs c d] mark_keeps_inv [of d] by (metis fst_conv prod.collapse)
qed simp

lemma nt_reachable_inv: "nt_reachable s \<Longrightarrow> nt_inv (fst s)"
  by (induction rule: nt_reachable.induct) (auto dest: nt_step_inv)

text \<open>
  C23. A message that asks for a notification and was not handled before gives exactly one: the
  deliveries of the message, under any faults and up to one that is acknowledged, add one row with
  the decided recipient and text, and later deliveries add nothing.
\<close>

theorem notified_once:
  assumes "ValidateEnvelope v = None" and "Decide v = Inr dec"
    and "(NotificationConsumerName, v_MessageID v) \<notin> set (nd_processed d)"
    and "snd (record_message x v (fold (\<lambda>x d. fst (record_message x v d)) xs d)) = Inr r"
  shows "\<exists>(i, now, _) \<in> set (xs @ [x]). \<exists>d'.
      fold (\<lambda>x d. fst (record_message x v d)) (xs @ [x]) d = d' \<and>
      nd_notifications d' = nd_notifications d @ [notification_row (new_notification i now v dec)] \<and>
      nd_deliveries d' = nd_deliveries d \<and>
      fold (\<lambda>x d. fst (record_message x v d)) later d' = d'"
proof -
  from notification_consumer.exactly_once [OF assms(4), of later]
  obtain y where y: "y \<in> set (xs @ [x])"
    and eff: "fold (\<lambda>x d. fst (record_message x v d)) (xs @ [x]) d = fst (record_message (clean_record y) v d)"
    and recorded: "recorded v (fst (record_message (clean_record y) v d))"
    and later: "fold (\<lambda>x d. fst (record_message x v d)) later (fst (record_message (clean_record y) v d))
      = fst (record_message (clean_record y) v d)"
    by blast
  obtain i now fs c where yy: "y = (i, now, fs, c)" by (cases y)
  have "nd_notifications (fst (record_message (clean_record y) v d)) =
      nd_notifications d @ [notification_row (new_notification i now v dec)] \<and>
    nd_deliveries (fst (record_message (clean_record y) v d)) = nd_deliveries d"
    using assms(1-3) recorded
    by (auto simp: yy record_message_def clean_record_def ProcessEnvelope_clean processTx_run
        recorded_def split: if_splits option.splits)
  then show ?thesis using y eff later unfolding yy by (intro bexI [of _ y]) (auto simp: yy)
qed

text \<open>
  C24. A notification is delivered five times at most, every recorded delivery belongs to one of its
  attempts, and it has a successful delivery, a single one, exactly when it is \<open>SENT\<close>.
\<close>

theorem deliveries_bounded:
  assumes "nt_reachable (d, cl)" and "n \<in> set (nd_notifications d)"
  shows "t_DeliveryAttempts n \<le> 5 \<and>
    int (length (filter (\<lambda>w. w_NotificationID w = t_ID n) (nd_deliveries d))) \<le> t_DeliveryAttempts n \<and>
    length (filter (\<lambda>w. w_NotificationID w = t_ID n \<and> w_Status w = StatusSent) (nd_deliveries d)) =
      (if t_Status n = StatusSent then 1 else 0)"
  using nt_reachable_inv [OF assms(1)] assms(2)
  by (auto simp: nt_inv_def row_inv_def deliveries_of_def sent_deliveries_of_def MaxDeliveryAttempts_def
      split: if_splits)

section \<open>Stale claims\<close>

lemma in_map_iff: "y \<in> set (map f xs) \<longleftrightarrow> (\<exists>x \<in> set xs. f x = y)"
  by auto

lemma claimed_db_row:
  "n' \<in> set (nd_notifications (claimed_db now l i d)) \<longleftrightarrow>
     (\<exists>n \<in> set (nd_notifications d). (if t_ID n = i then claimed_by (pg_ts now) (pg_ts l) n else n) = n')"
  unfolding claimed_db_def by (subst in_map_iff [symmetric]) simp

lemma pg_ts_later: "1000 \<le> x \<Longrightarrow> pg_ts now < pg_ts (now + x)"
  using pg_ts_gt [of "now + x"] pg_ts_le [of now] by linarith

lemma mark_stale:
  assumes "\<And>row. row \<in> set (nd_notifications d) \<Longrightarrow> \<not> holds_claim n l row"
  shows "fst (in_tx ErrDatabase (mark_body n next l w) fs c d) = d \<and>
    (\<exists>err. snd (in_tx ErrDatabase (mark_body n next l w) fs c d) = Inl err)"
proof -
  have "filter (holds_claim n l) (nd_notifications d) = []" using assms by (simp add: filter_empty_conv)
  then have "\<exists>err gs. mark_body n next l w (tl fs) d = (Inl err, gs, d)"
    by (simp add: mark_body_def updateDeliveryState_def tx_bind_def)
  then obtain err gs where "mark_body n next l w (tl fs) d = (Inl err, gs, d)" by blast
  then show ?thesis by (simp add: in_tx_def)
qed

text \<open>
  C25. A worker that lost its claim cannot settle the notification: when the lease has run out and
  another worker has claimed the row, marking it as sent or failed under the old claim changes
  nothing and is an error, whatever the clocks of the workers show.
\<close>

theorem stale_claim_refused:
  assumes "nt_reachable (d, cl)" and "row \<in> set (nd_notifications d)"
    and "holds_claim n (t_LockedUntil n) row"
    and "ClaimNextDelivery now lease locked fs c d = (d', Inr (Some n2))" and "t_ID n2 = t_ID n"
    and "lease \<le> 0 \<or> 1000 \<le> lease"
  shows "fst (MarkDeliverySent i n p t gs k d') = d' \<and>
    (\<exists>err. snd (MarkDeliverySent i n p t gs k d') = Inl err) \<and>
    fst (MarkDeliveryFailed i n cause t gs k d') = d' \<and>
    (\<exists>err. snd (MarkDeliveryFailed i n cause t gs k d') = Inl err)"
proof -
  have inv: "nt_inv d" using nt_reachable_inv [OF assms(1)] by simp
  from claim_cases [OF inv assms(4)] obtain m l where sel: "selectNextDelivery now locked d = Some m"
    and d': "d' = claimed_db now l (t_ID m) d"
    and l: "l = now + (if lease \<le> 0 then DefaultDeliveryLease else lease)" and n2: "n2 = claimed_by now l m"
    by metis
  note m = selectNextDelivery_Some [OF sel]
  have "t_ID m = t_ID n" using n2 assms(5) by (simp add: claimed_by_def)
  then have "row = m"
    using m assms(2,3) inv same_row [of "nd_notifications d" m row] by (simp add: nt_inv_def holds_claim_def)
  then obtain l0 where l0: "t_LockedUntil n = Some l0" "t_LockedUntil row = Some (pg_ts l0)"
    and "pg_ts l0 \<le> pg_ts now"
    using assms(3) m by (auto simp: holds_claim_def claimable_def)
  moreover have "pg_ts now < pg_ts l"
    using assms(6) pg_ts_later [of lease now] pg_ts_later [of DefaultDeliveryLease now]
    by (auto simp: l DefaultDeliveryLease_def second_def split: if_splits)
  ultimately have "pg_ts l \<noteq> pg_ts l0" by simp
  have none: "\<not> holds_claim n' (t_LockedUntil n) r" if "r \<in> set (nd_notifications d')" "t_ID n' = t_ID n" for n' r
  proof -
    obtain r0 where r: "r = (if t_ID r0 = t_ID m then claimed_by (pg_ts now) (pg_ts l) r0 else r0)"
      using \<open>r \<in> set (nd_notifications d')\<close> unfolding d' claimed_db_row by blast
    have "t_ID r = t_ID n \<Longrightarrow> t_LockedUntil r = Some (pg_ts l)"
      using \<open>t_ID m = t_ID n\<close> by (cases "t_ID r0 = t_ID m") (simp_all add: r claimed_by_def)
    then show ?thesis using \<open>t_ID n' = t_ID n\<close> l0 \<open>pg_ts l \<noteq> pg_ts l0\<close> by (auto simp: holds_claim_def)
  qed
  have "fst (in_tx ErrDatabase (mark_body n' next (t_LockedUntil n) w) gs k d') = d' \<and>
    (\<exists>err. snd (in_tx ErrDatabase (mark_body n' next (t_LockedUntil n) w) gs k d') = Inl err)"
    if "t_ID n' = t_ID n" for n' "next" w
    using none that by (intro mark_stale) blast
  then show ?thesis
    using sent_as_body [of i n p t gs k d'] failed_as_body [of i n cause t gs k d'] by fastforce
qed

section \<open>Rows that nothing changes\<close>

lemma mark_keeps_row:
  assumes "n \<in> set (nd_notifications d)" and unclaimed: "t_Status n = StatusProcessing \<Longrightarrow> \<forall>m \<in> set cl. t_ID m \<noteq> t_ID n"
    and body: "in_tx ErrDatabase (mark_body n' next l w) fs c d = (d2, r)" and m: "m \<in> set cl" "t_ID n' = t_ID m"
  shows "n \<in> set (nd_notifications d2)"
proof (cases "d2 = d")
  case False
  then obtain a fs' where "mark_body n' next l w [] d = (Inr a, fs', d2)"
    using in_tx_states [OF mark_body_aborts body] by blast
  from mark_body_effect [OF this] have rows: "nd_notifications d2 =
      map (\<lambda>r. if holds_claim n' l r then marked_row n' next r else r) (nd_notifications d)" by auto
  have "\<not> holds_claim n' l n" using unclaimed m by (auto simp: holds_claim_def)
  then show ?thesis using assms(1) unfolding rows by (auto intro: image_eqI [of _ _ n])
qed (use assms in simp)

lemma step_keeps_row:
  assumes "nt_inv d" and "n \<in> set (nd_notifications d)" and "\<And>now. \<not> claimable now n"
    and "t_Status n = StatusProcessing \<Longrightarrow> \<forall>m \<in> set cl. t_ID m \<noteq> t_ID n"
    and "nt_step (d, cl) (d', cl')"
  shows "n \<in> set (nd_notifications d') \<and> (t_Status n = StatusProcessing \<longrightarrow> (\<forall>m \<in> set cl'. t_ID m \<noteq> t_ID n))"
proof -
  note mark = mark_keeps_row [OF assms(2,4)]
  show ?thesis
    using assms(5)
  proof (cases rule: nt_step.cases)
    case (nt_process i now fs c v)
    show ?thesis
    proof (cases "d' = d")
      case False
      then obtain dec where "in_tx ErrDatabase (processTx i now v dec) fs c d = (d', snd (ProcessEnvelope i now fs c v d))"
        using nt_process by (auto simp: ProcessEnvelope_def split: option.splits sum.splits if_splits)
      from in_tx_states [OF processTx_aborts this] False
      obtain a gs where "processTx i now v dec [] d = (Inr a, gs, d')" by blast
      then have "set (nd_notifications d) \<subseteq> set (nd_notifications d')"
        by (auto simp: processTx_run split: if_splits option.splits)
      then show ?thesis using assms(2,4) nt_process by auto
    qed (use assms nt_process in simp)
  next
    case (nt_claim now lease locked fs c r)
    from claim_cases [OF assms(1) nt_claim(2)] show ?thesis
    proof cases
      case 1
      then show ?thesis using assms nt_claim by (auto split: sum.splits option.splits)
    next
      case (2 m l)
      note m = selectNextDelivery_Some [OF 2(1)]
      have "t_ID m \<noteq> t_ID n"
        using m assms(1-3) same_row [of "nd_notifications d" n m] by (auto simp: nt_inv_def)
      then show ?thesis
        using 2 assms(2,4) nt_claim
        by (auto simp: claimed_db_row claimed_by_def intro: bexI [of _ n] split: sum.splits option.splits)
    qed
  next
    case (nt_sent m i p now fs c)
    then show ?thesis
      using sent_as_body [of i m p now fs c d] mark assms(4) by (auto split: if_splits) (metis prod.collapse)+
  next
    case (nt_failed m i err now fs c)
    then show ?thesis
      using failed_as_body [of i m err now fs c d] mark assms(4) by (auto split: if_splits) (metis prod.collapse)+
  next
    case (nt_crash m)
    then show ?thesis using assms by auto
  qed
qed

lemma steps_keep_row:
  assumes "nt_step\<^sup>*\<^sup>* (d, cl) (d', cl')" and "nt_inv d" and "n \<in> set (nd_notifications d)"
    and "\<And>now. \<not> claimable now n"
    and "t_Status n = StatusProcessing \<Longrightarrow> \<forall>m \<in> set cl. t_ID m \<noteq> t_ID n"
  shows "n \<in> set (nd_notifications d')"
proof -
  have "nt_inv d' \<and> n \<in> set (nd_notifications d') \<and>
    (t_Status n = StatusProcessing \<longrightarrow> (\<forall>m \<in> set cl'. t_ID m \<noteq> t_ID n))"
    using assms(1)
  proof (induction rule: rtranclp_induct2)
    case (step d1 cl1 d2 cl2)
    then show ?case
      using step_keeps_row [of d1 n cl1 d2 cl2] assms(4) nt_step_inv [OF step.hyps(2)] by simp
  qed (use assms in simp)
  then show ?thesis by simp
qed

text \<open>
  C26. The fifth claim is the last one, also when its worker dies before it settles: a notification
  in \<open>PROCESSING\<close> with five attempts that no worker holds stays so in every later state. It is
  neither delivered again after its lease nor marked as failed.
\<close>

theorem crashed_fifth_claim_stuck:
  assumes "nt_reachable (d, cl)" and "n \<in> set (nd_notifications d)"
    and "t_Status n = StatusProcessing" and "t_DeliveryAttempts n = 5"
    and "\<And>m. m \<in> set cl \<Longrightarrow> t_ID m \<noteq> t_ID n" and "nt_step\<^sup>*\<^sup>* (d, cl) (d', cl')"
  shows "n \<in> set (nd_notifications d')"
  using steps_keep_row [OF assms(6), of n] nt_reachable_inv [OF assms(1)] assms(2-5)
  by (simp add: claimable_def MaxDeliveryAttempts_def)

text \<open>C27. A sent notification is final: no later step changes it.\<close>

theorem sent_is_final:
  assumes "nt_reachable (d, cl)" and "n \<in> set (nd_notifications d)" and "t_Status n = StatusSent"
    and "nt_step\<^sup>*\<^sup>* (d, cl) (d', cl')"
  shows "n \<in> set (nd_notifications d')"
  using steps_keep_row [OF assms(4), of n] nt_reachable_inv [OF assms(1)] assms(2,3)
  by (simp add: claimable_def)

section \<open>A round of a worker\<close>

lemma hd_sort_key_min:
  assumes "x \<in> set xs" and "\<And>y. y \<in> set xs \<Longrightarrow> f x \<le> f y"
  shows "sort_key f xs \<noteq> [] \<and> f (hd (sort_key f xs)) = f x \<and> hd (sort_key f xs) \<in> set xs"
proof -
  have x: "x \<in> set (sort_key f xs)" using assms(1) by simp
  then obtain z zs where zs: "sort_key f xs = z # zs" by (cases "sort_key f xs") auto
  have "sorted (map f (z # zs))" using sorted_sort_key [of f xs] by (simp add: zs)
  then have "f z \<le> f x" using x by (auto simp: zs)
  moreover have z: "z \<in> set xs" by (metis list.set_intros(1) set_sort zs)
  ultimately show ?thesis using assms(2) [of z] by (simp add: zs)
qed

lemma selectNextDelivery_oldest:
  assumes "nt_inv d" and "n \<in> set (nd_notifications d)" and "claimable now n"
    and "\<And>m. m \<in> set (nd_notifications d) \<Longrightarrow> claimable now m \<Longrightarrow>
      (t_CreatedAt n, t_ID n) \<le> (t_CreatedAt m, t_ID m)"
  shows "selectNextDelivery now (\<lambda>_. False) d = Some n"
proof -
  let ?rows = "filter (claimable now) (nd_notifications d)"
  let ?key = "\<lambda>n. (t_CreatedAt n, t_ID n)"
  have "sort_key ?key ?rows \<noteq> [] \<and> ?key (hd (sort_key ?key ?rows)) = ?key n \<and>
      hd (sort_key ?key ?rows) \<in> set ?rows"
    by (rule hd_sort_key_min) (use assms in auto)
  then show ?thesis
    using assms(1,2) same_row [of "nd_notifications d" n "hd (sort_key ?key ?rows)"]
    by (auto simp: selectNextDelivery_def Let_def nt_inv_def)
qed

lemma holds_claimed:
  "t_ID n' = t_ID n \<Longrightarrow> holds_claim n' (Some l) (if t_ID r = t_ID n
      then claimed_by (pg_ts now) (pg_ts l) r else r) \<longleftrightarrow> t_ID r = t_ID n"
  by (auto simp: holds_claim_def claimed_by_def)

definition replace_row :: "Notification \<Rightarrow> Notification list \<Rightarrow> Notification list" where
  "replace_row settle rows = map (\<lambda>r. if t_ID r = t_ID settle then settle else r) rows"

lemma mark_claimed:
  assumes "nt_inv d" and "n \<in> set (nd_notifications d)" and "t_ID n' = t_ID n"
    and "text_ok (t_LastError n')" and "w_ID w \<notin> w_ID ` set (nd_deliveries d)"
    and "w_NotificationID w = t_ID n"
  shows "in_tx ErrDatabase (mark_body n' next (Some l) w) [] Committed (claimed_db now l (t_ID n) d) =
    (d\<lparr>nd_notifications := replace_row (marked_row n' next (claimed_by (pg_ts now) (pg_ts l) n))
         (nd_notifications d),
       nd_deliveries := nd_deliveries d @ [w\<lparr>w_CreatedAt := pg_ts (w_CreatedAt w)\<rparr>]\<rparr>, Inr n')"
proof -
  let ?g = "\<lambda>r. if t_ID r = t_ID n then claimed_by (pg_ts now) (pg_ts l) r else r"
  let ?rows = "map ?g (nd_notifications d)"
  have row: "r = n" if "r \<in> set (nd_notifications d)" "t_ID r = t_ID n" for r
    using same_row [of "nd_notifications d" n r] assms(1,2) that by (simp add: nt_inv_def)
  have "filter (holds_claim n' (Some l)) ?rows = map ?g (filter (\<lambda>r. t_ID r = t_ID n) (nd_notifications d))"
    by (simp add: filter_map comp_def holds_claimed [OF assms(3)])
  also have "filter (\<lambda>r. t_ID r = t_ID n) (nd_notifications d) = [n]"
    using assms(1,2) by (intro unique_row) (simp_all add: nt_inv_def)
  finally have one: "length (filter (holds_claim n' (Some l)) ?rows) = 1" by simp
  have marked: "t_ID (marked_row n' next r) = t_ID r" "t_ID (claimed_by a b r) = t_ID r" for r a b
    by (simp_all add: marked_row_def claimed_by_def)
  have rows: "map (\<lambda>row. if holds_claim n' (Some l) row then marked_row n' next row else row) ?rows =
    replace_row (marked_row n' next (claimed_by (pg_ts now) (pg_ts l) n)) (nd_notifications d)"
    using row by (auto simp: replace_row_def holds_claimed [OF assms(3)] marked)
  have upd: "updateDeliveryState n' next (Some l) [] (claimed_db now l (t_ID n) d) =
    (Inr (), [], d\<lparr>nd_notifications := map (\<lambda>row. if holds_claim n' (Some l) row
       then marked_row n' next row else row) ?rows\<rparr>)"
    using assms(4) one
    by (simp add: updateDeliveryState_def claimed_db_def faulty_def marked_row_def [abs_def])
  have ids: "t_ID n \<in> t_ID ` set (replace_row (marked_row n' next (claimed_by (pg_ts now) (pg_ts l) n)) (nd_notifications d))"
  proof -
    let ?m = "marked_row n' next (claimed_by (pg_ts now) (pg_ts l) n)"
    have "?m \<in> set (replace_row ?m (nd_notifications d))"
      unfolding replace_row_def in_map_iff using assms(2) by (intro bexI [of _ n]) (simp add: marked)
    then have "t_ID ?m \<in> t_ID ` set (replace_row ?m (nd_notifications d))" by (rule imageI)
    then show ?thesis by (simp add: marked)
  qed
  show ?thesis
    using assms(5,6) ids upd [unfolded rows]
    by (simp add: in_tx_def faulty_def mark_body_def tx_bind_def insertDelivery_def tx_simps)
qed

text \<open>The two marks of a claimed notification, on the database that the claim left.\<close>

lemma claimed_fields:
  "t_ID (claimed_by now l n) = t_ID n" "t_IdempotencyKey (claimed_by now l n) = t_IdempotencyKey n"
  "t_LockedUntil (claimed_by now l n) = Some l" "t_RecipientEmail (claimed_by now l n) = t_RecipientEmail n"
  "t_Subject (claimed_by now l n) = t_Subject n" "t_Body (claimed_by now l n) = t_Body n"
  "t_DeliveryAttempts (claimed_by now l n) = t_DeliveryAttempts n + 1"
  by (simp_all add: claimed_by_def)

lemma mark_claimed_sent:
  assumes "nt_inv d" and "n \<in> set (nd_notifications d)" and "newID \<notin> w_ID ` set (nd_deliveries d)"
  shows "\<exists>r w settle. MarkDeliverySent newID (claimed_by now l n) p markNow [] Committed (claimed_db now l (t_ID n) d) =
      (d\<lparr>nd_notifications := replace_row settle (nd_notifications d), nd_deliveries := nd_deliveries d @ [w]\<rparr>, Inr r) \<and>
    w_NotificationID w = t_ID n \<and> t_ID settle = t_ID n \<and> t_DeliveryAttempts settle = t_DeliveryAttempts n + 1 \<and>
    t_Status settle = StatusSent \<and> t_LastError settle = ''''"
proof -
  let ?n1 = "claimed_by now l n" and ?n2 = "claimed_by (pg_ts now) (pg_ts l) n"
  let ?n = "?n1\<lparr>t_Status := StatusSent, t_LastError := '''', t_UpdatedAt := markNow, t_LockedUntil := None\<rparr>"
  let ?w = "\<lparr>w_ID = newID, w_NotificationID = t_ID n, w_Provider = ''smtp'', w_Status = StatusSent,
    w_ProviderMessageID = p, w_Error = '''', w_CreatedAt = markNow\<rparr>"
  have "text_ok ''''" by (simp add: text_ok_def utf8_valid_ascii)
  then have "MarkDeliverySent newID ?n1 p markNow [] Committed (claimed_db now l (t_ID n) d) =
    (d\<lparr>nd_notifications := replace_row (marked_row ?n (t_NextAttemptAt ?n1) ?n2) (nd_notifications d),
       nd_deliveries := nd_deliveries d @ [?w\<lparr>w_CreatedAt := pg_ts markNow\<rparr>]\<rparr>, Inr ?n)"
    using mark_claimed [OF assms(1,2), of ?n ?w "t_NextAttemptAt ?n1" l now] assms(3)
    by (simp add: MarkDeliverySent_def Let_def claimed_fields mark_body_def)
  then show ?thesis by (intro exI conjI) (assumption | simp add: marked_row_def claimed_fields)+
qed

lemma mark_claimed_failed:
  assumes "nt_inv d" and "n \<in> set (nd_notifications d)" and "newID \<notin> w_ID ` set (nd_deliveries d)"
    and "text_ok (trimError err)" and "t_DeliveryAttempts n \<in> {0, 1, 2, 3, 4}"
  shows "\<exists>r w settle. MarkDeliveryFailed newID (claimed_by now l n) err markNow [] Committed (claimed_db now l (t_ID n) d) =
      (d\<lparr>nd_notifications := replace_row settle (nd_notifications d), nd_deliveries := nd_deliveries d @ [w]\<rparr>, Inr r) \<and>
    w_NotificationID w = t_ID n \<and> t_ID settle = t_ID n \<and> t_DeliveryAttempts settle = t_DeliveryAttempts n + 1 \<and>
    t_Status settle = StatusFailed \<and> t_LastError settle = trimError err \<and>
    t_NextAttemptAt settle = pg_ts (markNow + [5 * second, 30 * second, 2 * minute, 10 * minute, 0] ! nat (t_DeliveryAttempts n))"
proof -
  let ?n1 = "claimed_by now l n" and ?n2 = "claimed_by (pg_ts now) (pg_ts l) n"
  let ?next = "markNow + [5 * second, 30 * second, 2 * minute, 10 * minute, 0] ! nat (t_DeliveryAttempts n)"
  let ?n = "?n1\<lparr>t_Status := StatusFailed, t_LastError := trimError err, t_UpdatedAt := markNow,
    t_LockedUntil := None, t_NextAttemptAt := ?next\<rparr>"
  let ?w = "\<lparr>w_ID = newID, w_NotificationID = t_ID n, w_Provider = ''smtp'', w_Status = StatusFailed,
    w_ProviderMessageID = '''', w_Error = trimError err, w_CreatedAt = markNow\<rparr>"
  have "(if t_DeliveryAttempts ?n1 \<ge> MaxDeliveryAttempts then markNow
      else markNow + deliveryBackoff (t_DeliveryAttempts ?n1)) = ?next"
    using assms(5) by (auto simp: claimed_fields MaxDeliveryAttempts_def deliveryBackoff_def deliveryRetryBackoffs_def)
  then have "MarkDeliveryFailed newID ?n1 err markNow [] Committed (claimed_db now l (t_ID n) d) =
    (d\<lparr>nd_notifications := replace_row (marked_row ?n ?next ?n2) (nd_notifications d),
       nd_deliveries := nd_deliveries d @ [?w\<lparr>w_CreatedAt := pg_ts markNow\<rparr>]\<rparr>, Inr ?n)"
    using mark_claimed [OF assms(1,2), of ?n ?w ?next l now] assms(3,4)
    by (simp add: MarkDeliveryFailed_def Let_def claimed_fields mark_body_def)
  then show ?thesis by (intro exI conjI) (assumption | simp add: marked_row_def claimed_fields)+
qed

text \<open>
  C28. A round of a worker, without faults and other workers, takes the oldest claimable
  notification and settles it: sent, when the provider accepts it, or failed, to be claimed again
  after the backoff of the attempt (at once after the fifth, which no claim follows); one delivery is
  recorded and no other notification changes. The error text has to be one that the database takes.
\<close>

theorem worker_round:
  assumes "nt_reachable (d, cl)" and "n \<in> set (nd_notifications d)" and "claimable (h_now env) n"
    and "\<And>m. m \<in> set (nd_notifications d) \<Longrightarrow> claimable (h_now env) m \<Longrightarrow>
      (t_CreatedAt n, t_ID n) \<le> (t_CreatedAt m, t_ID m)"
    and "h_locked env = (\<lambda>_. False)" and "h_claim env = ([], Committed)" and "h_mark env = ([], Committed)"
    and "h_newID env \<notin> w_ID ` set (nd_deliveries d)"
    and "result = h_send env \<lparr>s_ID = t_ID n, s_IdempotencyKey = t_IdempotencyKey n,
      s_To = t_RecipientEmail n, s_Subject = t_Subject n, s_Body = t_Body n\<rparr>"
    and "\<And>err. result = Inl err \<Longrightarrow> text_ok (trimError err)"
  shows "\<exists>d' w settle. ProcessOne env lease (\<lambda>d. d) d =
      (d', True, (case result of Inl err \<Rightarrow> Some (ErrSend err) | Inr _ \<Rightarrow> None)) \<and>
    nd_deliveries d' = nd_deliveries d @ [w] \<and> w_NotificationID w = t_ID n \<and>
    nd_notifications d' = map (\<lambda>r. if t_ID r = t_ID n then settle else r) (nd_notifications d) \<and>
    t_ID settle = t_ID n \<and> t_DeliveryAttempts settle = t_DeliveryAttempts n + 1 \<and>
    (case result of
       Inr _ \<Rightarrow> t_Status settle = StatusSent \<and> t_LastError settle = ''''
     | Inl err \<Rightarrow> t_Status settle = StatusFailed \<and> t_LastError settle = trimError err \<and>
         t_NextAttemptAt settle = pg_ts (h_markNow env +
           [5 * second, 30 * second, 2 * minute, 10 * minute, 0] ! nat (t_DeliveryAttempts n)))"
proof -
  have inv: "nt_inv d" using nt_reachable_inv [OF assms(1)] by simp
  define l where "l = h_now env + (if lease \<le> 0 then DefaultDeliveryLease else lease)"
  let ?n1 = "claimed_by (h_now env) l n" and ?d1 = "claimed_db (h_now env) l (t_ID n) d"
  have claim: "ClaimNextDelivery (h_now env) lease (h_locked env) [] Committed d = (?d1, Inr (Some ?n1))"
    using selectNextDelivery_oldest [OF inv assms(2-4)]
    by (simp add: ClaimNextDelivery_def in_tx_def faulty_def claimNextTx_run [OF inv] assms(5) l_def)
  have attempts: "t_DeliveryAttempts n \<in> {0, 1, 2, 3, 4}"
    using inv assms(2,3) by (auto simp: nt_inv_def row_inv_def claimable_def MaxDeliveryAttempts_def)
  show ?thesis
  proof (cases result)
    case (Inr p)
    from mark_claimed_sent [OF inv assms(2,8), of "h_now env" l p "h_markNow env"] obtain r w settle where
      mark: "MarkDeliverySent (h_newID env) ?n1 p (h_markNow env) [] Committed ?d1 =
        (d\<lparr>nd_notifications := replace_row settle (nd_notifications d), nd_deliveries := nd_deliveries d @ [w]\<rparr>, Inr r)"
      and settle: "w_NotificationID w = t_ID n" "t_ID settle = t_ID n" "t_DeliveryAttempts settle = t_DeliveryAttempts n + 1"
        "t_Status settle = StatusSent" "t_LastError settle = ''''" by blast
    then show ?thesis
      by (intro exI [of _ "d\<lparr>nd_notifications := replace_row settle (nd_notifications d), nd_deliveries := nd_deliveries d @ [w]\<rparr>"]
          exI [of _ w] exI [of _ settle])
        (simp add: ProcessOne_def assms(6,7) claim claimed_fields assms(9) [symmetric] Inr replace_row_def)
  next
    case (Inl err)
    from mark_claimed_failed [OF inv assms(2,8) assms(10) [OF Inl] attempts, of "h_now env" l "h_markNow env"]
    obtain r w settle where
      mark: "MarkDeliveryFailed (h_newID env) ?n1 err (h_markNow env) [] Committed ?d1 =
        (d\<lparr>nd_notifications := replace_row settle (nd_notifications d), nd_deliveries := nd_deliveries d @ [w]\<rparr>, Inr r)"
      and settle: "w_NotificationID w = t_ID n" "t_ID settle = t_ID n" "t_DeliveryAttempts settle = t_DeliveryAttempts n + 1"
        "t_Status settle = StatusFailed" "t_LastError settle = trimError err" "t_NextAttemptAt settle = pg_ts (h_markNow env +
          [5 * second, 30 * second, 2 * minute, 10 * minute, 0] ! nat (t_DeliveryAttempts n))" by blast
    then show ?thesis
      by (intro exI [of _ "d\<lparr>nd_notifications := replace_row settle (nd_notifications d), nd_deliveries := nd_deliveries d @ [w]\<rparr>"]
          exI [of _ w] exI [of _ settle])
        (simp add: ProcessOne_def assms(6,7) claim claimed_fields assms(9) [symmetric] Inl replace_row_def)
  qed
qed

section \<open>Examples\<close>

text \<open>A confirmation for user \<open>u1\<close>, its row after \<open>k\<close> claims whose workers died, and those claims.\<close>

definition ex_message :: Envelope where
  "ex_message = \<lparr>v_MessageID = ''m1'', v_RoutingKey = ''join.confirmed'', v_AggregateType = ''registration'',
     v_AggregateID = ''r1'', v_OccurredAt = 5, v_CorrelationID = '''',
     v_Payload = Some [(''eventId'', JString ''ev''), (''userId'', JString ''u1'')]\<rparr>"

definition ex_decision :: Decision where
  "ex_decision = \<lparr>g_RecipientUserID = ''u1'', g_RecipientEmail = ''u1@cityevents.local'',
     g_Subject = ''You are confirmed'', g_Body = ''Your registration for event ev is confirmed.''\<rparr>"

definition ex_now :: "nat \<Rightarrow> time" where "ex_now k = int k * 1000000000000"

definition ex_nrow :: "nat \<Rightarrow> Notification" where
  "ex_nrow k = (notification_row (new_notification ''n1'' 0 ex_message ex_decision))
     \<lparr>t_Status := (if k = 0 then StatusPending else StatusProcessing), t_DeliveryAttempts := int k,
      t_LockedUntil := (if k = 0 then None else Some (ex_now k + 30 * second)), t_UpdatedAt := ex_now k\<rparr>"

definition ex_ndb :: "nat \<Rightarrow> NotificationDB" where
  "ex_ndb k = \<lparr>nd_notifications = [ex_nrow k], nd_deliveries = [],
     nd_processed = [(NotificationConsumerName, ''m1'')]\<rparr>"

definition ex_claim :: "nat \<Rightarrow> Notification" where
  "ex_claim k = (ex_nrow k)\<lparr>t_Status := StatusProcessing, t_DeliveryAttempts := int (Suc k),
     t_LockedUntil := Some (ex_now (Suc k) + 30 * second), t_UpdatedAt := ex_now (Suc k)\<rparr>"

lemma ex_message_valid: "ValidateEnvelope ex_message = None"
  by (simp add: ValidateEnvelope_def ex_message_def)

lemma ex_message_decided: "Decide ex_message = Inr ex_decision"
  by (simp add: Decide_def ex_message_def ex_decision_def joinDecision_def notificationField_def
      DevEmailForUser_def DevEmailDomain_def ReplaceChar_def str_eval Let_def)

lemma ex_record:
  "ProcessEnvelope ''n1'' 0 [] Committed ex_message
     \<lparr>nd_notifications = [], nd_deliveries = [], nd_processed = []\<rparr> =
   (ex_ndb 0, Inr (ProcessCreated (new_notification ''n1'' 0 ex_message ex_decision)))"
  by (simp add: ProcessEnvelope_clean [OF ex_message_valid ex_message_decided] processTx_run)
    (simp add: ex_ndb_def ex_nrow_def ex_now_def notification_row_def new_notification_def ex_message_def pg_ts_def)

lemma ex_now_ts: "pg_ts (ex_now k) = ex_now k" "pg_ts (ex_now k + 30 * second) = ex_now k + 30 * second"
  by (simp_all add: pg_ts_def ex_now_def second_def)

lemma ex_claimable: "claimable (ex_now (Suc k)) (ex_nrow k) \<longleftrightarrow> k < 5"
  unfolding claimable_def
  by (auto simp: ex_nrow_def ex_now_ts MaxDeliveryAttempts_def notification_row_def new_notification_def
      pg_ts_def [of 0]) (auto simp: ex_now_def second_def)

lemma ex_claimed:
  "k < 5 \<Longrightarrow> ClaimNextDelivery (ex_now (Suc k)) 0 (\<lambda>_. False) [] Committed (ex_ndb k) =
     (ex_ndb (Suc k), Inr (Some (ex_claim k)))"
proof -
  assume "k < 5"
  then have sel: "selectNextDelivery (ex_now (Suc k)) (\<lambda>_. False) (ex_ndb k) = Some (ex_nrow k)"
    by (simp add: selectNextDelivery_def ex_ndb_def ex_claimable)
  show ?thesis
    by (simp add: ClaimNextDelivery_def in_tx_def faulty_def claimNextTx_def tx_bind_def tx_simps sel
        claimDelivery_def Let_def DefaultDeliveryLease_def)
      (simp add: ex_ndb_def claimed_by_def ex_now_ts ex_claim_def ex_nrow_def)
qed

lemma ex_reachable: "k \<le> 5 \<Longrightarrow> nt_reachable (ex_ndb k, [])"
proof (induction k)
  case 0
  show ?case
    using nt_next [OF nt_empty nt_process, of "''n1''" 0 "[]" Committed ex_message] by (simp add: ex_record)
next
  case (Suc k)
  then have "nt_reachable (ex_ndb (Suc k), [ex_claim k])"
    using nt_next [OF _ nt_claim [OF ex_claimed [of k]], of "[]"] by simp
  from nt_next [OF this nt_crash [of _ _ "ex_claim k"]] show ?case by simp
qed

lemma ex_held: "nt_reachable (ex_ndb 1, [ex_claim 0])"
  using nt_next [OF ex_reachable [of 0] nt_claim [OF ex_claimed [of 0]]] by simp

theorem notified_once_witness:
  "\<exists>i \<in> {''n1'', ''n2''}. nd_notifications (fold (\<lambda>x d. fst (record_message x ex_message d))
      [(''n1'', 0, [], CommitUnknown), (''n2'', 0, [], Committed)]
      \<lparr>nd_notifications = [], nd_deliveries = [], nd_processed = []\<rparr>) =
    [notification_row (new_notification i 0 ex_message ex_decision)]"
proof -
  let ?d = "\<lparr>nd_notifications = [], nd_deliveries = [], nd_processed = []\<rparr> :: NotificationDB"
  have "snd (record_message (''n2'', 0, [], Committed) ex_message
      (fold (\<lambda>x d. fst (record_message x ex_message d)) [(''n1'', 0, [], CommitUnknown)] ?d)) =
    Inr (ProcessDuplicate (notification_row (new_notification ''n1'' 0 ex_message ex_decision)))"
    by (simp add: record_message_def ProcessEnvelope_def ex_message_valid ex_message_decided in_tx_def
        faulty_def processTx_run find_message_def)
      (simp add: ex_message_def notification_row_def new_notification_def)
  from notified_once [OF ex_message_valid ex_message_decided _ this, of "[]"]
  show ?thesis by auto
qed

theorem deliveries_bounded_witness: "t_DeliveryAttempts (ex_nrow 5) \<le> 5"
  using deliveries_bounded [OF ex_reachable [of 5], of "ex_nrow 5"] by (simp add: ex_ndb_def)

theorem stale_claim_refused_witness:
  "fst (MarkDeliverySent ''w1'' (ex_claim 0) ''p'' 7 [] Committed (ex_ndb 2)) = ex_ndb 2"
proof -
  have "holds_claim (ex_claim 0) (t_LockedUntil (ex_claim 0)) (ex_nrow 1)"
    by (simp add: holds_claim_def ex_claim_def ex_nrow_def ex_now_ts)
  moreover have "ClaimNextDelivery (ex_now 2) 0 (\<lambda>_. False) [] Committed (ex_ndb 1) =
    (ex_ndb 2, Inr (Some (ex_claim 1)))"
    using ex_claimed [of 1] by (simp add: numeral_2_eq_2)
  moreover have "t_ID (ex_claim 1) = t_ID (ex_claim 0)" by (simp add: ex_claim_def ex_nrow_def)
  moreover have "ex_nrow 1 \<in> set (nd_notifications (ex_ndb 1))" by (simp add: ex_ndb_def)
  ultimately show ?thesis using stale_claim_refused [OF ex_held] by blast
qed

theorem crashed_fifth_claim_stuck_witness:
  "ex_nrow 5 \<in> set (nd_notifications (fst (ClaimNextDelivery (ex_now 9) 0 (\<lambda>_. False) [] Committed (ex_ndb 5))))"
proof -
  obtain d' r where run: "ClaimNextDelivery (ex_now 9) 0 (\<lambda>_. False) [] Committed (ex_ndb 5) = (d', r)"
    by (metis prod.collapse)
  have "nt_step\<^sup>*\<^sup>* (ex_ndb 5, []) (d', (case r of Inr (Some n) \<Rightarrow> n # [] | _ \<Rightarrow> []))"
    by (rule r_into_rtranclp, rule nt_claim [OF run])
  moreover have "ex_nrow 5 \<in> set (nd_notifications (ex_ndb 5))" "t_Status (ex_nrow 5) = StatusProcessing"
    "t_DeliveryAttempts (ex_nrow 5) = 5"
    by (simp_all add: ex_ndb_def ex_nrow_def)
  ultimately have "ex_nrow 5 \<in> set (nd_notifications d')"
    using crashed_fifth_claim_stuck [OF ex_reachable [of 5]] by simp
  then show ?thesis by (simp add: run)
qed

definition ex_env_worker :: WorkerEnv where
  "ex_env_worker = \<lparr>h_now = ex_now 1, h_markNow = ex_now 2, h_locked = (\<lambda>_. False),
     h_claim = ([], Committed), h_mark = ([], Committed), h_send = (\<lambda>_. Inr ''p''), h_newID = ''w1''\<rparr>"

theorem worker_round_witness:
  "\<exists>d' settle. ProcessOne ex_env_worker 0 (\<lambda>d. d) (ex_ndb 0) = (d', True, None) \<and>
     nd_notifications d' = [settle] \<and> t_Status settle = StatusSent"
proof -
  have "claimable (ex_now 1) (ex_nrow 0)" using ex_claimable [of 0] by simp
  then have round: "\<exists>d' w settle. ProcessOne ex_env_worker 0 (\<lambda>d. d) (ex_ndb 0) =
      (d', True, (case Inr ''p'' of Inl err \<Rightarrow> Some (ErrSend err) | Inr _ \<Rightarrow> None)) \<and>
    nd_deliveries d' = nd_deliveries (ex_ndb 0) @ [w] \<and> w_NotificationID w = t_ID (ex_nrow 0) \<and>
    nd_notifications d' = map (\<lambda>r. if t_ID r = t_ID (ex_nrow 0) then settle else r) (nd_notifications (ex_ndb 0)) \<and>
    t_ID settle = t_ID (ex_nrow 0) \<and> t_DeliveryAttempts settle = t_DeliveryAttempts (ex_nrow 0) + 1 \<and>
    (case Inr ''p'' of
       Inr _ \<Rightarrow> t_Status settle = StatusSent \<and> t_LastError settle = ''''
     | Inl err \<Rightarrow> t_Status settle = StatusFailed \<and> t_LastError settle = trimError err \<and>
         t_NextAttemptAt settle = pg_ts (h_markNow ex_env_worker +
           [5 * second, 30 * second, 2 * minute, 10 * minute, 0] ! nat (t_DeliveryAttempts (ex_nrow 0))))"
    by (intro worker_round [OF ex_reachable]) (simp_all add: ex_ndb_def ex_env_worker_def)
  then obtain d' settle where "ProcessOne ex_env_worker 0 (\<lambda>d. d) (ex_ndb 0) = (d', True, None)"
    and "nd_notifications d' = map (\<lambda>r. if t_ID r = t_ID (ex_nrow 0) then settle else r) (nd_notifications (ex_ndb 0))"
    and "t_Status settle = StatusSent" by auto
  then show ?thesis by (intro exI [of _ d'] exI [of _ settle]) (simp add: ex_ndb_def)
qed

text \<open>A message that was claimed and sent stays sent when a worker comes by later.\<close>

theorem sent_is_final_witness:
  "\<exists>d n. nt_reachable (d, []) \<and> t_Status n = StatusSent \<and>
     n \<in> set (nd_notifications (fst (ClaimNextDelivery (ex_now 9) 0 (\<lambda>_. False) [] Committed d)))"
proof -
  let ?n = "(ex_claim 0)\<lparr>t_Status := StatusSent, t_LastError := '''', t_UpdatedAt := 7, t_LockedUntil := None\<rparr>"
  let ?row = "marked_row ?n (t_NextAttemptAt (ex_claim 0)) (ex_nrow 1)"
  let ?w = "\<lparr>w_ID = ''w1'', w_NotificationID = t_ID (ex_claim 0), w_Provider = ''smtp'', w_Status = StatusSent,
      w_ProviderMessageID = ''p'', w_Error = '''', w_CreatedAt = 0\<rparr>"
  let ?d = "(ex_ndb 1)\<lparr>nd_notifications := [?row], nd_deliveries := [?w]\<rparr>"
  have hold: "holds_claim ?n (t_LockedUntil (ex_claim 0)) (ex_nrow 1)"
    by (simp add: holds_claim_def ex_claim_def ex_nrow_def ex_now_ts)
  have "fst (MarkDeliverySent ''w1'' (ex_claim 0) ''p'' 7 [] Committed (ex_ndb 1)) = ?d"
    using hold by (simp add: MarkDeliverySent_def Let_def in_tx_def faulty_def tx_bind_def updateDeliveryState_def
        ex_ndb_def text_ok_def utf8_valid_ascii insertDelivery_def tx_simps marked_row_def)
      (simp add: ex_claim_def ex_nrow_def pg_ts_def)
  then have reach: "nt_reachable (?d, [])"
    using nt_next [OF ex_held nt_sent [of "ex_claim 0" _ _ "''w1''" "''p''" 7 "[]" Committed]] by simp
  obtain d' r where run: "ClaimNextDelivery (ex_now 9) 0 (\<lambda>_. False) [] Committed ?d = (d', r)"
    by (metis prod.collapse)
  have "nt_step\<^sup>*\<^sup>* (?d, []) (d', (case r of Inr (Some n) \<Rightarrow> n # [] | _ \<Rightarrow> []))"
    by (rule r_into_rtranclp, rule nt_claim [OF run])
  from sent_is_final [OF reach _ _ this, of ?row] have "?row \<in> set (nd_notifications d')"
    by (simp add: marked_row_def)
  then show ?thesis using reach run by (intro exI [of _ ?d] exI [of _ ?row]) (simp add: marked_row_def)
qed

end
