(* ===== verification/Base64.thy ===== *)
theory Base64 imports GoStrings "HOL-Library.Word" begin

unbundle bit_operations_syntax

text \<open>
  \<^verbatim>\<open>base64.RawURLEncoding\<close> of the standard library, with which the program writes the parts of a
  token and the refresh tokens, and the identifiers that \<^verbatim>\<open>NewID\<close> draws.
\<close>

section \<open>Base 64\<close>

text \<open>The alphabet \<^verbatim>\<open>A-Za-z0-9-_\<close>.\<close>

definition b64_char :: "int \<Rightarrow> char" where
  "b64_char i =
     (if i < 26 then bchr (65 + i) else if i < 52 then bchr (97 + (i - 26))
      else if i < 62 then bchr (48 + (i - 52)) else if i = 62 then CHR ''-'' else CHR ''_'')"

definition b64_value :: "char \<Rightarrow> int option" where
  "b64_value c =
     (let b = byte c in
      if 65 \<le> b \<and> b \<le> 90 then Some (b - 65) else if 97 \<le> b \<and> b \<le> 122 then Some (b - 97 + 26)
      else if 48 \<le> b \<and> b \<le> 57 then Some (b - 48 + 52) else if c = CHR ''-'' then Some 62
      else if c = CHR ''_'' then Some 63 else None)"

fun b64_sextets :: "int list \<Rightarrow> int list" where
  "b64_sextets (a # b # c # rest) =
     a div 4 # (a mod 4 * 16 + b div 16) # (b mod 16 * 4 + c div 64) # c mod 64 # b64_sextets rest"
| "b64_sextets [a, b] = [a div 4, a mod 4 * 16 + b div 16, b mod 16 * 4]"
| "b64_sextets [a] = [a div 4, a mod 4 * 16]"
| "b64_sextets [] = []"

definition b64_encode :: "string \<Rightarrow> string" where
  "b64_encode s = map b64_char (b64_sextets (map byte s))"

text \<open>The decoder is not strict: it ignores the unused bits of the last character.\<close>

fun b64_octets :: "int list \<Rightarrow> int list option" where
  "b64_octets (p # q # r # s # rest) =
     map_option (\<lambda>bs. (p * 4 + q div 16) # (q mod 16 * 16 + r div 4) # (r mod 4 * 64 + s) # bs)
       (b64_octets rest)"
| "b64_octets [p, q, r] = Some [p * 4 + q div 16, q mod 16 * 16 + r div 4]"
| "b64_octets [p, q] = Some [p * 4 + q div 16]"
| "b64_octets [p] = None"
| "b64_octets [] = Some []"

text \<open>Line breaks are skipped.\<close>

definition b64_decode :: "string \<Rightarrow> string option" where
  "b64_decode s =
     (let t = filter (\<lambda>c. c \<noteq> CHR 0x0A \<and> c \<noteq> CHR 0x0D) s in
      if list_all (\<lambda>c. b64_value c \<noteq> None) t
      then map_option (map bchr) (b64_octets (map (the \<circ> b64_value) t))
      else None)"

lemma b64_char_value: "0 \<le> i \<Longrightarrow> i < 64 \<Longrightarrow> b64_value (b64_char i) = Some i"
  by (auto simp: b64_char_def b64_value_def Let_def byte_bchr) (auto simp: byte_def)

lemma byte_parts:
  fixes a :: int
  assumes "0 \<le> a" "a < 256"
  shows "0 \<le> a div 4" "a div 4 < 64" "0 \<le> a div 16" "a div 16 < 16" "0 \<le> a div 64" "a div 64 < 4"
  using assms zdiv_mono1 [of a 255 4] zdiv_mono1 [of a 255 16] zdiv_mono1 [of a 255 64]
  by (simp_all add: pos_imp_zdiv_nonneg_iff)

lemma mod_parts:
  fixes a :: int
  shows "0 \<le> a mod 4" "a mod 4 \<le> 3" "0 \<le> a mod 16" "a mod 16 \<le> 15" "0 \<le> a mod 64" "a mod 64 \<le> 63"
  using pos_mod_bound [of 4 a] pos_mod_bound [of 16 a] pos_mod_bound [of 64 a] by auto

lemma div_join:
  fixes x y n :: int
  assumes "0 \<le> y" "y < n"
  shows "(x * n + y) div n = x" "(x * n + y) mod n = y"
  using assms by auto

lemma join_bounds:
  fixes x y :: int
  shows "0 \<le> x \<Longrightarrow> x \<le> 3 \<Longrightarrow> 0 \<le> y \<Longrightarrow> y < 16 \<Longrightarrow> 0 \<le> x * 16 + y \<and> x * 16 + y < 64"
    and "0 \<le> x \<Longrightarrow> x \<le> 15 \<Longrightarrow> 0 \<le> y \<Longrightarrow> y < 4 \<Longrightarrow> 0 \<le> x * 4 + y \<and> x * 4 + y < 64"
  by linarith+

lemma sextet_bounds:
  fixes a b :: int
  assumes "0 \<le> a" "a < 256" "0 \<le> b" "b < 256"
  shows "0 \<le> a div 4 \<and> a div 4 < 64" "0 \<le> a mod 4 * 16 + b div 16 \<and> a mod 4 * 16 + b div 16 < 64"
    "0 \<le> a mod 16 * 4 + b div 64 \<and> a mod 16 * 4 + b div 64 < 64" "0 \<le> a mod 64 \<and> a mod 64 < 64"
  by (intro conjI byte_parts join_bounds mod_parts assms
      join_bounds [THEN conjunct1] join_bounds [THEN conjunct2] pos_mod_bound zero_less_numeral)+

lemma octet_parts:
  fixes a b :: int
  assumes "0 \<le> a" "a < 256" "0 \<le> b" "b < 256"
  shows "a div 4 * 4 + (a mod 4 * 16 + b div 16) div 16 = a" "(a mod 4 * 16 + b div 16) mod 16 = b div 16"
    "b div 16 * 16 + (b mod 16 * 4 + a div 64) div 4 = b" "(b mod 16 * 4 + a div 64) mod 4 = a div 64"
  unfolding div_join [OF byte_parts(3,4) [OF assms(3,4)]] div_join [OF byte_parts(5,6) [OF assms(1,2)]]
  by (simp_all only: div_mult_mod_eq)

lemma b64_sextets_range:
  "\<forall>b \<in> set bs. 0 \<le> b \<and> b < 256 \<Longrightarrow> \<forall>x \<in> set (b64_sextets bs). 0 \<le> x \<and> x < 64"
proof (induction bs rule: b64_sextets.induct)
  case (1 a b c rest)
  then have range: "0 \<le> a" "a < 256" "0 \<le> b" "b < 256" "0 \<le> c" "c < 256"
    and rest: "\<forall>x \<in> set (b64_sextets rest). 0 \<le> x \<and> x < 64" by auto
  show ?case
    unfolding b64_sextets.simps list.set ball_simps
    by (intro conjI sextet_bounds [OF range(1-4)] sextet_bounds [OF range(3-6)]
        sextet_bounds(4) [OF range(5,6,5,6)] rest)
next
  case (2 a b)
  then have range: "0 \<le> a" "a < 256" "0 \<le> b" "b < 256" "0 \<le> (0::int)" "(0::int) < 256" by auto
  show ?case
    using sextet_bounds [OF range(1-4)] sextet_bounds(3) [OF range(3-6)] by simp
next
  case (3 a)
  then have range: "0 \<le> a" "a < 256" "0 \<le> (0::int)" "(0::int) < 256" by auto
  show ?case using sextet_bounds [OF range] by simp
qed simp

lemma b64_octets_sextets:
  "\<forall>b \<in> set bs. 0 \<le> b \<and> b < 256 \<Longrightarrow> b64_octets (b64_sextets bs) = Some bs"
proof (induction bs rule: b64_sextets.induct)
  case (1 a b c rest)
  then have range: "0 \<le> a" "a < 256" "0 \<le> b" "b < 256" "0 \<le> c" "c < 256"
    and rest: "b64_octets (b64_sextets rest) = Some rest" by auto
  show ?case
    unfolding b64_sextets.simps b64_octets.simps rest octet_parts [OF range(1-4)] octet_parts [OF range(5,6,3,4)]
    by (simp only: option.map div_mult_mod_eq)
next
  case (2 a b)
  then have range: "0 \<le> a" "a < 256" "0 \<le> b" "b < 256" "0 \<le> (0::int)" "(0::int) < 256" by auto
  have "b div 16 * 16 + b mod 16 * 4 div 4 = b" by (simp only: nonzero_mult_div_cancel_right div_mult_mod_eq)
  then show ?case
    unfolding b64_sextets.simps b64_octets.simps octet_parts [OF range(1-4)] by simp
next
  case (3 a)
  then have range: "0 \<le> a" "a < 256" "0 \<le> (0::int)" "(0::int) < 256" by auto
  have "a div 4 * 4 + a mod 4 * 16 div 16 = a" by (simp only: nonzero_mult_div_cancel_right div_mult_mod_eq)
  then show ?case unfolding b64_sextets.simps b64_octets.simps by simp
qed simp

lemma byte_eqI: "byte c = byte d \<Longrightarrow> c = d"
  by (metis bchr_byte)

text \<open>The characters of an encoded string: none is a separator of the token or a blank.\<close>

lemma b64_char_plain:
  "0 \<le> i \<Longrightarrow> i < 64 \<Longrightarrow> b64_char i \<noteq> CHR ''.'' \<and> 32 < byte (b64_char i) \<and> byte (b64_char i) < 128"
proof -
  assume i: "0 \<le> i" "i < 64"
  then have "byte (b64_char i) \<noteq> byte (CHR ''.'') \<and> 32 < byte (b64_char i) \<and> byte (b64_char i) < 128"
    by (auto simp: b64_char_def byte_bchr) (auto simp: byte_def)
  then show ?thesis by auto
qed

lemma b64_encode_chars:
  "c \<in> set (b64_encode s) \<Longrightarrow> \<exists>i. 0 \<le> i \<and> i < 64 \<and> c = b64_char i"
  using b64_sextets_range [of "map byte s"] byte_range by (auto simp: b64_encode_def)

lemma b64_decode_encode: "b64_decode (b64_encode s) = Some s"
proof -
  have range: "\<forall>b \<in> set (map byte s). 0 \<le> b \<and> b < 256" using byte_range by auto
  have val: "b64_value c \<noteq> None \<and> c \<noteq> CHR 0x0A \<and> c \<noteq> CHR 0x0D" if "c \<in> set (b64_encode s)" for c
    using b64_encode_chars [OF that] b64_char_value b64_char_plain by (force simp: byte_def)
  have "map (the \<circ> b64_value) (b64_encode s) = b64_sextets (map byte s)"
    using b64_sextets_range [OF range] by (auto simp: b64_encode_def b64_char_value intro: map_idI)
  then have "b64_octets (map (the \<circ> b64_value) (b64_encode s)) = Some (map byte s)"
    using b64_octets_sextets [OF range] by simp
  moreover have "filter (\<lambda>c. c \<noteq> CHR 0x0A \<and> c \<noteq> CHR 0x0D) (b64_encode s) = b64_encode s"
    using val by (simp add: filter_id_conv)
  ultimately show ?thesis using val by (simp add: b64_decode_def list_all_iff comp_def)
qed

section \<open>Identifiers\<close>

text \<open>\<^verbatim>\<open>NewID\<close> from the sixteen bytes that \<^verbatim>\<open>rand.Read\<close> puts into the array.\<close>

definition NewID :: "8 word list \<Rightarrow> string" where
  "NewID random =
     (let bytes1 = random[6 := (random ! 6 AND 0x0F) OR 0x40];
          bytes2 = bytes1[8 := (bytes1 ! 8 AND 0x3F) OR 0x80];
          encoded = concat (map (\<lambda>b. hex_byte (unat b)) bytes2)
      in take 8 encoded @ ''-'' @ take 4 (drop 8 encoded) @ ''-'' @ take 4 (drop 12 encoded) @ ''-'' @
         take 4 (drop 16 encoded) @ ''-'' @ take 12 (drop 20 encoded))"

lemma list16:
  assumes "length xs = 16"
  obtains a b c d e f g h i j k l m n p q where "xs = [a, b, c, d, e, f, g, h, i, j, k, l, m, n, p, q]"
  using assms by (auto simp: numeral_eq_Suc length_Suc_conv)

lemma hex_byte_chars: "hex_byte b = [hex_digit (b div 16), hex_digit (b mod 16)]"
  by (simp add: hex_byte_def)

lemma hex_digit_samples:
  "hex_digit 4 = CHR ''4''" "hex_digit 8 = CHR ''8''" "hex_digit 9 = CHR ''9''"
  "hex_digit 10 = CHR ''a''" "hex_digit 11 = CHR ''b''"
  by code_simp+

text \<open>The identifier has the form of a version 4 UUID.\<close>

lemma NewID_uuid4:
  assumes "length random = 16"
  shows "length (NewID random) = 36 \<and> NewID random ! 14 = CHR ''4'' \<and>
    NewID random ! 19 \<in> {CHR ''8'', CHR ''9'', CHR ''a'', CHR ''b''} \<and>
    (\<forall>i \<in> {8, 13, 18, 23}. NewID random ! i = CHR ''-'')"
proof -
  obtain a b c d e f g h i j k l m n p q where r: "random = [a, b, c, d, e, f, g, h, i, j, k, l, m, n, p, q]"
    using list16 [OF assms] by blast
  let ?v = "(g AND 0x0F) OR 0x40 :: 8 word" and ?w = "(i AND 0x3F) OR 0x80 :: 8 word"
  have v: "hex_digit (unat ?v div 16) = CHR ''4''"
  proof -
    have "drop_bit 4 ?v = 4" by (rule bit_word_eqI) (auto simp: bit_simps)
    then have "unat (drop_bit 4 ?v) = 4" by simp
    then have "unat ?v div 16 = 4" by (simp add: unat_drop_bit_eq drop_bit_eq_div unat_div)
    then show ?thesis by (simp add: hex_digit_samples)
  qed
  have w: "hex_digit (unat ?w div 16) \<in> {CHR ''8'', CHR ''9'', CHR ''a'', CHR ''b''}"
  proof -
    have "drop_bit 6 ?w = 2" by (rule bit_word_eqI) (auto simp: bit_simps)
    then have "unat (drop_bit 6 ?w) = 2" by simp
    then have "unat ?w div 64 = 2" by (simp add: unat_drop_bit_eq drop_bit_eq_div unat_div)
    then have "unat ?w div 16 \<in> {8, 9, 10, 11}" by auto
    then show ?thesis by (auto simp: hex_digit_samples)
  qed
  show ?thesis using v w by (simp add: NewID_def r hex_byte_chars Let_def)
qed

end
