(* ===== verification/Authn.thy ===== *)
theory Authn imports Identity Base64 begin

text \<open>
  \<^verbatim>\<open>internal/platform/authn\<close>: access tokens (JWTs signed with HMAC-SHA-256) and the introspection
  client of the other services. The keyed hash and the JSON codec of header and payload are the
  record \<open>JwtLib\<close> of parameters; the clock and the drawn token id are arguments.
\<close>

datatype token_error = ErrInvalidToken | ErrExpiredToken

record TokenManager =
  tm_Secret :: string
  tm_Issuer :: string
  tm_TTL :: duration

record Subject =
  sj_UserID :: string
  sj_Email :: string
  sj_Role :: Role

record Claims =
  cl_UserID :: string
  cl_Email :: string
  cl_Role :: Role
  cl_TokenID :: string
  cl_Issuer :: string
  cl_IssuedAt :: time
  cl_ExpiresAt :: time

text \<open>The members of the payload; the two times are \<^verbatim>\<open>int64\<close> seconds of the Unix epoch.\<close>

record JwtPayload =
  jp_sub :: string
  jp_email :: string
  jp_role :: string
  jp_jti :: string
  jp_iss :: string
  jp_iat :: int
  jp_exp :: int

record JwtLib =
  jl_hmac :: "string \<Rightarrow> string \<Rightarrow> string" \<comment> \<open>key, message\<close>
  jl_marshalHeader :: "string \<times> string \<Rightarrow> string" \<comment> \<open>\<^verbatim>\<open>alg\<close> and \<^verbatim>\<open>typ\<close>\<close>
  jl_unmarshalHeader :: "string \<Rightarrow> (string \<times> string) option"
  jl_marshalPayload :: "JwtPayload \<Rightarrow> string"
  jl_unmarshalPayload :: "string \<Rightarrow> JwtPayload option"

section \<open>Unix time\<close>

definition unix_epoch :: int where "unix_epoch = 62135596800"

definition wrap64 :: "int \<Rightarrow> int" where
  "wrap64 i = (i + 2 ^ 63) mod 2 ^ 64 - 2 ^ 63"

definition time_Unix :: "time \<Rightarrow> int" where
  "time_Unix t = t div second - unix_epoch"

text \<open>\<^verbatim>\<open>time.Unix(sec, 0)\<close> adds the epoch in \<^verbatim>\<open>int64\<close>.\<close>

definition of_Unix :: "int \<Rightarrow> time" where
  "of_Unix sec = wrap64 (sec + unix_epoch) * second"

lemma seconds_range:
  "0 \<le> t \<Longrightarrow> t < 2 ^ 63 * second \<Longrightarrow> 0 \<le> t div second \<and> t div second < 2 ^ 63"
  by (simp add: second_def div_less_iff_less_mult pos_imp_zdiv_nonneg_iff)

lemma int64_second:
  "0 \<le> t \<Longrightarrow> t < 2 ^ 63 * second \<Longrightarrow> time_Unix t \<in> {- (2 ^ 63)..<2 ^ 63}"
  using seconds_range [of t] by (simp add: time_Unix_def unix_epoch_def)

lemma of_Unix_Unix:
  "0 \<le> t \<Longrightarrow> t < 2 ^ 63 * second \<Longrightarrow> of_Unix (time_Unix t) = t - t mod second"
  using seconds_range [of t]
  by (simp add: of_Unix_def time_Unix_def wrap64_def minus_mod_eq_div_mult)

section \<open>Tokens\<close>

definition sign :: "JwtLib \<Rightarrow> TokenManager \<Rightarrow> string \<Rightarrow> string" where
  "sign lib m content = b64_encode (jl_hmac lib (tm_Secret m) content)"

definition Sign :: "JwtLib \<Rightarrow> TokenManager \<Rightarrow> time \<Rightarrow> string \<Rightarrow> Subject \<Rightarrow> string \<times> Claims" where
  "Sign lib m now newID subject =
     (let claims = \<lparr>cl_UserID = TrimSpace (sj_UserID subject), cl_Email = TrimSpace (sj_Email subject),
            cl_Role = NormalizeRole (sj_Role subject), cl_TokenID = newID, cl_Issuer = tm_Issuer m,
            cl_IssuedAt = now, cl_ExpiresAt = now + tm_TTL m\<rparr>;
          payload = \<lparr>jp_sub = cl_UserID claims, jp_email = cl_Email claims, jp_role = cl_Role claims,
            jp_jti = cl_TokenID claims, jp_iss = cl_Issuer claims,
            jp_iat = time_Unix (cl_IssuedAt claims), jp_exp = time_Unix (cl_ExpiresAt claims)\<rparr>;
          headerPart = b64_encode (jl_marshalHeader lib (''HS256'', ''JWT''));
          payloadPart = b64_encode (jl_marshalPayload lib payload);
          content = headerPart @ ''.'' @ payloadPart
      in (content @ ''.'' @ sign lib m content, claims))"

definition Verify :: "JwtLib \<Rightarrow> TokenManager \<Rightarrow> time \<Rightarrow> string \<Rightarrow> token_error + Claims" where
  "Verify lib m now token =
     (case Split (TrimSpace token) (CHR ''.'') of
        [part0, part1, part2] \<Rightarrow>
          (case b64_decode part0 of None \<Rightarrow> Inl ErrInvalidToken
           | Some rawHeader \<Rightarrow>
          (case jl_unmarshalHeader lib rawHeader of None \<Rightarrow> Inl ErrInvalidToken
           | Some (algorithm, typ) \<Rightarrow>
           if algorithm \<noteq> ''HS256'' \<or> typ \<noteq> ''JWT'' then Inl ErrInvalidToken
           else if sign lib m (part0 @ ''.'' @ part1) \<noteq> part2 then Inl ErrInvalidToken
           else
          (case b64_decode part1 of None \<Rightarrow> Inl ErrInvalidToken
           | Some rawPayload \<Rightarrow>
          (case jl_unmarshalPayload lib rawPayload of None \<Rightarrow> Inl ErrInvalidToken
           | Some payload \<Rightarrow>
           if jp_iss payload \<noteq> tm_Issuer m \<or> jp_sub payload = '''' \<or> jp_jti payload = ''''
           then Inl ErrInvalidToken
           else (let role = NormalizeRole (jp_role payload) in
             if \<not> ValidRole role then Inl ErrInvalidToken
             else (let claims = \<lparr>cl_UserID = jp_sub payload, cl_Email = jp_email payload,
                       cl_Role = role, cl_TokenID = jp_jti payload, cl_Issuer = jp_iss payload,
                       cl_IssuedAt = of_Unix (jp_iat payload), cl_ExpiresAt = of_Unix (jp_exp payload)\<rparr>
                   in if \<not> time_after (cl_ExpiresAt claims) now then Inl ErrExpiredToken
                      else Inr claims))))))
      | _ \<Rightarrow> Inl ErrInvalidToken)"

text \<open>The argument is the value of the header \<^verbatim>\<open>Authorization\<close>.\<close>

definition BearerToken :: "string \<Rightarrow> string option" where
  "BearerToken authorization =
     (let (token, ok) = CutPrefix (TrimSpace authorization) ''Bearer '' in
      if \<not> ok \<or> TrimSpace token = '''' then None else Some (TrimSpace token))"

definition ClaimsFromRequest :: "JwtLib \<Rightarrow> TokenManager \<Rightarrow> time \<Rightarrow> string \<Rightarrow> Claims option" where
  "ClaimsFromRequest lib m now authorization =
     (case BearerToken authorization of None \<Rightarrow> None
      | Some token \<Rightarrow> (case Verify lib m now token of Inl _ \<Rightarrow> None | Inr claims \<Rightarrow> Some claims))"

section \<open>Introspection\<close>

datatype introspection_error = ErrIntrospectInvalid | ErrIntrospectionUnavailable

text \<open>
  The answer of the auth service to \<^verbatim>\<open>GET /v1/auth/me\<close> with the token: none, or a status and a body.
  \<open>decode_me\<close> is the JSON decoder: the members \<^verbatim>\<open>id\<close>, \<^verbatim>\<open>email\<close> and \<^verbatim>\<open>role\<close> of \<^verbatim>\<open>user\<close>.
\<close>

type_synonym me_reply = "(int \<times> string) option"

definition Introspect :: "(string \<Rightarrow> me_reply) \<Rightarrow> (string \<Rightarrow> (string \<times> string \<times> string) option)
   \<Rightarrow> string \<Rightarrow> introspection_error + Subject" where
  "Introspect get_me decode_me accessToken =
     (let token = TrimSpace accessToken in
      if token = '''' then Inl ErrIntrospectInvalid
      else (case get_me token of
              None \<Rightarrow> Inl ErrIntrospectionUnavailable
            | Some (status, body) \<Rightarrow>
                if status = 401 \<or> status = 403 then Inl ErrIntrospectInvalid
                else if status < 200 \<or> status \<ge> 300 then Inl ErrIntrospectionUnavailable
                else (case decode_me (take (32 * 1024) body) of
                        None \<Rightarrow> Inl ErrIntrospectionUnavailable
                      | Some (i, email, r) \<Rightarrow>
                          (let role = NormalizeRole r;
                               subject = \<lparr>sj_UserID = TrimSpace i, sj_Email = TrimSpace email, sj_Role = role\<rparr>
                           in if sj_UserID subject = '''' \<or> \<not> ValidRole role
                              then Inl ErrIntrospectInvalid else Inr subject))))"

end
