(* ===== verification/Auth.thy ===== *)
theory Auth imports Authn begin

text \<open>
  \<^verbatim>\<open>internal/services/auth\<close>: \<^verbatim>\<open>domain.go\<close>, \<^verbatim>\<open>password.go\<close> and \<^verbatim>\<open>service.go\<close>. The service is a function of
  a repository, given by the record \<open>Repository\<close> of its operations as the Go interface is; the
  repositories are in \<open>AuthMemory\<close> and \<open>AuthPostgres\<close>. bcrypt, SHA-256 and the address parser of
  \<^verbatim>\<open>net/mail\<close> are parameters; clocks and random bytes are arguments of a call.
\<close>

section \<open>Domain\<close>

datatype auth_error =
    ErrInvalidEmail | ErrWeakPassword | ErrInvalidDisplayName | ErrInvalidRole
  | ErrInvalidCredentials | ErrAuthUnauthorized | ErrAuthForbidden | ErrTooManyAttempts
  | ErrUserNotFound | ErrDuplicateEmail | ErrRefreshReuse
  | ErrAuthStore \<comment> \<open>a failure of the database\<close>
  | ErrBcrypt | ErrRandom

record User =
  u_ID :: string
  u_Email :: string
  u_DisplayName :: string
  u_Role :: Role
  u_PasswordHash :: string
  u_CreatedAt :: time
  u_UpdatedAt :: time

record PublicUser =
  pu_ID :: string
  pu_Email :: string
  pu_DisplayName :: string
  pu_Role :: string

record RefreshSession =
  rs_TokenHash :: string
  rs_UserID :: string
  rs_FamilyID :: string
  rs_ReplacedByHash :: string
  rs_ExpiresAt :: time
  rs_RevokedAt :: "time option"
  rs_CreatedAt :: time
  rs_UpdatedAt :: time

record AuthAuditEvent =
  aa_ID :: string
  aa_ActorUserID :: string
  aa_Action :: string
  aa_TargetUserID :: string
  aa_TargetType :: string
  aa_Result :: string
  aa_CorrelationID :: string
  aa_NewRole :: Role \<comment> \<open>the metadata\<close>
  aa_CreatedAt :: time

definition Public :: "User \<Rightarrow> PublicUser" where
  "Public u = \<lparr>pu_ID = u_ID u, pu_Email = u_Email u, pu_DisplayName = u_DisplayName u, pu_Role = u_Role u\<rparr>"

definition NormalizeEmail :: "string \<Rightarrow> string" where
  "NormalizeEmail email = ToLower (TrimSpace email)"

record AuthLib =
  al_parseAddress :: "string \<Rightarrow> string option" \<comment> \<open>\<^verbatim>\<open>Address\<close> of \<^verbatim>\<open>mail.ParseAddress\<close>\<close>
  al_bcryptVerify :: "string \<Rightarrow> string \<Rightarrow> bool" \<comment> \<open>hash, password\<close>
  al_sha256 :: "string \<Rightarrow> string"
  al_jwt :: JwtLib

definition ValidateEmail :: "AuthLib \<Rightarrow> string \<Rightarrow> auth_error option" where
  "ValidateEmail lib email =
     (if al_parseAddress lib email \<noteq> Some email \<or> CHR ''.'' \<notin> set email
      then Some ErrInvalidEmail else None)"

definition ValidatePassword :: "string \<Rightarrow> auth_error option" where
  "ValidatePassword password =
     (if length password < 12 then Some ErrWeakPassword
      else (let rs = runes password in
            if \<not> list_ex (\<lambda>r. 65 \<le> r \<and> r \<le> 90) rs \<or> \<not> list_ex (\<lambda>r. 97 \<le> r \<and> r \<le> 122) rs \<or>
               \<not> list_ex (\<lambda>r. 48 \<le> r \<and> r \<le> 57) rs
            then Some ErrWeakPassword else None))"

definition ValidateDisplayName :: "string \<Rightarrow> auth_error option" where
  "ValidateDisplayName displayName =
     (let name = TrimSpace displayName in
      if name = '''' \<or> length name > 80 then Some ErrInvalidDisplayName else None)"

definition ValidateRole :: "Role \<Rightarrow> auth_error option" where
  "ValidateRole role = (if ValidRole (NormalizeRole role) then None else Some ErrInvalidRole)"

definition NewUser :: "AuthLib \<Rightarrow> string \<Rightarrow> string \<Rightarrow> string \<Rightarrow> Role \<Rightarrow> string \<Rightarrow> time \<Rightarrow> auth_error + User" where
  "NewUser lib newID email displayName role passwordHash now =
     (let email = NormalizeEmail email; displayName = TrimSpace displayName; role = NormalizeRole role in
      check (ValidateEmail lib email)
     (check (ValidateDisplayName displayName)
     (check (ValidateRole role)
        (if passwordHash = '''' then Inl ErrWeakPassword
         else Inr \<lparr>u_ID = newID, u_Email = email, u_DisplayName = displayName, u_Role = role,
                u_PasswordHash = passwordHash, u_CreatedAt = now, u_UpdatedAt = now\<rparr>))))"

definition HashRefreshToken :: "AuthLib \<Rightarrow> string \<Rightarrow> string" where
  "HashRefreshToken lib token = b64_encode (al_sha256 lib (TrimSpace token))"

text \<open>\<open>random\<close> are the 32 bytes of \<^verbatim>\<open>rand.Read\<close>, \<open>None\<close> where it fails.\<close>

definition NewRefreshToken :: "AuthLib \<Rightarrow> string option \<Rightarrow> auth_error + (string \<times> string)" where
  "NewRefreshToken lib random =
     (case random of None \<Rightarrow> Inl ErrRandom
      | Some bytes \<Rightarrow> (let token = b64_encode bytes in Inr (token, HashRefreshToken lib token)))"

text \<open>\<open>bcrypt\<close> is \<^verbatim>\<open>GenerateFromPassword\<close> with the salt of the call; it may fail.\<close>

definition Hash :: "(string \<Rightarrow> string option) \<Rightarrow> string \<Rightarrow> auth_error + string" where
  "Hash bcrypt password =
     check (ValidatePassword password)
       (case bcrypt password of None \<Rightarrow> Inl ErrBcrypt | Some hash \<Rightarrow> Inr hash)"

section \<open>The repository interface\<close>

text \<open>\<open>'x\<close> is what one call of the repository meets: clocks, drawn values, faults.\<close>

record ('x, 'r) Repository =
  rp_CreateUser :: "'x \<Rightarrow> User \<Rightarrow> 'r \<Rightarrow> 'r \<times> (auth_error + unit)"
  rp_FindUserByEmail :: "'x \<Rightarrow> string \<Rightarrow> 'r \<Rightarrow> auth_error + User"
  rp_FindUserByID :: "'x \<Rightarrow> string \<Rightarrow> 'r \<Rightarrow> auth_error + User"
  rp_UpdateUserRole :: "'x \<Rightarrow> string \<Rightarrow> Role \<Rightarrow> 'r \<Rightarrow> 'r \<times> (auth_error + User)"
  rp_UpdateUserRoleWithAudit ::
    "'x \<Rightarrow> string \<Rightarrow> Role \<Rightarrow> AuthAuditEvent \<Rightarrow> 'r \<Rightarrow> 'r \<times> (auth_error + User)"
  rp_RevokeToken :: "'x \<Rightarrow> string \<Rightarrow> string \<Rightarrow> time \<Rightarrow> 'r \<Rightarrow> 'r \<times> (auth_error + unit)"
  rp_IsTokenRevoked :: "'x \<Rightarrow> string \<Rightarrow> 'r \<Rightarrow> 'r \<times> (auth_error + bool)"
  rp_CreateRefreshSession :: "'x \<Rightarrow> RefreshSession \<Rightarrow> 'r \<Rightarrow> 'r \<times> (auth_error + unit)"
  rp_RotateRefreshSession :: "'x \<Rightarrow> string \<Rightarrow> string \<Rightarrow> time \<Rightarrow> time \<Rightarrow> 'r
    \<Rightarrow> 'r \<times> (auth_error + (User \<times> RefreshSession))" \<comment> \<open>old hash, new hash, new expiry, now\<close>
  rp_RevokeRefreshSession :: "'x \<Rightarrow> string \<Rightarrow> time \<Rightarrow> 'r \<Rightarrow> 'r \<times> (auth_error + unit)"

section \<open>Login guard\<close>

record loginAttempt =
  la_Count :: int
  la_FirstSeen :: time

record LoginGuard =
  lg_max :: int
  lg_window :: duration
  lg_attempts :: "(string, loginAttempt) gomap"

definition NewLoginGuard :: "int \<Rightarrow> duration \<Rightarrow> LoginGuard" where
  "NewLoginGuard limit window = \<lparr>lg_max = limit, lg_window = window, lg_attempts = []\<rparr>"

text \<open>A missing entry is the zero value.\<close>

definition attempt_of :: "string \<Rightarrow> LoginGuard \<Rightarrow> loginAttempt" where
  "attempt_of key g = (case map_of (lg_attempts g) key of
     None \<Rightarrow> \<lparr>la_Count = 0, la_FirstSeen = 0\<rparr> | Some a \<Rightarrow> a)"

definition Allow :: "time \<Rightarrow> string \<Rightarrow> LoginGuard \<Rightarrow> LoginGuard \<times> bool" where
  "Allow now key g =
     (let key = NormalizeEmail key; attempt = attempt_of key g in
      if la_Count attempt = 0 then (g, True)
      else if time_sub now (la_FirstSeen attempt) > lg_window g
      then (g\<lparr>lg_attempts := mdel key (lg_attempts g)\<rparr>, True)
      else (g, la_Count attempt < lg_max g))"

definition RecordFailure :: "time \<Rightarrow> string \<Rightarrow> LoginGuard \<Rightarrow> LoginGuard" where
  "RecordFailure now key g =
     (let key = NormalizeEmail key; attempt = attempt_of key g in
      if la_Count attempt = 0 \<or> time_sub now (la_FirstSeen attempt) > lg_window g
      then g\<lparr>lg_attempts := mput key \<lparr>la_Count = 1, la_FirstSeen = now\<rparr> (lg_attempts g)\<rparr>
      else g\<lparr>lg_attempts := mput key (attempt\<lparr>la_Count := la_Count attempt + 1\<rparr>) (lg_attempts g)\<rparr>)"

definition ResetGuard :: "string \<Rightarrow> LoginGuard \<Rightarrow> LoginGuard" where
  "ResetGuard key g = g\<lparr>lg_attempts := mdel (NormalizeEmail key) (lg_attempts g)\<rparr>"

section \<open>The service\<close>

record ('x, 'r) Service =
  sv_repo :: "('x, 'r) Repository"
  sv_lib :: AuthLib
  sv_tokens :: TokenManager
  sv_refreshTokenTTL :: duration

text \<open>What one call of the service meets; the \<open>k\<close>-th call of the repository meets \<open>ce_repo k\<close>.\<close>

record 'x CallEnv =
  ce_now :: time \<comment> \<open>\<^verbatim>\<open>s.now()\<close>\<close>
  ce_userNow :: time \<comment> \<open>\<^verbatim>\<open>s.now()\<close> for a new user\<close>
  ce_tokenNow :: time \<comment> \<open>the clock of the token manager\<close>
  ce_allowNow :: time
  ce_failNow :: time \<comment> \<open>the clock of the guard, at \<open>Allow\<close> and \<open>RecordFailure\<close>\<close>
  ce_userID :: string
  ce_familyID :: string
  ce_auditID :: string
  ce_jti :: string
  ce_random :: "string option"
  ce_bcrypt :: "string \<Rightarrow> string option"
  ce_correlationID :: string
  ce_repo :: "nat \<Rightarrow> 'x"

record AuthResult =
  ar_User :: PublicUser
  ar_AccessToken :: string
  ar_RefreshToken :: string
  ar_RefreshExpiresAt :: time

definition sign_user :: "('x, 'r) Service \<Rightarrow> 'x CallEnv \<Rightarrow> User \<Rightarrow> string" where
  "sign_user s e user = fst (Sign (al_jwt (sv_lib s)) (sv_tokens s) (ce_tokenNow e) (ce_jti e)
     \<lparr>sj_UserID = u_ID user, sj_Email = u_Email user, sj_Role = u_Role user\<rparr>)"

text \<open>\<open>k\<close> counts the calls of the repository before this one.\<close>

definition issue :: "('x, 'r) Service \<Rightarrow> 'x CallEnv \<Rightarrow> nat \<Rightarrow> User \<Rightarrow> 'r \<Rightarrow> 'r \<times> (auth_error + AuthResult)" where
  "issue s e k user r =
     (let token = sign_user s e user in
      case NewRefreshToken (sv_lib s) (ce_random e) of
        Inl err \<Rightarrow> (r, Inl err)
      | Inr (refreshToken, refreshHash) \<Rightarrow>
         (let now = ce_now e;
              session = \<lparr>rs_TokenHash = refreshHash, rs_UserID = u_ID user, rs_FamilyID = ce_familyID e,
                rs_ReplacedByHash = '''', rs_ExpiresAt = now + sv_refreshTokenTTL s, rs_RevokedAt = None,
                rs_CreatedAt = now, rs_UpdatedAt = now\<rparr>
          in case rp_CreateRefreshSession (sv_repo s) (ce_repo e k) session r of
               (r', Inl err) \<Rightarrow> (r', Inl err)
             | (r', Inr _) \<Rightarrow> (r', Inr \<lparr>ar_User = Public user, ar_AccessToken = token,
                 ar_RefreshToken = refreshToken, ar_RefreshExpiresAt = rs_ExpiresAt session\<rparr>)))"

record RegisterCommand =
  rc_Email :: string
  rc_Password :: string
  rc_DisplayName :: string
  rc_Role :: Role

definition Register :: "('x, 'r) Service \<Rightarrow> 'x CallEnv \<Rightarrow> RegisterCommand \<Rightarrow> 'r \<Rightarrow> 'r \<times> (auth_error + AuthResult)" where
  "Register s e cmd r =
     (let lib = sv_lib s; email = NormalizeEmail (rc_Email cmd); displayName = TrimSpace (rc_DisplayName cmd);
          checked = check (ValidateEmail lib email)
                   (check (ValidatePassword (rc_Password cmd))
                   (check (ValidateDisplayName displayName)
                   (rbind (Hash (ce_bcrypt e) (rc_Password cmd)) (\<lambda>hash.
                      NewUser lib (ce_userID e) email displayName (NormalizeRole (rc_Role cmd)) hash (ce_userNow e)))))
      in case checked of
           Inl err \<Rightarrow> (r, Inl err)
         | Inr user \<Rightarrow>
             (case rp_CreateUser (sv_repo s) (ce_repo e 0) user r of
                (r', Inl err) \<Rightarrow> (r', Inl err)
              | (r', Inr _) \<Rightarrow> issue s e 1 user r'))"

definition EnsureSeedAdmin :: "('x, 'r) Service \<Rightarrow> 'x CallEnv \<Rightarrow> string \<Rightarrow> string \<Rightarrow> string \<Rightarrow> 'r
   \<Rightarrow> 'r \<times> (auth_error + PublicUser)" where
  "EnsureSeedAdmin s e seedEmail password seedName r =
     (let lib = sv_lib s; email = NormalizeEmail seedEmail;
          displayName = (if TrimSpace seedName = '''' then ''CityEvents Admin'' else TrimSpace seedName)
      in case check (ValidateEmail lib email)
             (check (ValidatePassword password)
             (check (ValidateDisplayName displayName) (Inr ()))) of
           Inl err \<Rightarrow> (r, Inl err)
         | Inr () \<Rightarrow>
            (case rp_FindUserByEmail (sv_repo s) (ce_repo e 0) email r of
               Inr existing \<Rightarrow>
                 (if u_Role existing \<noteq> RoleAdmin
                  then (case rp_UpdateUserRole (sv_repo s) (ce_repo e 1) (u_ID existing) RoleAdmin r of
                          (r', Inl err) \<Rightarrow> (r', Inl err)
                        | (r', Inr updated) \<Rightarrow> (r', Inr (Public updated)))
                  else (r, Inr (Public existing)))
             | Inl err \<Rightarrow>
                 (if err \<noteq> ErrUserNotFound then (r, Inl err)
                  else (case rbind (Hash (ce_bcrypt e) password) (\<lambda>hash.
                            NewUser lib (ce_userID e) email displayName RoleAdmin hash (ce_userNow e)) of
                          Inl err \<Rightarrow> (r, Inl err)
                        | Inr admin \<Rightarrow>
                            (case rp_CreateUser (sv_repo s) (ce_repo e 1) admin r of
                               (r', Inl err) \<Rightarrow> (r', Inl err)
                             | (r', Inr _) \<Rightarrow> (r', Inr (Public admin)))))))"

record UpdateRoleCommand =
  ur_ActorUserID :: string
  ur_TargetUserID :: string
  ur_Role :: Role

definition UpdateUserRole :: "('x, 'r) Service \<Rightarrow> 'x CallEnv \<Rightarrow> nat \<Rightarrow> UpdateRoleCommand \<Rightarrow> 'r
   \<Rightarrow> 'r \<times> (auth_error + PublicUser)" where
  "UpdateUserRole s e k cmd r =
     (if TrimSpace (ur_ActorUserID cmd) = '''' \<or> TrimSpace (ur_TargetUserID cmd) = ''''
      then (r, Inl ErrAuthUnauthorized)
      else
        (let role = NormalizeRole (ur_Role cmd) in
         case ValidateRole role of Some err \<Rightarrow> (r, Inl err)
         | None \<Rightarrow>
            (case rp_FindUserByID (sv_repo s) (ce_repo e k) (TrimSpace (ur_ActorUserID cmd)) r of
               Inl err \<Rightarrow> (r, Inl (if err = ErrUserNotFound then ErrAuthUnauthorized else err))
             | Inr actor \<Rightarrow>
                 (if \<not> CanAdmin (u_Role actor) then (r, Inl ErrAuthForbidden)
                  else
                    (let targetID = TrimSpace (ur_TargetUserID cmd) in
                     case rp_UpdateUserRoleWithAudit (sv_repo s) (ce_repo e (k + 1)) targetID role
                       \<lparr>aa_ID = ce_auditID e, aa_ActorUserID = u_ID actor, aa_Action = ''auth.role_update'',
                        aa_TargetUserID = targetID, aa_TargetType = ''user'', aa_Result = ''success'',
                        aa_CorrelationID = ce_correlationID e, aa_NewRole = role, aa_CreatedAt = ce_now e\<rparr> r of
                       (r', Inl err) \<Rightarrow> (r', Inl err)
                     | (r', Inr updated) \<Rightarrow> (r', Inr (Public updated)))))))"

definition Login :: "('x, 'r) Service \<Rightarrow> 'x CallEnv \<Rightarrow> string \<Rightarrow> string \<Rightarrow> LoginGuard \<times> 'r
   \<Rightarrow> (LoginGuard \<times> 'r) \<times> (auth_error + AuthResult)" where
  "Login s e loginEmail password st =
     (let email = NormalizeEmail loginEmail; (g1, allowed) = Allow (ce_allowNow e) email (fst st); r = snd st in
      if \<not> allowed then ((g1, r), Inl ErrTooManyAttempts)
      else (case rp_FindUserByEmail (sv_repo s) (ce_repo e 0) email r of
              Inl err \<Rightarrow> ((RecordFailure (ce_failNow e) email g1, r),
                Inl (if err = ErrUserNotFound then ErrInvalidCredentials else err))
            | Inr user \<Rightarrow>
                (if \<not> al_bcryptVerify (sv_lib s) (u_PasswordHash user) password
                 then ((RecordFailure (ce_failNow e) email g1, r), Inl ErrInvalidCredentials)
                 else (let (r', result) = issue s e 1 user r
                       in ((ResetGuard email g1, r'), result)))))"

definition CurrentUser :: "('x, 'r) Service \<Rightarrow> 'x CallEnv \<Rightarrow> string \<Rightarrow> 'r \<Rightarrow> 'r \<times> (auth_error + PublicUser)" where
  "CurrentUser s e accessToken r =
     (case Verify (al_jwt (sv_lib s)) (sv_tokens s) (ce_tokenNow e) accessToken of
        Inl _ \<Rightarrow> (r, Inl ErrAuthUnauthorized)
      | Inr claims \<Rightarrow>
         (case rp_IsTokenRevoked (sv_repo s) (ce_repo e 0) (cl_TokenID claims) r of
            (r', Inl err) \<Rightarrow> (r', Inl err)
          | (r', Inr revoked) \<Rightarrow>
             (if revoked then (r', Inl ErrAuthUnauthorized)
              else (case rp_FindUserByID (sv_repo s) (ce_repo e 1) (cl_UserID claims) r' of
                      Inl err \<Rightarrow> (r', Inl (if err = ErrUserNotFound then ErrAuthUnauthorized else err))
                    | Inr user \<Rightarrow> (r', Inr (Public user))))))"

definition Refresh :: "('x, 'r) Service \<Rightarrow> 'x CallEnv \<Rightarrow> string \<Rightarrow> 'r \<Rightarrow> 'r \<times> (auth_error + AuthResult)" where
  "Refresh s e token r =
     (let refreshToken = TrimSpace token in
      if refreshToken = '''' then (r, Inl ErrAuthUnauthorized)
      else (case NewRefreshToken (sv_lib s) (ce_random e) of
              Inl err \<Rightarrow> (r, Inl err)
            | Inr (nextRaw, nextHash) \<Rightarrow>
               (case rp_RotateRefreshSession (sv_repo s) (ce_repo e 0) (HashRefreshToken (sv_lib s) refreshToken)
                       nextHash (ce_now e + sv_refreshTokenTTL s) (ce_now e) r of
                  (r', Inl err) \<Rightarrow> (r', Inl (if err = ErrRefreshReuse then ErrAuthUnauthorized else err))
                | (r', Inr (user, session)) \<Rightarrow>
                    (r', Inr \<lparr>ar_User = Public user, ar_AccessToken = sign_user s e user,
                       ar_RefreshToken = nextRaw, ar_RefreshExpiresAt = rs_ExpiresAt session\<rparr>))))"

definition LogoutRefresh :: "('x, 'r) Service \<Rightarrow> 'x CallEnv \<Rightarrow> nat \<Rightarrow> string \<Rightarrow> 'r \<Rightarrow> 'r \<times> (auth_error + unit)" where
  "LogoutRefresh s e k token r =
     (let refreshToken = TrimSpace token in
      if refreshToken = '''' then (r, Inr ())
      else rp_RevokeRefreshSession (sv_repo s) (ce_repo e k) (HashRefreshToken (sv_lib s) refreshToken) (ce_now e) r)"

definition Logout :: "('x, 'r) Service \<Rightarrow> 'x CallEnv \<Rightarrow> string \<Rightarrow> string \<Rightarrow> 'r \<Rightarrow> 'r \<times> (auth_error + unit)" where
  "Logout s e accessToken refreshToken r =
     (if TrimSpace accessToken \<noteq> '''' then
        (case Verify (al_jwt (sv_lib s)) (sv_tokens s) (ce_tokenNow e) accessToken of
           Inl _ \<Rightarrow> (r, Inl ErrAuthUnauthorized)
         | Inr claims \<Rightarrow>
            (case rp_RevokeToken (sv_repo s) (ce_repo e 0) (cl_TokenID claims) (cl_UserID claims) (cl_ExpiresAt claims) r of
               (r', Inl err) \<Rightarrow> (r', Inl err)
             | (r', Inr _) \<Rightarrow> LogoutRefresh s e 1 refreshToken r'))
      else LogoutRefresh s e 0 refreshToken r)"

end
