(* ===== verification/HttpJson.thy ===== *)
theory HttpJson imports GoStrings begin

text \<open>
  \<^verbatim>\<open>internal/platform/httpapi/json.go\<close>: the decoding of a request body. The decoder of \<^verbatim>\<open>encoding/json\<close>
  is a parameter: what it makes of the bytes in front of it.
\<close>

datatype decode_error = RequestTooLarge | InvalidJSON | LimitNotPositive

text \<open>
  \<open>Value v rest\<close>: a value that fits the target and the bytes behind it; \<open>NeedMore\<close>: no value ends
  within the bytes; \<open>NotJSON\<close>: a syntax error, an unknown field or a value of another type.
\<close>

datatype 'a scan = Value 'a string | NeedMore | NotJSON

definition json_blank :: "char \<Rightarrow> bool" where
  "json_blank c \<longleftrightarrow> c \<in> {CHR '' '', CHR 0x09, CHR 0x0A, CHR 0x0D}"

text \<open>
  \<^verbatim>\<open>http.MaxBytesReader\<close> gives the first \<open>maxBytes\<close> bytes and then, where the body goes on, its error
  in place of the end of the file. The second \<^verbatim>\<open>Decode\<close> must meet the end of the file.
\<close>

definition DecodeJSONLimited :: "(string \<Rightarrow> 'a scan) \<Rightarrow> (string \<Rightarrow> unit scan) \<Rightarrow> string \<Rightarrow> int \<Rightarrow> decode_error + 'a" where
  "DecodeJSONLimited scan scan_empty body maxBytes =
     (if maxBytes \<le> 0 then Inl LimitNotPositive
      else
        (let given = take (nat maxBytes) body;
             at_end = (if int (length body) > maxBytes then RequestTooLarge else InvalidJSON)
         in case scan given of
              NotJSON \<Rightarrow> Inl InvalidJSON
            | NeedMore \<Rightarrow> Inl at_end
            | Value v rest \<Rightarrow>
                if list_all json_blank rest
                then (if int (length body) > maxBytes then Inl RequestTooLarge else Inr v)
                else (case scan_empty rest of
                        NeedMore \<Rightarrow> Inl at_end
                      | _ \<Rightarrow> Inl InvalidJSON)))"

text \<open>A body over the limit is never accepted.\<close>

lemma DecodeJSONLimited_bounded:
  "DecodeJSONLimited scan scan_empty body maxBytes = Inr v \<Longrightarrow>
     int (length body) \<le> maxBytes \<and> (\<exists>rest. scan body = Value v rest \<and> list_all json_blank rest)"
  by (auto simp: DecodeJSONLimited_def Let_def split: if_splits scan.splits)

end
