(* ===== verification/AuthHttp.thy ===== *)
theory AuthHttp imports Auth HttpJson begin

text \<open>
  \<^verbatim>\<open>internal/services/auth/http.go\<close>: the six routes under \<^verbatim>\<open>/v1/auth\<close>. A request is its headers and
  cookies and the result of decoding its body (\<^verbatim>\<open>httpapi.DecodeJSONLimited\<close>); a response its status,
  body and cookies. The handlers run on the state of the service: guard and repository.
\<close>

record AuthHeaders =
  q_Authorization :: string
  q_refreshCookie :: "string option"
  q_csrfCookie :: "string option"
  q_csrfHeader :: string

record registerRequest =
  rq_Email :: string
  rq_Password :: string
  rq_DisplayName :: string

record loginRequest =
  lq_Email :: string
  lq_Password :: string

datatype auth_request =
    PostRegister "decode_error + registerRequest"
  | PostLogin "decode_error + loginRequest"
  | PostRefresh
  | GetMe
  | PostLogout
  | PatchRole string "decode_error + string" \<comment> \<open>\<^verbatim>\<open>{userID}\<close> and the \<^verbatim>\<open>role\<close> of the body\<close>

record Cookie =
  ck_Name :: string
  ck_Value :: string
  ck_Path :: string
  ck_HttpOnly :: bool
  ck_Secure :: bool
  ck_Expires :: time
  ck_MaxAge :: int

datatype auth_body =
    BodyNone | BodyAuth PublicUser string \<comment> \<open>user and access token\<close> | BodyUser PublicUser
  | BodyError string string \<comment> \<open>code and message\<close>

record AuthResponse =
  ap_Status :: int
  ap_Body :: auth_body
  ap_Cookies :: "Cookie list"

definition refreshCookieName :: string where "refreshCookieName = ''cityevents_refresh''"
definition csrfCookieName :: string where "csrfCookieName = ''cityevents_csrf''"

text \<open>What the handlers take from outside: \<^verbatim>\<open>time.Now()\<close> and the bytes of the CSRF token.\<close>

record HttpEnv =
  hx_now :: time
  hx_csrfBytes :: string
  hx_cookieSecure :: bool

section \<open>Requests\<close>

definition refreshTokenFromCookie :: "AuthHeaders \<Rightarrow> string option" where
  "refreshTokenFromCookie h =
     (case q_refreshCookie h of None \<Rightarrow> None
      | Some value \<Rightarrow> if TrimSpace value = '''' then None else Some (TrimSpace value))"

definition csrfTokenFromCookie :: "AuthHeaders \<Rightarrow> string option" where
  "csrfTokenFromCookie h =
     (case q_csrfCookie h of None \<Rightarrow> None
      | Some value \<Rightarrow> if TrimSpace value = '''' then None else Some (TrimSpace value))"

definition requireCSRF :: "AuthHeaders \<Rightarrow> bool" where
  "requireCSRF h =
     (let headerToken = TrimSpace (q_csrfHeader h) in
      case csrfTokenFromCookie h of None \<Rightarrow> False
      | Some cookieToken \<Rightarrow> headerToken \<noteq> '''' \<and> cookieToken = headerToken)"

section \<open>Responses\<close>

definition writeError :: "int \<Rightarrow> string \<Rightarrow> string \<Rightarrow> AuthResponse" where
  "writeError status code message = \<lparr>ap_Status = status, ap_Body = BodyError code message, ap_Cookies = []\<rparr>"

definition writeAuthError :: "auth_error \<Rightarrow> AuthResponse" where
  "writeAuthError err =
     (case err of
        ErrInvalidEmail \<Rightarrow> writeError 400 ''invalid_request'' ''invalid email''
      | ErrWeakPassword \<Rightarrow> writeError 400 ''invalid_request'' ''weak password''
      | ErrInvalidDisplayName \<Rightarrow> writeError 400 ''invalid_request'' ''invalid display name''
      | ErrInvalidRole \<Rightarrow> writeError 400 ''invalid_role'' ''invalid role''
      | ErrDuplicateEmail \<Rightarrow> writeError 409 ''duplicate_email'' ''email is already registered''
      | ErrInvalidCredentials \<Rightarrow> writeError 401 ''invalid_credentials'' ''invalid email or password''
      | ErrAuthUnauthorized \<Rightarrow> writeError 401 ''unauthorized'' ''authentication required''
      | ErrAuthForbidden \<Rightarrow> writeError 403 ''forbidden'' ''operation is not allowed''
      | ErrTooManyAttempts \<Rightarrow> writeError 429 ''too_many_attempts'' ''too many login attempts''
      | ErrUserNotFound \<Rightarrow> writeError 404 ''not_found'' ''user not found''
      | _ \<Rightarrow> writeError 500 ''internal'' ''internal server error'')"

definition writeDecodeError :: "decode_error \<Rightarrow> AuthResponse" where
  "writeDecodeError err =
     (case err of
        RequestTooLarge \<Rightarrow> writeError 413 ''request_too_large'' ''request body is too large''
      | _ \<Rightarrow> writeError 400 ''invalid_request'' ''invalid JSON request'')"

definition authenticationRequired :: AuthResponse where
  "authenticationRequired = writeError 401 ''unauthorized'' ''authentication required''"

definition clearCSRFCookiePath :: "HttpEnv \<Rightarrow> string \<Rightarrow> Cookie" where
  "clearCSRFCookiePath x path =
     \<lparr>ck_Name = csrfCookieName, ck_Value = '''', ck_Path = path, ck_HttpOnly = False,
      ck_Secure = hx_cookieSecure x, ck_Expires = of_Unix 0, ck_MaxAge = - 1\<rparr>"

definition clearCSRFCookie :: "HttpEnv \<Rightarrow> Cookie list" where
  "clearCSRFCookie x = [clearCSRFCookiePath x ''/'', clearCSRFCookiePath x ''/v1/auth'']"

definition newCSRFToken :: "HttpEnv \<Rightarrow> string" where
  "newCSRFToken x = b64_encode (hx_csrfBytes x)"

definition setCSRFCookie :: "HttpEnv \<Rightarrow> time \<Rightarrow> int \<Rightarrow> Cookie list" where
  "setCSRFCookie x expiresAt maxAge =
     [\<lparr>ck_Name = csrfCookieName, ck_Value = newCSRFToken x, ck_Path = ''/'', ck_HttpOnly = False,
       ck_Secure = hx_cookieSecure x, ck_Expires = expiresAt, ck_MaxAge = maxAge\<rparr>,
      clearCSRFCookiePath x ''/v1/auth'']"

text \<open>\<^verbatim>\<open>int(d.Seconds())\<close> cuts towards zero.\<close>

definition setRefreshCookie :: "HttpEnv \<Rightarrow> AuthResult \<Rightarrow> Cookie list" where
  "setRefreshCookie x result =
     (if TrimSpace (ar_RefreshToken result) = '''' \<or> ar_RefreshExpiresAt result = 0 then []
      else (let d = time_sub (ar_RefreshExpiresAt result) (hx_now x);
                maxAge = (if d < 0 then 0 else d div second)
            in \<lparr>ck_Name = refreshCookieName, ck_Value = ar_RefreshToken result, ck_Path = ''/v1/auth'',
                ck_HttpOnly = True, ck_Secure = hx_cookieSecure x,
                ck_Expires = ar_RefreshExpiresAt result, ck_MaxAge = maxAge\<rparr> #
               setCSRFCookie x (ar_RefreshExpiresAt result) maxAge))"

definition clearRefreshCookie :: "HttpEnv \<Rightarrow> Cookie list" where
  "clearRefreshCookie x =
     \<lparr>ck_Name = refreshCookieName, ck_Value = '''', ck_Path = ''/v1/auth'', ck_HttpOnly = True,
      ck_Secure = hx_cookieSecure x, ck_Expires = of_Unix 0, ck_MaxAge = - 1\<rparr> # clearCSRFCookie x"

definition authOK :: "HttpEnv \<Rightarrow> int \<Rightarrow> AuthResult \<Rightarrow> AuthResponse" where
  "authOK x status result =
     \<lparr>ap_Status = status, ap_Body = BodyAuth (ar_User result) (ar_AccessToken result),
      ap_Cookies = setRefreshCookie x result\<rparr>"

definition userOK :: "PublicUser \<Rightarrow> AuthResponse" where
  "userOK user = \<lparr>ap_Status = 200, ap_Body = BodyUser user, ap_Cookies = []\<rparr>"

section \<open>Handlers\<close>

type_synonym 'r auth_state = "LoginGuard \<times> 'r"

definition register_handler :: "('x, 'r) Service \<Rightarrow> 'x CallEnv \<Rightarrow> HttpEnv \<Rightarrow> decode_error + registerRequest
   \<Rightarrow> 'r auth_state \<Rightarrow> 'r auth_state \<times> AuthResponse" where
  "register_handler s e x body st =
     (case body of Inl err \<Rightarrow> (st, writeDecodeError err)
      | Inr req \<Rightarrow>
         (case Register s e \<lparr>rc_Email = rq_Email req, rc_Password = rq_Password req,
                 rc_DisplayName = rq_DisplayName req, rc_Role = ''''\<rparr> (snd st) of
            (r', Inl err) \<Rightarrow> ((fst st, r'), writeAuthError err)
          | (r', Inr result) \<Rightarrow> ((fst st, r'), authOK x 201 result)))"

definition login_handler :: "('x, 'r) Service \<Rightarrow> 'x CallEnv \<Rightarrow> HttpEnv \<Rightarrow> decode_error + loginRequest
   \<Rightarrow> 'r auth_state \<Rightarrow> 'r auth_state \<times> AuthResponse" where
  "login_handler s e x body st =
     (case body of Inl err \<Rightarrow> (st, writeDecodeError err)
      | Inr req \<Rightarrow>
         (case Login s e (lq_Email req) (lq_Password req) st of
            (st', Inl err) \<Rightarrow> (st', writeAuthError err)
          | (st', Inr result) \<Rightarrow> (st', authOK x 200 result)))"

definition refresh_handler :: "('x, 'r) Service \<Rightarrow> 'x CallEnv \<Rightarrow> HttpEnv \<Rightarrow> AuthHeaders
   \<Rightarrow> 'r auth_state \<Rightarrow> 'r auth_state \<times> AuthResponse" where
  "refresh_handler s e x h st =
     (case refreshTokenFromCookie h of None \<Rightarrow> (st, authenticationRequired)
      | Some refreshToken \<Rightarrow>
         if \<not> requireCSRF h then (st, writeError 403 ''csrf_failed'' ''CSRF token is required'')
         else (case Refresh s e refreshToken (snd st) of
                 (r', Inl err) \<Rightarrow> ((fst st, r'), (writeAuthError err)\<lparr>ap_Cookies := clearRefreshCookie x\<rparr>)
               | (r', Inr result) \<Rightarrow> ((fst st, r'), authOK x 200 result)))"

definition me_handler :: "('x, 'r) Service \<Rightarrow> 'x CallEnv \<Rightarrow> AuthHeaders
   \<Rightarrow> 'r auth_state \<Rightarrow> 'r auth_state \<times> AuthResponse" where
  "me_handler s e h st =
     (case BearerToken (q_Authorization h) of None \<Rightarrow> (st, authenticationRequired)
      | Some token \<Rightarrow>
         (case CurrentUser s e token (snd st) of
            (r', Inl err) \<Rightarrow> ((fst st, r'), writeAuthError err)
          | (r', Inr user) \<Rightarrow> ((fst st, r'), userOK user)))"

text \<open>After a refused access token the refresh session is revoked all the same.\<close>

definition logout_handler :: "('x, 'r) Service \<Rightarrow> 'x CallEnv \<Rightarrow> HttpEnv \<Rightarrow> AuthHeaders
   \<Rightarrow> 'r auth_state \<Rightarrow> 'r auth_state \<times> AuthResponse" where
  "logout_handler s e x h st =
     (let bearer = BearerToken (q_Authorization h); cookie = refreshTokenFromCookie h;
          refreshToken = (case cookie of None \<Rightarrow> '''' | Some t \<Rightarrow> t) in
      if bearer = None \<and> cookie = None then (st, authenticationRequired)
      else if cookie \<noteq> None \<and> \<not> requireCSRF h
      then (st, writeError 403 ''csrf_failed'' ''CSRF token is required'')
      else
        (let (r', result) =
           (case bearer of
              Some token \<Rightarrow>
                (case Logout s e token refreshToken (snd st) of
                   (r1, Inl err) \<Rightarrow>
                     if err = ErrAuthUnauthorized \<and> cookie \<noteq> None
                     then LogoutRefresh s e 2 refreshToken r1 else (r1, Inl err)
                 | (r1, Inr _) \<Rightarrow> (r1, Inr ()))
            | None \<Rightarrow> LogoutRefresh s e 0 refreshToken (snd st))
         in ((fst st, r'), case result of Inl err \<Rightarrow> writeAuthError err
              | Inr _ \<Rightarrow> \<lparr>ap_Status = 204, ap_Body = BodyNone, ap_Cookies = clearRefreshCookie x\<rparr>)))"

definition updateRole_handler :: "('x, 'r) Service \<Rightarrow> 'x CallEnv \<Rightarrow> AuthHeaders \<Rightarrow> string
   \<Rightarrow> decode_error + string \<Rightarrow> 'r auth_state \<Rightarrow> 'r auth_state \<times> AuthResponse" where
  "updateRole_handler s e h userID body st =
     (case BearerToken (q_Authorization h) of None \<Rightarrow> (st, authenticationRequired)
      | Some token \<Rightarrow>
         (case CurrentUser s e token (snd st) of
            (r1, Inl err) \<Rightarrow> ((fst st, r1), writeAuthError err)
          | (r1, Inr actor) \<Rightarrow>
             (case body of Inl err \<Rightarrow> ((fst st, r1), writeDecodeError err)
              | Inr role \<Rightarrow>
                 (case UpdateUserRole s e 2 \<lparr>ur_ActorUserID = pu_ID actor, ur_TargetUserID = userID,
                         ur_Role = NormalizeRole role\<rparr> r1 of
                    (r2, Inl err) \<Rightarrow> ((fst st, r2), writeAuthError err)
                  | (r2, Inr updated) \<Rightarrow> ((fst st, r2), userOK updated)))))"

text \<open>\<^verbatim>\<open>NewHTTPHandler\<close>: the route of a request.\<close>

definition NewHTTPHandler :: "('x, 'r) Service \<Rightarrow> 'x CallEnv \<Rightarrow> HttpEnv \<Rightarrow> AuthHeaders \<Rightarrow> auth_request
   \<Rightarrow> 'r auth_state \<Rightarrow> 'r auth_state \<times> AuthResponse" where
  "NewHTTPHandler s e x h request st =
     (case request of
        PostRegister body \<Rightarrow> register_handler s e x body st
      | PostLogin body \<Rightarrow> login_handler s e x body st
      | PostRefresh \<Rightarrow> refresh_handler s e x h st
      | GetMe \<Rightarrow> me_handler s e h st
      | PostLogout \<Rightarrow> logout_handler s e x h st
      | PatchRole userID body \<Rightarrow> updateRole_handler s e h userID body st)"

end
