(* ===== verification/AuthMemory.thy ===== *)
theory AuthMemory imports Auth begin

text \<open>
  \<^verbatim>\<open>internal/services/auth/repository.go\<close>, the in-memory repository, and \<^verbatim>\<open>revocation_cache.go\<close>, which
  wraps a repository. A call meets the clock \<^verbatim>\<open>time.Now()\<close>.
\<close>

record AuthMemory =
  am_usersByID :: "(string, User) gomap"
  am_usersByEmail :: "(string, User) gomap"
  am_revokedTokens :: "(string, string \<times> time) gomap" \<comment> \<open>user and expiry\<close>
  am_refreshTokens :: "(string, RefreshSession) gomap"
  am_auditEvents :: "AuthAuditEvent list"

definition newAuthMemory :: AuthMemory where
  "newAuthMemory = \<lparr>am_usersByID = [], am_usersByEmail = [], am_revokedTokens = [],
     am_refreshTokens = [], am_auditEvents = []\<rparr>"

definition memCreateUser :: "time \<Rightarrow> User \<Rightarrow> AuthMemory \<Rightarrow> AuthMemory \<times> (auth_error + unit)" where
  "memCreateUser clock user r =
     (let email = NormalizeEmail (u_Email user) in
      if map_of (am_usersByEmail r) email \<noteq> None then (r, Inl ErrDuplicateEmail)
      else (let user' = user\<lparr>u_Email := email, u_Role := NormalizeRole (u_Role user)\<rparr>
            in (r\<lparr>am_usersByID := mput (u_ID user') user' (am_usersByID r),
                  am_usersByEmail := mput email user' (am_usersByEmail r)\<rparr>, Inr ())))"

definition memFindUserByEmail :: "time \<Rightarrow> string \<Rightarrow> AuthMemory \<Rightarrow> auth_error + User" where
  "memFindUserByEmail clock email r =
     (case map_of (am_usersByEmail r) (NormalizeEmail email) of
        None \<Rightarrow> Inl ErrUserNotFound | Some user \<Rightarrow> Inr user)"

definition memFindUserByID :: "time \<Rightarrow> string \<Rightarrow> AuthMemory \<Rightarrow> auth_error + User" where
  "memFindUserByID clock i r =
     (case map_of (am_usersByID r) i of None \<Rightarrow> Inl ErrUserNotFound | Some user \<Rightarrow> Inr user)"

definition updateUserRoleLocked :: "time \<Rightarrow> string \<Rightarrow> Role \<Rightarrow> AuthMemory \<Rightarrow> AuthMemory \<times> (auth_error + User)" where
  "updateUserRoleLocked clock i role r =
     (case map_of (am_usersByID r) i of
        None \<Rightarrow> (r, Inl ErrUserNotFound)
      | Some old \<Rightarrow>
          (let user = old\<lparr>u_Role := NormalizeRole role, u_UpdatedAt := clock\<rparr>
           in (r\<lparr>am_usersByID := mput i user (am_usersByID r),
                 am_usersByEmail := mput (NormalizeEmail (u_Email user)) user (am_usersByEmail r)\<rparr>, Inr user)))"

text \<open>The service always draws an id and a time for the event, so the defaults are not needed.\<close>

definition memUpdateUserRoleWithAudit ::
  "time \<Rightarrow> string \<Rightarrow> Role \<Rightarrow> AuthAuditEvent \<Rightarrow> AuthMemory \<Rightarrow> AuthMemory \<times> (auth_error + User)" where
  "memUpdateUserRoleWithAudit clock i role event r =
     (case updateUserRoleLocked clock i role r of
        (r', Inl err) \<Rightarrow> (r', Inl err)
      | (r', Inr user) \<Rightarrow> (r'\<lparr>am_auditEvents := am_auditEvents r' @
          [event\<lparr>aa_CreatedAt := (if aa_CreatedAt event = 0 then clock else aa_CreatedAt event)\<rparr>]\<rparr>, Inr user))"

definition memRevokeToken :: "time \<Rightarrow> string \<Rightarrow> string \<Rightarrow> time \<Rightarrow> AuthMemory \<Rightarrow> AuthMemory \<times> (auth_error + unit)" where
  "memRevokeToken clock tokenID userID expiresAt r =
     (r\<lparr>am_revokedTokens := mput tokenID (userID, expiresAt) (am_revokedTokens r)\<rparr>, Inr ())"

definition memIsTokenRevoked :: "time \<Rightarrow> string \<Rightarrow> AuthMemory \<Rightarrow> AuthMemory \<times> (auth_error + bool)" where
  "memIsTokenRevoked clock tokenID r =
     (r, Inr (case map_of (am_revokedTokens r) tokenID of
        None \<Rightarrow> False | Some (_, expiresAt) \<Rightarrow> \<not> time_after clock expiresAt))"

definition CountUsersByEmail :: "string \<Rightarrow> AuthMemory \<Rightarrow> int" where
  "CountUsersByEmail email r = (if map_of (am_usersByEmail r) (NormalizeEmail email) \<noteq> None then 1 else 0)"

definition memCreateRefreshSession :: "time \<Rightarrow> RefreshSession \<Rightarrow> AuthMemory \<Rightarrow> AuthMemory \<times> (auth_error + unit)" where
  "memCreateRefreshSession clock session r =
     (r\<lparr>am_refreshTokens := mput (rs_TokenHash session) session (am_refreshTokens r)\<rparr>, Inr ())"

definition revoke_in_family :: "string \<Rightarrow> time \<Rightarrow> RefreshSession \<Rightarrow> RefreshSession" where
  "revoke_in_family familyID now session =
     (if rs_FamilyID session \<noteq> familyID \<or> rs_RevokedAt session \<noteq> None then session
      else session\<lparr>rs_RevokedAt := Some now, rs_UpdatedAt := now\<rparr>)"

definition revokeRefreshFamilyLocked :: "string \<Rightarrow> time \<Rightarrow> AuthMemory \<Rightarrow> AuthMemory" where
  "revokeRefreshFamilyLocked familyID now r =
     r\<lparr>am_refreshTokens := map (\<lambda>(hash, session). (hash, revoke_in_family familyID now session)) (am_refreshTokens r)\<rparr>"

definition memRotateRefreshSession :: "time \<Rightarrow> string \<Rightarrow> string \<Rightarrow> time \<Rightarrow> time \<Rightarrow> AuthMemory
   \<Rightarrow> AuthMemory \<times> (auth_error + (User \<times> RefreshSession))" where
  "memRotateRefreshSession clock oldHash newHash newExpiresAt now r =
     (case map_of (am_refreshTokens r) oldHash of
        None \<Rightarrow> (r, Inl ErrAuthUnauthorized)
      | Some current \<Rightarrow>
          if \<not> time_after (rs_ExpiresAt current) now then (r, Inl ErrAuthUnauthorized)
          else (case map_of (am_usersByID r) (rs_UserID current) of
             None \<Rightarrow> (r, Inl ErrAuthUnauthorized)
           | Some user \<Rightarrow>
               if rs_RevokedAt current \<noteq> None \<or> rs_ReplacedByHash current \<noteq> ''''
               then (revokeRefreshFamilyLocked (rs_FamilyID current) now r, Inl ErrRefreshReuse)
               else
                 (let current' = current\<lparr>rs_RevokedAt := Some now, rs_ReplacedByHash := newHash, rs_UpdatedAt := now\<rparr>;
                      next = \<lparr>rs_TokenHash = newHash, rs_UserID = rs_UserID current,
                        rs_FamilyID = rs_FamilyID current, rs_ReplacedByHash = '''',
                        rs_ExpiresAt = newExpiresAt, rs_RevokedAt = None, rs_CreatedAt = now, rs_UpdatedAt = now\<rparr>
                  in (r\<lparr>am_refreshTokens := mput newHash next (mput oldHash current' (am_refreshTokens r))\<rparr>,
                      Inr (user, next)))))"

definition memRevokeRefreshSession :: "time \<Rightarrow> string \<Rightarrow> time \<Rightarrow> AuthMemory \<Rightarrow> AuthMemory \<times> (auth_error + unit)" where
  "memRevokeRefreshSession clock tokenHash now r =
     (case map_of (am_refreshTokens r) tokenHash of
        None \<Rightarrow> (r, Inr ())
      | Some current \<Rightarrow> (revokeRefreshFamilyLocked (rs_FamilyID current) now r, Inr ()))"

definition memoryRepo :: "(time, AuthMemory) Repository" where
  "memoryRepo = \<lparr>rp_CreateUser = memCreateUser, rp_FindUserByEmail = memFindUserByEmail,
     rp_FindUserByID = memFindUserByID, rp_UpdateUserRole = updateUserRoleLocked,
     rp_UpdateUserRoleWithAudit = memUpdateUserRoleWithAudit, rp_RevokeToken = memRevokeToken,
     rp_IsTokenRevoked = memIsTokenRevoked, rp_CreateRefreshSession = memCreateRefreshSession,
     rp_RotateRefreshSession = memRotateRefreshSession, rp_RevokeRefreshSession = memRevokeRefreshSession\<rparr>"

section \<open>The revocation cache\<close>

text \<open>
  Redis is the pair of its commands: \<^verbatim>\<open>SET key "1" ttl\<close>, which may fail (\<open>False\<close>), and \<^verbatim>\<open>EXISTS\<close>,
  which is \<open>None\<close> where it fails; \<open>'t\<close> is what a command meets.
\<close>

record ('t, 'c) RedisClient =
  rd_Set :: "'t \<Rightarrow> string \<Rightarrow> duration \<Rightarrow> 'c \<Rightarrow> 'c \<times> bool"
  rd_Exists :: "'t \<Rightarrow> string \<Rightarrow> 'c \<Rightarrow> int option"

definition revokedTokenCachePrefix :: string where "revokedTokenCachePrefix = ''auth:revoked:jti:''"

text \<open>The error of \<open>MarkRevoked\<close> is dropped by both callers.\<close>

definition MarkRevoked :: "('t, 'c) RedisClient \<Rightarrow> 't \<Rightarrow> time \<Rightarrow> string \<Rightarrow> time \<Rightarrow> 'c \<Rightarrow> 'c" where
  "MarkRevoked client t clock tokenID expiresAt c =
     (if tokenID = '''' then c
      else (let ttl = time_sub expiresAt clock in
            if ttl \<le> 0 then c else fst (rd_Set client t (revokedTokenCachePrefix @ tokenID) ttl c)))"

definition IsRevoked :: "('t, 'c) RedisClient \<Rightarrow> 't \<Rightarrow> string \<Rightarrow> 'c \<Rightarrow> bool option" where
  "IsRevoked client t tokenID c =
     (if tokenID = '''' then Some False
      else map_option (\<lambda>count. count > 0) (rd_Exists client t (revokedTokenCachePrefix @ tokenID) c))"

record ('t, 'x) CachedCall =
  cx_repo :: 'x
  cx_exists :: 't
  cx_set :: 't
  cx_clock :: time \<comment> \<open>the clock of the cache\<close>
  cx_now :: time \<comment> \<open>\<^verbatim>\<open>time.Now()\<close> when a hit of the repository is cached\<close>

definition cachedRevokeToken :: "('t, 'c) RedisClient \<Rightarrow> ('x, 'r) Repository \<Rightarrow> ('t, 'x) CachedCall
   \<Rightarrow> string \<Rightarrow> string \<Rightarrow> time \<Rightarrow> 'r \<times> 'c \<Rightarrow> ('r \<times> 'c) \<times> (auth_error + unit)" where
  "cachedRevokeToken client repo x tokenID userID expiresAt st =
     (case rp_RevokeToken repo (cx_repo x) tokenID userID expiresAt (fst st) of
        (r', Inl err) \<Rightarrow> ((r', snd st), Inl err)
      | (r', Inr _) \<Rightarrow> ((r', MarkRevoked client (cx_set x) (cx_clock x) tokenID expiresAt (snd st)), Inr ()))"

definition cachedIsTokenRevoked :: "('t, 'c) RedisClient \<Rightarrow> ('x, 'r) Repository \<Rightarrow> ('t, 'x) CachedCall
   \<Rightarrow> string \<Rightarrow> 'r \<times> 'c \<Rightarrow> ('r \<times> 'c) \<times> (auth_error + bool)" where
  "cachedIsTokenRevoked client repo x tokenID st =
     (if IsRevoked client (cx_exists x) tokenID (snd st) = Some True then (st, Inr True)
      else (case rp_IsTokenRevoked repo (cx_repo x) tokenID (fst st) of
              (r', Inl err) \<Rightarrow> ((r', snd st), Inl err)
            | (r', Inr revoked) \<Rightarrow>
                ((r', if revoked
                      then MarkRevoked client (cx_set x) (cx_clock x) tokenID (cx_now x + minute) (snd st)
                      else snd st), Inr revoked)))"

definition on_repo :: "('r \<Rightarrow> 'r \<times> 'a) \<Rightarrow> 'r \<times> 'c \<Rightarrow> ('r \<times> 'c) \<times> 'a" where
  "on_repo f st = (let (r', a) = f (fst st) in ((r', snd st), a))"

definition WithRevocationCache ::
  "('t, 'c) RedisClient \<Rightarrow> ('x, 'r) Repository \<Rightarrow> (('t, 'x) CachedCall, 'r \<times> 'c) Repository" where
  "WithRevocationCache client repo =
     \<lparr>rp_CreateUser = (\<lambda>x u. on_repo (rp_CreateUser repo (cx_repo x) u)),
      rp_FindUserByEmail = (\<lambda>x email st. rp_FindUserByEmail repo (cx_repo x) email (fst st)),
      rp_FindUserByID = (\<lambda>x i st. rp_FindUserByID repo (cx_repo x) i (fst st)),
      rp_UpdateUserRole = (\<lambda>x i role. on_repo (rp_UpdateUserRole repo (cx_repo x) i role)),
      rp_UpdateUserRoleWithAudit =
        (\<lambda>x i role event. on_repo (rp_UpdateUserRoleWithAudit repo (cx_repo x) i role event)),
      rp_RevokeToken = cachedRevokeToken client repo,
      rp_IsTokenRevoked = cachedIsTokenRevoked client repo,
      rp_CreateRefreshSession = (\<lambda>x session. on_repo (rp_CreateRefreshSession repo (cx_repo x) session)),
      rp_RotateRefreshSession = (\<lambda>x old new expiry now. on_repo (rp_RotateRefreshSession repo (cx_repo x) old new expiry now)),
      rp_RevokeRefreshSession = (\<lambda>x hash now. on_repo (rp_RevokeRefreshSession repo (cx_repo x) hash now))\<rparr>"

end
