(* ===== verification/AuthPostgres.thy ===== *)
theory AuthPostgres imports Auth Tx begin

text \<open>
  \<^verbatim>\<open>internal/services/auth/postgres_repository.go\<close>. A call meets the \<^verbatim>\<open>now()\<close> of the database, the
  faults of its statements and the outcome of its commit. A statement outside a transaction is a
  transaction of its own.
\<close>

record AuthDB =
  ad_users :: "(string, User) gomap" \<comment> \<open>by id\<close>
  ad_revoked :: "(string, string \<times> time) gomap"
  ad_refresh :: "(string, RefreshSession) gomap" \<comment> \<open>by token hash\<close>
  ad_audit :: "AuthAuditEvent list"

record PgCall =
  pc_dbNow :: time
  pc_faults :: faults
  pc_commit :: commit_outcome

type_synonym 'a auth_tx = "(AuthDB, auth_error, 'a) tx"

definition pg_tx :: "'a auth_tx \<Rightarrow> PgCall \<Rightarrow> AuthDB \<Rightarrow> AuthDB \<times> (auth_error + 'a)" where
  "pg_tx m x d = in_tx ErrAuthStore m (pc_faults x) (pc_commit x) d"

text \<open>
  The checks of \<^verbatim>\<open>auth_users\<close>: a display name that is not blank, a known role, a password hash. The
  unique violation of the email is the one the program tells apart.
\<close>

definition insertUser :: "User \<Rightarrow> unit auth_tx" where
  "insertUser u fs d =
     (if faulty fs \<or> (\<forall>c \<in> set (u_DisplayName u). c = CHR '' '') \<or> u_PasswordHash u = '''' \<or>
         u_Role u \<notin> {RoleUser, RoleOrganizer, RoleAdmin}
      then (Inl ErrAuthStore, tl fs, d)
      else if map_of (ad_users d) (u_ID u) \<noteq> None \<or> (\<exists>v \<in> set (mvals (ad_users d)). u_Email v = u_Email u)
      then (Inl ErrDuplicateEmail, tl fs, d)
      else (Inr (), tl fs, d\<lparr>ad_users := mput (u_ID u)
              (u\<lparr>u_CreatedAt := pg_ts (u_CreatedAt u), u_UpdatedAt := pg_ts (u_UpdatedAt u)\<rparr>) (ad_users d)\<rparr>))"

definition pgCreateUser :: "PgCall \<Rightarrow> User \<Rightarrow> AuthDB \<Rightarrow> AuthDB \<times> (auth_error + unit)" where
  "pgCreateUser x u d = pg_tx (insertUser (u\<lparr>u_Email := NormalizeEmail (u_Email u)\<rparr>)) x d"

text \<open>\<open>ErrUserNotFound\<close> where no row is found; the role is normalised.\<close>

definition scanUser :: "User option \<Rightarrow> User auth_tx" where
  "scanUser row = (case row of None \<Rightarrow> tx_fail ErrUserNotFound
     | Some user \<Rightarrow> tx_return (user\<lparr>u_Role := NormalizeRole (u_Role user)\<rparr>))"

definition pgFindUserByEmail :: "PgCall \<Rightarrow> string \<Rightarrow> AuthDB \<Rightarrow> auth_error + User" where
  "pgFindUserByEmail x email d = snd (pg_tx (tx_bind
     (tx_query ErrAuthStore (\<lambda>d. find (\<lambda>u. u_Email u = NormalizeEmail email) (mvals (ad_users d)))) scanUser) x d)"

definition pgFindUserByID :: "PgCall \<Rightarrow> string \<Rightarrow> AuthDB \<Rightarrow> auth_error + User" where
  "pgFindUserByID x i d = snd (pg_tx (tx_bind
     (tx_query ErrAuthStore (\<lambda>d. map_of (ad_users d) i)) scanUser) x d)"

definition updateRoleRow :: "time \<Rightarrow> string \<Rightarrow> Role \<Rightarrow> User option auth_tx" where
  "updateRoleRow dbNow i role fs d =
     (if faulty fs then (Inl ErrAuthStore, tl fs, d)
      else (case map_of (ad_users d) i of
              None \<Rightarrow> (Inr None, tl fs, d)
            | Some old \<Rightarrow>
                if NormalizeRole role \<notin> {RoleUser, RoleOrganizer, RoleAdmin} then (Inl ErrAuthStore, tl fs, d)
                else (let user = old\<lparr>u_Role := NormalizeRole role, u_UpdatedAt := dbNow\<rparr>
                      in (Inr (Some user), tl fs, d\<lparr>ad_users := mput i user (ad_users d)\<rparr>))))"

definition pgUpdateUserRole :: "PgCall \<Rightarrow> string \<Rightarrow> Role \<Rightarrow> AuthDB \<Rightarrow> AuthDB \<times> (auth_error + User)" where
  "pgUpdateUserRole x i role d = pg_tx (tx_bind (updateRoleRow (pc_dbNow x) i role) scanUser) x d"

definition insertAuthAuditEvent :: "AuthAuditEvent \<Rightarrow> unit auth_tx" where
  "insertAuthAuditEvent event = tx_exec ErrAuthStore
     (\<lambda>d. aa_ID event \<notin> aa_ID ` set (ad_audit d))
     (\<lambda>d. d\<lparr>ad_audit := ad_audit d @
        [event\<lparr>aa_TargetType := (if aa_TargetType event = '''' then ''user'' else aa_TargetType event),
               aa_CreatedAt := pg_ts (aa_CreatedAt event)\<rparr>]\<rparr>)"

definition pgUpdateUserRoleWithAudit ::
  "PgCall \<Rightarrow> string \<Rightarrow> Role \<Rightarrow> AuthAuditEvent \<Rightarrow> AuthDB \<Rightarrow> AuthDB \<times> (auth_error + User)" where
  "pgUpdateUserRoleWithAudit x i role event d =
     pg_tx (tx_bind (tx_bind (updateRoleRow (pc_dbNow x) i role) scanUser) (\<lambda>updated.
            tx_bind (insertAuthAuditEvent event) (\<lambda>_. tx_return updated))) x d"

definition pgRevokeToken :: "PgCall \<Rightarrow> string \<Rightarrow> string \<Rightarrow> time \<Rightarrow> AuthDB \<Rightarrow> AuthDB \<times> (auth_error + unit)" where
  "pgRevokeToken x tokenID userID expiresAt d =
     pg_tx (tx_exec ErrAuthStore
       (\<lambda>d. map_of (ad_revoked d) tokenID \<noteq> None \<or> map_of (ad_users d) userID \<noteq> None)
       (\<lambda>d. if map_of (ad_revoked d) tokenID \<noteq> None then d
            else d\<lparr>ad_revoked := mput tokenID (userID, pg_ts expiresAt) (ad_revoked d)\<rparr>)) x d"

definition pgIsTokenRevoked :: "PgCall \<Rightarrow> string \<Rightarrow> AuthDB \<Rightarrow> AuthDB \<times> (auth_error + bool)" where
  "pgIsTokenRevoked x tokenID d =
     (d, snd (pg_tx (tx_query ErrAuthStore (\<lambda>d. case map_of (ad_revoked d) tokenID of
        None \<Rightarrow> False | Some (_, expiresAt) \<Rightarrow> expiresAt > pc_dbNow x)) x d))"

text \<open>The foreign key and the primary key of \<^verbatim>\<open>refresh_tokens\<close>.\<close>

definition insertRefresh :: "RefreshSession \<Rightarrow> unit auth_tx" where
  "insertRefresh session = tx_exec ErrAuthStore
     (\<lambda>d. map_of (ad_refresh d) (rs_TokenHash session) = None \<and> map_of (ad_users d) (rs_UserID session) \<noteq> None)
     (\<lambda>d. d\<lparr>ad_refresh := mput (rs_TokenHash session)
        (session\<lparr>rs_ExpiresAt := pg_ts (rs_ExpiresAt session), rs_RevokedAt := map_option pg_ts (rs_RevokedAt session),
                 rs_CreatedAt := pg_ts (rs_CreatedAt session), rs_UpdatedAt := pg_ts (rs_UpdatedAt session)\<rparr>)
        (ad_refresh d)\<rparr>)"

definition pgCreateRefreshSession :: "PgCall \<Rightarrow> RefreshSession \<Rightarrow> AuthDB \<Rightarrow> AuthDB \<times> (auth_error + unit)" where
  "pgCreateRefreshSession x session d = pg_tx (insertRefresh session) x d"

text \<open>The join with \<^verbatim>\<open>auth_users\<close>; a missing row of either table is \<open>ErrAuthUnauthorized\<close>.\<close>

definition refreshSessionForUpdate :: "string \<Rightarrow> (RefreshSession \<times> User) auth_tx" where
  "refreshSessionForUpdate tokenHash =
     tx_bind (tx_query ErrAuthStore (\<lambda>d. case map_of (ad_refresh d) tokenHash of None \<Rightarrow> None
         | Some session \<Rightarrow> map_option (Pair session) (map_of (ad_users d) (rs_UserID session)))) (\<lambda>row.
       case row of None \<Rightarrow> tx_fail ErrAuthUnauthorized
       | Some (session, user) \<Rightarrow> tx_return (session, user\<lparr>u_Role := NormalizeRole (u_Role user)\<rparr>))"

definition revoke_row :: "string \<Rightarrow> time \<Rightarrow> RefreshSession \<Rightarrow> RefreshSession" where
  "revoke_row familyID now session =
     (if rs_FamilyID session = familyID
      then session\<lparr>rs_RevokedAt := (case rs_RevokedAt session of None \<Rightarrow> Some (pg_ts now) | Some t \<Rightarrow> Some t),
                   rs_UpdatedAt := pg_ts now\<rparr>
      else session)"

definition revokeRefreshFamilyTx :: "string \<Rightarrow> time \<Rightarrow> unit auth_tx" where
  "revokeRefreshFamilyTx familyID now = tx_exec ErrAuthStore (\<lambda>_. True)
     (\<lambda>d. d\<lparr>ad_refresh := map (\<lambda>(hash, session). (hash, revoke_row familyID now session)) (ad_refresh d)\<rparr>)"

definition replaceRefresh :: "string \<Rightarrow> time \<Rightarrow> string \<Rightarrow> unit auth_tx" where
  "replaceRefresh oldHash now newHash = tx_exec ErrAuthStore (\<lambda>_. True)
     (\<lambda>d. case map_of (ad_refresh d) oldHash of None \<Rightarrow> d
        | Some session \<Rightarrow> d\<lparr>ad_refresh := mput oldHash (session\<lparr>rs_RevokedAt := Some (pg_ts now),
            rs_ReplacedByHash := newHash, rs_UpdatedAt := pg_ts now\<rparr>) (ad_refresh d)\<rparr>)"

text \<open>
  The transaction of a rotation. A reused token commits the revocation of its family and is an error
  all the same: \<open>None\<close> stands for it inside the transaction.
\<close>

definition rotateTx :: "string \<Rightarrow> string \<Rightarrow> time \<Rightarrow> time \<Rightarrow> (User \<times> RefreshSession) option auth_tx" where
  "rotateTx oldHash newHash newExpiresAt now =
     tx_bind (refreshSessionForUpdate oldHash) (\<lambda>(current, user).
     if \<not> time_after (rs_ExpiresAt current) now then tx_fail ErrAuthUnauthorized
     else if rs_RevokedAt current \<noteq> None \<or> rs_ReplacedByHash current \<noteq> '''' then
       tx_bind (revokeRefreshFamilyTx (rs_FamilyID current) now) (\<lambda>_. tx_return None)
     else
       tx_bind (replaceRefresh oldHash now newHash) (\<lambda>_.
       (let next = \<lparr>rs_TokenHash = newHash, rs_UserID = rs_UserID current,
            rs_FamilyID = rs_FamilyID current, rs_ReplacedByHash = '''',
            rs_ExpiresAt = newExpiresAt, rs_RevokedAt = None, rs_CreatedAt = now, rs_UpdatedAt = now\<rparr>
        in tx_bind (insertRefresh next) (\<lambda>_. tx_return (Some (user, next))))))"

definition pgRotateRefreshSession :: "PgCall \<Rightarrow> string \<Rightarrow> string \<Rightarrow> time \<Rightarrow> time \<Rightarrow> AuthDB
   \<Rightarrow> AuthDB \<times> (auth_error + (User \<times> RefreshSession))" where
  "pgRotateRefreshSession x oldHash newHash newExpiresAt now d =
     (case pg_tx (rotateTx oldHash newHash newExpiresAt now) x d of
        (d', Inl err) \<Rightarrow> (d', Inl err)
      | (d', Inr None) \<Rightarrow> (d', Inl ErrRefreshReuse)
      | (d', Inr (Some result)) \<Rightarrow> (d', Inr result))"

definition pgRevokeRefreshSession :: "PgCall \<Rightarrow> string \<Rightarrow> time \<Rightarrow> AuthDB \<Rightarrow> AuthDB \<times> (auth_error + unit)" where
  "pgRevokeRefreshSession x tokenHash now d =
     (case pg_tx (tx_bind (refreshSessionForUpdate tokenHash) (\<lambda>(current, _).
          revokeRefreshFamilyTx (rs_FamilyID current) now)) x d of
        (d', Inl err) \<Rightarrow> (d', if err = ErrAuthUnauthorized then Inr () else Inl err)
      | (d', Inr _) \<Rightarrow> (d', Inr ()))"

definition postgresRepo :: "(PgCall, AuthDB) Repository" where
  "postgresRepo = \<lparr>rp_CreateUser = pgCreateUser, rp_FindUserByEmail = pgFindUserByEmail,
     rp_FindUserByID = pgFindUserByID, rp_UpdateUserRole = pgUpdateUserRole,
     rp_UpdateUserRoleWithAudit = pgUpdateUserRoleWithAudit, rp_RevokeToken = pgRevokeToken,
     rp_IsTokenRevoked = pgIsTokenRevoked, rp_CreateRefreshSession = pgCreateRefreshSession,
     rp_RotateRefreshSession = pgRotateRefreshSession, rp_RevokeRefreshSession = pgRevokeRefreshSession\<rparr>"

end
