(* ===== verification/AuthnProps.thy ===== *)
theory AuthnProps imports Authn begin

text \<open>Access tokens: what is signed verifies until it expires, and what verifies was signed.\<close>

definition codec_ok :: "JwtLib \<Rightarrow> bool" where
  "codec_ok lib \<longleftrightarrow>
     jl_unmarshalHeader lib (jl_marshalHeader lib (''HS256'', ''JWT'')) = Some (''HS256'', ''JWT'') \<and>
     (\<forall>p. utf8_valid (jp_sub p) \<and> utf8_valid (jp_email p) \<and> utf8_valid (jp_role p) \<and>
        utf8_valid (jp_jti p) \<and> utf8_valid (jp_iss p) \<and>
        jp_iat p \<in> {- (2 ^ 63)..<2 ^ 63} \<and> jp_exp p \<in> {- (2 ^ 63)..<2 ^ 63} \<longrightarrow>
        jl_unmarshalPayload lib (jl_marshalPayload lib p) = Some p)"

lemma b64_no_dot: "CHR ''.'' \<notin> set (b64_encode s)"
proof
  assume "CHR ''.'' \<in> set (b64_encode s)"
  then obtain i where "0 \<le> i" "i < 64" "CHR ''.'' = b64_char i" using b64_encode_chars by blast
  then show False using b64_char_plain [of i] by simp
qed

lemma b64_solid: "c \<in> set (b64_encode s) \<Longrightarrow> solid c"
  using b64_encode_chars [of c s] b64_char_plain by (auto simp: solid_def)

lemma solid_all: "(\<And>c. c \<in> set s \<Longrightarrow> solid c) \<Longrightarrow> solid_ends s"
  by (cases "s = []") (auto simp: solid_ends_def)

lemma token_parts:
  assumes "CHR ''.'' \<notin> set a" "CHR ''.'' \<notin> set b" "CHR ''.'' \<notin> set c"
  shows "Split (a @ ''.'' @ b @ ''.'' @ c) (CHR ''.'') = [a, b, c]"
  using assms by (simp add: Split_append Split_no_sep)

lemma token_trim:
  "TrimSpace (b64_encode a @ ''.'' @ b64_encode b @ ''.'' @ b64_encode c) =
     b64_encode a @ ''.'' @ b64_encode b @ ''.'' @ b64_encode c"
  by (rule TrimSpace_solid, rule solid_all) (auto simp: solid_def byte_def dest: b64_solid)

text \<open>
  C29. A token that the manager signs is accepted until the second of its expiry, with the subject's
  trimmed id and email, the normalised role, the drawn id and the issuer, the times cut to seconds;
  from then on it is refused as expired. This needs the JSON codec to read back what it wrote.
\<close>

theorem signed_tokens_verify:
  assumes "codec_ok lib" and "TrimSpace (sj_UserID subject) \<noteq> ''''" and "ValidRole (sj_Role subject)"
    and "newID \<noteq> ''''" and "utf8_valid (TrimSpace (sj_UserID subject))"
    and "utf8_valid (TrimSpace (sj_Email subject))" and "utf8_valid newID" and "utf8_valid (tm_Issuer m)"
    and "0 \<le> now" and "0 \<le> tm_TTL m" and "now + tm_TTL m < 2 ^ 63 * second"
  shows "Verify lib m later (fst (Sign lib m now newID subject)) =
    (if later < (now + tm_TTL m) - (now + tm_TTL m) mod second
     then Inr \<lparr>cl_UserID = TrimSpace (sj_UserID subject), cl_Email = TrimSpace (sj_Email subject),
       cl_Role = NormalizeRole (sj_Role subject), cl_TokenID = newID, cl_Issuer = tm_Issuer m,
       cl_IssuedAt = now - now mod second,
       cl_ExpiresAt = (now + tm_TTL m) - (now + tm_TTL m) mod second\<rparr>
     else Inl ErrExpiredToken)"
proof -
  let ?p = "\<lparr>jp_sub = TrimSpace (sj_UserID subject), jp_email = TrimSpace (sj_Email subject),
    jp_role = NormalizeRole (sj_Role subject), jp_jti = newID, jp_iss = tm_Issuer m,
    jp_iat = time_Unix now, jp_exp = time_Unix (now + tm_TTL m)\<rparr>"
  have role: "NormalizeRole (NormalizeRole (sj_Role subject)) = NormalizeRole (sj_Role subject)"
    "ValidRole (NormalizeRole (sj_Role subject))" "utf8_valid (NormalizeRole (sj_Role subject))"
    using NormalizeRole_idem_valid [OF assms(3)] assms(3)
    by (auto simp: ValidRole_def Let_def role_defs utf8_valid_ascii byte_def)
  have times: "0 \<le> now" "now < 2 ^ 63 * second" "0 \<le> now + tm_TTL m" "now + tm_TTL m < 2 ^ 63 * second"
    using assms(9-11) by linarith+
  have "jl_unmarshalPayload lib (jl_marshalPayload lib ?p) = Some ?p"
    using assms(1,5-8) role(3) int64_second [OF times(1,2)] int64_second [OF times(3,4)]
    by (simp add: codec_ok_def)
  moreover have "Split (b64_encode a @ ''.'' @ b64_encode b @ ''.'' @ b64_encode c) (CHR ''.'') =
      [b64_encode a, b64_encode b, b64_encode c]" for a b c
    by (rule token_parts) (rule b64_no_dot)+
  moreover have "jl_unmarshalHeader lib (jl_marshalHeader lib (''HS256'', ''JWT'')) = Some (''HS256'', ''JWT'')"
    using assms(1) by (simp add: codec_ok_def)
  ultimately show ?thesis
    using assms(2,4) role of_Unix_Unix [OF times(1,2)] of_Unix_Unix [OF times(3,4)]
    unfolding Verify_def Sign_def Let_def sign_def fst_conv append_assoc token_trim
    by (simp add: b64_decode_encode time_after_def Let_def)
qed

text \<open>
  C30. Only signed tokens are accepted: an accepted token is, but for surrounding blanks, a text with
  its keyed hash; the claims are read from that text alone, name the manager's issuer, a user, a token
  id and a valid role, and have not expired.
\<close>

theorem accepted_tokens_signed:
  assumes "Verify lib m now token = Inr claims"
  shows "\<exists>header payload p. TrimSpace token = (header @ ''.'' @ payload) @ ''.'' @
        b64_encode (jl_hmac lib (tm_Secret m) (header @ ''.'' @ payload)) \<and>
    Option.bind (b64_decode payload) (jl_unmarshalPayload lib) = Some p \<and>
    cl_UserID claims = jp_sub p \<and> cl_TokenID claims = jp_jti p \<and> cl_Role claims = NormalizeRole (jp_role p) \<and>
    cl_Issuer claims = tm_Issuer m \<and> cl_UserID claims \<noteq> '''' \<and> cl_TokenID claims \<noteq> '''' \<and>
    ValidRole (cl_Role claims) \<and> now < cl_ExpiresAt claims \<and> cl_ExpiresAt claims = of_Unix (jp_exp p)"
proof -
  obtain a b c where split: "Split (TrimSpace token) (CHR ''.'') = [a, b, c]"
    using assms by (auto simp: Verify_def split: list.splits)
  have "TrimSpace token = Join (Split (TrimSpace token) (CHR ''.'')) [CHR ''.'']"
    by (rule Join_Split [symmetric])
  then have tok: "TrimSpace token = a @ ''.'' @ b @ ''.'' @ c" by (simp add: split)
  show ?thesis
    using assms unfolding Verify_def split
    by (intro exI [of _ a] exI [of _ b])
      (auto simp: tok sign_def Let_def time_after_def split: option.splits prod.splits if_splits)
qed

section \<open>An instance\<close>

text \<open>A codec that the hypotheses allow: the members one after the other, each after its length.\<close>

definition ex_put :: "string \<Rightarrow> string" where "ex_put s = replicate (length s) (CHR ''x'') @ ''|'' @ s"

definition ex_get :: "string \<Rightarrow> string \<times> string" where
  "ex_get s = (let n = length (takeWhile (\<lambda>c. c = CHR ''x'') s)
               in (take n (drop (n + 1) s), drop (n + 1 + n) s))"

lemma ex_get_put: "ex_get (ex_put s @ t) = (s, t)"
proof -
  have "takeWhile (\<lambda>c. c = CHR ''x'') (replicate n (CHR ''x'') @ CHR ''|'' # u) = replicate n (CHR ''x'')" for n u
    by (induction n) auto
  then show ?thesis by (simp add: ex_get_def ex_put_def Let_def)
qed

definition ex_int :: "int \<Rightarrow> string" where
  "ex_int i = (if i < 0 then ''-'' else ''+'') @ replicate (nat \<bar>i\<bar>) (CHR ''i'')"

definition ex_of_int :: "string \<Rightarrow> int" where
  "ex_of_int s = (if take 1 s = ''-'' then - int (length s - 1) else int (length s - 1))"

lemma ex_of_int_int: "ex_of_int (ex_int i) = i"
  by (simp add: ex_of_int_def ex_int_def)

definition ex_jwt :: JwtLib where
  "ex_jwt = \<lparr>jl_hmac = (\<lambda>key msg. ''mac''), jl_marshalHeader = (\<lambda>(a, t). ex_put a @ t),
     jl_unmarshalHeader = (\<lambda>s. Some (ex_get s)),
     jl_marshalPayload = (\<lambda>p. ex_put (jp_sub p) @ ex_put (jp_email p) @ ex_put (jp_role p) @ ex_put (jp_jti p) @
       ex_put (jp_iss p) @ ex_put (ex_int (jp_iat p)) @ ex_int (jp_exp p)),
     jl_unmarshalPayload = (\<lambda>s. let (a, s1) = ex_get s; (b, s2) = ex_get s1; (c, s3) = ex_get s2;
       (d, s4) = ex_get s3; (e, s5) = ex_get s4; (f, s6) = ex_get s5
       in Some \<lparr>jp_sub = a, jp_email = b, jp_role = c, jp_jti = d, jp_iss = e,
            jp_iat = ex_of_int f, jp_exp = ex_of_int s6\<rparr>)\<rparr>"

lemma ex_jwt_ok: "codec_ok ex_jwt"
  by (auto simp: codec_ok_def ex_jwt_def ex_get_put ex_of_int_int)

definition ex_manager :: TokenManager where
  "ex_manager = \<lparr>tm_Secret = ''key'', tm_Issuer = ''iss'', tm_TTL = 15 * minute\<rparr>"

definition ex_subject :: Subject where
  "ex_subject = \<lparr>sj_UserID = ''u1'', sj_Email = ''a@b.c'', sj_Role = ''USER''\<rparr>"

lemma ex_ascii: "utf8_valid ''u1''" "utf8_valid ''a@b.c''" "utf8_valid ''t1''" "utf8_valid ''iss''"
  by (simp_all add: utf8_valid_ascii byte_def)

lemma ex_roles: "ValidRole ''USER''" "NormalizeRole ''USER'' = ''USER''"
  using role_capabilities(9) NormalizeRole_roles(1) by (simp_all add: RoleUser_def)

text \<open>The same run evaluated, for the witness of the converse.\<close>

lemma ex_token:
  "fst (Sign ex_jwt ex_manager (5 * second) ''t1'' ex_subject) =
     b64_encode (jl_marshalHeader ex_jwt (''HS256'', ''JWT'')) @ ''.'' @
     b64_encode (jl_marshalPayload ex_jwt \<lparr>jp_sub = ''u1'', jp_email = ''a@b.c'', jp_role = ''USER'',
       jp_jti = ''t1'', jp_iss = ''iss'', jp_iat = time_Unix (5 * second), jp_exp = time_Unix (905 * second)\<rparr>) @
     ''.'' @ b64_encode ''mac''"
  by (simp add: Sign_def Let_def ex_manager_def ex_subject_def ex_roles str_eval sign_def ex_jwt_def duration_defs)

definition ex_claims :: Claims where
  "ex_claims = \<lparr>cl_UserID = ''u1'', cl_Email = ''a@b.c'', cl_Role = ''USER'', cl_TokenID = ''t1'',
     cl_Issuer = ''iss'', cl_IssuedAt = 5 * second, cl_ExpiresAt = 905 * second\<rparr>"

lemma ex_verifies:
  "Verify ex_jwt ex_manager (10 * second)
     (fst (Sign ex_jwt ex_manager (5 * second) ''t1'' ex_subject)) = Inr ex_claims"
proof -
  have split: "Split (b64_encode a @ ''.'' @ b64_encode b @ ''.'' @ b64_encode c) (CHR ''.'') =
      [b64_encode a, b64_encode b, b64_encode c]" for a b c
    by (rule token_parts) (rule b64_no_dot)+
  show ?thesis
    unfolding ex_token Verify_def token_trim split
    by (simp add: b64_decode_encode sign_def Let_def)
      (simp add: b64_decode_encode ex_jwt_def ex_get_put ex_of_int_int ex_roles ex_manager_def time_after_def
        of_Unix_def time_Unix_def unix_epoch_def wrap64_def second_def ex_claims_def)
qed

lemma ex_bearer:
  "BearerToken (''Bearer '' @ fst (Sign ex_jwt ex_manager (5 * second) ''t1'' ex_subject)) =
     Some (fst (Sign ex_jwt ex_manager (5 * second) ''t1'' ex_subject))"
proof -
  let ?t = "fst (Sign ex_jwt ex_manager (5 * second) ''t1'' ex_subject)"
  have all: "solid c" if "c \<in> set ?t" for c
    using that unfolding ex_token by (auto simp: solid_def byte_def dest: b64_solid)
  have ne: "?t \<noteq> []" unfolding ex_token by simp
  have "TrimSpace ?t = ?t" by (rule TrimSpace_solid, rule solid_all) (rule all)
  moreover have "TrimSpace (''Bearer '' @ ?t) = ''Bearer '' @ ?t"
    using all ne by (intro TrimSpace_solid) (auto simp: solid_ends_def solid_def byte_def)
  ultimately show ?thesis using ne unfolding BearerToken_def by (simp only: CutPrefix_append) simp
qed

theorem signed_tokens_verify_witness:
  "Verify ex_jwt ex_manager (10 * second) (fst (Sign ex_jwt ex_manager (5 * second) ''t1'' ex_subject)) =
     Inr \<lparr>cl_UserID = ''u1'', cl_Email = ''a@b.c'', cl_Role = ''USER'', cl_TokenID = ''t1'',
        cl_Issuer = ''iss'', cl_IssuedAt = 5 * second, cl_ExpiresAt = 905 * second\<rparr>"
  using signed_tokens_verify [OF ex_jwt_ok, of ex_subject "''t1''" ex_manager "5 * second" "10 * second"]
  by (simp add: ex_ascii ex_roles ex_subject_def ex_manager_def str_eval duration_defs)

theorem accepted_tokens_signed_witness:
  "\<exists>content. TrimSpace (fst (Sign ex_jwt ex_manager (5 * second) ''t1'' ex_subject)) =
     content @ ''.'' @ b64_encode ''mac''"
  using accepted_tokens_signed [of ex_jwt ex_manager "10 * second"
      "fst (Sign ex_jwt ex_manager (5 * second) ''t1'' ex_subject)"] ex_verifies
  by (auto simp: ex_jwt_def second_def)

end
