(* ===== verification/AuthRoles.thy ===== *)
theory AuthRoles imports AuthHttp AuthMemory AuthPostgres AuthnProps begin

text \<open>
  Who becomes an administrator: the contract of a repository that stores users, what every request
  does to the roles, and the interpretations on the repositories of the code.
\<close>

section \<open>The contract\<close>

text \<open>\<open>role\<close> reads the stored role of a user, \<open>inv\<close> is the invariant that the operations keep.\<close>

locale user_store =
  fixes repo :: "('x, 'r) Repository"
    and inv :: "'r \<Rightarrow> bool"
    and role :: "'r \<Rightarrow> string \<Rightarrow> Role option"
  assumes create_user: "inv r \<Longrightarrow> rp_CreateUser repo x u r = (r', res) \<Longrightarrow>
      inv r' \<and> (role r' = role r \<or> role r' = (role r)(u_ID u \<mapsto> NormalizeRole (u_Role u)))"
    and find_by_id: "inv r \<Longrightarrow> rp_FindUserByID repo x i r = Inr u \<Longrightarrow>
      u_ID u = i \<and> role r i \<noteq> None \<and> (CanAdmin (u_Role u) \<longleftrightarrow> CanAdmin (the (role r i)))"
    and update_role: "inv r \<Longrightarrow> rp_UpdateUserRoleWithAudit repo x i new event r = (r', z) \<Longrightarrow>
      inv r' \<and> (role r' = role r \<or> role r' = (role r)(i \<mapsto> NormalizeRole new))"
    and revoke_token: "inv r \<Longrightarrow> rp_RevokeToken repo x tokenID userID expiresAt r = (r', q) \<Longrightarrow>
      inv r' \<and> role r' = role r"
    and is_revoked: "inv r \<Longrightarrow> rp_IsTokenRevoked repo x tokenID r = (r', v) \<Longrightarrow> inv r' \<and> role r' = role r"
    and create_session: "inv r \<Longrightarrow> rp_CreateRefreshSession repo x session r = (r', q) \<Longrightarrow>
      inv r' \<and> role r' = role r"
    and rotate_session: "inv r \<Longrightarrow> rp_RotateRefreshSession repo x old new expiry now r = (r', w) \<Longrightarrow>
      inv r' \<and> role r' = role r"
    and revoke_session: "inv r \<Longrightarrow> rp_RevokeRefreshSession repo x hash now r = (r', q) \<Longrightarrow>
      inv r' \<and> role r' = role r"
begin

definition same :: "'r \<Rightarrow> 'r \<Rightarrow> bool" where
  "same r r' \<longleftrightarrow> inv r' \<and> role r' = role r"

lemma issue_same: "inv r \<Longrightarrow> sv_repo s = repo \<Longrightarrow> issue s e k u r = (r', res) \<Longrightarrow> same r r'"
  using create_session
  by (auto simp: issue_def same_def Let_def split: sum.splits prod.splits)

lemma refresh_same: "inv r \<Longrightarrow> sv_repo s = repo \<Longrightarrow> Refresh s e t r = (r', res) \<Longrightarrow> same r r'"
  using rotate_session
  by (auto simp: Refresh_def same_def Let_def split: sum.splits prod.splits if_splits)

lemma current_same:
  "inv r \<Longrightarrow> sv_repo s = repo \<Longrightarrow> CurrentUser s e t r = (r', res) \<Longrightarrow> same r r'"
  using is_revoked
  by (auto simp: CurrentUser_def same_def split: sum.splits prod.splits if_splits)

lemma logout_refresh_same:
  "inv r \<Longrightarrow> sv_repo s = repo \<Longrightarrow> LogoutRefresh s e k t r = (r', res) \<Longrightarrow> same r r'"
  using revoke_session by (auto simp: LogoutRefresh_def same_def Let_def split: if_splits)

lemma same_trans: "same r r1 \<Longrightarrow> (inv r1 \<Longrightarrow> same r1 r2) \<Longrightarrow> same r r2"
  by (auto simp: same_def)

lemma logout_same:
  assumes "inv r" "sv_repo s = repo" "Logout s e a t r = (r', res)"
  shows "same r r'"
proof -
  have step: "same r r1" if "rp_RevokeToken repo x i u z r = (r1, q)" for x i u z r1 q
    using revoke_token [OF assms(1) that] by (simp add: same_def)
  show ?thesis
    using assms(3) step logout_refresh_same [OF _ assms(2)] assms(1,2)
    by (auto simp: Logout_def same_def split: sum.splits prod.splits if_splits) (metis same_def)+
qed

lemma register_cases:
  assumes "Register s e cmd r = (r', res)"
  obtains "r' = r"
  | u r1 q where "u_ID u = ce_userID e" "u_Role u = NormalizeRole (NormalizeRole (rc_Role cmd))"
      "rp_CreateUser (sv_repo s) (ce_repo e 0) u r = (r1, q)" "r' = r1 \<or> (\<exists>res. issue s e 1 u r1 = (r', res))"
proof -
  obtain out where out: "check (ValidateEmail (sv_lib s) (NormalizeEmail (rc_Email cmd)))
        (check (ValidatePassword (rc_Password cmd)) (check (ValidateDisplayName (TrimSpace (rc_DisplayName cmd)))
        (rbind (Hash (ce_bcrypt e) (rc_Password cmd)) (\<lambda>hash. NewUser (sv_lib s) (ce_userID e)
          (NormalizeEmail (rc_Email cmd)) (TrimSpace (rc_DisplayName cmd)) (NormalizeRole (rc_Role cmd))
          hash (ce_userNow e))))) = out" by blast
  show thesis
  proof (cases out)
    case (Inl err)
    then show thesis using assms that(1) by (simp add: Register_def Let_def out)
  next
    case (Inr u)
    obtain r1 q where create: "rp_CreateUser (sv_repo s) (ce_repo e 0) u r = (r1, q)" by (metis prod.collapse)
    have "u_ID u = ce_userID e" "u_Role u = NormalizeRole (NormalizeRole (rc_Role cmd))"
      using out Inr by (auto simp: check_Inr_iff rbind_Inr_iff NewUser_def Let_def split: if_splits)
    moreover have "r' = r1 \<or> (\<exists>res. issue s e 1 u r1 = (r', res))"
      using assms by (cases q) (auto simp: Register_def Let_def out Inr create)
    ultimately show thesis using that(2) create by blast
  qed
qed

lemma register_roles:
  assumes "inv r" "sv_repo s = repo" "Register s e cmd r = (r', res)"
  shows "inv r' \<and> (role r' = role r \<or>
    role r' = (role r)(ce_userID e \<mapsto> NormalizeRole (NormalizeRole (NormalizeRole (rc_Role cmd)))))"
  using assms(3)
proof (cases rule: register_cases)
  case (2 u r1 q)
  then have r1: "inv r1 \<and> (role r1 = role r \<or> role r1 = (role r)(u_ID u \<mapsto> NormalizeRole (u_Role u)))"
    using create_user [OF assms(1)] assms(2) by metis
  then have "same r1 r'" using 2 issue_same [OF _ assms(2), of r1] by (auto simp: same_def)
  then show ?thesis using r1 2 by (auto simp: same_def)
qed (use assms in simp)

lemma login_same:
  assumes "inv r" "sv_repo s = repo" "Login s e a p (g, r) = ((g', r'), res)"
  shows "same r r'"
  using assms(3) issue_same [OF assms(1,2)] assms(1)
  by (auto simp: Login_def Let_def same_def split: prod.splits if_splits sum.splits)

lemma update_roles:
  assumes "inv r" "sv_repo s = repo" "UpdateUserRole s e k cmd r = (r', res)"
  shows "inv r' \<and> (role r' = role r \<or>
    role r' = (role r)(TrimSpace (ur_TargetUserID cmd) \<mapsto> NormalizeRole (NormalizeRole (ur_Role cmd))) \<and>
    (\<exists>old. role r (TrimSpace (ur_ActorUserID cmd)) = Some old \<and> CanAdmin old))"
proof (cases "r' = r")
  case False
  then obtain actor event q where actor: "rp_FindUserByID repo (ce_repo e k) (TrimSpace (ur_ActorUserID cmd)) r = Inr actor"
      "CanAdmin (u_Role actor)"
    and upd: "rp_UpdateUserRoleWithAudit repo (ce_repo e (k + 1)) (TrimSpace (ur_TargetUserID cmd))
        (NormalizeRole (ur_Role cmd)) event r = (r', q)"
    using assms(2,3)
    by (auto simp: UpdateUserRole_def Let_def split: if_splits option.splits sum.splits prod.splits)
  then show ?thesis
    using update_role [OF assms(1) upd] find_by_id [OF assms(1) actor(1)] by auto
qed (use assms in simp)

text \<open>Every request keeps the invariant and, unless it registers a user or changes a role, the roles.\<close>

lemma request_cases:
  assumes "inv r" "sv_repo s = repo" "NewHTTPHandler s e x h request (g, r) = ((g', r'), resp)"
  obtains "same r r'"
  | b req res where "request = PostRegister b" "Register s e \<lparr>rc_Email = rq_Email (req :: registerRequest),
      rc_Password = rq_Password req, rc_DisplayName = rq_DisplayName req, rc_Role = ''''\<rparr> r = (r', res)"
  | userID b token r1 user role' res where "request = PatchRole userID b" "BearerToken (q_Authorization h) = Some token"
      "CurrentUser s e token r = (r1, Inr user)"
      "UpdateUserRole s e 2 \<lparr>ur_ActorUserID = pu_ID user, ur_TargetUserID = userID,
          ur_Role = NormalizeRole role'\<rparr> r1 = (r', res)"
proof (cases request)
  case (PostRegister body)
  then show thesis
    using assms(1,3) that(1,2) by (auto simp: NewHTTPHandler_def register_handler_def same_def
        split: sum.splits prod.splits)
next
  case (PostLogin body)
  then show thesis
    using assms(1,3) that(1) login_same [OF assms(1,2)]
    by (auto simp: NewHTTPHandler_def login_handler_def same_def split: sum.splits prod.splits)
next
  case PostRefresh
  then show thesis
    using assms(1,3) that(1) refresh_same [OF assms(1,2)]
    by (auto simp: NewHTTPHandler_def refresh_handler_def same_def
        split: option.splits sum.splits prod.splits if_splits)
next
  case GetMe
  then show thesis
    using assms(1,3) that(1) current_same [OF assms(1,2)]
    by (auto simp: NewHTTPHandler_def me_handler_def same_def split: option.splits sum.splits prod.splits)
next
  case PostLogout
  have "same r r'"
    using assms(1,3) PostLogout logout_same [OF assms(1,2)] logout_refresh_same [OF _ assms(2)]
    by (auto simp: NewHTTPHandler_def logout_handler_def Let_def same_def
        split: option.splits sum.splits prod.splits if_splits) metis+
  then show thesis by (rule that(1))
next
  case (PatchRole userID body)
  show thesis
    using assms(1,3) PatchRole that(1,3) current_same [OF assms(1,2)]
    by (auto simp: NewHTTPHandler_def updateRole_handler_def same_def
        split: option.splits sum.splits prod.splits)
qed

lemma request_inv:
  assumes "inv r" "sv_repo s = repo" "NewHTTPHandler s e x h request (g, r) = ((g', r'), resp)"
  shows "inv r'"
  using assms
proof (cases rule: request_cases)
  case (3 userID b token r1 user role' res)
  then show ?thesis using current_same [OF assms(1,2)] update_roles [OF _ assms(2)] by (metis same_def)
qed (use register_roles [OF assms(1,2)] in \<open>auto simp: same_def\<close>)

text \<open>A request that was not a role change by an administrator makes nobody an administrator.\<close>

lemma request_roles:
  assumes "inv r" "sv_repo s = repo" "NewHTTPHandler s e x h request (g, r) = ((g', r'), resp)"
    and "\<And>old. role r i = Some old \<Longrightarrow> \<not> CanAdmin old" and "role r' i = Some new" and "CanAdmin new"
  shows "\<exists>userID body token claims actor. request = PatchRole userID body \<and> i = TrimSpace userID \<and>
    BearerToken (q_Authorization h) = Some token \<and>
    Verify (al_jwt (sv_lib s)) (sv_tokens s) (ce_tokenNow e) token = Inr claims \<and>
    role r (TrimSpace (cl_UserID claims)) = Some actor \<and> CanAdmin actor"
  using assms(1-3)
proof (cases rule: request_cases)
  case 1
  then show ?thesis using assms(4-6) by (simp add: same_def)
next
  case (2 b req res)
  from register_roles [OF assms(1,2) 2(2)] show ?thesis using assms(4-6) by (auto split: if_splits)
next
  case (3 userID b token r1 user role' res)
  have r1: "inv r1" "role r1 = role r" using current_same [OF assms(1,2) 3(3)] by (auto simp: same_def)
  from 3(3) obtain claims where "Verify (al_jwt (sv_lib s)) (sv_tokens s) (ce_tokenNow e) token = Inr claims"
    and "pu_ID user = cl_UserID claims"
    using find_by_id [of r1] r1(1) assms(2)
    by (auto simp: CurrentUser_def Public_def split: sum.splits prod.splits if_splits)
  then show ?thesis
    using update_roles [OF r1(1) assms(2) 3(4)] assms(4-6) 3(1,2) r1(2) by (auto split: if_splits)
qed

end

section \<open>The repositories\<close>

definition ids_ok :: "(string, User) gomap \<Rightarrow> bool" where
  "ids_ok users \<longleftrightarrow> (\<forall>i u. map_of users i = Some u \<longrightarrow> u_ID u = i)"

lemma ids_ok_put: "ids_ok users \<Longrightarrow> u_ID u = i \<Longrightarrow> ids_ok (mput i u users)"
  by (simp add: ids_ok_def)

definition mem_role :: "AuthMemory \<Rightarrow> string \<Rightarrow> Role option" where
  "mem_role r i = map_option u_Role (map_of (am_usersByID r) i)"

lemma mem_locked_roles:
  "ids_ok (am_usersByID r) \<Longrightarrow> updateUserRoleLocked x i new r = (r', res) \<Longrightarrow>
     ids_ok (am_usersByID r') \<and> (mem_role r' = mem_role r \<or> mem_role r' = (mem_role r)(i \<mapsto> NormalizeRole new))"
  by (auto simp: updateUserRoleLocked_def mem_role_def fun_eq_iff Let_def split: option.splits
      intro!: ids_ok_put) (auto simp: ids_ok_def)

interpretation mem_users: user_store memoryRepo "\<lambda>r. ids_ok (am_usersByID r)" mem_role
proof
  fix r x u r' res
  assume "ids_ok (am_usersByID r)" "rp_CreateUser memoryRepo x u r = (r', res)"
  then show "ids_ok (am_usersByID r') \<and>
      (mem_role r' = mem_role r \<or> mem_role r' = (mem_role r)(u_ID u \<mapsto> NormalizeRole (u_Role u)))"
    by (auto simp: memoryRepo_def memCreateUser_def mem_role_def fun_eq_iff Let_def ids_ok_put split: if_splits)
next
  fix r x i u
  assume "ids_ok (am_usersByID r)" "rp_FindUserByID memoryRepo x i r = Inr u"
  then show "u_ID u = i \<and> mem_role r i \<noteq> None \<and> (CanAdmin (u_Role u) \<longleftrightarrow> CanAdmin (the (mem_role r i)))"
    by (auto simp: memoryRepo_def memFindUserByID_def mem_role_def ids_ok_def split: option.splits)
next
  fix r x i new event r' z
  assume inv: "ids_ok (am_usersByID r)" and run: "rp_UpdateUserRoleWithAudit memoryRepo x i new event r = (r', z)"
  obtain r1 q where lock: "updateUserRoleLocked x i new r = (r1, q)" by (metis prod.collapse)
  have "am_usersByID r' = am_usersByID r1"
    using run by (auto simp: memoryRepo_def memUpdateUserRoleWithAudit_def lock split: sum.splits)
  then show "ids_ok (am_usersByID r') \<and>
      (mem_role r' = mem_role r \<or> mem_role r' = (mem_role r)(i \<mapsto> NormalizeRole new))"
    using mem_locked_roles [OF inv lock] by (simp add: mem_role_def [abs_def])
qed (auto simp: memoryRepo_def memRevokeToken_def memIsTokenRevoked_def memCreateRefreshSession_def
    memRotateRefreshSession_def memRevokeRefreshSession_def revokeRefreshFamilyLocked_def mem_role_def fun_eq_iff
    Let_def split: option.splits if_splits)

lemma in_tx_result:
  "in_tx e m fs c d = (d', r) \<Longrightarrow> d' = d \<or> (\<exists>a gs. m (tl fs) d = (Inr a, gs, d'))"
  by (auto simp: in_tx_def split: if_splits prod.splits sum.splits commit_outcome.splits)

definition known_roles :: "(string, User) gomap \<Rightarrow> bool" where
  "known_roles users \<longleftrightarrow> (\<forall>i u. map_of users i = Some u \<longrightarrow> u_Role u \<in> {RoleUser, RoleOrganizer, RoleAdmin})"

definition users_ok :: "AuthDB \<Rightarrow> bool" where
  "users_ok d \<longleftrightarrow> ids_ok (ad_users d) \<and> known_roles (ad_users d)"

definition pg_role :: "AuthDB \<Rightarrow> string \<Rightarrow> Role option" where
  "pg_role d i = map_option u_Role (map_of (ad_users d) i)"

lemma users_ok_put:
  "users_ok d \<Longrightarrow> u_ID u = i \<Longrightarrow> u_Role u \<in> {RoleUser, RoleOrganizer, RoleAdmin} \<Longrightarrow>
     users_ok (d\<lparr>ad_users := mput i u (ad_users d)\<rparr>)"
  by (simp add: users_ok_def ids_ok_def known_roles_def)

lemma insertUser_state:
  "insertUser u fs d = (Inr a, gs, d') \<Longrightarrow> u_Role u \<in> {RoleUser, RoleOrganizer, RoleAdmin} \<and>
     (\<exists>v. d' = d\<lparr>ad_users := mput (u_ID u) v (ad_users d)\<rparr> \<and> u_ID v = u_ID u \<and> u_Role v = u_Role u)"
  by (auto simp: insertUser_def split: if_splits)

lemma updateRoleRow_state:
  "updateRoleRow now i new fs d = (Inr a, gs, d') \<Longrightarrow> d' = d \<or>
     NormalizeRole new \<in> {RoleUser, RoleOrganizer, RoleAdmin} \<and>
     (\<exists>old v. map_of (ad_users d) i = Some old \<and> d' = d\<lparr>ad_users := mput i v (ad_users d)\<rparr> \<and>
        u_ID v = u_ID old \<and> u_Role v = NormalizeRole new)"
  by (auto simp: updateRoleRow_def Let_def split: if_splits option.splits)

lemma users_unchanged:
  "insertAuthAuditEvent event fs d = (q, gs, d') \<Longrightarrow> ad_users d' = ad_users d"
  "insertRefresh session fs d = (q, gs, d') \<Longrightarrow> ad_users d' = ad_users d"
  "revokeRefreshFamilyTx f now fs d = (q, gs, d') \<Longrightarrow> ad_users d' = ad_users d"
  "replaceRefresh old now new fs d = (q, gs, d') \<Longrightarrow> ad_users d' = ad_users d"
  "refreshSessionForUpdate h fs d = (w, gs, d') \<Longrightarrow> ad_users d' = ad_users d"
  by (auto simp: insertAuthAuditEvent_def insertRefresh_def revokeRefreshFamilyTx_def replaceRefresh_def
      refreshSessionForUpdate_def tx_exec_def tx_bind_def tx_query_def tx_return_def tx_fail_def
      split: if_splits option.splits prod.splits sum.splits)

lemma rotateTx_users: "rotateTx old new expiry now fs d = (w, gs, d') \<Longrightarrow> ad_users d' = ad_users d"
  by (auto simp: rotateTx_def tx_bind_def tx_return_def tx_fail_def Let_def dest!: users_unchanged
      split: if_splits prod.splits sum.splits)

lemma pg_role_eq: "ad_users d' = ad_users d \<Longrightarrow> users_ok d \<Longrightarrow> users_ok d' \<and> pg_role d' = pg_role d"
  by (simp add: users_ok_def pg_role_def [abs_def])

lemma pg_create_user:
  assumes inv: "users_ok r" and "rp_CreateUser postgresRepo x u r = (r', res)"
  shows "users_ok r' \<and>
      (pg_role r' = pg_role r \<or> pg_role r' = (pg_role r)(u_ID u \<mapsto> NormalizeRole (u_Role u)))"
proof -
  have "in_tx ErrAuthStore (insertUser (u\<lparr>u_Email := NormalizeEmail (u_Email u)\<rparr>)) (pc_faults x) (pc_commit x) r = (r', res)"
    using assms(2) by (simp add: postgresRepo_def pgCreateUser_def pg_tx_def)
  from in_tx_result [OF this] show ?thesis
  proof (elim disjE exE)
    fix a gs
    assume "insertUser (u\<lparr>u_Email := NormalizeEmail (u_Email u)\<rparr>) (tl (pc_faults x)) r = (Inr a, gs, r')"
    from insertUser_state [OF this] obtain v where "u_Role u \<in> {RoleUser, RoleOrganizer, RoleAdmin}"
      "r' = r\<lparr>ad_users := mput (u_ID u) v (ad_users r)\<rparr>" "u_ID v = u_ID u" "u_Role v = u_Role u" by auto
    then show ?thesis
      using users_ok_put [OF inv, of v "u_ID u"] by (auto simp: pg_role_def fun_eq_iff)
  qed (use inv in simp)
qed

lemma pg_find_user:
  assumes inv: "users_ok r" and run: "rp_FindUserByID postgresRepo x i r = Inr u"
  shows "u_ID u = i \<and> pg_role r i \<noteq> None \<and> (CanAdmin (u_Role u) \<longleftrightarrow> CanAdmin (the (pg_role r i)))"
proof -
  obtain v where v: "map_of (ad_users r) i = Some v" "u = v\<lparr>u_Role := NormalizeRole (u_Role v)\<rparr>"
    using run
    by (auto simp: postgresRepo_def pgFindUserByID_def pg_tx_def in_tx_def tx_bind_def tx_query_def scanUser_def
        tx_fail_def tx_return_def split: if_splits option.splits prod.splits sum.splits commit_outcome.splits)
  then have "u_ID v = i" "u_Role v \<in> {RoleUser, RoleOrganizer, RoleAdmin}"
    using inv by (auto simp: users_ok_def ids_ok_def known_roles_def)
  then show ?thesis
    using v by (auto simp: pg_role_def)
qed

lemma pg_update_role:
  assumes inv: "users_ok r" and "rp_UpdateUserRoleWithAudit postgresRepo x i new event r = (r', z)"
  shows "users_ok r' \<and> (pg_role r' = pg_role r \<or> pg_role r' = (pg_role r)(i \<mapsto> NormalizeRole new))"
proof -
  have "in_tx ErrAuthStore (tx_bind (tx_bind (updateRoleRow (pc_dbNow x) i new) scanUser) (\<lambda>updated.
      tx_bind (insertAuthAuditEvent event) (\<lambda>_. tx_return updated))) (pc_faults x) (pc_commit x) r = (r', z)"
    using assms(2) by (simp add: postgresRepo_def pgUpdateUserRoleWithAudit_def pg_tx_def)
  from in_tx_result [OF this] show ?thesis
  proof (elim disjE exE)
    fix a gs
    assume "tx_bind (tx_bind (updateRoleRow (pc_dbNow x) i new) scanUser) (\<lambda>updated.
      tx_bind (insertAuthAuditEvent event) (\<lambda>_. tx_return updated)) (tl (pc_faults x)) r = (Inr a, gs, r')"
    then obtain b hs d1 where row: "updateRoleRow (pc_dbNow x) i new (tl (pc_faults x)) r = (Inr b, hs, d1)"
      and "ad_users r' = ad_users d1"
      by (auto simp: tx_bind_def scanUser_def tx_fail_def tx_return_def dest!: users_unchanged
          split: prod.splits sum.splits option.splits)
    moreover have "users_ok d1 \<and> (pg_role d1 = pg_role r \<or> pg_role d1 = (pg_role r)(i \<mapsto> NormalizeRole new))"
      using updateRoleRow_state [OF row]
    proof (elim disjE conjE exE)
      fix old v
      assume *: "NormalizeRole new \<in> {RoleUser, RoleOrganizer, RoleAdmin}" "map_of (ad_users r) i = Some old"
        "d1 = r\<lparr>ad_users := mput i v (ad_users r)\<rparr>" "u_ID v = u_ID old" "u_Role v = NormalizeRole new"
      then have "u_ID v = i" using inv by (simp add: users_ok_def ids_ok_def)
      then show ?thesis using * users_ok_put [OF inv, of v i] by (auto simp: pg_role_def fun_eq_iff)
    qed (use inv in simp)
    ultimately show ?thesis using pg_role_eq by metis
  qed (use inv in simp)
qed

interpretation pg_users: user_store postgresRepo users_ok pg_role
proof
  fix r x u r' res
  assume "users_ok r" "rp_CreateUser postgresRepo x u r = (r', res)"
  then show "users_ok r' \<and> (pg_role r' = pg_role r \<or> pg_role r' = (pg_role r)(u_ID u \<mapsto> NormalizeRole (u_Role u)))"
    by (rule pg_create_user)
next
  fix r x i u
  assume "users_ok r" "rp_FindUserByID postgresRepo x i r = Inr u"
  then show "u_ID u = i \<and> pg_role r i \<noteq> None \<and> (CanAdmin (u_Role u) \<longleftrightarrow> CanAdmin (the (pg_role r i)))"
    by (rule pg_find_user)
next
  fix r x i new event r' z
  assume "users_ok r" "rp_UpdateUserRoleWithAudit postgresRepo x i new event r = (r', z)"
  then show "users_ok r' \<and> (pg_role r' = pg_role r \<or> pg_role r' = (pg_role r)(i \<mapsto> NormalizeRole new))"
    by (rule pg_update_role)
next
  fix r x tokenID userID expiresAt r' q
  assume inv: "users_ok r" and "rp_RevokeToken postgresRepo x tokenID userID expiresAt r = (r', q)"
  then have "ad_users r' = ad_users r"
    by (auto simp: postgresRepo_def pgRevokeToken_def pg_tx_def tx_exec_def dest!: in_tx_result split: if_splits)
  then show "users_ok r' \<and> pg_role r' = pg_role r" using inv by (rule pg_role_eq)
next
  fix r x tokenID r' v
  assume "users_ok r" "rp_IsTokenRevoked postgresRepo x tokenID r = (r', v)"
  then show "users_ok r' \<and> pg_role r' = pg_role r" by (auto simp: postgresRepo_def pgIsTokenRevoked_def)
next
  fix r x session r' q
  assume inv: "users_ok r" and "rp_CreateRefreshSession postgresRepo x session r = (r', q)"
  then have "ad_users r' = ad_users r"
    by (auto simp: postgresRepo_def pgCreateRefreshSession_def pg_tx_def dest!: in_tx_result users_unchanged)
  then show "users_ok r' \<and> pg_role r' = pg_role r" using inv by (rule pg_role_eq)
next
  fix r x old new expiry now r' w
  assume inv: "users_ok r" and run: "rp_RotateRefreshSession postgresRepo x old new expiry now r = (r', w)"
  obtain res where "pg_tx (rotateTx old new expiry now) x r = (r', res)"
    using run by (auto simp: postgresRepo_def pgRotateRefreshSession_def split: prod.splits sum.splits option.splits)
  then have "ad_users r' = ad_users r"
    by (auto simp: pg_tx_def dest!: in_tx_result rotateTx_users)
  then show "users_ok r' \<and> pg_role r' = pg_role r" using inv by (rule pg_role_eq)
next
  fix r x hash now r' q
  assume inv: "users_ok r" and run: "rp_RevokeRefreshSession postgresRepo x hash now r = (r', q)"
  obtain res where "pg_tx (tx_bind (refreshSessionForUpdate hash) (\<lambda>(current, _).
      revokeRefreshFamilyTx (rs_FamilyID current) now)) x r = (r', res)"
    using run by (auto simp: postgresRepo_def pgRevokeRefreshSession_def split: prod.splits sum.splits if_splits)
  then have "ad_users r' = ad_users r"
    by (auto simp: pg_tx_def tx_bind_def dest!: in_tx_result users_unchanged split: prod.splits sum.splits)
  then show "users_ok r' \<and> pg_role r' = pg_role r" using inv by (rule pg_role_eq)
qed

text \<open>The cache passes every operation on users to the repository.\<close>

lemma cached_user_store:
  assumes "user_store repo good rl"
  shows "user_store (WithRevocationCache client repo) (\<lambda>st. good (fst st)) (\<lambda>st. rl (fst st))"
proof -
  note defs = WithRevocationCache_def on_repo_def cachedRevokeToken_def cachedIsTokenRevoked_def Let_def
  show ?thesis
  proof
    fix r x u r' res
    assume "good (fst r)" "rp_CreateUser (WithRevocationCache client repo) x u r = (r', res)"
    then show "good (fst r') \<and> (rl (fst r') = rl (fst r) \<or>
        rl (fst r') = (rl (fst r))(u_ID u \<mapsto> NormalizeRole (u_Role u)))"
      using user_store.create_user [OF assms, of "fst r" "cx_repo x" u "fst r'" res] by (auto simp: defs split: prod.splits)
  next
    fix r x i u
    assume "good (fst r)" "rp_FindUserByID (WithRevocationCache client repo) x i r = Inr u"
    then show "u_ID u = i \<and> rl (fst r) i \<noteq> None \<and> (CanAdmin (u_Role u) \<longleftrightarrow> CanAdmin (the (rl (fst r) i)))"
      using user_store.find_by_id [OF assms] by (auto simp: defs)
  next
    fix r x i new event r' z
    assume "good (fst r)" "rp_UpdateUserRoleWithAudit (WithRevocationCache client repo) x i new event r = (r', z)"
    then show "good (fst r') \<and> (rl (fst r') = rl (fst r) \<or> rl (fst r') = (rl (fst r))(i \<mapsto> NormalizeRole new))"
      using user_store.update_role [OF assms, of "fst r" "cx_repo x" i new event "fst r'" z] by (auto simp: defs split: prod.splits)
  next
    fix r x tokenID userID expiresAt r' q
    assume "good (fst r)" "rp_RevokeToken (WithRevocationCache client repo) x tokenID userID expiresAt r = (r', q)"
    then show "good (fst r') \<and> rl (fst r') = rl (fst r)"
      using user_store.revoke_token [OF assms] by (auto simp: defs split: prod.splits sum.splits)
  next
    fix r x tokenID r' v
    assume "good (fst r)" "rp_IsTokenRevoked (WithRevocationCache client repo) x tokenID r = (r', v)"
    then show "good (fst r') \<and> rl (fst r') = rl (fst r)"
      using user_store.is_revoked [OF assms] by (auto simp: defs split: prod.splits sum.splits if_splits)
  next
    fix r x session r' q
    assume "good (fst r)" "rp_CreateRefreshSession (WithRevocationCache client repo) x session r = (r', q)"
    then show "good (fst r') \<and> rl (fst r') = rl (fst r)"
      using user_store.create_session [OF assms] by (auto simp: defs split: prod.splits)
  next
    fix r x old new expiry now r' w
    assume "good (fst r)" "rp_RotateRefreshSession (WithRevocationCache client repo) x old new expiry now r = (r', w)"
    then show "good (fst r') \<and> rl (fst r') = rl (fst r)"
      using user_store.rotate_session [OF assms] by (auto simp: defs split: prod.splits)
  next
    fix r x hash now r' q
    assume "good (fst r)" "rp_RevokeRefreshSession (WithRevocationCache client repo) x hash now r = (r', q)"
    then show "good (fst r') \<and> rl (fst r') = rl (fst r)"
      using user_store.revoke_session [OF assms] by (auto simp: defs split: prod.splits)
  qed
qed

interpretation cached_users: user_store "WithRevocationCache client postgresRepo"
  "\<lambda>st. users_ok (fst st)" "\<lambda>st. pg_role (fst st)" for client
  by (rule cached_user_store) (rule pg_users.user_store_axioms)

end
