(* ===== verification/AuthProps.thy ===== *)
theory AuthProps
  imports AuthRoles
begin

text \<open>
  What the authentication service promises to whoever runs it on Postgres with a revocation cache.
\<close>

section \<open>Roles\<close>

text \<open>
  C31. Nobody becomes an administrator but by an administrator: a request to the service on Postgres,
  with or without the revocation cache and under any faults of database and cache, that turns user
  \<open>i\<close> into an administrator is the role change of \<open>i\<close>, with an access token that verifies and whose
  user was an administrator before the request. Registration, login, refresh and logout never do it.
\<close>

theorem only_admins_make_admins:
  assumes "users_ok (fst db)" and "sv_repo s = WithRevocationCache client postgresRepo"
    and "NewHTTPHandler s e x h request (g, db) = ((g', db'), resp)"
    and "\<And>old. pg_role (fst db) i = Some old \<Longrightarrow> \<not> CanAdmin old"
    and "pg_role (fst db') i = Some new" and "CanAdmin new"
  shows "users_ok (fst db') \<and>
    (\<exists>userID body token claims actor. request = PatchRole userID body \<and> i = TrimSpace userID \<and>
      BearerToken (q_Authorization h) = Some token \<and>
      Verify (al_jwt (sv_lib s)) (sv_tokens s) (ce_tokenNow e) token = Inr claims \<and>
      pg_role (fst db) (TrimSpace (cl_UserID claims)) = Some actor \<and> CanAdmin actor)"
  using cached_users.request_roles [OF assms] cached_users.request_inv [OF assms(1-3)] by blast

section \<open>An instance\<close>

text \<open>A service on a database with an administrator \<open>u1\<close> and a user \<open>u2\<close>, the cache out of reach.\<close>

definition ex_user :: "string \<Rightarrow> Role \<Rightarrow> User" where
  "ex_user i role = \<lparr>u_ID = i, u_Email = i @ ''@b.c'', u_DisplayName = ''n'', u_Role = role,
     u_PasswordHash = ''h'', u_CreatedAt = 0, u_UpdatedAt = 0\<rparr>"

definition ex_auth_db :: AuthDB where
  "ex_auth_db = \<lparr>ad_users = [(''u1'', ex_user ''u1'' RoleAdmin), (''u2'', ex_user ''u2'' RoleUser)],
     ad_revoked = [], ad_refresh = [], ad_audit = []\<rparr>"

definition ex_redis :: "(unit, unit) RedisClient" where
  "ex_redis = \<lparr>rd_Set = (\<lambda>_ _ _ c. (c, False)), rd_Exists = (\<lambda>_ _ _. None)\<rparr>"

definition ex_lib :: AuthLib where
  "ex_lib = \<lparr>al_parseAddress = Some, al_bcryptVerify = (\<lambda>h p. h = p), al_sha256 = (\<lambda>s. s), al_jwt = ex_jwt\<rparr>"

definition ex_service :: "((unit, PgCall) CachedCall, AuthDB \<times> unit) Service" where
  "ex_service = \<lparr>sv_repo = WithRevocationCache ex_redis postgresRepo, sv_lib = ex_lib,
     sv_tokens = ex_manager, sv_refreshTokenTTL = 720 * hour\<rparr>"

definition ex_call :: "(unit, PgCall) CachedCall CallEnv" where
  "ex_call = \<lparr>ce_now = 10 * second, ce_userNow = 10 * second, ce_tokenNow = 10 * second,
     ce_allowNow = 10 * second, ce_failNow = 10 * second, ce_userID = ''u3'', ce_familyID = ''f1'',
     ce_auditID = ''e1'', ce_jti = ''t2'', ce_random = Some ''r'', ce_bcrypt = Some, ce_correlationID = '''',
     ce_repo = (\<lambda>_. \<lparr>cx_repo = \<lparr>pc_dbNow = 10 * second, pc_faults = [], pc_commit = Committed\<rparr>,
        cx_exists = (), cx_set = (), cx_clock = 10 * second, cx_now = 10 * second\<rparr>)\<rparr>"

definition ex_headers :: AuthHeaders where
  "ex_headers = \<lparr>q_Authorization = ''Bearer '' @ fst (Sign ex_jwt ex_manager (5 * second) ''t1'' ex_subject),
     q_refreshCookie = None, q_csrfCookie = None, q_csrfHeader = ''''\<rparr>"

definition ex_http :: HttpEnv where
  "ex_http = \<lparr>hx_now = 10 * second, hx_csrfBytes = ''b'', hx_cookieSecure = True\<rparr>"

lemma ex_auth_users: "users_ok (fst (ex_auth_db, ()))"
  by (simp add: users_ok_def ids_ok_def known_roles_def ex_auth_db_def ex_user_def)

lemmas pg_eval = postgresRepo_def WithRevocationCache_def pg_tx_def in_tx_def faulty_def tx_bind_def tx_query_def
  tx_return_def tx_fail_def tx_exec_def scanUser_def on_repo_def

lemma ex_current:
  "CurrentUser ex_service ex_call (fst (Sign ex_jwt ex_manager (5 * second) ''t1'' ex_subject)) (ex_auth_db, ()) =
     ((ex_auth_db, ()), Inr (Public (ex_user ''u1'' RoleAdmin)))"
  by (simp add: CurrentUser_def ex_service_def ex_lib_def ex_call_def ex_verifies)
    (simp add: pg_eval cachedIsTokenRevoked_def IsRevoked_def ex_redis_def ex_claims_def pgIsTokenRevoked_def
      ex_auth_db_def pgFindUserByID_def ex_user_def)

lemma ex_headers_bearer:
  "BearerToken (q_Authorization ex_headers) = Some (fst (Sign ex_jwt ex_manager (5 * second) ''t1'' ex_subject))"
  unfolding ex_headers_def AuthHeaders.simps by (rule ex_bearer)

lemma ex_role_change:
  assumes "pc_faults x = []" and "pc_commit x = Committed"
  shows "\<exists>db'. pgUpdateUserRoleWithAudit x ''u2'' RoleAdmin event ex_auth_db =
     (db', Inr ((ex_user ''u2'' RoleAdmin)\<lparr>u_UpdatedAt := pc_dbNow x\<rparr>)) \<and> pg_role db' ''u2'' = Some RoleAdmin"
  using assms by (simp add: pgUpdateUserRoleWithAudit_def pg_eval updateRoleRow_def insertAuthAuditEvent_def
    ex_auth_db_def ex_user_def pg_role_def Let_def)

lemma ex_find: "pc_faults x = [] \<Longrightarrow> pc_commit x = Committed \<Longrightarrow>
    pgFindUserByID x ''u1'' ex_auth_db = Inr (ex_user ''u1'' RoleAdmin)"
  by (simp add: pgFindUserByID_def pg_eval ex_auth_db_def ex_user_def)

lemma ex_user_simps [simp]:
  "u_ID (ex_user i role) = i" "u_Role (ex_user i role) = role" "pu_ID (Public (ex_user i role)) = i"
  by (simp_all add: ex_user_def Public_def)

lemma ex_promote:
  "\<exists>db' user. NewHTTPHandler ex_service ex_call ex_http ex_headers (PatchRole ''u2'' (Inr ''ADMIN'')) (g, (ex_auth_db, ())) =
     ((g, db'), userOK user) \<and> pg_role (fst db') ''u2'' = Some RoleAdmin"
proof -
  have admin: "NormalizeRole ''ADMIN'' = RoleAdmin" "NormalizeRole RoleAdmin = RoleAdmin"
    using NormalizeRole_roles(3) by (simp_all add: RoleAdmin_def)
  have call: "pc_faults (cx_repo (ce_repo ex_call k)) = []" "pc_commit (cx_repo (ce_repo ex_call k)) = Committed" for k
    by (simp_all add: ex_call_def)
  obtain event where upd: "UpdateUserRole ex_service ex_call 2 \<lparr>ur_ActorUserID = ''u1'', ur_TargetUserID = ''u2'',
        ur_Role = RoleAdmin\<rparr> (ex_auth_db, ()) =
      (case (case pgUpdateUserRoleWithAudit (cx_repo (ce_repo ex_call 3)) ''u2'' RoleAdmin event ex_auth_db of
         (d, x) \<Rightarrow> ((d, ()), x)) of (d, Inl err) \<Rightarrow> (d, Inl err) | (d, Inr u) \<Rightarrow> (d, Inr (Public u)))"
    by (simp add: UpdateUserRole_def str_eval admin ValidateRole_def ex_service_def WithRevocationCache_def
        postgresRepo_def ex_find [OF call] on_repo_def Let_def)
  show ?thesis
    unfolding NewHTTPHandler_def auth_request.case updateRole_handler_def
    using ex_role_change [OF call, of 3 event]
    by (auto simp add: ex_headers_bearer ex_current admin upd)
qed

theorem only_admins_make_admins_witness:
  "\<exists>claims actor. Verify ex_jwt ex_manager (10 * second)
       (fst (Sign ex_jwt ex_manager (5 * second) ''t1'' ex_subject)) = Inr claims \<and>
     pg_role ex_auth_db (TrimSpace (cl_UserID claims)) = Some actor \<and> CanAdmin actor"
proof -
  obtain db' resp where run: "NewHTTPHandler ex_service ex_call ex_http ex_headers
      (PatchRole ''u2'' (Inr ''ADMIN'')) (NewLoginGuard 5 minute, (ex_auth_db, ())) = ((NewLoginGuard 5 minute, db'), resp)"
    and role: "pg_role (fst db') ''u2'' = Some RoleAdmin"
    using ex_promote by blast
  have repo: "sv_repo ex_service = WithRevocationCache ex_redis postgresRepo" by (simp add: ex_service_def)
  have old: "\<not> CanAdmin old" if "pg_role (fst (ex_auth_db, ())) ''u2'' = Some old" for old
    using that by (auto simp: pg_role_def ex_auth_db_def ex_user_def)
  from only_admins_make_admins [OF ex_auth_users repo run old role]
  show ?thesis by (auto simp: ex_headers_bearer ex_service_def ex_lib_def ex_call_def)
qed

end
