(* ===== verification/AuthSessions.thy ===== *)
theory AuthSessions imports AuthRoles begin

text \<open>
  Refresh sessions: the contract of a repository that keeps them, what the operations of the service
  do to the families of sessions, and the interpretations on the repositories of the code.
\<close>

section \<open>Families\<close>

text \<open>
  The abstract store: a token hash has a family and is live or not. A login opens a family, a refresh
  hands the life of the old hash to the new one, a logout or a replay ends the family.
\<close>

type_synonym sessions = "string \<rightharpoonup> string \<times> bool"

definition kill :: "string \<Rightarrow> sessions \<Rightarrow> sessions" where
  "kill f v h = (case v h of None \<Rightarrow> None | Some (f', live) \<Rightarrow> Some (f', live \<and> f' \<noteq> f))"

definition hand_over :: "string \<Rightarrow> string \<Rightarrow> string \<Rightarrow> sessions \<Rightarrow> sessions" where
  "hand_over f old new v = v(old \<mapsto> (f, False), new \<mapsto> (f, True))"

definition known_family :: "sessions \<Rightarrow> string \<Rightarrow> bool" where
  "known_family v f \<longleftrightarrow> (\<exists>h live. v h = Some (f, live))"

inductive session_step :: "sessions \<Rightarrow> sessions \<Rightarrow> bool" where
  same_sessions: "session_step v v"
| opened: "v h = None \<Longrightarrow> \<not> known_family v f \<Longrightarrow> session_step v (v(h \<mapsto> (f, True)))"
| handed_over: "v old = Some (f, True) \<Longrightarrow> v new = None \<Longrightarrow> session_step v (hand_over f old new v)"
| killed: "session_step v (kill f v)"

inductive_cases session_stepE: "session_step v v'"

definition one_live :: "sessions \<Rightarrow> bool" where
  "one_live v \<longleftrightarrow> (\<forall>f h h'. v h = Some (f, True) \<longrightarrow> v h' = Some (f, True) \<longrightarrow> h = h')"

definition dead_family :: "sessions \<Rightarrow> string \<Rightarrow> bool" where
  "dead_family v f \<longleftrightarrow> known_family v f \<and> (\<forall>h. v h \<noteq> Some (f, True))"

lemma kill_live [simp]: "kill f v h = Some (f', True) \<longleftrightarrow> v h = Some (f', True) \<and> f' \<noteq> f"
  by (auto simp: kill_def split: option.splits)

lemma kill_known [simp]: "known_family (kill f v) f' \<longleftrightarrow> known_family v f'"
proof -
  have "kill f v h = Some (f', live) \<longleftrightarrow> (\<exists>b. v h = Some (f', b) \<and> live = (b \<and> f' \<noteq> f))" for h live
    by (auto simp: kill_def split: option.splits)
  then show ?thesis by (auto simp: known_family_def)
qed

lemma one_live_step: "session_step v v' \<Longrightarrow> one_live v \<Longrightarrow> one_live v'"
  by (erule session_stepE) (auto simp: one_live_def hand_over_def known_family_def)

lemma dead_family_step: "session_step v v' \<Longrightarrow> dead_family v f \<Longrightarrow> dead_family v' f"
proof (erule session_stepE)
  assume dead: "dead_family v f"
  then obtain k live where k: "v k = Some (f, live)" by (auto simp: dead_family_def known_family_def)
  show "dead_family v' f" if v': "v' = v(h \<mapsto> (f', True))" "v h = None" "\<not> known_family v f'" for h f'
  proof -
    have "f' \<noteq> f" "k \<noteq> h" using v' k by (auto simp: known_family_def)
    then show ?thesis using v'(1) dead k by (auto simp: dead_family_def known_family_def)
  qed
  show "dead_family v' f" if v': "v' = hand_over f' old new v" "v old = Some (f', True)" "v new = None" for f' old new
  proof -
    have "f' \<noteq> f" "k \<noteq> old" "k \<noteq> new" using v' k dead by (auto simp: dead_family_def)
    then show ?thesis using v'(1) dead k by (auto simp: dead_family_def known_family_def hand_over_def)
  qed
qed (auto simp: dead_family_def)

lemma steps_keep: "session_step\<^sup>*\<^sup>* v v' \<Longrightarrow> (one_live v \<longrightarrow> one_live v') \<and> (dead_family v f \<longrightarrow> dead_family v' f)"
  by (induction rule: rtranclp_induct) (auto dest: one_live_step dead_family_step)

text \<open>The draws of a call are fresh: its token hash and its family are not in the store.\<close>

definition draws_fresh :: "('x, 'r) Service \<Rightarrow> 'x CallEnv \<Rightarrow> sessions \<Rightarrow> bool" where
  "draws_fresh s e v \<longleftrightarrow> \<not> known_family v (ce_familyID e) \<and>
     (case ce_random e of None \<Rightarrow> True
      | Some bytes \<Rightarrow> v (HashRefreshToken (sv_lib s) (b64_encode bytes)) = None)"

text \<open>Requests one after the other; \<open>view\<close> reads the sessions of a repository.\<close>

inductive auth_steps :: "('x, 'r) Service \<Rightarrow> ('r \<Rightarrow> sessions) \<Rightarrow> 'r auth_state \<Rightarrow> 'r auth_state \<Rightarrow> bool"
  for s view st where
  no_request: "auth_steps s view st st"
| next_request: "auth_steps s view st st1 \<Longrightarrow> draws_fresh s e (view (snd st1)) \<Longrightarrow>
    NewHTTPHandler s e x h request st1 = (st2, resp) \<Longrightarrow> auth_steps s view st st2"

section \<open>The contract\<close>

text \<open>
  \<open>usable\<close>: the session of a hash is unexpired and its user exists; \<open>healthy\<close>: nothing fails in a call.
\<close>

locale refresh_store =
  fixes repo :: "('x, 'r) Repository"
    and inv :: "'r \<Rightarrow> bool"
    and view :: "'r \<Rightarrow> sessions"
    and usable :: "'r \<Rightarrow> string \<Rightarrow> time \<Rightarrow> bool"
    and healthy :: "'x \<Rightarrow> bool"
  assumes keeps_user: "inv r \<Longrightarrow> rp_CreateUser repo x u r = (r', q) \<Longrightarrow> inv r' \<and> view r' = view r"
    and keeps_role: "inv r \<Longrightarrow> rp_UpdateUserRoleWithAudit repo x i new event r = (r', z) \<Longrightarrow>
      inv r' \<and> view r' = view r"
    and keeps_token: "inv r \<Longrightarrow> rp_RevokeToken repo x tokenID userID expiresAt r = (r', q) \<Longrightarrow>
      inv r' \<and> view r' = view r"
    and keeps_check: "inv r \<Longrightarrow> rp_IsTokenRevoked repo x tokenID r = (r', b) \<Longrightarrow> inv r' \<and> view r' = view r"
    and create: "inv r \<Longrightarrow> rp_CreateRefreshSession repo x s r = (r', q) \<Longrightarrow>
      rs_RevokedAt s = None \<Longrightarrow> rs_ReplacedByHash s = '''' \<Longrightarrow>
      inv r' \<and> (view r' = view r \<or> view r' = (view r)(rs_TokenHash s \<mapsto> (rs_FamilyID s, True)))"
    and rotate: "inv r \<Longrightarrow> rp_RotateRefreshSession repo x old new expiry now r = (r', w) \<Longrightarrow>
      inv r' \<and>
      (case w of
         Inr _ \<Rightarrow> \<exists>f. view r old = Some (f, True) \<and> view r' = hand_over f old new (view r)
       | Inl err \<Rightarrow>
           view r' = view r \<and> err \<noteq> ErrRefreshReuse \<or>
           (\<exists>f. view r old = Some (f, True) \<and> view r' = hand_over f old new (view r) \<and> err \<noteq> ErrRefreshReuse) \<or>
           (\<exists>f. view r old = Some (f, False) \<and> view r' = kill f (view r)))"
    and revoke: "inv r \<Longrightarrow> rp_RevokeRefreshSession repo x hash now r = (r', q) \<Longrightarrow>
      inv r' \<and>
      (case view r hash of
         None \<Rightarrow> view r' = view r
       | Some (f, _) \<Rightarrow> view r' = kill f (view r) \<or> view r' = view r \<and> q \<noteq> Inr ())"
    and reuse: "inv r \<Longrightarrow> healthy x \<Longrightarrow> view r old = Some (f, False) \<Longrightarrow> usable r old now \<Longrightarrow>
      rp_RotateRefreshSession repo x old new expiry now r = (r', w) \<Longrightarrow>
      w = Inl ErrRefreshReuse \<and> view r' = kill f (view r)"
begin

definition steps :: "'r \<Rightarrow> 'r \<Rightarrow> bool" where
  "steps r r' \<longleftrightarrow> inv r' \<and> session_step\<^sup>*\<^sup>* (view r) (view r')"

lemma steps_refl: "inv r \<Longrightarrow> steps r r" by (simp add: steps_def)

lemma steps_one: "inv r' \<Longrightarrow> session_step (view r) (view r') \<Longrightarrow> steps r r'"
  by (auto simp: steps_def)

lemma steps_trans: "steps r r1 \<Longrightarrow> steps r1 r2 \<Longrightarrow> steps r r2"
  by (auto simp: steps_def)

lemma issue_steps:
  assumes "inv r" "sv_repo s = repo" "draws_fresh s e (view r)" "issue s e k u r = (r', res)"
  shows "steps r r'"
proof (cases "ce_random e")
  case None
  then show ?thesis using assms by (simp add: issue_def NewRefreshToken_def Let_def steps_refl)
next
  case (Some bytes)
  obtain x q where run: "rp_CreateRefreshSession repo (ce_repo e k) x r = (r', q)"
    and x: "rs_RevokedAt x = None" "rs_ReplacedByHash x = ''''" "rs_FamilyID x = ce_familyID e"
      "rs_TokenHash x = HashRefreshToken (sv_lib s) (b64_encode bytes)"
    using assms(4) Some
    by (auto simp: issue_def NewRefreshToken_def Let_def assms(2) split: prod.splits sum.splits)
  show ?thesis
    using create [OF assms(1) run x(1,2)] x assms(3) Some
    by (auto simp: draws_fresh_def intro!: steps_one intro: session_step.intros)
qed

lemma refresh_steps:
  assumes "inv r" "sv_repo s = repo" "draws_fresh s e (view r)" "Refresh s e t r = (r', res)"
  shows "steps r r'"
proof (cases "r' = r")
  case False
  then obtain bytes w where random: "ce_random e = Some bytes"
    and run: "rp_RotateRefreshSession repo (ce_repo e 0) (HashRefreshToken (sv_lib s) (TrimSpace t))
       (HashRefreshToken (sv_lib s) (b64_encode bytes)) (ce_now e + sv_refreshTokenTTL s) (ce_now e) r = (r', w)"
    using assms(2,4)
    by (auto simp: Refresh_def NewRefreshToken_def Let_def split: if_splits option.splits prod.splits sum.splits)
  show ?thesis
    using rotate [OF assms(1) run] assms(3) random
    by (auto simp: draws_fresh_def split: sum.splits intro!: steps_one intro: session_step.intros)
qed (use assms in \<open>simp add: steps_refl\<close>)

lemma revoke_steps:
  assumes "inv r" "sv_repo s = repo" "LogoutRefresh s e k t r = (r', res)"
  shows "steps r r'"
proof (cases "TrimSpace t = ''''")
  case False
  then have "rp_RevokeRefreshSession repo (ce_repo e k) (HashRefreshToken (sv_lib s) (TrimSpace t)) (ce_now e) r = (r', res)"
    using assms by (simp add: LogoutRefresh_def Let_def)
  from revoke [OF assms(1) this] show ?thesis
    by (auto split: option.splits intro!: steps_one intro: session_step.intros)
qed (use assms in \<open>simp add: LogoutRefresh_def steps_refl\<close>)

lemma register_steps:
  assumes "inv r" "sv_repo s = repo" "draws_fresh s e (view r)" "Register s e cmd r = (r', res)"
  shows "steps r r'"
proof -
  have created: "steps r r1 \<and> (\<forall>res r2. issue s e 1 u r1 = (r2, res) \<longrightarrow> steps r r2)"
    if "rp_CreateUser repo x u r = (r1, q)" for x u r1 q
    using keeps_user [OF assms(1) that] issue_steps [OF _ assms(2)] assms(3)
    by (metis steps_def rtranclp.rtrancl_refl)
  show ?thesis
    using assms(1,2,4) created
    by (auto simp: Register_def Let_def steps_refl split: sum.splits prod.splits)
qed

lemma login_steps:
  assumes "inv r" "sv_repo s = repo" "draws_fresh s e (view r)" "Login s e a p (g, r) = ((g', r'), res)"
  shows "steps r r'"
  using assms(2,4) issue_steps [OF assms(1-3)] steps_refl [OF assms(1)]
  by (auto simp: Login_def Let_def split: prod.splits if_splits sum.splits)

lemma check_steps:
  "inv r \<Longrightarrow> sv_repo s = repo \<Longrightarrow> CurrentUser s e t r = (r', res) \<Longrightarrow> inv r' \<and> view r' = view r"
  using keeps_check by (auto simp: CurrentUser_def split: sum.splits prod.splits if_splits)

lemma role_steps:
  "inv r \<Longrightarrow> sv_repo s = repo \<Longrightarrow> UpdateUserRole s e k cmd r = (r', res) \<Longrightarrow> inv r' \<and> view r' = view r"
  using keeps_role
  by (auto simp: UpdateUserRole_def Let_def split: if_splits option.splits sum.splits prod.splits)

lemma logout_steps:
  assumes "inv r" "sv_repo s = repo" "Logout s e a t r = (r', res)"
  shows "steps r r'"
proof -
  have revoked: "steps r r1 \<and> (\<forall>k res r2. LogoutRefresh s e k t r1 = (r2, res) \<longrightarrow> steps r r2)"
    if "rp_RevokeToken repo x i u z r = (r1, q)" for x i u z r1 q
    using keeps_token [OF assms(1) that] revoke_steps [OF _ assms(2)]
    by (metis steps_def rtranclp.rtrancl_refl)
  show ?thesis
    using assms(3) revoked revoke_steps [OF assms(1,2)] steps_refl [OF assms(1)] assms(2)
    by (auto simp: Logout_def split: sum.splits prod.splits if_splits)
qed

lemma logout_request_steps:
  assumes "inv r" "sv_repo s = repo" "logout_handler s e x h (g, r) = ((g', r'), resp)"
  shows "steps r r'"
proof -
  have after: "steps r r2" if "Logout s e a t r = (r1, res1)" "LogoutRefresh s e k t' r1 = (r2, res2)" for a t r1 res1 k t' r2 res2
    using logout_steps [OF assms(1,2) that(1)] revoke_steps [OF _ assms(2) that(2)] steps_trans
    by (auto simp: steps_def)
  show ?thesis
    using assms(3) after logout_steps [OF assms(1,2)] revoke_steps [OF assms(1,2)] steps_refl [OF assms(1)]
    by (auto simp: logout_handler_def Let_def split: option.splits sum.splits prod.splits if_splits)
qed

lemma request_steps:
  assumes "inv r" "sv_repo s = repo" "draws_fresh s e (view r)"
    and "NewHTTPHandler s e x h request (g, r) = ((g', r'), resp)"
  shows "steps r r'"
proof (cases request)
  case (PostRegister body)
  then show ?thesis using assms(4) register_steps [OF assms(1-3)] steps_refl [OF assms(1)]
    by (auto simp: NewHTTPHandler_def register_handler_def split: sum.splits prod.splits)
next
  case (PostLogin body)
  then show ?thesis using assms(4) login_steps [OF assms(1-3)] steps_refl [OF assms(1)]
    by (auto simp: NewHTTPHandler_def login_handler_def split: sum.splits prod.splits)
next
  case PostRefresh
  then show ?thesis using assms(4) refresh_steps [OF assms(1-3)] steps_refl [OF assms(1)]
    by (auto simp: NewHTTPHandler_def refresh_handler_def split: option.splits sum.splits prod.splits if_splits)
next
  case GetMe
  then show ?thesis using assms(4) check_steps [OF assms(1,2)] steps_refl [OF assms(1)]
    by (auto simp: NewHTTPHandler_def me_handler_def steps_def split: option.splits sum.splits prod.splits)
next
  case PostLogout
  then show ?thesis using assms(4) logout_request_steps [OF assms(1,2)] by (simp add: NewHTTPHandler_def)
next
  case (PatchRole userID body)
  have "steps r r2" if "CurrentUser s e t r = (r1, q)" "UpdateUserRole s e k cmd r1 = (r2, res)" for t r1 q k cmd r2 res
    using check_steps [OF assms(1,2) that(1)] role_steps [OF _ assms(2) that(2)] by (simp add: steps_def)
  moreover have "steps r r1" if "CurrentUser s e t r = (r1, q)" for t r1 q
    using check_steps [OF assms(1,2) that] by (simp add: steps_def)
  ultimately show ?thesis using assms(4) PatchRole steps_refl [OF assms(1)]
    by (auto simp: NewHTTPHandler_def updateRole_handler_def split: option.splits sum.splits prod.splits)
qed

lemma requests_steps:
  assumes "auth_steps s view st st'" "inv (snd st)" "sv_repo s = repo"
  shows "steps (snd st) (snd st')"
  using assms(1)
proof induction
  case (next_request st1 e x h request st2 resp)
  then show ?case
    using request_steps [of "snd st1" s e x h request "fst st1" "fst st2" "snd st2" resp] assms(3) steps_trans
    by (auto simp: steps_def)
qed (rule steps_refl [OF assms(2)])

text \<open>A used token is refused, and its use ends the family.\<close>

lemma refresh_used:
  assumes "inv r" "sv_repo s = repo" "view r (HashRefreshToken (sv_lib s) (TrimSpace t)) = Some (f, False)"
    and "Refresh s e t r = (r', res)"
  shows "\<exists>err. res = Inl err"
  using assms(2-4) rotate [OF assms(1)]
  by (fastforce simp: Refresh_def Let_def split: if_splits sum.splits prod.splits)

lemma refresh_replayed:
  assumes "inv r" "sv_repo s = repo" "view r (HashRefreshToken (sv_lib s) (TrimSpace t)) = Some (f, False)"
    and "usable r (HashRefreshToken (sv_lib s) (TrimSpace t)) (ce_now e)" "healthy (ce_repo e 0)"
    and "TrimSpace t \<noteq> ''''" "ce_random e \<noteq> None" "Refresh s e t r = (r', res)"
  shows "res = Inl ErrAuthUnauthorized \<and> inv r' \<and> view r' = kill f (view r)"
proof -
  obtain bytes where "ce_random e = Some bytes" using assms(7) by blast
  then obtain w where run: "rp_RotateRefreshSession repo (ce_repo e 0) (HashRefreshToken (sv_lib s) (TrimSpace t))
       (HashRefreshToken (sv_lib s) (b64_encode bytes)) (ce_now e + sv_refreshTokenTTL s) (ce_now e) r = (r', w)"
    and res: "w = Inl ErrRefreshReuse \<Longrightarrow> res = Inl ErrAuthUnauthorized"
    using assms(2,6,8)
    by (auto simp: Refresh_def NewRefreshToken_def Let_def split: sum.splits prod.splits)
  show ?thesis using reuse [OF assms(1,5,3,4) run] rotate [OF assms(1) run] res by blast
qed

lemma dead_refused:
  assumes "auth_steps s view st st'" "inv (snd st)" "sv_repo s = repo" "dead_family (view (snd st)) f"
    and "view (snd st') (HashRefreshToken (sv_lib s) (TrimSpace t)) = Some (f, live)"
    and "Refresh s e t (snd st') = (r', res)"
  shows "\<exists>err. res = Inl err"
proof -
  have after: "inv (snd st')" "dead_family (view (snd st')) f"
    using requests_steps [OF assms(1-3)] assms(4) steps_keep by (auto simp: steps_def)
  then have "live = False" using assms(5) by (cases live) (auto simp: dead_family_def)
  then show ?thesis using refresh_used [OF after(1) assms(3) _ assms(6)] assms(5) by blast
qed

lemma one_live_kept:
  "auth_steps s view st st' \<Longrightarrow> inv (snd st) \<Longrightarrow> sv_repo s = repo \<Longrightarrow> one_live (view (snd st)) \<Longrightarrow>
     one_live (view (snd st'))"
  using requests_steps steps_keep unfolding steps_def by blast

end

section \<open>The repositories\<close>

text \<open>A session is live as long as it is neither revoked nor replaced.\<close>

definition session_view :: "(string, RefreshSession) gomap \<Rightarrow> sessions" where
  "session_view m h = map_option (\<lambda>x. (rs_FamilyID x, rs_RevokedAt x = None \<and> rs_ReplacedByHash x = '''')) (map_of m h)"

lemma map_of_map_vals: "map_of (map (\<lambda>(k, v). (k, g v)) m) h = map_option g (map_of m h)"
  by (induction m) auto

lemma session_view_put [simp]: "session_view (mput h x m) =
    (session_view m)(h \<mapsto> (rs_FamilyID x, rs_RevokedAt x = None \<and> rs_ReplacedByHash x = ''''))"
  by (simp add: session_view_def fun_eq_iff)

lemma session_view_kill:
  assumes "\<And>x. rs_FamilyID (g x) = rs_FamilyID x \<and> rs_ReplacedByHash (g x) = rs_ReplacedByHash x \<and>
      (rs_RevokedAt (g x) = None \<longleftrightarrow> rs_RevokedAt x = None \<and> rs_FamilyID x \<noteq> f)"
  shows "session_view (map (\<lambda>(k, x). (k, g x)) m) = kill f (session_view m)"
  using assms by (auto simp: session_view_def kill_def map_of_map_vals fun_eq_iff split: option.splits)

definition usable_in :: "(string, RefreshSession) gomap \<Rightarrow> (string, User) gomap \<Rightarrow> string \<Rightarrow> time \<Rightarrow> bool" where
  "usable_in m users h now \<longleftrightarrow> (\<exists>x. map_of m h = Some x \<and> time_after (rs_ExpiresAt x) now \<and>
     map_of users (rs_UserID x) \<noteq> None)"

abbreviation mem_sessions :: "AuthMemory \<Rightarrow> sessions" where
  "mem_sessions r \<equiv> session_view (am_refreshTokens r)"

lemma mem_kill: "mem_sessions (revokeRefreshFamilyLocked f now r) = kill f (mem_sessions r)"
  by (auto simp: revokeRefreshFamilyLocked_def revoke_in_family_def intro!: session_view_kill split: if_splits)

lemma mem_same_sessions:
  "memCreateUser x u r = (r', q) \<Longrightarrow> am_refreshTokens r' = am_refreshTokens r"
  "updateUserRoleLocked x i new r = (r', z) \<Longrightarrow> am_refreshTokens r' = am_refreshTokens r"
  "memUpdateUserRoleWithAudit x i new event r = (r', z) \<Longrightarrow> am_refreshTokens r' = am_refreshTokens r"
  by (auto simp: memCreateUser_def memUpdateUserRoleWithAudit_def updateUserRoleLocked_def Let_def
      split: if_splits option.splits prod.splits sum.splits)

lemma mem_rotate_view:
  "memRotateRefreshSession x old new expiry now r = (r', w) \<Longrightarrow>
     (case w of
        Inr _ \<Rightarrow> \<exists>f. mem_sessions r old = Some (f, True) \<and> mem_sessions r' = hand_over f old new (mem_sessions r)
      | Inl err \<Rightarrow> r' = r \<and> err \<noteq> ErrRefreshReuse \<or>
          (\<exists>f. mem_sessions r old = Some (f, False) \<and> mem_sessions r' = kill f (mem_sessions r)))"
  by (auto simp: memRotateRefreshSession_def Let_def mem_kill hand_over_def session_view_def
      split: option.splits if_splits)

interpretation mem_refresh: refresh_store memoryRepo "\<lambda>_. True" mem_sessions
    "\<lambda>r. usable_in (am_refreshTokens r) (am_usersByID r)" "\<lambda>_. True"
proof
  fix r x old new expiry now r' w
  assume "rp_RotateRefreshSession memoryRepo x old new expiry now r = (r', w)"
  then show "True \<and> (case w of
         Inr _ \<Rightarrow> \<exists>f. mem_sessions r old = Some (f, True) \<and> mem_sessions r' = hand_over f old new (mem_sessions r)
       | Inl err \<Rightarrow>
           mem_sessions r' = mem_sessions r \<and> err \<noteq> ErrRefreshReuse \<or>
           (\<exists>f. mem_sessions r old = Some (f, True) \<and> mem_sessions r' = hand_over f old new (mem_sessions r) \<and>
              err \<noteq> ErrRefreshReuse) \<or>
           (\<exists>f. mem_sessions r old = Some (f, False) \<and> mem_sessions r' = kill f (mem_sessions r)))"
    by (auto simp: memoryRepo_def dest!: mem_rotate_view split: sum.splits)
next
  fix r x old f now new expiry r' w
  assume "mem_sessions r old = Some (f, False)" "usable_in (am_refreshTokens r) (am_usersByID r) old now"
    "rp_RotateRefreshSession memoryRepo x old new expiry now r = (r', w)"
  then show "w = Inl ErrRefreshReuse \<and> mem_sessions r' = kill f (mem_sessions r)"
    by (auto simp: memoryRepo_def memRotateRefreshSession_def usable_in_def session_view_def [of _ old] mem_kill
        split: if_splits)
qed (auto simp: memoryRepo_def memRevokeToken_def memIsTokenRevoked_def memCreateRefreshSession_def
    memRevokeRefreshSession_def mem_kill session_view_def [of _ "_ :: string"] mem_same_sessions
    split: option.splits dest!: mem_same_sessions)

text \<open>Postgres: a session refers to a user (the foreign key of \<^verbatim>\<open>refresh_tokens\<close>).\<close>

definition sessions_owned :: "AuthDB \<Rightarrow> bool" where
  "sessions_owned d \<longleftrightarrow> (\<forall>h x. map_of (ad_refresh d) h = Some x \<longrightarrow> map_of (ad_users d) (rs_UserID x) \<noteq> None)"

abbreviation pg_sessions :: "AuthDB \<Rightarrow> sessions" where
  "pg_sessions d \<equiv> session_view (ad_refresh d)"

definition healthy_pg :: "PgCall \<Rightarrow> bool" where
  "healthy_pg x \<longleftrightarrow> pc_faults x = [] \<and> pc_commit x = Committed"

lemma in_tx_answer:
  "in_tx e m fs c d = (d', r) \<Longrightarrow>
     (case r of
        Inr a \<Rightarrow> \<exists>gs. m (tl fs) d = (Inr a, gs, d')
      | Inl err \<Rightarrow> d' = d \<and> (err = e \<or> (\<exists>gs d1. m (tl fs) d = (Inl err, gs, d1))) \<or>
          err = e \<and> (\<exists>a gs. m (tl fs) d = (Inr a, gs, d')))"
  by (auto simp: in_tx_def split: if_splits prod.splits sum.splits commit_outcome.splits)

lemma sessions_owned_users: "sessions_owned d \<Longrightarrow> ad_refresh d' = ad_refresh d \<Longrightarrow>
    (\<And>i. map_of (ad_users d) i \<noteq> None \<Longrightarrow> map_of (ad_users d') i \<noteq> None) \<Longrightarrow> sessions_owned d'"
  by (simp add: sessions_owned_def)

lemma sessions_owned_put: "sessions_owned d \<Longrightarrow> map_of (ad_users d) (rs_UserID x) \<noteq> None \<Longrightarrow>
    sessions_owned (d\<lparr>ad_refresh := mput h x (ad_refresh d)\<rparr>)"
  by (auto simp: sessions_owned_def)

lemma revoked_family:
  assumes "sessions_owned d" "revokeRefreshFamilyTx f now fs d = (Inr u, gs, d')"
  shows "sessions_owned d' \<and> pg_sessions d' = kill f (pg_sessions d)"
proof -
  have d': "d' = d\<lparr>ad_refresh := map (\<lambda>(hash, session). (hash, revoke_row f now session)) (ad_refresh d)\<rparr>"
    using assms(2) by (simp add: revokeRefreshFamilyTx_def tx_exec_def split: if_splits)
  have "sessions_owned d'"
    using assms(1) by (auto simp: d' sessions_owned_def map_of_map_vals revoke_row_def)
  moreover have "pg_sessions d' = kill f (pg_sessions d)"
    by (auto simp: d' revoke_row_def intro!: session_view_kill split: if_splits option.splits)
  ultimately show ?thesis by blast
qed

lemma found_session:
  "refreshSessionForUpdate h fs d = (w, gs, d') \<Longrightarrow> d' = d \<and>
     (case w of
        Inr (x, u) \<Rightarrow> map_of (ad_refresh d) h = Some x \<and> map_of (ad_users d) (rs_UserID x) \<noteq> None
      | Inl err \<Rightarrow> err = ErrAuthStore \<or>
          err = ErrAuthUnauthorized \<and> (\<forall>x. map_of (ad_refresh d) h = Some x \<longrightarrow> map_of (ad_users d) (rs_UserID x) = None))"
  by (auto simp: refreshSessionForUpdate_def tx_bind_def tx_query_def tx_fail_def tx_return_def
      split: if_splits option.splits prod.splits sum.splits)

lemma replaced_session:
  assumes "replaceRefresh old now new fs d = (Inr u, gs, d1)" "map_of (ad_refresh d) old = Some x"
  shows "d1 = d\<lparr>ad_refresh := mput old (x\<lparr>rs_RevokedAt := Some (pg_ts now), rs_ReplacedByHash := new,
     rs_UpdatedAt := pg_ts now\<rparr>) (ad_refresh d)\<rparr>"
  using assms by (simp add: replaceRefresh_def tx_exec_def split: if_splits)

lemma inserted_session:
  assumes "insertRefresh x fs d = (Inr u, gs, d')" "rs_RevokedAt x = None" "rs_ReplacedByHash x = ''''" "sessions_owned d"
  shows "sessions_owned d' \<and> pg_sessions d' = (pg_sessions d)(rs_TokenHash x \<mapsto> (rs_FamilyID x, True))"
  using assms by (auto simp: insertRefresh_def tx_exec_def intro!: sessions_owned_put split: if_splits)

lemma session_errors:
  "insertRefresh x fs d = (Inl err, gs, d') \<Longrightarrow> err = ErrAuthStore"
  "replaceRefresh old now new fs d = (Inl err, gs, d') \<Longrightarrow> err = ErrAuthStore"
  "revokeRefreshFamilyTx f now fs d = (Inl err, gs, d') \<Longrightarrow> err = ErrAuthStore"
  by (auto simp: insertRefresh_def replaceRefresh_def revokeRefreshFamilyTx_def tx_exec_def split: if_splits)

lemma rotateTx_error:
  "rotateTx old new expiry now fs d = (Inl err, gs, d') \<Longrightarrow> err \<noteq> ErrRefreshReuse"
  by (auto simp: rotateTx_def tx_bind_def tx_return_def tx_fail_def Let_def dest!: found_session session_errors
      split: if_splits prod.splits sum.splits)

lemma rotateTx_run:
  assumes "rotateTx old new expiry now fs d = (Inr w, gs, d')" "sessions_owned d"
  shows "sessions_owned d' \<and> (\<exists>f live. pg_sessions d old = Some (f, live) \<and> (live \<longleftrightarrow> w \<noteq> None) \<and>
    pg_sessions d' = (if live then hand_over f old new (pg_sessions d) else kill f (pg_sessions d)))"
proof -
  obtain x u gs1 where found: "refreshSessionForUpdate old fs d = (Inr (x, u), gs1, d)"
    and x: "map_of (ad_refresh d) old = Some x" "map_of (ad_users d) (rs_UserID x) \<noteq> None"
    using assms(1) found_session by (fastforce simp: rotateTx_def tx_bind_def split: prod.splits sum.splits)
  show ?thesis
  proof (cases "rs_RevokedAt x \<noteq> None \<or> rs_ReplacedByHash x \<noteq> ''''")
    case True
    then have "w = None" "\<exists>hs. revokeRefreshFamilyTx (rs_FamilyID x) now gs1 d = (Inr (), hs, d')"
      using assms(1) found
      by (auto simp: rotateTx_def tx_bind_def tx_return_def tx_fail_def split: prod.splits sum.splits if_splits)
    then show ?thesis using revoked_family [OF assms(2)] True x by (auto simp: session_view_def)
  next
    case False
    let ?next = "\<lparr>rs_TokenHash = new, rs_UserID = rs_UserID x, rs_FamilyID = rs_FamilyID x, rs_ReplacedByHash = '''',
      rs_ExpiresAt = expiry, rs_RevokedAt = None, rs_CreatedAt = now, rs_UpdatedAt = now\<rparr>"
    from False obtain hs1 d1 hs2 where w: "w \<noteq> None"
      and repl: "replaceRefresh old now new gs1 d = (Inr (), hs1, d1)"
      and ins: "insertRefresh ?next hs1 d1 = (Inr (), hs2, d')"
      using assms(1) found
      by (auto simp: rotateTx_def tx_bind_def tx_return_def tx_fail_def Let_def split: prod.splits sum.splits if_splits)
    note d1 = replaced_session [OF repl x(1)]
    have "sessions_owned d1" using assms(2) x(2) by (auto simp: d1 intro!: sessions_owned_put)
    from inserted_session [OF ins _ _ this] show ?thesis
      using w False x(1) by (auto simp: d1 hand_over_def session_view_def [of _ old])
  qed
qed

lemma pg_rotate_view:
  assumes "pgRotateRefreshSession x old new expiry now d = (d', w)" "sessions_owned d"
  shows "sessions_owned d' \<and>
    (case w of
       Inr _ \<Rightarrow> \<exists>f. pg_sessions d old = Some (f, True) \<and> pg_sessions d' = hand_over f old new (pg_sessions d)
     | Inl err \<Rightarrow>
         pg_sessions d' = pg_sessions d \<and> err \<noteq> ErrRefreshReuse \<or>
         (\<exists>f. pg_sessions d old = Some (f, True) \<and> pg_sessions d' = hand_over f old new (pg_sessions d) \<and> err \<noteq> ErrRefreshReuse) \<or>
         (\<exists>f. pg_sessions d old = Some (f, False) \<and> pg_sessions d' = kill f (pg_sessions d)))"
proof -
  obtain q where run: "pg_tx (rotateTx old new expiry now) x d = (d', q)"
    and w: "w = (case q of Inl err \<Rightarrow> Inl err | Inr None \<Rightarrow> Inl ErrRefreshReuse | Inr (Some result) \<Rightarrow> Inr result)"
    using assms(1) by (auto simp: pgRotateRefreshSession_def split: prod.splits sum.splits option.splits)
  note answer = in_tx_answer [OF run [unfolded pg_tx_def]]
  show ?thesis
  proof (cases q)
    case (Inl err)
    then consider "d' = d" "err \<noteq> ErrRefreshReuse"
      | a gs where "err = ErrAuthStore" "rotateTx old new expiry now (tl (pc_faults x)) d = (Inr a, gs, d')"
      using answer rotateTx_error by fastforce
    then show ?thesis
    proof cases
      case 2
      then show ?thesis using rotateTx_run [OF 2(2) assms(2)] Inl w by (auto split: if_splits)
    qed (use Inl w assms(2) in auto)
  next
    case (Inr a)
    then obtain gs where "rotateTx old new expiry now (tl (pc_faults x)) d = (Inr a, gs, d')"
      using answer by auto
    from rotateTx_run [OF this assms(2)] show ?thesis using Inr w by (cases a) (auto split: if_splits)
  qed
qed

lemma pg_revoke_view:
  assumes "pgRevokeRefreshSession x h now d = (d', q)" "sessions_owned d"
  shows "sessions_owned d' \<and>
    (case pg_sessions d h of
       None \<Rightarrow> pg_sessions d' = pg_sessions d
     | Some (f, _) \<Rightarrow> pg_sessions d' = kill f (pg_sessions d) \<or> pg_sessions d' = pg_sessions d \<and> q \<noteq> Inr ())"
proof -
  let ?m = "tx_bind (refreshSessionForUpdate h) (\<lambda>(current, _). revokeRefreshFamilyTx (rs_FamilyID current) now)"
  obtain p where run: "pg_tx ?m x d = (d', p)"
    and q: "q = (case p of Inl err \<Rightarrow> if err = ErrAuthUnauthorized then Inr () else Inl err | Inr _ \<Rightarrow> Inr ())"
    using assms(1) by (auto simp: pgRevokeRefreshSession_def split: prod.splits sum.splits)
  have body: "\<exists>y. map_of (ad_refresh d) h = Some y \<and> sessions_owned d1 \<and> pg_sessions d1 = kill (rs_FamilyID y) (pg_sessions d)"
    if "?m fs d = (Inr a, gs, d1)" for fs a gs d1
    using that by (auto simp: tx_bind_def dest!: found_session dest: revoked_family [OF assms(2)]
        split: prod.splits sum.splits)
  have failed: "map_of (ad_refresh d) h = None" if "?m fs d = (Inl ErrAuthUnauthorized, gs, d1)" for fs gs d1
    using that assms(2)
    by (cases "map_of (ad_refresh d) h")
      (fastforce simp: tx_bind_def sessions_owned_def dest!: found_session session_errors split: prod.splits sum.splits)+
  show ?thesis
  proof (cases p)
    case (Inl err)
    then consider "d' = d" "err = ErrAuthUnauthorized" "map_of (ad_refresh d) h = None"
      | "d' = d" "err \<noteq> ErrAuthUnauthorized" | a gs where "err = ErrAuthStore" "?m (tl (pc_faults x)) d = (Inr a, gs, d')"
      using in_tx_answer [OF run [unfolded pg_tx_def]] failed by (cases "err = ErrAuthUnauthorized") auto
    then show ?thesis
      using Inl q assms(2) body by cases (fastforce simp: session_view_def [of _ h] split: option.splits)+
  next
    case (Inr a)
    then obtain gs where "?m (tl (pc_faults x)) d = (Inr a, gs, d')"
      using in_tx_answer [OF run [unfolded pg_tx_def]] by auto
    from body [OF this] show ?thesis by (auto simp: session_view_def [of _ h])
  qed
qed

lemma pg_reuse:
  assumes "pgRotateRefreshSession x old new expiry now d = (d', w)" "sessions_owned d" "healthy_pg x"
    and "pg_sessions d old = Some (f, False)" "usable_in (ad_refresh d) (ad_users d) old now"
  shows "w = Inl ErrRefreshReuse \<and> pg_sessions d' = kill f (pg_sessions d)"
proof -
  obtain y where y: "map_of (ad_refresh d) old = Some y" "time_after (rs_ExpiresAt y) now"
      "map_of (ad_users d) (rs_UserID y) \<noteq> None" "rs_FamilyID y = f" "rs_RevokedAt y \<noteq> None \<or> rs_ReplacedByHash y \<noteq> ''''"
    using assms(4,5) by (auto simp: usable_in_def session_view_def)
  obtain d1 where d1: "revokeRefreshFamilyTx f now [] d = (Inr (), [], d1)"
    by (simp add: revokeRefreshFamilyTx_def tx_exec_def faulty_def)
  have "rotateTx old new expiry now [] d = (Inr None, [], d1)"
    using y d1 by (auto simp: rotateTx_def refreshSessionForUpdate_def tx_bind_def tx_query_def tx_return_def faulty_def)
  then have "d' = d1 \<and> w = Inl ErrRefreshReuse"
    using assms(1,3) by (simp add: pgRotateRefreshSession_def pg_tx_def in_tx_def faulty_def healthy_pg_def)
  then show ?thesis using revoked_family [OF assms(2) d1] by simp
qed

lemma pg_same_sessions:
  "insertUser u fs d = (Inr a, gs, d') \<Longrightarrow> sessions_owned d \<Longrightarrow> sessions_owned d' \<and> ad_refresh d' = ad_refresh d"
  "updateRoleRow t i new fs d = (Inr b, gs, d') \<Longrightarrow> sessions_owned d \<Longrightarrow> sessions_owned d' \<and> ad_refresh d' = ad_refresh d"
  "insertAuthAuditEvent event fs d = (Inr a, gs, d') \<Longrightarrow> sessions_owned d \<Longrightarrow> sessions_owned d' \<and> ad_refresh d' = ad_refresh d"
  by (auto simp: insertUser_def updateRoleRow_def insertAuthAuditEvent_def tx_exec_def Let_def sessions_owned_def
      split: if_splits option.splits)

lemma scanUser_same: "scanUser row fs d = (res, gs, d') \<Longrightarrow> d' = d"
  by (auto simp: scanUser_def tx_fail_def tx_return_def split: option.splits)

interpretation pg_refresh: refresh_store postgresRepo sessions_owned pg_sessions
    "\<lambda>d. usable_in (ad_refresh d) (ad_users d)" healthy_pg
proof
  fix r x u r' q
  assume "sessions_owned r" "rp_CreateUser postgresRepo x u r = (r', q)"
  then show "sessions_owned r' \<and> pg_sessions r' = pg_sessions r"
    by (auto simp: postgresRepo_def pgCreateUser_def pg_tx_def dest!: in_tx_result pg_same_sessions)
next
  fix r x i new event r' z
  assume inv: "sessions_owned r" and "rp_UpdateUserRoleWithAudit postgresRepo x i new event r = (r', z)"
  then have "in_tx ErrAuthStore (tx_bind (tx_bind (updateRoleRow (pc_dbNow x) i new) scanUser) (\<lambda>updated.
      tx_bind (insertAuthAuditEvent event) (\<lambda>_. tx_return updated))) (pc_faults x) (pc_commit x) r = (r', z)"
    by (simp add: postgresRepo_def pgUpdateUserRoleWithAudit_def pg_tx_def)
  from in_tx_result [OF this] show "sessions_owned r' \<and> pg_sessions r' = pg_sessions r"
    using inv by (auto simp: tx_bind_def tx_return_def dest!: scanUser_same pg_same_sessions split: prod.splits sum.splits)
next
  fix r x tokenID userID expiresAt r' q
  assume "sessions_owned r" "rp_RevokeToken postgresRepo x tokenID userID expiresAt r = (r', q)"
  then show "sessions_owned r' \<and> pg_sessions r' = pg_sessions r"
    by (auto simp: postgresRepo_def pgRevokeToken_def pg_tx_def tx_exec_def sessions_owned_def dest!: in_tx_result split: if_splits)
next
  fix r x tokenID r' b
  assume "sessions_owned r" "rp_IsTokenRevoked postgresRepo x tokenID r = (r', b)"
  then show "sessions_owned r' \<and> pg_sessions r' = pg_sessions r" by (simp add: postgresRepo_def pgIsTokenRevoked_def)
next
  fix r x s r' q
  assume "sessions_owned r" "rp_CreateRefreshSession postgresRepo x s r = (r', q)" "rs_RevokedAt s = None" "rs_ReplacedByHash s = ''''"
  then show "sessions_owned r' \<and> (pg_sessions r' = pg_sessions r \<or>
      pg_sessions r' = (pg_sessions r)(rs_TokenHash s \<mapsto> (rs_FamilyID s, True)))"
    by (auto simp: postgresRepo_def pgCreateRefreshSession_def pg_tx_def dest!: in_tx_result inserted_session)
qed (auto simp: postgresRepo_def dest: pg_rotate_view pg_revoke_view pg_reuse)

section \<open>The cache in front\<close>

lemma cached_refresh_store:
  assumes "refresh_store repo good view usable healthy"
  shows "refresh_store (WithRevocationCache client repo) (\<lambda>st. good (fst st)) (\<lambda>st. view (fst st))
    (\<lambda>st. usable (fst st)) (\<lambda>x. healthy (cx_repo x))"
proof -
  note defs = WithRevocationCache_def on_repo_def cachedRevokeToken_def cachedIsTokenRevoked_def Let_def
  show ?thesis
    apply unfold_locales
    subgoal using refresh_store.keeps_user [OF assms] by (auto simp: defs split: prod.splits)
    subgoal using refresh_store.keeps_role [OF assms] by (auto simp: defs split: prod.splits)
    subgoal using refresh_store.keeps_token [OF assms] by (auto simp: defs split: prod.splits sum.splits)
    subgoal using refresh_store.keeps_check [OF assms] by (auto simp: defs split: prod.splits sum.splits if_splits)
    subgoal for r x s r' q
      using refresh_store.create [OF assms, of "fst r" "cx_repo x" s "fst r'" q] by (auto simp: defs split: prod.splits)
    subgoal for r x old new expiry now r' w
      using refresh_store.rotate [OF assms, of "fst r" "cx_repo x" old new expiry now "fst r'" w]
      by (cases r') (auto simp: defs split: prod.splits)
    subgoal for r x hash now r' q
      using refresh_store.revoke [OF assms, of "fst r" "cx_repo x" hash now "fst r'" q]
      by (cases r') (auto simp: defs split: prod.splits option.splits)
    subgoal for r x old f now new expiry r' w
      using refresh_store.reuse [OF assms, of "fst r" "cx_repo x" old f now new expiry "fst r'" w]
      by (auto simp: defs split: prod.splits)
    done
qed

interpretation cached_refresh: refresh_store "WithRevocationCache client postgresRepo" "\<lambda>st. sessions_owned (fst st)"
    "\<lambda>st. pg_sessions (fst st)" "\<lambda>st. usable_in (ad_refresh (fst st)) (ad_users (fst st))"
    "\<lambda>x. healthy_pg (cx_repo x)" for client
  by (rule cached_refresh_store) (rule pg_refresh.refresh_store_axioms)

end
