(* ===== verification/AuthGuards.thy ===== *)
theory AuthGuards imports AuthSessions begin

text \<open>
  The login guard and the revocation of access tokens: what they ask of a repository, and what they
  promise on top of it.
\<close>

section \<open>Logins in a row\<close>

text \<open>The guard files a login under its email, normalised twice over.\<close>

definition guard_key :: "string \<Rightarrow> string" where
  "guard_key email = NormalizeEmail (NormalizeEmail email)"

text \<open>Logins one after the other, and their answers.\<close>

primrec logins :: "('x, 'r) Service \<Rightarrow> ('x CallEnv \<times> string \<times> string) list \<Rightarrow> LoginGuard \<times> 'r
   \<Rightarrow> (LoginGuard \<times> 'r) \<times> (string \<times> (auth_error + AuthResult)) list" where
  "logins s [] st = (st, [])"
| "logins s (l # ls) st =
     (case Login s (fst l) (fst (snd l)) (snd (snd l)) st of
        (st1, a) \<Rightarrow> (case logins s ls st1 of (st2, as) \<Rightarrow> (st2, (guard_key (fst (snd l)), a) # as)))"

definition answers_for :: "string \<Rightarrow> (string \<times> (auth_error + AuthResult)) list \<Rightarrow> (auth_error + AuthResult) list" where
  "answers_for k as = map snd (filter (\<lambda>p. fst p = k) as)"

text \<open>\<open>n\<close> failures on file for a key, the first of them since \<open>t\<close>.\<close>

definition failures :: "LoginGuard \<Rightarrow> string \<Rightarrow> nat \<Rightarrow> time \<Rightarrow> bool" where
  "failures g k n t \<longleftrightarrow> la_Count (attempt_of k g) = int n \<and>
     (n > 0 \<longrightarrow> t \<le> la_FirstSeen (attempt_of k g) \<and> la_FirstSeen (attempt_of k g) \<le> t + lg_window g)"

lemma guard_config [simp]:
  "lg_max (fst (Allow now k g)) = lg_max g" "lg_window (fst (Allow now k g)) = lg_window g"
  "lg_max (RecordFailure now k g) = lg_max g" "lg_window (RecordFailure now k g) = lg_window g"
  "lg_max (ResetGuard k g) = lg_max g" "lg_window (ResetGuard k g) = lg_window g"
  by (simp_all add: Allow_def RecordFailure_def ResetGuard_def Let_def)

lemma attempt_other:
  "NormalizeEmail e \<noteq> k \<Longrightarrow> attempt_of k (fst (Allow now e g)) = attempt_of k g"
  "NormalizeEmail e \<noteq> k \<Longrightarrow> attempt_of k (RecordFailure now e g) = attempt_of k g"
  "NormalizeEmail e \<noteq> k \<Longrightarrow> attempt_of k (ResetGuard e g) = attempt_of k g"
  by (simp_all add: Allow_def RecordFailure_def ResetGuard_def attempt_of_def Let_def)

lemma failures_other:
  assumes "NormalizeEmail e \<noteq> k"
  shows "failures (fst (Allow now e g)) k n t \<longleftrightarrow> failures g k n t"
    "failures (RecordFailure now e g) k n t \<longleftrightarrow> failures g k n t"
    "failures (ResetGuard e g) k n t \<longleftrightarrow> failures g k n t"
  using assms by (simp_all add: failures_def attempt_other)

lemma in_window:
  assumes "t \<le> a" "a \<le> t + w" "t \<le> b" "b \<le> t + w" "w \<le> max_duration"
  shows "\<not> time_sub a b > w"
  using assms by (subst time_sub_exact) auto

lemma Allow_in_window:
  assumes "failures g k n t" "k = NormalizeEmail e" "t \<le> now" "now \<le> t + lg_window g" "lg_window g \<le> max_duration"
  shows "Allow now e g = (g, n = 0 \<or> int n < lg_max g)"
  using assms in_window [of t now "lg_window g" "la_FirstSeen (attempt_of k g)"]
  by (auto simp: Allow_def failures_def Let_def)

lemma RecordFailure_in_window:
  assumes "failures g k n t" "k = NormalizeEmail e" "t \<le> now" "now \<le> t + lg_window g" "lg_window g \<le> max_duration"
  shows "failures (RecordFailure now e g) k (Suc n) t"
  using assms in_window [of t now "lg_window g" "la_FirstSeen (attempt_of k g)"]
  by (auto simp: RecordFailure_def failures_def attempt_of_def Let_def split: option.splits)

locale login_store =
  fixes repo :: "('x, 'r) Repository"
  assumes find_error: "rp_FindUserByEmail repo x email r = Inl err \<Longrightarrow> err \<in> {ErrUserNotFound, ErrAuthStore}"
    and session_error: "rp_CreateRefreshSession repo x session r = (r', Inl err) \<Longrightarrow> err = ErrAuthStore"
begin

lemma issue_error:
  assumes "sv_repo s = repo" "issue s e k u r = (r', Inl err)"
  shows "err \<in> {ErrRandom, ErrAuthStore}"
proof (cases "ce_random e")
  case (Some bytes)
  then show ?thesis using assms session_error
    by (auto simp: issue_def NewRefreshToken_def Let_def split: prod.splits sum.splits)
qed (use assms in \<open>simp add: issue_def NewRefreshToken_def Let_def\<close>)

text \<open>One login: refused by the guard, or failed and filed, or of another kind.\<close>

lemma login_wrong:
  assumes "sv_repo s = repo" "Login s e email pw (g, r) = ((g', r'), Inl ErrInvalidCredentials)"
  shows "snd (Allow (ce_allowNow e) (NormalizeEmail email) g) \<and>
    g' = RecordFailure (ce_failNow e) (NormalizeEmail email) (fst (Allow (ce_allowNow e) (NormalizeEmail email) g))"
  using assms issue_error [OF assms(1)]
  by (auto simp: Login_def Let_def split: prod.splits if_splits sum.splits) blast+

lemma login_refused:
  assumes "sv_repo s = repo" "Login s e email pw (g, r) = ((g', r'), Inl ErrTooManyAttempts)"
  shows "\<not> snd (Allow (ce_allowNow e) (NormalizeEmail email) g) \<and> r' = r \<and>
    g' = fst (Allow (ce_allowNow e) (NormalizeEmail email) g)"
  using assms issue_error [OF assms(1)] find_error
  by (auto simp: Login_def Let_def split: prod.splits if_splits sum.splits) blast+

lemma login_other:
  assumes "guard_key email \<noteq> k" "Login s e email pw (g, r) = ((g', r'), a)"
  shows "failures g' k n t \<longleftrightarrow> failures g k n t"
proof -
  have "NormalizeEmail (NormalizeEmail email) \<noteq> k" using assms(1) by (simp add: guard_key_def)
  from failures_other [OF this] show ?thesis
    using assms(2) by (auto simp: Login_def Let_def split: prod.splits if_splits sum.splits) (metis fst_conv)+
qed

lemma login_config:
  "Login s e email pw (g, r) = ((g', r'), a) \<Longrightarrow> lg_max g' = lg_max g \<and> lg_window g' = lg_window g"
  by (auto simp: Login_def Let_def split: prod.splits if_splits sum.splits) (metis fst_conv guard_config)+

lemma logins_throttled:
  assumes "sv_repo s = repo" and "lg_window g \<le> max_duration" and "failures g k n t"
    and "\<forall>(e, _) \<in> set ls. t \<le> ce_allowNow e \<and> ce_allowNow e \<le> t + lg_window g \<and>
      t \<le> ce_failNow e \<and> ce_failNow e \<le> t + lg_window g"
    and "logins s ls (g, r) = (st', as)"
    and "set (answers_for k as) \<subseteq> {Inl ErrInvalidCredentials, Inl ErrTooManyAttempts}"
  shows "answers_for k as =
    replicate (min (max 1 (nat (lg_max g)) - n) (length (answers_for k as))) (Inl ErrInvalidCredentials) @
    replicate (length (answers_for k as) - (max 1 (nat (lg_max g)) - n)) (Inl ErrTooManyAttempts)"
  using assms(2-6)
proof (induction ls arbitrary: g r n as)
  case Nil
  then show ?case by (simp add: answers_for_def)
next
  case (Cons l ls)
  obtain e email pw where l: "l = (e, email, pw)" by (metis prod_cases3)
  obtain g1 r1 a as1 where login: "Login s e email pw (g, r) = ((g1, r1), a)"
    and rest: "logins s ls (g1, r1) = (st', as1)" and as: "as = (guard_key email, a) # as1"
    using Cons.prems(4) by (auto simp: l split: prod.splits)
  note config = login_config [OF login]
  have times: "t \<le> ce_allowNow e" "ce_allowNow e \<le> t + lg_window g" "t \<le> ce_failNow e" "ce_failNow e \<le> t + lg_window g"
    using Cons.prems(3) by (simp_all add: l)
  have later: "answers_for k as1 =
      replicate (min (max 1 (nat (lg_max g)) - n') (length (answers_for k as1))) (Inl ErrInvalidCredentials) @
      replicate (length (answers_for k as1) - (max 1 (nat (lg_max g)) - n')) (Inl ErrTooManyAttempts)"
    if "failures g1 k n' t" for n'
    using Cons.IH [OF _ that _ rest] Cons.prems(1,3,5) config by (auto simp: as answers_for_def split: if_splits)
  show ?case
  proof (cases "guard_key email = k")
    case False
    then have "failures g1 k n t" using login_other [OF _ login] Cons.prems(2) by blast
    have same: "answers_for k as = answers_for k as1" using False by (simp add: as answers_for_def)
    show ?thesis unfolding same using \<open>failures g1 k n t\<close> by (rule later)
  next
    case True
    then have k: "k = NormalizeEmail (NormalizeEmail email)" by (simp add: guard_key_def)
    note allow = Allow_in_window [OF Cons.prems(2) k times(1,2) Cons.prems(1)]
    have answers: "answers_for k as = a # answers_for k as1" using True by (simp add: as answers_for_def)
    then consider "a = Inl ErrInvalidCredentials" | "a = Inl ErrTooManyAttempts" using Cons.prems(5) by auto
    then show ?thesis
    proof cases
      case 1
      have "n = 0 \<or> int n < lg_max g" and g1: "g1 = RecordFailure (ce_failNow e) (NormalizeEmail email) g"
        using login_wrong [OF assms(1) login [unfolded 1]] unfolding allow by simp_all
      then have free: "n < max 1 (nat (lg_max g))" by auto
      have "failures g1 k (Suc n) t"
        unfolding g1 by (rule RecordFailure_in_window [OF Cons.prems(2) k times(3,4) Cons.prems(1)])
      from later [OF this] have "answers_for k as1 =
          replicate (min (max 1 (nat (lg_max g)) - Suc n) (length (answers_for k as1))) (Inl ErrInvalidCredentials) @
          replicate (length (answers_for k as1) - (max 1 (nat (lg_max g)) - Suc n)) (Inl ErrTooManyAttempts)" .
      moreover have "max 1 (nat (lg_max g)) - n = Suc (max 1 (nat (lg_max g)) - Suc n)" using free by simp
      ultimately show ?thesis using 1 answers by simp
    next
      case 2
      have "\<not> (n = 0 \<or> int n < lg_max g)" and g1: "g1 = g"
        using login_refused [OF assms(1) login [unfolded 2]] unfolding allow by simp_all
      then have full: "max 1 (nat (lg_max g)) - n = 0" by auto
      have "failures g1 k n t" using g1 Cons.prems(2) by simp
      from later [OF this] show ?thesis using 2 answers full by simp
    qed
  qed
qed

end

interpretation mem_logins: login_store memoryRepo
  by unfold_locales (auto simp: memoryRepo_def memFindUserByEmail_def memCreateRefreshSession_def split: option.splits)

interpretation pg_logins: login_store postgresRepo
  by unfold_locales (auto simp: postgresRepo_def pgFindUserByEmail_def pgCreateRefreshSession_def pg_tx_def in_tx_def
      insertRefresh_def tx_exec_def tx_bind_def tx_query_def tx_fail_def tx_return_def scanUser_def
      split: if_splits option.splits prod.splits sum.splits commit_outcome.splits)

lemma cached_login_store: "login_store repo \<Longrightarrow> login_store (WithRevocationCache client repo)"
  by (auto simp: login_store_def WithRevocationCache_def on_repo_def Let_def split: prod.splits)

interpretation cached_logins: login_store "WithRevocationCache client postgresRepo" for client
  by (rule cached_login_store) (rule pg_logins.login_store_axioms)

section \<open>Revoked access tokens\<close>

text \<open>
  \<open>revoked r i t\<close>: the token id \<open>i\<close> is on the list and stays there until \<open>t\<close>; \<open>now\<close> is the clock that
  a call of the repository compares with. Postgres keeps the expiry in microseconds.
\<close>

locale revocation_store =
  fixes repo :: "('x, 'r) Repository"
    and revoked :: "'r \<Rightarrow> string \<Rightarrow> time \<Rightarrow> bool"
    and now :: "'x \<Rightarrow> time"
  assumes user_keeps: "rp_CreateUser repo x u r = (r', q) \<Longrightarrow> revoked r i t \<Longrightarrow> revoked r' i t"
    and role_keeps: "rp_UpdateUserRoleWithAudit repo x j new event r = (r', z) \<Longrightarrow> revoked r i t \<Longrightarrow> revoked r' i t"
    and create_keeps: "rp_CreateRefreshSession repo x session r = (r', q) \<Longrightarrow> revoked r i t \<Longrightarrow> revoked r' i t"
    and rotate_keeps: "rp_RotateRefreshSession repo x old new expiry n r = (r', w) \<Longrightarrow> revoked r i t \<Longrightarrow> revoked r' i t"
    and revoke_keeps: "rp_RevokeRefreshSession repo x hash n r = (r', q) \<Longrightarrow> revoked r i t \<Longrightarrow> revoked r' i t"
    and check_keeps: "rp_IsTokenRevoked repo x j r = (r', b) \<Longrightarrow> revoked r i t \<Longrightarrow> revoked r' i t"
    and token_keeps: "rp_RevokeToken repo x j userID expiresAt r = (r', q) \<Longrightarrow> revoked r i t \<Longrightarrow> revoked r' i t"
    and token_revoked: "rp_RevokeToken repo x j userID expiresAt r = (r', Inr ()) \<Longrightarrow>
      (\<And>t'. \<not> revoked r j t') \<Longrightarrow> revoked r' j (pg_ts expiresAt)"
    and token_error: "rp_RevokeToken repo x j userID expiresAt r = (r', Inl err) \<Longrightarrow> err = ErrAuthStore"
    and check_revoked: "rp_IsTokenRevoked repo x i r = (r', Inr listed) \<Longrightarrow> revoked r i t \<Longrightarrow> now x < t \<Longrightarrow> listed"
begin

definition keeps :: "'r \<Rightarrow> 'r \<Rightarrow> bool" where
  "keeps r r' \<longleftrightarrow> (\<forall>i t. revoked r i t \<longrightarrow> revoked r' i t)"

lemma keeps_refl [simp]: "keeps r r" by (simp add: keeps_def)
lemma keeps_trans: "keeps r r1 \<Longrightarrow> keeps r1 r2 \<Longrightarrow> keeps r r2" by (simp add: keeps_def)

lemma issue_keeps: "sv_repo s = repo \<Longrightarrow> issue s e k u r = (r', res) \<Longrightarrow> keeps r r'"
  using create_keeps by (auto simp: issue_def keeps_def Let_def split: sum.splits prod.splits)

lemma register_keeps:
  assumes "sv_repo s = repo" "Register s e cmd r = (r', res)"
  shows "keeps r r'"
proof -
  have "keeps r r1 \<and> (\<forall>res r2. issue s e 1 u r1 = (r2, res) \<longrightarrow> keeps r r2)"
    if "rp_CreateUser repo x u r = (r1, q)" for x u r1 q
    using user_keeps [OF that] issue_keeps [OF assms(1)] keeps_trans by (metis keeps_def)
  then show ?thesis
    using assms by (auto simp: Register_def Let_def split: sum.splits prod.splits)
qed

lemma login_keeps:
  "sv_repo s = repo \<Longrightarrow> Login s e a p (g, r) = ((g', r'), res) \<Longrightarrow> keeps r r'"
  using issue_keeps
  by (auto simp: Login_def Let_def split: prod.splits if_splits sum.splits)

lemma refresh_keeps: "sv_repo s = repo \<Longrightarrow> Refresh s e t r = (r', res) \<Longrightarrow> keeps r r'"
  using rotate_keeps
  by (auto simp: Refresh_def keeps_def Let_def split: sum.splits prod.splits if_splits)

lemma current_keeps: "sv_repo s = repo \<Longrightarrow> CurrentUser s e t r = (r', res) \<Longrightarrow> keeps r r'"
  using check_keeps by (auto simp: CurrentUser_def keeps_def split: sum.splits prod.splits if_splits)

lemma update_keeps: "sv_repo s = repo \<Longrightarrow> UpdateUserRole s e k cmd r = (r', res) \<Longrightarrow> keeps r r'"
  using role_keeps
  by (auto simp: UpdateUserRole_def keeps_def Let_def split: if_splits option.splits sum.splits prod.splits)

lemma logout_refresh_keeps: "sv_repo s = repo \<Longrightarrow> LogoutRefresh s e k t r = (r', res) \<Longrightarrow> keeps r r'"
  using revoke_keeps by (auto simp: LogoutRefresh_def keeps_def Let_def split: if_splits)

lemma logout_keeps:
  assumes "sv_repo s = repo" "Logout s e a t r = (r', res)"
  shows "keeps r r'"
proof -
  have "keeps r r1 \<and> (\<forall>k res r2. LogoutRefresh s e k t r1 = (r2, res) \<longrightarrow> keeps r r2)"
    if "rp_RevokeToken repo x i u z r = (r1, q)" for x i u z r1 q
    using token_keeps [OF that] logout_refresh_keeps [OF assms(1)] keeps_trans by (metis keeps_def)
  then show ?thesis
    using assms logout_refresh_keeps [OF assms(1)]
    by (auto simp: Logout_def split: sum.splits prod.splits if_splits)
qed

lemma logout_request_keeps:
  assumes "sv_repo s = repo" "logout_handler s e x h (g, r) = ((g', r'), resp)"
  shows "keeps r r'"
proof -
  have "keeps r r2" if "Logout s e a t r = (r1, res1)" "LogoutRefresh s e k t' r1 = (r2, res2)" for a t r1 res1 k t' r2 res2
    using logout_keeps [OF assms(1) that(1)] logout_refresh_keeps [OF assms(1) that(2)] keeps_trans by blast
  then show ?thesis
    using assms(2) logout_keeps [OF assms(1)] logout_refresh_keeps [OF assms(1)]
    by (auto simp: logout_handler_def Let_def split: option.splits sum.splits prod.splits if_splits)
qed

lemma role_request_keeps:
  assumes "sv_repo s = repo" "updateRole_handler s e h userID body (g, r) = ((g', r'), resp)"
  shows "keeps r r'"
proof -
  have "keeps r r2" if "CurrentUser s e t r = (r1, q)" "UpdateUserRole s e k cmd r1 = (r2, res)" for t r1 q k cmd r2 res
    using current_keeps [OF assms(1) that(1)] update_keeps [OF assms(1) that(2)] keeps_trans by blast
  then show ?thesis
    using assms(2) current_keeps [OF assms(1)]
    by (auto simp: updateRole_handler_def split: option.splits sum.splits prod.splits)
qed

lemma request_keeps:
  assumes "sv_repo s = repo" "NewHTTPHandler s e x h request (g, r) = ((g', r'), resp)"
  shows "keeps r r'"
proof (cases request)
  case (PostRegister body)
  then show ?thesis using assms(2) register_keeps [OF assms(1)]
    by (auto simp: NewHTTPHandler_def register_handler_def split: sum.splits prod.splits)
next
  case (PostLogin body)
  then show ?thesis using assms(2) login_keeps [OF assms(1)]
    by (auto simp: NewHTTPHandler_def login_handler_def split: sum.splits prod.splits)
next
  case PostRefresh
  then show ?thesis using assms(2) refresh_keeps [OF assms(1)]
    by (auto simp: NewHTTPHandler_def refresh_handler_def split: option.splits sum.splits prod.splits if_splits)
next
  case GetMe
  then show ?thesis using assms(2) current_keeps [OF assms(1)]
    by (auto simp: NewHTTPHandler_def me_handler_def split: option.splits sum.splits prod.splits)
qed (use assms(2) logout_request_keeps [OF assms(1)] role_request_keeps [OF assms(1)] in
      \<open>auto simp: NewHTTPHandler_def\<close>)

lemma requests_keep:
  assumes "auth_steps s view st st'" "sv_repo s = repo"
  shows "keeps (snd st) (snd st')"
  using assms(1)
proof induction
  case (next_request st1 e x h request st2 resp)
  then show ?case
    using request_keeps [OF assms(2), of e x h request "fst st1" "snd st1" "fst st2" "snd st2" resp] keeps_trans by auto
qed simp

text \<open>A logout that is answered with success put the token on the list.\<close>

lemma logout_revokes:
  assumes "sv_repo s = repo" "logout_handler s e x h (g, r) = ((g', r'), resp)" "ap_Status resp = 204"
    and "BearerToken (q_Authorization h) = Some a" "TrimSpace a \<noteq> ''''"
    and "Verify (al_jwt (sv_lib s)) (sv_tokens s) (ce_tokenNow e) a = Inr claims"
    and "\<And>t. \<not> revoked r (cl_TokenID claims) t"
  shows "revoked r' (cl_TokenID claims) (pg_ts (cl_ExpiresAt claims))"
proof -
  obtain r1 q where tok: "rp_RevokeToken repo (ce_repo e 0) (cl_TokenID claims) (cl_UserID claims)
      (cl_ExpiresAt claims) r = (r1, q)" by fastforce
  have not204: "ap_Status (writeAuthError err) \<noteq> 204" for err
    by (cases err) (simp_all add: writeAuthError_def writeError_def)
  show ?thesis
  proof (cases q)
    case (Inl err)
    then have "Logout s e a t r = (r1, Inl ErrAuthStore)" for t
      using tok token_error assms(1,5,6) by (simp add: Logout_def)
    then show ?thesis using assms(2-4) not204
      by (auto simp: logout_handler_def Let_def writeError_def split: option.splits if_splits)
  next
    case (Inr u)
    then have "revoked r1 (cl_TokenID claims) (pg_ts (cl_ExpiresAt claims))" using token_revoked tok assms(7) by simp
    moreover have "keeps r1 r2" if "LogoutRefresh s e k t r1 = (r2, res)" for k t r2 res
      using logout_refresh_keeps [OF assms(1) that] .
    moreover have "Logout s e a t r = LogoutRefresh s e 1 t r1" for t
      using Inr tok assms(1,5,6) by (simp add: Logout_def)
    moreover have "keeps r1 r3" if "LogoutRefresh s e k t r1 = (r2, res)" "LogoutRefresh s e k' t' r2 = (r3, res')" for k t r2 res k' t' r3 res'
      using logout_refresh_keeps [OF assms(1) that(1)] logout_refresh_keeps [OF assms(1) that(2)] keeps_trans by blast
    ultimately have "keeps r1 r'"
      using assms(2-4)
      by (auto simp: logout_handler_def Let_def writeError_def split: option.splits sum.splits prod.splits if_splits)
    then show ?thesis using \<open>revoked r1 _ _\<close> by (simp add: keeps_def)
  qed
qed

text \<open>A token on the list names nobody.\<close>

lemma revoked_refused:
  assumes "sv_repo s = repo" "revoked r (cl_TokenID claims) t" "now (ce_repo e 0) < t"
    and "Verify (al_jwt (sv_lib s)) (sv_tokens s) (ce_tokenNow e) a = Inr claims"
  shows "\<exists>r' err. CurrentUser s e a r = (r', Inl err)"
proof -
  obtain r1 q where "rp_IsTokenRevoked repo (ce_repo e 0) (cl_TokenID claims) r = (r1, q)" by fastforce
  then show ?thesis
    using check_revoked [OF _ assms(2,3), of r1] assms(1,4)
    by (cases q) (auto simp: CurrentUser_def)
qed

end

definition pg_revoked :: "AuthDB \<Rightarrow> string \<Rightarrow> time \<Rightarrow> bool" where
  "pg_revoked d i t \<longleftrightarrow> (\<exists>u t'. map_of (ad_revoked d) i = Some (u, t') \<and> t \<le> t')"

lemma same_revoked: "ad_revoked d' = ad_revoked d \<Longrightarrow> pg_revoked d' = pg_revoked d"
  by (simp add: pg_revoked_def [abs_def])

lemma revoked_unchanged:
  "insertUser u fs d = (q, gs, d') \<Longrightarrow> ad_revoked d' = ad_revoked d"
  "updateRoleRow t i new fs d = (b, gs, d') \<Longrightarrow> ad_revoked d' = ad_revoked d"
  "insertAuthAuditEvent event fs d = (q, gs, d') \<Longrightarrow> ad_revoked d' = ad_revoked d"
  "insertRefresh session fs d = (q, gs, d') \<Longrightarrow> ad_revoked d' = ad_revoked d"
  "revokeRefreshFamilyTx f now fs d = (q, gs, d') \<Longrightarrow> ad_revoked d' = ad_revoked d"
  "replaceRefresh old now new fs d = (q, gs, d') \<Longrightarrow> ad_revoked d' = ad_revoked d"
  "refreshSessionForUpdate h fs d = (w, gs, d') \<Longrightarrow> ad_revoked d' = ad_revoked d"
  by (auto simp: insertUser_def updateRoleRow_def insertAuthAuditEvent_def insertRefresh_def revokeRefreshFamilyTx_def
      replaceRefresh_def refreshSessionForUpdate_def tx_exec_def tx_bind_def tx_query_def tx_return_def tx_fail_def Let_def
      split: if_splits option.splits prod.splits sum.splits)

lemma rotateTx_revoked: "rotateTx old new expiry now fs d = (w, gs, d') \<Longrightarrow> ad_revoked d' = ad_revoked d"
  by (auto simp: rotateTx_def tx_bind_def tx_return_def tx_fail_def Let_def dest!: revoked_unchanged
      split: if_splits prod.splits sum.splits)

lemma pg_other_calls_keep_revoked:
  "pgCreateUser x u d = (d', q) \<Longrightarrow> ad_revoked d' = ad_revoked d"
  "pgUpdateUserRoleWithAudit x i new event d = (d', z) \<Longrightarrow> ad_revoked d' = ad_revoked d"
  "pgCreateRefreshSession x session d = (d', q) \<Longrightarrow> ad_revoked d' = ad_revoked d"
  "pgRotateRefreshSession x old nw expiry n d = (d', w) \<Longrightarrow> ad_revoked d' = ad_revoked d"
  "pgRevokeRefreshSession x hash n d = (d', q) \<Longrightarrow> ad_revoked d' = ad_revoked d"
  by (auto simp: pgCreateUser_def pgUpdateUserRoleWithAudit_def pgCreateRefreshSession_def pgRotateRefreshSession_def
      pgRevokeRefreshSession_def pg_tx_def tx_bind_def tx_return_def
      dest!: in_tx_result revoked_unchanged rotateTx_revoked scanUser_same split: prod.splits sum.splits option.splits if_splits)

interpretation pg_revocations: revocation_store postgresRepo pg_revoked pc_dbNow
proof
  fix r x j userID expiresAt r' q i t
  assume "rp_RevokeToken postgresRepo x j userID expiresAt r = (r', q)" "pg_revoked r i t"
  then show "pg_revoked r' i t"
    by (auto simp: postgresRepo_def pgRevokeToken_def pg_tx_def tx_exec_def pg_revoked_def dest!: in_tx_result split: if_splits)
next
  fix r x j userID expiresAt r'
  assume run: "rp_RevokeToken postgresRepo x j userID expiresAt r = (r', Inr ())" and new: "\<And>t'. \<not> pg_revoked r j t'"
  have "map_of (ad_revoked r) j = None"
    using new by (cases "map_of (ad_revoked r) j") (auto simp: pg_revoked_def)
  then show "pg_revoked r' j (pg_ts expiresAt)"
    using run by (auto simp: postgresRepo_def pgRevokeToken_def pg_tx_def tx_exec_def pg_revoked_def
        dest!: in_tx_answer split: if_splits)
next
  fix x j userID expiresAt r r' err
  assume "rp_RevokeToken postgresRepo x j userID expiresAt r = (r', Inl err)"
  then show "err = ErrAuthStore"
    by (auto simp: postgresRepo_def pgRevokeToken_def pg_tx_def tx_exec_def dest!: in_tx_answer split: if_splits)
next
  fix x i r r' listed t
  assume "rp_IsTokenRevoked postgresRepo x i r = (r', Inr listed)" "pg_revoked r i t" "pc_dbNow x < t"
  then show listed
    by (auto simp: postgresRepo_def pgIsTokenRevoked_def pg_tx_def in_tx_def tx_query_def pg_revoked_def
        split: if_splits commit_outcome.splits)
qed (auto simp: postgresRepo_def pgIsTokenRevoked_def dest!: pg_other_calls_keep_revoked same_revoked)

lemma cached_revocation_store:
  assumes "revocation_store repo revoked now"
  shows "revocation_store (WithRevocationCache client repo) (\<lambda>st. revoked (fst st)) (\<lambda>x. now (cx_repo x))"
proof -
  note defs = WithRevocationCache_def on_repo_def cachedRevokeToken_def cachedIsTokenRevoked_def Let_def
  note store = assms [THEN revocation_store.user_keeps] assms [THEN revocation_store.role_keeps]
    assms [THEN revocation_store.create_keeps] assms [THEN revocation_store.rotate_keeps]
    assms [THEN revocation_store.revoke_keeps]
  show ?thesis
  proof
    fix x j r r' b i t
    assume "rp_IsTokenRevoked (WithRevocationCache client repo) x j r = (r', b)" "revoked (fst r) i t"
    then show "revoked (fst r') i t"
      using revocation_store.check_keeps [OF assms] by (auto simp: defs split: prod.splits sum.splits if_splits)
  next
    fix x j userID expiresAt r r' q i t
    assume "rp_RevokeToken (WithRevocationCache client repo) x j userID expiresAt r = (r', q)" "revoked (fst r) i t"
    then show "revoked (fst r') i t"
      using revocation_store.token_keeps [OF assms] by (auto simp: defs split: prod.splits sum.splits)
  next
    fix x j userID expiresAt r r'
    assume "rp_RevokeToken (WithRevocationCache client repo) x j userID expiresAt r = (r', Inr ())"
      and "\<And>t'. \<not> revoked (fst r) j t'"
    then show "revoked (fst r') j (pg_ts expiresAt)"
      using revocation_store.token_revoked [OF assms] by (auto simp: defs split: prod.splits sum.splits)
  next
    fix x j userID expiresAt r r' err
    assume "rp_RevokeToken (WithRevocationCache client repo) x j userID expiresAt r = (r', Inl err)"
    then show "err = ErrAuthStore"
      using revocation_store.token_error [OF assms] by (auto simp: defs split: prod.splits sum.splits)
  next
    fix x i r r' listed t
    assume "rp_IsTokenRevoked (WithRevocationCache client repo) x i r = (r', Inr listed)"
      and "revoked (fst r) i t" "now (cx_repo x) < t"
    then show listed
      using revocation_store.check_revoked [OF assms] by (auto simp: defs split: prod.splits sum.splits if_splits)
  qed (use store in \<open>auto simp: defs split: prod.splits\<close>)
qed

interpretation cached_revocations: revocation_store "WithRevocationCache client postgresRepo"
    "\<lambda>st. pg_revoked (fst st)" "\<lambda>x. pc_dbNow (cx_repo x)" for client
  by (rule cached_revocation_store) (rule pg_revocations.revocation_store_axioms)

end
