(* ===== verification/AuthSessionProps.thy ===== *)
theory AuthSessionProps imports AuthGuards AuthProps begin

text \<open>
  What refresh sessions, the login guard and the revocation of access tokens promise, on Postgres with
  the revocation cache.
\<close>

section \<open>Refresh sessions\<close>

text \<open>
  C32. One refresh token per login: after any requests from an empty table of sessions, under any faults,
  every family of sessions has at most one token that is neither revoked nor replaced. The hashes and the
  family ids that the requests draw are fresh.
\<close>

theorem one_live_token_per_family:
  assumes "auth_steps s (\<lambda>r. pg_sessions (fst r)) (g, (d, c)) (g', (d', c'))"
    and "sv_repo s = WithRevocationCache client postgresRepo" and "ad_refresh d = []"
    and "map_of (ad_refresh d') h1 = Some x1" "rs_RevokedAt x1 = None" "rs_ReplacedByHash x1 = ''''"
    and "map_of (ad_refresh d') h2 = Some x2" "rs_RevokedAt x2 = None" "rs_ReplacedByHash x2 = ''''"
    and "rs_FamilyID x1 = rs_FamilyID x2"
  shows "h1 = h2"
proof -
  have "sessions_owned d" "one_live (pg_sessions d)"
    using assms(3) by (simp_all add: sessions_owned_def one_live_def session_view_def)
  then have "one_live (pg_sessions d')"
    using cached_refresh.one_live_kept [OF assms(1) _ assms(2)] by simp
  moreover have "pg_sessions d' h1 = Some (rs_FamilyID x1, True)" "pg_sessions d' h2 = Some (rs_FamilyID x1, True)"
    using assms(4-10) by (simp_all add: session_view_def)
  ultimately show ?thesis unfolding one_live_def by blast
qed

lemma error_status [simp]: "ap_Status (writeAuthError err) \<noteq> 200"
  by (cases err) (simp_all add: writeAuthError_def writeError_def)


section \<open>The login guard\<close>


section \<open>Revoked access tokens\<close>

lemma bearer_nonblank: "BearerToken v = Some a \<Longrightarrow> TrimSpace a \<noteq> ''''"
  by (auto simp: BearerToken_def Let_def split: prod.splits if_splits)

text \<open>
  C35. A logout is final: once a logout with an access token is answered with success, no later request
  under a token with its id is answered with success, neither who-am-I nor a role change, until the clock
  of the database passes the expiry of the token. The cache may lose or forget what it likes.
\<close>

theorem logged_out_token_refused:
  assumes "sv_repo s = WithRevocationCache client postgresRepo"
    and "BearerToken (q_Authorization h) = Some a"
    and "Verify (al_jwt (sv_lib s)) (sv_tokens s) (ce_tokenNow e) a = Inr claims"
    and "map_of (ad_revoked d) (cl_TokenID claims) = None"
    and "NewHTTPHandler s e hx h PostLogout (g, (d, c)) = (st1, resp)" and "ap_Status resp = 204"
    and "auth_steps s view st1 st2"
    and "BearerToken (q_Authorization h2) = Some a2"
    and "Verify (al_jwt (sv_lib s)) (sv_tokens s) (ce_tokenNow e2) a2 = Inr claims2"
    and "cl_TokenID claims2 = cl_TokenID claims"
    and "pc_dbNow (cx_repo (ce_repo e2 0)) < pg_ts (cl_ExpiresAt claims)"
    and "request = GetMe \<or> (\<exists>userID body. request = PatchRole userID body)"
    and "NewHTTPHandler s e2 hx2 h2 request st2 = (st3, resp2)"
  shows "ap_Status resp2 \<noteq> 200"
proof -
  obtain g1 r1 where st1: "st1 = (g1, r1)" by (cases st1)
  have out: "logout_handler s e hx h (g, (d, c)) = ((g1, r1), resp)" using assms(5) by (simp add: NewHTTPHandler_def st1)
  have new: "\<not> pg_revoked (fst (d, c)) (cl_TokenID claims) t" for t using assms(4) by (simp add: pg_revoked_def)
  note listed = cached_revocations.logout_revokes [OF assms(1) out assms(6,2) bearer_nonblank [OF assms(2)] assms(3) new]
  then have "pg_revoked (fst (snd st2)) (cl_TokenID claims2) (pg_ts (cl_ExpiresAt claims))"
    using cached_revocations.requests_keep [OF assms(7,1)] by (simp add: st1 cached_revocations.keeps_def assms(10))
  from cached_revocations.revoked_refused [OF assms(1) this assms(11,9)]
  obtain r' err where "CurrentUser s e2 a2 (snd st2) = (r', Inl err)" by blast
  then show ?thesis
    using assms(8,12,13) by (auto simp: NewHTTPHandler_def me_handler_def updateRole_handler_def)
qed

section \<open>Instances\<close>

text \<open>Logins of \<open>u2\<close> on the database of the instance above.\<close>

lemma ex_email: "NormalizeEmail ''u2@b.c'' = ''u2@b.c''"
  by (simp add: NormalizeEmail_def str_eval)

lemma ex_calm [simp]:
  "pc_faults (cx_repo (ce_repo ex_call k)) = []" "pc_commit (cx_repo (ce_repo ex_call k)) = Committed"
  "pc_dbNow (cx_repo (ce_repo ex_call k)) = 10 * second" "healthy_pg (cx_repo (ce_repo ex_call k))"
  by (simp_all add: ex_call_def healthy_pg_def)

lemma ex_repo [simp]: "sv_repo ex_service = WithRevocationCache ex_redis postgresRepo" "sv_lib ex_service = ex_lib"
  by (simp_all add: ex_service_def)

lemma ex_found: "rp_FindUserByEmail (WithRevocationCache ex_redis postgresRepo) (ce_repo ex_call k) ''u2@b.c'' (ex_auth_db, ()) =
    Inr (ex_user ''u2'' RoleUser)"
  by (simp add: pg_eval pgFindUserByEmail_def ex_email ex_auth_db_def ex_user_def)

definition ex_session :: RefreshSession where
  "ex_session = \<lparr>rs_TokenHash = HashRefreshToken ex_lib (b64_encode ''r''), rs_UserID = ''u2'', rs_FamilyID = ''f1'',
     rs_ReplacedByHash = '''', rs_ExpiresAt = 10 * second + 720 * hour, rs_RevokedAt = None,
     rs_CreatedAt = 10 * second, rs_UpdatedAt = 10 * second\<rparr>"

lemma ex_opened:
  "\<exists>res. issue ex_service ex_call k (ex_user ''u2'' RoleUser) (ex_auth_db, ()) =
     ((ex_auth_db\<lparr>ad_refresh := [(rs_TokenHash ex_session, ex_session)]\<rparr>, ()), Inr res)"
  by (simp add: issue_def NewRefreshToken_def Let_def ex_call_def ex_service_def)
    (simp add: pg_eval pgCreateRefreshSession_def insertRefresh_def ex_auth_db_def ex_session_def ex_user_def pg_ts_def duration_defs)

lemma ex_logged_in:
  "\<exists>g resp. NewHTTPHandler ex_service ex_call ex_http ex_headers (PostLogin (Inr \<lparr>lq_Email = ''u2@b.c'', lq_Password = ''h''\<rparr>))
     (NewLoginGuard 5 minute, (ex_auth_db, ())) =
     ((g, (ex_auth_db\<lparr>ad_refresh := [(rs_TokenHash ex_session, ex_session)]\<rparr>, ())), resp)"
proof -
  have "Allow now ''u2@b.c'' (NewLoginGuard 5 minute) = (NewLoginGuard 5 minute, True)" for now
    by (simp add: Allow_def attempt_of_def NewLoginGuard_def)
  moreover have "al_bcryptVerify ex_lib (u_PasswordHash (ex_user ''u2'' RoleUser)) ''h''"
    by (simp add: ex_lib_def ex_user_def)
  moreover obtain res where "issue ex_service ex_call 1 (ex_user ''u2'' RoleUser) (ex_auth_db, ()) =
      ((ex_auth_db\<lparr>ad_refresh := [(rs_TokenHash ex_session, ex_session)]\<rparr>, ()), Inr res)" using ex_opened by blast
  ultimately show ?thesis
    by (simp add: NewHTTPHandler_def login_handler_def Login_def ex_email ex_found Let_def)
qed

theorem one_live_token_per_family_witness:
  "\<exists>g d. auth_steps ex_service (\<lambda>r. pg_sessions (fst r)) (NewLoginGuard 5 minute, (ex_auth_db, ())) (g, (d, ())) \<and>
     {hash. \<exists>x. map_of (ad_refresh d) hash = Some x \<and> rs_RevokedAt x = None \<and> rs_ReplacedByHash x = '''' \<and>
        rs_FamilyID x = ''f1''} = {rs_TokenHash ex_session}"
proof -
  let ?d = "ex_auth_db\<lparr>ad_refresh := [(rs_TokenHash ex_session, ex_session)]\<rparr>"
  have fresh: "draws_fresh ex_service ex_call (pg_sessions (fst (snd (NewLoginGuard 5 minute, (ex_auth_db, ())))))"
    by (auto simp: draws_fresh_def known_family_def session_view_def ex_auth_db_def split: option.split)
  obtain g where steps: "auth_steps ex_service (\<lambda>r. pg_sessions (fst r)) (NewLoginGuard 5 minute, (ex_auth_db, ())) (g, (?d, ()))"
  proof -
    from ex_logged_in obtain g resp where "NewHTTPHandler ex_service ex_call ex_http ex_headers
        (PostLogin (Inr \<lparr>lq_Email = ''u2@b.c'', lq_Password = ''h''\<rparr>)) (NewLoginGuard 5 minute, (ex_auth_db, ())) =
        ((g, (?d, ())), resp)" by blast
    from next_request [where view = "\<lambda>r. pg_sessions (fst r)", OF no_request fresh this] show thesis by (rule that)
  qed
  have mine: "map_of (ad_refresh ?d) (rs_TokenHash ex_session) = Some ex_session" "rs_RevokedAt ex_session = None"
      "rs_ReplacedByHash ex_session = ''''" "rs_FamilyID ex_session = ''f1''"
    by (simp_all add: ex_session_def)
  have "hash = rs_TokenHash ex_session" if "map_of (ad_refresh ?d) hash = Some x" "rs_RevokedAt x = None"
      "rs_ReplacedByHash x = ''''" "rs_FamilyID x = ''f1''" for hash x
    using one_live_token_per_family [OF steps ex_repo(1) _ that(1-3) mine(1-3)] that(4) mine(4)
    by (simp add: ex_auth_db_def)
  then show ?thesis using steps mine by blast
qed


lemma ex_wrong: "Login ex_service ex_call ''u2@b.c'' ''x'' (g, (ex_auth_db, ())) =
    (case Allow (10 * second) ''u2@b.c'' g of (g1, ok) \<Rightarrow>
       if ok then ((RecordFailure (10 * second) ''u2@b.c'' g1, (ex_auth_db, ())), Inl ErrInvalidCredentials)
       else ((g1, (ex_auth_db, ())), Inl ErrTooManyAttempts))"
proof -
  have "\<not> al_bcryptVerify ex_lib (u_PasswordHash (ex_user ''u2'' RoleUser)) ''x''"
    by (simp add: ex_lib_def ex_user_def)
  moreover have "ce_allowNow ex_call = 10 * second" "ce_failNow ex_call = 10 * second" by (simp_all add: ex_call_def)
  ultimately show ?thesis by (simp add: Login_def ex_email ex_found Let_def split: prod.split)
qed


lemma ex_logged_out:
  "\<exists>st1 resp. NewHTTPHandler ex_service ex_call ex_http ex_headers PostLogout (g, (ex_auth_db, ())) = (st1, resp) \<and> ap_Status resp = 204"
proof -
  have "Verify (al_jwt ex_lib) (sv_tokens ex_service) (ce_tokenNow ex_call)
      (fst (Sign ex_jwt ex_manager (5 * second) ''t1'' ex_subject)) = Inr ex_claims"
    using ex_verifies by (simp add: ex_service_def ex_lib_def ex_call_def)
  moreover have "q_refreshCookie ex_headers = None" by (simp add: ex_headers_def)
  moreover have "TrimSpace (fst (Sign ex_jwt ex_manager (5 * second) ''t1'' ex_subject)) \<noteq> ''''"
    using bearer_nonblank [OF ex_headers_bearer] .
  moreover obtain r where "rp_RevokeToken (WithRevocationCache ex_redis postgresRepo) (ce_repo ex_call 0) (cl_TokenID ex_claims)
      (cl_UserID ex_claims) (cl_ExpiresAt ex_claims) (ex_auth_db, ()) = ((r, ()), Inr ())"
    by (simp add: pg_eval cachedRevokeToken_def pgRevokeToken_def ex_auth_db_def ex_claims_def)
  ultimately show ?thesis
    by (simp add: NewHTTPHandler_def logout_handler_def ex_headers_bearer refreshTokenFromCookie_def Logout_def
        LogoutRefresh_def Let_def)
qed

theorem logged_out_token_refused_witness:
  "\<exists>st1 resp st2 resp2. NewHTTPHandler ex_service ex_call ex_http ex_headers PostLogout (NewLoginGuard 5 minute, (ex_auth_db, ())) = (st1, resp) \<and>
     ap_Status resp = 204 \<and>
     NewHTTPHandler ex_service ex_call ex_http ex_headers GetMe st1 = (st2, resp2) \<and> ap_Status resp2 \<noteq> 200"
proof -
  obtain st1 resp where out: "NewHTTPHandler ex_service ex_call ex_http ex_headers PostLogout (NewLoginGuard 5 minute, (ex_auth_db, ())) = (st1, resp)"
    "ap_Status resp = 204" using ex_logged_out by blast
  obtain st2 resp2 where me: "NewHTTPHandler ex_service ex_call ex_http ex_headers GetMe st1 = (st2, resp2)" by fastforce
  let ?a = "fst (Sign ex_jwt ex_manager (5 * second) ''t1'' ex_subject)"
  have valid: "Verify (al_jwt (sv_lib ex_service)) (sv_tokens ex_service) (ce_tokenNow ex_call) ?a = Inr ex_claims"
    using ex_verifies by (simp add: ex_service_def ex_lib_def ex_call_def)
  have "map_of (ad_revoked ex_auth_db) (cl_TokenID ex_claims) = None" by (simp add: ex_auth_db_def)
  moreover have "pc_dbNow (cx_repo (ce_repo ex_call 0)) < pg_ts (cl_ExpiresAt ex_claims)"
    by (simp add: ex_claims_def pg_ts_def second_def)
  ultimately have "ap_Status resp2 \<noteq> 200"
    using logged_out_token_refused [OF ex_repo(1) ex_headers_bearer valid _ out no_request ex_headers_bearer valid refl _ _ me]
    by blast
  then show ?thesis using out me by blast
qed

end
