(* ===== verification/EventHttp.thy ===== *)
theory EventHttp imports EventMemory EventPostgres Authn HttpJson begin

text \<open>
  \<^verbatim>\<open>internal/services/eventregistration\<close>: \<^verbatim>\<open>service.go\<close> and \<^verbatim>\<open>http.go\<close>. The service is a function of a
  repository, the record of its operations as the Go interface \<^verbatim>\<open>Repository\<close> is. A request is its
  headers and the decoded body; a response its status and the value that is encoded.
\<close>

section \<open>The repository interface\<close>

text \<open>\<open>'x\<close> is what one call of the repository meets: drawn ids, the correlation id, faults.\<close>

record ('x, 'r) EventRepository =
  er_CreateEvent :: "'x \<Rightarrow> Event \<Rightarrow> 'r \<Rightarrow> 'r \<times> (event_error + EventDetail)"
  er_UpdateEvent :: "'x \<Rightarrow> string \<Rightarrow> string \<Rightarrow> Role \<Rightarrow> UpdateEventCommand \<Rightarrow> time \<Rightarrow> 'r \<Rightarrow> 'r \<times> (event_error + EventDetail)"
  er_CancelEvent :: "'x \<Rightarrow> string \<Rightarrow> string \<Rightarrow> Role \<Rightarrow> time \<Rightarrow> 'r \<Rightarrow> 'r \<times> (event_error + EventDetail)"
  er_ListPublishedEvents :: "'x \<Rightarrow> 'r \<Rightarrow> event_error + EventDetail list"
  er_GetEventDetail :: "'x \<Rightarrow> string \<Rightarrow> string \<Rightarrow> 'r \<Rightarrow> event_error + EventDetail"
  er_JoinEvent :: "'x \<Rightarrow> string \<Rightarrow> string \<Rightarrow> string \<Rightarrow> time \<Rightarrow> 'r \<Rightarrow> 'r \<times> (event_error + JoinResult)"
  er_CancelJoin :: "'x \<Rightarrow> string \<Rightarrow> string \<Rightarrow> time \<Rightarrow> 'r \<Rightarrow> 'r \<times> (event_error + CancelJoinResult)"
  er_CancelRegistration ::
    "'x \<Rightarrow> string \<Rightarrow> string \<Rightarrow> Role \<Rightarrow> string \<Rightarrow> time \<Rightarrow> 'r \<Rightarrow> 'r \<times> (event_error + CancelJoinResult)"
  er_GetJoinStatus :: "'x \<Rightarrow> string \<Rightarrow> string \<Rightarrow> 'r \<Rightarrow> event_error + RegistrationStatus"

definition memoryEvents :: "((nat \<Rightarrow> string) \<times> string, MemoryRepository) EventRepository" where
  "memoryEvents =
     \<lparr>er_CreateEvent = (\<lambda>x. CreateEvent (fst x)), er_UpdateEvent = (\<lambda>x. UpdateEvent (fst x)),
      er_CancelEvent = (\<lambda>x. CancelEvent (fst x) (snd x)), er_ListPublishedEvents = (\<lambda>x. ListPublishedEvents),
      er_GetEventDetail = (\<lambda>x. GetEventDetail), er_JoinEvent = (\<lambda>x. JoinEvent (fst x)),
      er_CancelJoin = (\<lambda>x. CancelJoin (fst x)),
      er_CancelRegistration = (\<lambda>x. CancelRegistration (fst x) (snd x)),
      er_GetJoinStatus = (\<lambda>x. GetJoinStatus)\<rparr>"

record EventPgCall =
  ep_net :: Net
  ep_ids :: "nat \<Rightarrow> string"
  ep_correlationID :: string

definition postgresEvents :: "(EventPgCall, EventDB) EventRepository" where
  "postgresEvents =
     \<lparr>er_CreateEvent = (\<lambda>x. pgCreateEvent (ep_correlationID x) (ep_net x) (ep_ids x)),
      er_UpdateEvent = (\<lambda>x. pgUpdateEvent (ep_correlationID x) (ep_net x) (ep_ids x)),
      er_CancelEvent = (\<lambda>x. pgCancelEvent (ep_correlationID x) (ep_net x) (ep_ids x)),
      er_ListPublishedEvents = (\<lambda>x. pgListPublishedEvents (ep_net x)),
      er_GetEventDetail = (\<lambda>x. pgGetEventDetail (ep_net x)),
      er_JoinEvent = (\<lambda>x. pgJoinEvent (ep_correlationID x) (ep_net x) (ep_ids x)),
      er_CancelJoin = (\<lambda>x. pgCancelJoin (ep_correlationID x) (ep_net x) (ep_ids x)),
      er_CancelRegistration = (\<lambda>x. pgCancelRegistration (ep_correlationID x) (ep_net x) (ep_ids x)),
      er_GetJoinStatus = (\<lambda>x. pgGetJoinStatus (ep_net x))\<rparr>"

section \<open>Service\<close>

text \<open>\<open>now\<close> is \<^verbatim>\<open>s.now()\<close>.\<close>

record CreateEventCommand =
  cc_OrganizerID :: string
  cc_Role :: Role
  cc_Title :: string
  cc_Description :: string
  cc_City :: string
  cc_Venue :: string
  cc_StartsAt :: time
  cc_Capacity :: int

definition svcCreateEvent :: "('x, 'r) EventRepository \<Rightarrow> 'x \<Rightarrow> string \<Rightarrow> time \<Rightarrow> CreateEventCommand \<Rightarrow> 'r
   \<Rightarrow> 'r \<times> (event_error + EventDetail)" where
  "svcCreateEvent repo x newID now cmd r =
     (if \<not> CanPublishEvents (NormalizeRole (cc_Role cmd)) then (r, Inl ErrForbidden)
      else (case NewEvent newID (cc_OrganizerID cmd) (cc_Title cmd) (cc_Description cmd) (cc_City cmd)
                   (cc_Venue cmd) (cc_StartsAt cmd) (cc_Capacity cmd) now of
              Inl err \<Rightarrow> (r, Inl err)
            | Inr event \<Rightarrow> er_CreateEvent repo x event r))"

definition svcUpdateEvent :: "('x, 'r) EventRepository \<Rightarrow> 'x \<Rightarrow> time \<Rightarrow> string \<Rightarrow> string \<Rightarrow> Role \<Rightarrow> UpdateEventCommand \<Rightarrow> 'r
   \<Rightarrow> 'r \<times> (event_error + EventDetail)" where
  "svcUpdateEvent repo x now eventID organizerID role cmd r =
     (if TrimSpace organizerID = '''' then (r, Inl ErrUnauthorized)
      else if \<not> CanPublishEvents (NormalizeRole role) then (r, Inl ErrForbidden)
      else er_UpdateEvent repo x (TrimSpace eventID) (TrimSpace organizerID) (NormalizeRole role) cmd now r)"

definition svcCancelEvent :: "('x, 'r) EventRepository \<Rightarrow> 'x \<Rightarrow> time \<Rightarrow> string \<Rightarrow> string \<Rightarrow> Role \<Rightarrow> 'r
   \<Rightarrow> 'r \<times> (event_error + EventDetail)" where
  "svcCancelEvent repo x now eventID organizerID role r =
     (if TrimSpace organizerID = '''' then (r, Inl ErrUnauthorized)
      else if \<not> CanPublishEvents (NormalizeRole role) then (r, Inl ErrForbidden)
      else er_CancelEvent repo x (TrimSpace eventID) (TrimSpace organizerID) (NormalizeRole role) now r)"

definition svcListPublishedEvents :: "('x, 'r) EventRepository \<Rightarrow> 'x \<Rightarrow> 'r \<Rightarrow> event_error + EventDetail list" where
  "svcListPublishedEvents repo x r = er_ListPublishedEvents repo x r"

definition svcGetEventDetail :: "('x, 'r) EventRepository \<Rightarrow> 'x \<Rightarrow> string \<Rightarrow> string \<Rightarrow> 'r \<Rightarrow> event_error + EventDetail" where
  "svcGetEventDetail repo x eventID viewerID r =
     er_GetEventDetail repo x (TrimSpace eventID) (TrimSpace viewerID) r"

definition svcJoinEvent :: "('x, 'r) EventRepository \<Rightarrow> 'x \<Rightarrow> time \<Rightarrow> string \<Rightarrow> string \<Rightarrow> string \<Rightarrow> 'r
   \<Rightarrow> 'r \<times> (event_error + JoinResult)" where
  "svcJoinEvent repo x now eventID userID idempotencyKey r =
     (if TrimSpace userID = '''' then (r, Inl ErrUnauthorized)
      else er_JoinEvent repo x (TrimSpace eventID) (TrimSpace userID) (TrimSpace idempotencyKey) now r)"

definition svcCancelJoin :: "('x, 'r) EventRepository \<Rightarrow> 'x \<Rightarrow> time \<Rightarrow> string \<Rightarrow> string \<Rightarrow> 'r
   \<Rightarrow> 'r \<times> (event_error + CancelJoinResult)" where
  "svcCancelJoin repo x now eventID userID r =
     (if TrimSpace userID = '''' then (r, Inl ErrUnauthorized)
      else er_CancelJoin repo x (TrimSpace eventID) (TrimSpace userID) now r)"

definition svcCancelRegistration :: "('x, 'r) EventRepository \<Rightarrow> 'x \<Rightarrow> time \<Rightarrow> string \<Rightarrow> string \<Rightarrow> Role \<Rightarrow> string \<Rightarrow> 'r
   \<Rightarrow> 'r \<times> (event_error + CancelJoinResult)" where
  "svcCancelRegistration repo x now eventID actorID role targetUserID r =
     (if TrimSpace actorID = '''' then (r, Inl ErrUnauthorized)
      else if TrimSpace targetUserID = '''' then (r, Inl ErrInvalidEvent)
      else if \<not> CanPublishEvents (NormalizeRole role) then (r, Inl ErrForbidden)
      else er_CancelRegistration repo x (TrimSpace eventID) (TrimSpace actorID) (NormalizeRole role)
             (TrimSpace targetUserID) now r)"

definition svcGetJoinStatus :: "('x, 'r) EventRepository \<Rightarrow> 'x \<Rightarrow> string \<Rightarrow> string \<Rightarrow> 'r \<Rightarrow> event_error + RegistrationStatus" where
  "svcGetJoinStatus repo x eventID userID r =
     (if TrimSpace userID = '''' then Inl ErrUnauthorized
      else er_GetJoinStatus repo x (TrimSpace eventID) (TrimSpace userID) r)"

section \<open>Requests and responses\<close>

record createEventRequest =
  cq_Title :: string
  cq_Description :: string
  cq_City :: string
  cq_Venue :: string
  cq_StartsAt :: time
  cq_Capacity :: int

text \<open>The fields of \<^verbatim>\<open>updateEventRequest\<close> are those of the command.\<close>

datatype event_request =
    PostEvent "decode_error + createEventRequest"
  | GetEvents
  | GetEvent string
  | PatchEvent string "decode_error + UpdateEventCommand"
  | PostCancel string
  | PostJoin string string \<comment> \<open>the event and the header \<^verbatim>\<open>Idempotency-Key\<close>\<close>
  | DeleteJoin string
  | DeleteRegistration string string
  | GetJoin string

record joinResponse =
  jr_RegistrationID :: string
  jr_EventID :: string
  jr_UserID :: string
  jr_Status :: RegistrationStatus
  jr_WaitlistPosition :: int
  jr_Existing :: bool

record eventResponse =
  vr_ID :: string
  vr_OrganizerID :: string
  vr_Title :: string
  vr_Description :: string
  vr_City :: string
  vr_Venue :: string
  vr_StartsAt :: time
  vr_Capacity :: int
  vr_Status :: EventStatus

record eventDetailResponse =
  dr_Event :: eventResponse
  dr_ConfirmedCount :: int
  dr_ViewerJoinStatus :: RegistrationStatus

record cancelJoinResponse =
  jc_Status :: RegistrationStatus
  jc_Canceled :: "joinResponse option"
  jc_Promoted :: "joinResponse option"

datatype event_body =
    DetailBody eventDetailResponse | EventsBody "eventDetailResponse list" | JoinBody joinResponse
  | CancelBody cancelJoinResponse | JoinStatusBody RegistrationStatus
  | EventErrorBody string string \<comment> \<open>code and message\<close>

type_synonym event_response = "int \<times> event_body"

definition eventDetailResponseFromDomain :: "EventDetail \<Rightarrow> eventDetailResponse" where
  "eventDetailResponseFromDomain detail =
     \<lparr>dr_Event = \<lparr>vr_ID = e_ID (d_Event detail), vr_OrganizerID = e_OrganizerID (d_Event detail),
        vr_Title = e_Title (d_Event detail), vr_Description = e_Description (d_Event detail),
        vr_City = e_City (d_Event detail), vr_Venue = e_Venue (d_Event detail),
        vr_StartsAt = e_StartsAt (d_Event detail), vr_Capacity = e_Capacity (d_Event detail),
        vr_Status = e_Status (d_Event detail)\<rparr>,
      dr_ConfirmedCount = d_ConfirmedCount detail, dr_ViewerJoinStatus = d_ViewerJoinStatus detail\<rparr>"

definition joinResponseFromDomain :: "JoinResult \<Rightarrow> joinResponse" where
  "joinResponseFromDomain result =
     \<lparr>jr_RegistrationID = r_ID (j_Registration result), jr_EventID = r_EventID (j_Registration result),
      jr_UserID = r_UserID (j_Registration result), jr_Status = r_Status (j_Registration result),
      jr_WaitlistPosition = r_WaitlistPosition (j_Registration result), jr_Existing = j_Existing result\<rparr>"

definition registrationResponse :: "Registration \<Rightarrow> joinResponse" where
  "registrationResponse reg =
     \<lparr>jr_RegistrationID = r_ID reg, jr_EventID = r_EventID reg, jr_UserID = r_UserID reg,
      jr_Status = r_Status reg, jr_WaitlistPosition = r_WaitlistPosition reg, jr_Existing = False\<rparr>"

definition cancelJoinResponseFromDomain :: "CancelJoinResult \<Rightarrow> cancelJoinResponse" where
  "cancelJoinResponseFromDomain result =
     \<lparr>jc_Status = c_Status result, jc_Canceled = map_option registrationResponse (c_Canceled result),
      jc_Promoted = map_option registrationResponse (c_Promoted result)\<rparr>"

definition eventError :: "int \<Rightarrow> string \<Rightarrow> string \<Rightarrow> event_response" where
  "eventError status code message = (status, EventErrorBody code message)"

definition writeEventError :: "event_error \<Rightarrow> event_response" where
  "writeEventError err =
     (case err of
        ErrUnauthorized \<Rightarrow> eventError 401 ''unauthorized'' ''user identity required''
      | ErrForbidden \<Rightarrow> eventError 403 ''forbidden'' ''operation is not allowed''
      | ErrNotFound \<Rightarrow> eventError 404 ''not_found'' ''resource not found''
      | ErrInvalidEvent \<Rightarrow> eventError 400 ''invalid_request'' ''invalid event''
      | ErrInvalidCapacity \<Rightarrow> eventError 400 ''invalid_request'' ''invalid capacity''
      | ErrEventStarted \<Rightarrow> eventError 400 ''invalid_request'' ''event already started''
      | ErrCapacityBelowConfirmed \<Rightarrow> eventError 409 ''capacity_below_confirmed'' ''capacity below confirmed registrations''
      | ErrEventCanceled \<Rightarrow> eventError 409 ''event_canceled'' ''event canceled''
      | ErrStore \<Rightarrow> eventError 500 ''internal'' ''internal server error'')"

definition eventDecodeError :: "decode_error \<Rightarrow> event_response" where
  "eventDecodeError err =
     (case err of
        RequestTooLarge \<Rightarrow> eventError 413 ''request_too_large'' ''request body is too large''
      | _ \<Rightarrow> eventError 400 ''invalid_request'' ''invalid JSON request'')"

section \<open>Who asks\<close>

text \<open>
  \<open>eh_introspect\<close> is the interface \<^verbatim>\<open>Introspector\<close>; without one the handler refuses (\<open>denyIntrospector\<close>).
\<close>

type_synonym introspector = "string \<Rightarrow> introspection_error + Subject"

record EventHandler =
  eh_jwt :: JwtLib
  eh_tokens :: TokenManager
  eh_introspector :: introspector

definition denyIntrospector :: introspector where
  "denyIntrospector token = Inl ErrIntrospectInvalid"

definition NewHTTPHandlerWithIntrospector :: "JwtLib \<Rightarrow> TokenManager \<Rightarrow> introspector option \<Rightarrow> EventHandler" where
  "NewHTTPHandlerWithIntrospector lib tokens introspector =
     \<lparr>eh_jwt = lib, eh_tokens = tokens,
      eh_introspector = (case introspector of None \<Rightarrow> denyIntrospector | Some i \<Rightarrow> i)\<rparr>"

record principal =
  pr_UserID :: string
  pr_Role :: Role

definition principalFromRequest :: "EventHandler \<Rightarrow> time \<Rightarrow> string \<Rightarrow> principal option" where
  "principalFromRequest h tokenNow authorization =
     (case BearerToken authorization of None \<Rightarrow> None
      | Some token \<Rightarrow>
         (case Verify (eh_jwt h) (eh_tokens h) tokenNow token of Inl _ \<Rightarrow> None
          | Inr claims \<Rightarrow>
             (case eh_introspector h token of Inl _ \<Rightarrow> None
              | Inr subject \<Rightarrow>
                 if sj_UserID subject \<noteq> cl_UserID claims then None
                 else (let role = NormalizeRole (sj_Role subject) in
                       if \<not> ValidRole role then None
                       else Some \<lparr>pr_UserID = sj_UserID subject, pr_Role = role\<rparr>))))"

definition optionalUserIDFromRequest :: "EventHandler \<Rightarrow> time \<Rightarrow> string \<Rightarrow> string option" where
  "optionalUserIDFromRequest h tokenNow authorization =
     (case BearerToken authorization of None \<Rightarrow> Some ''''
      | Some _ \<Rightarrow> map_option pr_UserID (principalFromRequest h tokenNow authorization))"

section \<open>Handlers\<close>

record 'x EventCall =
  ev_tokenNow :: time \<comment> \<open>the clock of the token manager\<close>
  ev_now :: time \<comment> \<open>\<^verbatim>\<open>s.now()\<close>\<close>
  ev_newID :: string \<comment> \<open>the id of a new event\<close>
  ev_repo :: 'x

text \<open>What the handlers do once they have the principal; without one the answer is 401.\<close>

definition answer :: "int \<Rightarrow> ('a \<Rightarrow> event_body) \<Rightarrow> 'r \<times> (event_error + 'a) \<Rightarrow> 'r \<times> event_response" where
  "answer status f out =
     (case out of (r, Inl err) \<Rightarrow> (r, writeEventError err) | (r, Inr a) \<Rightarrow> (r, (status, f a)))"

definition createEvent_handler :: "('x, 'r) EventRepository \<Rightarrow> 'x EventCall \<Rightarrow> principal
   \<Rightarrow> decode_error + createEventRequest \<Rightarrow> 'r \<Rightarrow> 'r \<times> event_response" where
  "createEvent_handler repo e p body r =
     (case body of Inl err \<Rightarrow> (r, eventDecodeError err)
      | Inr req \<Rightarrow> answer 201 (DetailBody \<circ> eventDetailResponseFromDomain)
          (svcCreateEvent repo (ev_repo e) (ev_newID e) (ev_now e)
             \<lparr>cc_OrganizerID = pr_UserID p, cc_Role = pr_Role p, cc_Title = cq_Title req,
              cc_Description = cq_Description req, cc_City = cq_City req, cc_Venue = cq_Venue req,
              cc_StartsAt = cq_StartsAt req, cc_Capacity = cq_Capacity req\<rparr> r))"

definition updateEvent_handler :: "('x, 'r) EventRepository \<Rightarrow> 'x EventCall \<Rightarrow> principal \<Rightarrow> string
   \<Rightarrow> decode_error + UpdateEventCommand \<Rightarrow> 'r \<Rightarrow> 'r \<times> event_response" where
  "updateEvent_handler repo e p eventID body r =
     (case body of Inl err \<Rightarrow> (r, eventDecodeError err)
      | Inr cmd \<Rightarrow> answer 200 (DetailBody \<circ> eventDetailResponseFromDomain)
          (svcUpdateEvent repo (ev_repo e) (ev_now e) eventID (pr_UserID p) (pr_Role p) cmd r))"

definition cancelEvent_handler :: "('x, 'r) EventRepository \<Rightarrow> 'x EventCall \<Rightarrow> principal \<Rightarrow> string
   \<Rightarrow> 'r \<Rightarrow> 'r \<times> event_response" where
  "cancelEvent_handler repo e p eventID r = answer 200 (DetailBody \<circ> eventDetailResponseFromDomain)
     (svcCancelEvent repo (ev_repo e) (ev_now e) eventID (pr_UserID p) (pr_Role p) r)"

definition listEvents_handler :: "('x, 'r) EventRepository \<Rightarrow> 'x EventCall \<Rightarrow> 'r \<Rightarrow> 'r \<times> event_response" where
  "listEvents_handler repo e r = answer 200 (EventsBody \<circ> map eventDetailResponseFromDomain)
     (r, svcListPublishedEvents repo (ev_repo e) r)"

definition getEvent_handler :: "('x, 'r) EventRepository \<Rightarrow> EventHandler \<Rightarrow> 'x EventCall \<Rightarrow> string \<Rightarrow> string
   \<Rightarrow> 'r \<Rightarrow> 'r \<times> event_response" where
  "getEvent_handler repo h e authorization eventID r =
     (case optionalUserIDFromRequest h (ev_tokenNow e) authorization of
        None \<Rightarrow> (r, writeEventError ErrUnauthorized)
      | Some viewerID \<Rightarrow> answer 200 (DetailBody \<circ> eventDetailResponseFromDomain)
          (r, svcGetEventDetail repo (ev_repo e) eventID viewerID r))"

definition joinEvent_handler :: "('x, 'r) EventRepository \<Rightarrow> 'x EventCall \<Rightarrow> principal \<Rightarrow> string \<Rightarrow> string
   \<Rightarrow> 'r \<Rightarrow> 'r \<times> event_response" where
  "joinEvent_handler repo e p eventID key r = answer 200 (JoinBody \<circ> joinResponseFromDomain)
     (svcJoinEvent repo (ev_repo e) (ev_now e) eventID (pr_UserID p) (TrimSpace key) r)"

definition cancelJoin_handler :: "('x, 'r) EventRepository \<Rightarrow> 'x EventCall \<Rightarrow> principal \<Rightarrow> string
   \<Rightarrow> 'r \<Rightarrow> 'r \<times> event_response" where
  "cancelJoin_handler repo e p eventID r = answer 200 (CancelBody \<circ> cancelJoinResponseFromDomain)
     (svcCancelJoin repo (ev_repo e) (ev_now e) eventID (pr_UserID p) r)"

definition cancelRegistration_handler :: "('x, 'r) EventRepository \<Rightarrow> 'x EventCall \<Rightarrow> principal \<Rightarrow> string \<Rightarrow> string
   \<Rightarrow> 'r \<Rightarrow> 'r \<times> event_response" where
  "cancelRegistration_handler repo e p eventID userID r = answer 200 (CancelBody \<circ> cancelJoinResponseFromDomain)
     (svcCancelRegistration repo (ev_repo e) (ev_now e) eventID (pr_UserID p) (pr_Role p) userID r)"

definition getJoinStatus_handler :: "('x, 'r) EventRepository \<Rightarrow> 'x EventCall \<Rightarrow> principal \<Rightarrow> string
   \<Rightarrow> 'r \<Rightarrow> 'r \<times> event_response" where
  "getJoinStatus_handler repo e p eventID r = answer 200 JoinStatusBody
     (r, svcGetJoinStatus repo (ev_repo e) eventID (pr_UserID p) r)"

text \<open>The routes. Every handler but the two reads asks for the principal first.\<close>

definition serveEvents :: "('x, 'r) EventRepository \<Rightarrow> EventHandler \<Rightarrow> 'x EventCall \<Rightarrow> string \<Rightarrow> event_request
   \<Rightarrow> 'r \<Rightarrow> 'r \<times> event_response" where
  "serveEvents repo h e authorization request r =
     (let as_principal = (\<lambda>handler. case principalFromRequest h (ev_tokenNow e) authorization of
            None \<Rightarrow> (r, writeEventError ErrUnauthorized) | Some p \<Rightarrow> handler p r)
      in case request of
           PostEvent body \<Rightarrow> as_principal (\<lambda>p. createEvent_handler repo e p body)
         | GetEvents \<Rightarrow> listEvents_handler repo e r
         | GetEvent eventID \<Rightarrow> getEvent_handler repo h e authorization eventID r
         | PatchEvent eventID body \<Rightarrow> as_principal (\<lambda>p. updateEvent_handler repo e p eventID body)
         | PostCancel eventID \<Rightarrow> as_principal (\<lambda>p. cancelEvent_handler repo e p eventID)
         | PostJoin eventID key \<Rightarrow> as_principal (\<lambda>p. joinEvent_handler repo e p eventID key)
         | DeleteJoin eventID \<Rightarrow> as_principal (\<lambda>p. cancelJoin_handler repo e p eventID)
         | DeleteRegistration eventID userID \<Rightarrow> as_principal (\<lambda>p. cancelRegistration_handler repo e p eventID userID)
         | GetJoin eventID \<Rightarrow> as_principal (\<lambda>p. getJoinStatus_handler repo e p eventID))"

end
