(* ===== verification/EventAccess.thy ===== *)
theory EventAccess imports EventHttp EventMemorySteps EventPostgresSteps begin

text \<open>
  Who may change what through the HTTP interface of the event service: the contract of a repository of
  events, what one request may change, and the interpretations on the repositories of the code.
\<close>

section \<open>Permitted changes\<close>

text \<open>What is stored: the events and the registrations, by id.\<close>

type_synonym event_view = "(string \<rightharpoonup> Event) \<times> (string \<rightharpoonup> Registration)"

definition manages :: "event_view \<Rightarrow> string \<Rightarrow> string \<Rightarrow> Role \<Rightarrow> bool" where
  "manages v ev u role \<longleftrightarrow> (\<exists>e. fst v ev = Some e \<and> (e_OrganizerID e = u \<or> CanAdmin role))"

text \<open>A change of one event by whoever manages it.\<close>

definition managed_change :: "event_view \<Rightarrow> event_view \<Rightarrow> string \<Rightarrow> bool" where
  "managed_change v v' ev \<longleftrightarrow>
     (\<forall>i. fst v' i = fst v i \<or>
        i = ev \<and> (\<exists>e e'. fst v i = Some e \<and> fst v' i = Some e' \<and> e_OrganizerID e' = e_OrganizerID e)) \<and>
     (\<forall>i. snd v' i = snd v i \<or> (\<exists>g. snd v' i = Some g \<and> r_EventID g = ev))"

text \<open>A change of a user's own registration; the first of the waitlist may move up with it.\<close>

definition own_change :: "event_view \<Rightarrow> event_view \<Rightarrow> string \<Rightarrow> string \<Rightarrow> bool" where
  "own_change v v' ev u \<longleftrightarrow> fst v' = fst v \<and>
     (\<forall>i. snd v' i = snd v i \<or> (\<exists>g. snd v' i = Some g \<and> r_EventID g = ev \<and>
        (r_UserID g = u \<or> (\<exists>g0. snd v i = Some g0 \<and> r_UserID g0 = r_UserID g \<and>
           r_Status g0 = Waitlisted \<and> r_Status g = Confirmed))))"

lemma own_change_refl [simp]: "own_change v v ev u" by (simp add: own_change_def)

lemma own_is_managed: "own_change v v' ev u \<Longrightarrow> managed_change v v' ev"
  by (auto simp: own_change_def managed_change_def)

text \<open>One registration replaced, and another one moved up.\<close>

lemma own_change_put:
  "r_EventID g = ev \<Longrightarrow> r_UserID g = u \<Longrightarrow> own_change (es, map_of m) (es, map_of (mput i g m)) ev u"
  by (simp add: own_change_def)

lemma own_change_promote:
  assumes "own_change (es, map_of m) (es, map_of m1) ev u"
    and "map_of m1 k = Some f" "r_Status f = Waitlisted" "r_EventID f = ev"
    and "r_EventID f' = ev" "r_UserID f' = r_UserID f" "r_Status f' = Confirmed"
  shows "own_change (es, map_of m) (es, map_of (mput k f' m1)) ev u"
proof -
  have "map_of m k = Some f \<or> r_UserID f = u"
    using assms(1-3) unfolding own_change_def by (drule_tac conjunct2, drule_tac x = k in spec) auto
  then show ?thesis using assms by (auto simp: own_change_def)
qed

section \<open>The contract\<close>

text \<open>\<open>drawn\<close>: the ids that a call draws are not in use; the tables of Postgres refuse others.\<close>

locale event_store =
  fixes repo :: "('x, 'r) EventRepository"
    and inv :: "'r \<Rightarrow> bool"
    and view :: "'r \<Rightarrow> event_view"
    and drawn :: "'x \<Rightarrow> 'r \<Rightarrow> bool"
  assumes create: "inv r \<Longrightarrow> NewEvent i org ti de ci ve st cap now = Inr e \<Longrightarrow> fst (view r) i = None \<Longrightarrow>
      er_CreateEvent repo x e r = (r', q) \<Longrightarrow> inv r' \<and>
      (view r' = view r \<or> (\<exists>e'. e_OrganizerID e' = TrimSpace org \<and> view r' = ((fst (view r))(i \<mapsto> e'), snd (view r))))"
    and update: "inv r \<Longrightarrow> er_UpdateEvent repo x ev org role cmd now r = (r', q) \<Longrightarrow> inv r' \<and>
      (view r' = view r \<or> manages (view r) ev org role \<and> managed_change (view r) (view r') ev)"
    and cancel: "inv r \<Longrightarrow> er_CancelEvent repo x ev org role now r = (r', q) \<Longrightarrow> inv r' \<and>
      (view r' = view r \<or> manages (view r) ev org role \<and> managed_change (view r) (view r') ev)"
    and join: "inv r \<Longrightarrow> drawn x r \<Longrightarrow> er_JoinEvent repo x ev u key now r = (r', w) \<Longrightarrow> inv r' \<and>
      own_change (view r) (view r') ev u"
    and leave: "inv r \<Longrightarrow> er_CancelJoin repo x ev u now r = (r', z) \<Longrightarrow> inv r' \<and>
      own_change (view r) (view r') ev u"
    and remove: "inv r \<Longrightarrow> er_CancelRegistration repo x ev actor role u now r = (r', z) \<Longrightarrow> inv r' \<and>
      (view r' = view r \<or> manages (view r) ev actor role \<and> managed_change (view r) (view r') ev)"
begin

text \<open>What a principal may do in one request.\<close>

definition permitted :: "string \<Rightarrow> principal \<Rightarrow> event_view \<Rightarrow> event_view \<Rightarrow> bool" where
  "permitted newID p v v' \<longleftrightarrow>
     v' = v \<or>
     CanPublishEvents (NormalizeRole (pr_Role p)) \<and> (\<exists>e'. e_OrganizerID e' = TrimSpace (pr_UserID p) \<and> v' = ((fst v)(newID \<mapsto> e'), snd v)) \<or>
     (\<exists>ev. own_change v v' ev (TrimSpace (pr_UserID p))) \<or>
     (\<exists>ev. CanPublishEvents (NormalizeRole (pr_Role p)) \<and> manages v ev (TrimSpace (pr_UserID p)) (NormalizeRole (pr_Role p)) \<and> managed_change v v' ev)"

lemma answer_fst: "fst (answer status f out) = fst out"
  by (simp add: answer_def split: prod.split sum.split)

lemma as_principal:
  assumes "inv r" "drawn (ev_repo e) r" "fst (view r) (ev_newID e) = None"
  shows "inv (fst (createEvent_handler repo e p body r)) \<and>
      permitted (ev_newID e) p (view r) (view (fst (createEvent_handler repo e p body r)))"
    and "inv (fst (updateEvent_handler repo e p ev cmd r)) \<and>
      permitted (ev_newID e) p (view r) (view (fst (updateEvent_handler repo e p ev cmd r)))"
    and "inv (fst (cancelEvent_handler repo e p ev r)) \<and>
      permitted (ev_newID e) p (view r) (view (fst (cancelEvent_handler repo e p ev r)))"
    and "inv (fst (joinEvent_handler repo e p ev key r)) \<and>
      permitted (ev_newID e) p (view r) (view (fst (joinEvent_handler repo e p ev key r)))"
    and "inv (fst (cancelJoin_handler repo e p ev r)) \<and>
      permitted (ev_newID e) p (view r) (view (fst (cancelJoin_handler repo e p ev r)))"
    and "inv (fst (cancelRegistration_handler repo e p ev u r)) \<and>
      permitted (ev_newID e) p (view r) (view (fst (cancelRegistration_handler repo e p ev u r)))"
  using assms
proof -
  show "inv (fst (createEvent_handler repo e p body r)) \<and>
      permitted (ev_newID e) p (view r) (view (fst (createEvent_handler repo e p body r)))"
    using create [OF assms(1) _ assms(3)] assms
    by (auto simp: createEvent_handler_def answer_fst svcCreateEvent_def permitted_def split: sum.splits)
      (metis prod.collapse)+
  show "inv (fst (updateEvent_handler repo e p ev cmd r)) \<and>
      permitted (ev_newID e) p (view r) (view (fst (updateEvent_handler repo e p ev cmd r)))"
    using update [OF assms(1)] assms
    by (auto simp: updateEvent_handler_def answer_fst svcUpdateEvent_def permitted_def split: sum.splits)
      (metis prod.collapse)+
  show "inv (fst (cancelEvent_handler repo e p ev r)) \<and>
      permitted (ev_newID e) p (view r) (view (fst (cancelEvent_handler repo e p ev r)))"
    using cancel [OF assms(1)] assms
    by (auto simp: cancelEvent_handler_def answer_fst svcCancelEvent_def permitted_def)
      (metis prod.collapse)+
  show "inv (fst (joinEvent_handler repo e p ev key r)) \<and>
      permitted (ev_newID e) p (view r) (view (fst (joinEvent_handler repo e p ev key r)))"
    using join [OF assms(1,2)] assms
    by (auto simp: joinEvent_handler_def answer_fst svcJoinEvent_def permitted_def)
      (metis prod.collapse)+
  show "inv (fst (cancelJoin_handler repo e p ev r)) \<and>
      permitted (ev_newID e) p (view r) (view (fst (cancelJoin_handler repo e p ev r)))"
    using leave [OF assms(1)] assms
    by (auto simp: cancelJoin_handler_def answer_fst svcCancelJoin_def permitted_def)
      (metis prod.collapse)+
  show "inv (fst (cancelRegistration_handler repo e p ev u r)) \<and>
      permitted (ev_newID e) p (view r) (view (fst (cancelRegistration_handler repo e p ev u r)))"
    using remove [OF assms(1)] assms
    by (auto simp: cancelRegistration_handler_def answer_fst svcCancelRegistration_def permitted_def)
      (metis prod.collapse)+
qed

lemma request_access:
  assumes "inv r" "drawn (ev_repo e) r" "fst (view r) (ev_newID e) = None"
    and "serveEvents repo h e authorization request r = (r', resp)"
  shows "inv r' \<and> (view r' = view r \<or> (\<exists>p. principalFromRequest h (ev_tokenNow e) authorization = Some p \<and>
    permitted (ev_newID e) p (view r) (view r')))"
proof (cases "principalFromRequest h (ev_tokenNow e) authorization")
  case None
  then show ?thesis using assms(1,4)
    by (auto simp: serveEvents_def listEvents_handler_def getEvent_handler_def answer_def
        split: event_request.splits option.splits sum.splits)
next
  case (Some p)
  note handlers = as_principal [OF assms(1-3), of p]
  have r': "r' = fst (serveEvents repo h e authorization request r)" using assms(4) by simp
  show ?thesis
  proof (cases request)
    case (GetJoin ev)
    then show ?thesis using assms(1,4) Some
      by (auto simp: serveEvents_def getJoinStatus_handler_def answer_def split: sum.splits)
  next
    case (GetEvent ev)
    then show ?thesis using assms(1,4)
      by (auto simp: serveEvents_def getEvent_handler_def answer_def split: sum.splits option.splits)
  next
    case GetEvents
    then show ?thesis using assms(1,4) by (auto simp: serveEvents_def listEvents_handler_def answer_def split: sum.splits)
  qed (simp_all add: r' serveEvents_def Some handlers)
qed

end

section \<open>The repositories\<close>

abbreviation mem_view :: "MemoryRepository \<Rightarrow> event_view" where
  "mem_view r \<equiv> (map_of (m_events r), map_of (m_registrations r))"

abbreviation pg_view :: "EventDB \<Rightarrow> event_view" where
  "pg_view d \<equiv> (map_of (db_events d), map_of (db_registrations d))"

lemma pg_join_own: "own_change (pg_view d) (pg_view (fst (pgJoinEvent corr net nid ev u key now d))) ev u"
proof -
  have "own_change (pg_view d) (pg_view (fst (pgJoinEvent corr quiet nid ev u key now d))) ev u"
    using pg_join_state [of corr nid ev u key now d]
    by (auto intro!: own_change_put simp del: map_of_mput)
  then show ?thesis
    using in_tx_final [OF bodies_abort(4) [of nid corr ev u key now], of "n_tx net" "n_commit net" d]
    by (auto simp: pgJoinEvent_def tx_final_def quiet_def)
qed

lemma pg_after_own:
  assumes inv: "pg_inv d" and "pg_after_cancel nid corr ev u now d d'"
  shows "own_change (pg_view d) (pg_view d') ev u"
  using assms(2) unfolding pg_after_cancel_def
proof (elim conjE disjE bexE)
  fix g
  assume es: "db_events d' = db_events d" and rs: "db_registrations d' = pg_regs_after ev now g d"
    and g: "g \<in> set (mvals (db_registrations d))" "r_EventID g = ev" "r_UserID g = u" "active g"
  have left: "own_change (map_of (db_events d), map_of (db_registrations d))
      (map_of (db_events d), map_of (pg_regs_left now g d)) ev u"
    unfolding pg_regs_left_def using g by (intro own_change_put) simp_all
  show ?thesis
  proof (cases "r_Status g = Confirmed")
    case True
    show ?thesis
    proof (cases "pg_first_waiting ev (pg_regs_left now g d)")
      case (Some f)
      note f = pg_first_waiting_some [OF pg_left_db_inv [OF inv g(1)] Some]
      have "map_of (pg_regs_left now g d) (r_ID f) = Some f"
        using store_lookup [of "db_events d" "pg_regs_left now g d" f] pg_left_inv [OF inv g(1)] f(4) by simp
      then show ?thesis
        using own_change_promote [OF left, of "r_ID f" f "pg_promoted now f"] f(3) es rs True Some
        by (simp add: pg_regs_after_def waitlisted_for_def)
    qed (use left es rs True in \<open>simp add: pg_regs_after_def\<close>)
  qed (use left es rs in \<open>simp add: pg_regs_after_def\<close>)
qed simp

lemma pg_create_view:
  assumes "NewEvent i org ti de ci ve st cap now = Inr e"
  shows "pg_view (fst (pgCreateEvent corr net nid e d)) = pg_view d \<or>
    (\<exists>e'. e_OrganizerID e' = TrimSpace org \<and>
       pg_view (fst (pgCreateEvent corr net nid e d)) = ((map_of (db_events d))(i \<mapsto> e'), map_of (db_registrations d)))"
proof -
  have final: "pg_view (tx_final (createEventTx nid corr e) d) = pg_view d \<or>
      pg_view (tx_final (createEventTx nid corr e) d) =
        ((map_of (db_events d))(e_ID e \<mapsto> event_row e), map_of (db_registrations d))"
    by (auto simp: tx_final_def in_tx_def faulty_def createEventTx_def insertEvent_def insertOutbox_def tx_bind_def tx_simps)
  show ?thesis
    using final in_tx_final [OF bodies_abort(1) [of nid corr e], of "n_tx net" "n_commit net" d] NewEvent_Inr [OF assms]
    by (auto simp: pgCreateEvent_def then_detail_fst event_row_def intro!: exI [of _ "event_row e"])
qed

lemma not_managed:
  assumes "\<not> manages (pg_view d) ev org role"
  shows "tx_final (updateEventTx nid corr ev org role cmd now) d = d"
    and "tx_final (cancelEventTx nid corr ev org role now) d = d"
    and "tx_final (cancelByManagerTx nid corr ev org role u now) d = d"
  using assms
  by (auto simp: tx_final_def in_tx_def faulty_def updateEventTx_def cancelEventTx_def cancelByManagerTx_def select_run
      manages_def tx_bind_def tx_simps split: option.splits)

lemma pg_update_managed:
  assumes "pg_inv d"
  shows "managed_change (pg_view d) (pg_view (tx_final (updateEventTx nid corr ev org role cmd now) d)) ev"
  using update_final_cases [of nid corr ev org role cmd now d]
proof (elim disjE exE conjE)
  fix e e'
  assume e: "map_of (db_events d) ev = Some e"
    and up: "applyUpdate cmd (int (mcount (confirmed_for ev) (db_registrations d))) now e = Inr e'"
    and tables: "db_events (tx_final (updateEventTx nid corr ev org role cmd now) d) =
        db_events (update_event (e_ID e') (\<lambda>row. row\<lparr>e_Title := e_Title e', e_Description := e_Description e',
          e_City := e_City e', e_Venue := e_Venue e', e_StartsAt := pg_ts (e_StartsAt e'),
          e_Capacity := e_Capacity e', e_UpdatedAt := pg_ts (e_UpdatedAt e')\<rparr>) d)"
      "db_registrations (tx_final (updateEventTx nid corr ev org role cmd now) d) = db_registrations d"
  have "e_ID e' = ev" using applyUpdate_Inr [OF up] assms e by (auto simp: pg_inv_def store_inv_def event_ok_def)
  then show ?thesis using e by (simp add: tables managed_change_def update_event_def)
qed (simp add: managed_change_def)

lemma canceled_change: "map_of (regs_canceled ev t m) i = map_of m i \<or>
    (\<exists>g. map_of (regs_canceled ev t m) i = Some g \<and> r_EventID g = ev)"
  by (induction m) (auto simp: regs_canceled_def cancel_active_def)

lemma pg_cancel_managed:
  assumes "pg_inv d"
  shows "managed_change (pg_view d) (pg_view (tx_final (cancelEventTx nid corr ev org role now) d)) ev"
  using cancel_final_cases [of nid corr ev org role now d]
proof (elim disjE exE conjE)
  fix e
  assume e: "map_of (db_events d) ev = Some e"
    and tables: "db_events (tx_final (cancelEventTx nid corr ev org role now) d) =
        db_events (update_event (e_ID e) (\<lambda>row. row\<lparr>e_Status := EventCanceled, e_UpdatedAt := pg_ts now\<rparr>) d)"
      "db_registrations (tx_final (cancelEventTx nid corr ev org role now) d) =
        regs_canceled (e_ID e) (pg_ts now) (db_registrations d)"
  have "e_ID e = ev" using assms e by (auto simp: pg_inv_def store_inv_def event_ok_def)
  then show ?thesis using e canceled_change [of ev "pg_ts now" "db_registrations d"]
    by (simp add: tables managed_change_def update_event_def)
qed (simp add: managed_change_def)

lemma pg_manager_managed:
  assumes inv: "pg_inv d"
  shows "managed_change (pg_view d) (pg_view (tx_final (cancelByManagerTx nid corr ev actor role u now) d)) ev"
  using manager_final_cases [OF inv, of nid corr ev actor role u now] own_is_managed [OF pg_after_own [OF inv]]
  by (auto simp: managed_change_def [of "pg_view d" "pg_view d"])

text \<open>A transaction ends in the database before it or in that of its run without faults.\<close>

lemma pg_ends:
  assumes "faults_abort m" "pg_inv d" "pg_inv (tx_final m d)" "\<not> manages (pg_view d) ev org role \<Longrightarrow> tx_final m d = d"
    and "managed_change (pg_view d) (pg_view (tx_final m d)) ev"
  shows "pg_inv (fst (in_tx ErrStore m fs c d)) \<and> (pg_view (fst (in_tx ErrStore m fs c d)) = pg_view d \<or>
    manages (pg_view d) ev org role \<and> managed_change (pg_view d) (pg_view (fst (in_tx ErrStore m fs c d))) ev)"
  using in_tx_final [OF assms(1), of fs c d] assms(2-5) by metis

interpretation pg_events: event_store postgresEvents pg_inv pg_view "\<lambda>_ _. True"
proof
  fix r i org ti de ci ve st cap now e x r' q
  assume inv: "pg_inv r" and new: "NewEvent i org ti de ci ve st cap now = Inr e"
    and run: "er_CreateEvent postgresEvents x e r = (r', q)"
  have "pg_inv (fst (pgCreateEvent (ep_correlationID x) (ep_net x) (ep_ids x) e r))"
    by (rule pg_step_inv [OF _ inv]) (rule pg_create [OF new])
  then show "pg_inv r' \<and> (pg_view r' = pg_view r \<or> (\<exists>e'. e_OrganizerID e' = TrimSpace org \<and>
      pg_view r' = ((fst (pg_view r))(i \<mapsto> e'), snd (pg_view r))))"
    using pg_create_view [OF new, of "ep_correlationID x" "ep_net x" "ep_ids x" r] run
    by (simp add: postgresEvents_def)
next
  fix r x ev org role cmd now r' q
  assume inv: "pg_inv r" and run: "er_UpdateEvent postgresEvents x ev org role cmd now r = (r', q)"
  have "r' = fst (in_tx ErrStore (updateEventTx (ep_ids x) (ep_correlationID x) ev org role cmd now)
      (n_tx (ep_net x)) (n_commit (ep_net x)) r)"
    using run by (simp add: postgresEvents_def pgUpdateEvent_def) (metis fst_conv then_detail_fst)
  then show "pg_inv r' \<and> (pg_view r' = pg_view r \<or>
      manages (pg_view r) ev org role \<and> managed_change (pg_view r) (pg_view r') ev)"
    using pg_ends [OF bodies_abort(2) inv update_final [OF inv] not_managed(1) pg_update_managed [OF inv]] by metis
next
  fix r x ev org role now r' q
  assume inv: "pg_inv r" and run: "er_CancelEvent postgresEvents x ev org role now r = (r', q)"
  have "r' = fst (in_tx ErrStore (cancelEventTx (ep_ids x) (ep_correlationID x) ev org role now)
      (n_tx (ep_net x)) (n_commit (ep_net x)) r)"
    using run by (simp add: postgresEvents_def pgCancelEvent_def) (metis fst_conv then_detail_fst)
  then show "pg_inv r' \<and> (pg_view r' = pg_view r \<or>
      manages (pg_view r) ev org role \<and> managed_change (pg_view r) (pg_view r') ev)"
    using pg_ends [OF bodies_abort(3) inv cancel_final [OF inv] not_managed(2) pg_cancel_managed [OF inv]] by metis
next
  fix r x ev u key now r' w
  assume inv: "pg_inv r" and run: "er_JoinEvent postgresEvents x ev u key now r = (r', w)"
  have r': "r' = fst (pgJoinEvent (ep_correlationID x) (ep_net x) (ep_ids x) ev u key now r)"
    using run by (simp add: postgresEvents_def)
  show "pg_inv r' \<and> own_change (pg_view r) (pg_view r') ev u"
    unfolding r' using pg_step_inv [OF pg_join inv] pg_join_own by simp
next
  fix r x ev u now r' z
  assume inv: "pg_inv r" and run: "er_CancelJoin postgresEvents x ev u now r = (r', z)"
  let ?m = "tx_bind (selectEventForUpdate ev) (\<lambda>_. cancelRegistrationTx (ep_ids x) (ep_correlationID x) ev u now)"
  have r': "r' = fst (pgCancelJoin (ep_correlationID x) (ep_net x) (ep_ids x) ev u now r)"
    using run by (simp add: postgresEvents_def)
  have "own_change (pg_view r) (pg_view (tx_final ?m r)) ev u"
    using pg_cancel_state [OF inv, of "ep_correlationID x" "ep_ids x" ev u now] pg_after_own [OF inv]
    by (auto simp: pgCancelJoin_def tx_final_def quiet_def)
  then show "pg_inv r' \<and> own_change (pg_view r) (pg_view r') ev u"
    using in_tx_final [OF cancel_join_abort, of ev "ep_ids x" "ep_correlationID x" u now "n_tx (ep_net x)" "n_commit (ep_net x)" r]
      pg_step_inv [OF pg_leave inv]
    by (auto simp: r' pgCancelJoin_def)
next
  fix r x ev actor role u now r' z
  assume inv: "pg_inv r" and run: "er_CancelRegistration postgresEvents x ev actor role u now r = (r', z)"
  have "r' = fst (in_tx ErrStore (cancelByManagerTx (ep_ids x) (ep_correlationID x) ev actor role u now)
      (n_tx (ep_net x)) (n_commit (ep_net x)) r)"
    using run by (simp add: postgresEvents_def pgCancelRegistration_def)
  then show "pg_inv r' \<and> (pg_view r' = pg_view r \<or>
      manages (pg_view r) ev actor role \<and> managed_change (pg_view r) (pg_view r') ev)"
    using pg_ends [OF bodies_abort(6) inv manager_final [OF inv] not_managed(3) pg_manager_managed [OF inv]] by metis
qed

text \<open>In memory the ids that a join draws must be new.\<close>

lemma mem_locked_own:
  assumes inv: "mem_inv r"
  shows "own_change (mem_view r) (mem_view (fst (cancelRegistrationLocked nid ev u now r))) ev u"
proof (cases "activeRegistrationLocked ev u r")
  case (Some g)
  note g = activeRegistrationLocked_Some [OF Some]
  have left: "own_change (mem_view r) (map_of (m_events r), map_of (regs_left now g r)) ev u"
    unfolding regs_left_def using g by (intro own_change_put) simp_all
  show ?thesis
  proof (cases "promotes ev now g r")
    case None
    then show ?thesis using left by (simp add: cancelRegistrationLocked_cases Some Let_def)
  next
    case (Some f)
    then have waiting: "next_waiting ev (regs_left now g r) = Some f" by (auto simp: promotes_def split: if_splits)
    have f: "f \<in> set (mvals (regs_left now g r))" "waitlisted_for ev f"
      using next_waiting_in [OF waiting] by auto
    have "map_of (regs_left now g r) (r_ID f) = Some f"
      using store_lookup [OF regs_left_inv [OF inv [unfolded mem_inv_def]] f(1)] g by simp
    then have "own_change (mem_view r) (map_of (m_events r), map_of (mput (r_ID f) (promoted_reg now f) (regs_left now g r))) ev u"
      using own_change_promote [OF left, of "r_ID f" f "promoted_reg now f"] f(2) by (simp add: waitlisted_for_def)
    then show ?thesis using Some \<open>activeRegistrationLocked ev u r = Some g\<close>
      by (simp add: cancelRegistrationLocked_cases Let_def)
  qed
qed (simp add: cancelRegistrationLocked_cases)

lemma mem_update_managed:
  "mem_view (fst (UpdateEvent nid ev org role cmd now r)) = mem_view r \<or> manages (mem_view r) ev org role \<and>
     managed_change (mem_view r) (mem_view (fst (UpdateEvent nid ev org role cmd now r))) ev"
proof (cases "snd (UpdateEvent nid ev org role cmd now r)")
  case (Inr d)
  from UpdateEvent_state [OF this] obtain e e' where "map_of (m_events r) ev = Some e"
    "e_OrganizerID e = org \<or> CanAdmin role" "applyUpdate cmd (confirmedCountLocked ev r) now e = Inr e'"
    "m_events (fst (UpdateEvent nid ev org role cmd now r)) = mput ev e' (m_events r)"
    "m_registrations (fst (UpdateEvent nid ev org role cmd now r)) = m_registrations r" by blast
  then show ?thesis using applyUpdate_Inr by (auto simp: manages_def managed_change_def)
qed (simp add: UpdateEvent_error)

lemma mem_unmanaged:
  assumes "\<not> manages (mem_view r) ev org role"
  shows "fst (CancelEvent nid corr ev org role now r) = r" "fst (CancelRegistration nid corr ev org role u now r) = r"
  using assms by (auto simp: CancelEvent_def CancelRegistration_def manages_def split: option.splits)

lemma mem_cancel_managed:
  "managed_change (mem_view r) (mem_view (fst (CancelEvent nid corr ev org role now r))) ev"
  using CancelEvent_state [of nid corr ev org role now r] canceled_change [of ev now "m_registrations r"]
  by (elim disjE exE conjE) (simp_all add: managed_change_def)

interpretation mem_events: event_store memoryEvents mem_inv mem_view "\<lambda>x. mem_fresh (fst x)"
proof
  fix r i org ti de ci ve st cap now e x r' q
  assume inv: "mem_inv r" and new: "NewEvent i org ti de ci ve st cap now = Inr e" and "fst (mem_view r) i = None"
    and run: "er_CreateEvent memoryEvents x e r = (r', q)"
  then show "mem_inv r' \<and> (mem_view r' = mem_view r \<or> (\<exists>e'. e_OrganizerID e' = TrimSpace org \<and>
      mem_view r' = ((fst (mem_view r))(i \<mapsto> e'), snd (mem_view r))))"
    using CreateEvent_inv [OF inv, of e "fst x"] NewEvent_Inr [OF new]
    by (auto simp: memoryEvents_def CreateEvent_def Let_def)
next
  fix r x ev org role cmd now r' q
  assume "mem_inv r" "er_UpdateEvent memoryEvents x ev org role cmd now r = (r', q)"
  then show "mem_inv r' \<and> (mem_view r' = mem_view r \<or>
      manages (mem_view r) ev org role \<and> managed_change (mem_view r) (mem_view r') ev)"
    using UpdateEvent_inv [of r "fst x" ev org role cmd now] mem_update_managed [of "fst x" ev org role cmd now r]
    by (simp add: memoryEvents_def)
next
  fix r x ev org role now r' q
  assume "mem_inv r" "er_CancelEvent memoryEvents x ev org role now r = (r', q)"
  then show "mem_inv r' \<and> (mem_view r' = mem_view r \<or>
      manages (mem_view r) ev org role \<and> managed_change (mem_view r) (mem_view r') ev)"
    using CancelEvent_inv [of r "fst x" "snd x" ev org role now] mem_cancel_managed [of r "fst x" "snd x" ev org role now]
      mem_unmanaged(1) [of r ev org role "fst x" "snd x" now]
    by (auto simp: memoryEvents_def)
next
  fix r x ev u key now r' w
  assume "mem_inv r" "mem_fresh (fst x) r" "er_JoinEvent memoryEvents x ev u key now r = (r', w)"
  then show "mem_inv r' \<and> own_change (mem_view r) (mem_view r') ev u"
    using JoinEvent_inv [of r "fst x" ev u key now] JoinEvent_state [of "fst x" ev u key now r]
    by (auto simp: memoryEvents_def intro!: own_change_put simp del: map_of_mput)
next
  fix r x ev u now r' z
  assume "mem_inv r" "er_CancelJoin memoryEvents x ev u now r = (r', z)"
  then show "mem_inv r' \<and> own_change (mem_view r) (mem_view r') ev u"
    using CancelJoin_inv [of r "fst x" ev u now] mem_locked_own [of r "fst x" ev u now]
      CancelJoin_state [of "fst x" ev u now r]
    by (auto simp: memoryEvents_def split: option.splits)
next
  fix r x ev actor role u now r' z
  assume inv: "mem_inv r" and run: "er_CancelRegistration memoryEvents x ev actor role u now r = (r', z)"
  have "managed_change (mem_view r) (mem_view r') ev"
    using CancelRegistration_state [of "fst x" "snd x" ev actor role u now r] run
      own_is_managed [OF mem_locked_own [OF inv, of "fst x" ev u now]]
    by (auto simp: memoryEvents_def managed_change_def [of "mem_view r" "mem_view r"])
  then show "mem_inv r' \<and> (mem_view r' = mem_view r \<or>
      manages (mem_view r) ev actor role \<and> managed_change (mem_view r) (mem_view r') ev)"
    using CancelRegistration_inv [OF inv, of "fst x" "snd x" ev actor role u now] run
      mem_unmanaged(2) [of r ev actor role "fst x" "snd x" u now]
    by (auto simp: memoryEvents_def)
qed

end
