(* ===== verification/EventAccessProps.thy ===== *)
theory EventAccessProps imports EventAccess EventPostgresProps AuthnProps begin

text \<open>
  What a request to the event service may change, on Postgres and under any faults.
\<close>

text \<open>
  C36. Requests act for whom they say: a request that changes events or registrations carries a token that
  verifies and that the auth service confirms for the same user. An event is changed only by its organizer
  or an administrator and keeps its organizer; a new event belongs to the user; creating and changing needs
  a role that may publish. A registration is changed by its own user or by a manager of its event, or it
  moves up from the waitlist.
\<close>

theorem event_requests_authorized:
  assumes "pg_inv d" and "map_of (db_events d) (ev_newID e) = None"
    and "serveEvents postgresEvents h e authorization request d = (d', resp)"
  shows "pg_inv d' \<and> (pg_view d' = pg_view d \<or>
    (\<exists>token claims subject user role. BearerToken authorization = Some token \<and>
       Verify (eh_jwt h) (eh_tokens h) (ev_tokenNow e) token = Inr claims \<and>
       eh_introspector h token = Inr subject \<and> sj_UserID subject = cl_UserID claims \<and>
       user = TrimSpace (cl_UserID claims) \<and> role = NormalizeRole (NormalizeRole (sj_Role subject)) \<and>
       (\<forall>i. map_of (db_events d') i = map_of (db_events d) i \<or>
          CanPublishEvents role \<and> (\<exists>new. map_of (db_events d') i = Some new \<and>
            (case map_of (db_events d) i of
               None \<Rightarrow> e_OrganizerID new = user
             | Some old \<Rightarrow> e_OrganizerID new = e_OrganizerID old \<and> (e_OrganizerID old = user \<or> CanAdmin role)))) \<and>
       (\<forall>i. map_of (db_registrations d') i = map_of (db_registrations d) i \<or>
          (\<exists>g. map_of (db_registrations d') i = Some g \<and>
            (r_UserID g = user \<or>
             (\<exists>g0. map_of (db_registrations d) i = Some g0 \<and> r_UserID g0 = r_UserID g \<and>
                r_Status g0 = Waitlisted \<and> r_Status g = Confirmed) \<or>
             CanPublishEvents role \<and> (\<exists>ev. map_of (db_events d) (r_EventID g) = Some ev \<and>
                (e_OrganizerID ev = user \<or> CanAdmin role)))))))"
proof -
  have "pg_inv d' \<and> (pg_view d' = pg_view d \<or> (\<exists>p. principalFromRequest h (ev_tokenNow e) authorization = Some p \<and>
      pg_events.permitted (ev_newID e) p (pg_view d) (pg_view d')))"
    by (rule pg_events.request_access [OF assms(1) _ _ assms(3)]) (simp_all add: assms(2))
  then show ?thesis
  proof (elim conjE disjE exE)
    fix p
    assume inv: "pg_inv d'" and p: "principalFromRequest h (ev_tokenNow e) authorization = Some p"
      and permitted: "pg_events.permitted (ev_newID e) p (pg_view d) (pg_view d')"
    from p obtain token claims subject where who: "BearerToken authorization = Some token"
      "Verify (eh_jwt h) (eh_tokens h) (ev_tokenNow e) token = Inr claims" "eh_introspector h token = Inr subject"
      "sj_UserID subject = cl_UserID claims" "pr_UserID p = cl_UserID claims" "pr_Role p = NormalizeRole (sj_Role subject)"
      by (auto simp: principalFromRequest_def Let_def split: option.splits sum.splits if_splits)
    show ?thesis
      using permitted who inv assms(2) unfolding pg_events.permitted_def
      by (elim disjE conjE exE)
        (auto simp: own_change_def managed_change_def manages_def split: option.splits)
  qed simp
qed

section \<open>An instance\<close>

definition ex_handler :: EventHandler where
  "ex_handler = NewHTTPHandlerWithIntrospector ex_jwt ex_manager (Some (\<lambda>_. Inr ex_subject))"

definition ex_event_call :: "EventPgCall EventCall" where
  "ex_event_call = \<lparr>ev_tokenNow = 10 * second, ev_now = 2000, ev_newID = ''ev2'',
     ev_repo = \<lparr>ep_net = quiet, ep_ids = ex_ids ''r1'', ep_correlationID = ''corr''\<rparr>\<rparr>"

definition ex_authorization :: string where
  "ex_authorization = ''Bearer '' @ fst (Sign ex_jwt ex_manager (5 * second) ''t1'' ex_subject)"

lemma ex_handler_sel [simp]:
  "eh_jwt ex_handler = ex_jwt" "eh_tokens ex_handler = ex_manager" "eh_introspector ex_handler token = Inr ex_subject"
  by (simp_all add: ex_handler_def NewHTTPHandlerWithIntrospector_def)

lemma ex_principal: "principalFromRequest ex_handler (10 * second) ex_authorization =
    Some \<lparr>pr_UserID = ''u1'', pr_Role = ''USER''\<rparr>"
  unfolding principalFromRequest_def ex_authorization_def ex_bearer
  by (simp add: ex_verifies) (simp add: ex_claims_def ex_subject_def ex_roles)

lemma ex_join:
  "fst (serveEvents postgresEvents ex_handler ex_event_call ex_authorization (PostJoin ''ev'' '''') ex_created_db) =
     fst (pgJoinEvent ''corr'' quiet (ex_ids ''r1'') ''ev'' ''u1'' '''' 2000 ex_created_db)"
proof -
  have "TrimSpace ''u1'' = ''u1''" "TrimSpace ''ev'' = ''ev''" by (simp_all add: str_eval)
  moreover have "er_JoinEvent postgresEvents (ev_repo ex_event_call) =
      pgJoinEvent ''corr'' quiet (ex_ids ''r1'')" "ev_now ex_event_call = 2000" "ev_tokenNow ex_event_call = 10 * second"
    by (simp_all add: postgresEvents_def ex_event_call_def)
  ultimately show ?thesis
    by (simp add: serveEvents_def ex_principal joinEvent_handler_def svcJoinEvent_def pg_events.answer_fst)
qed

lemma ex_joined:
  "map_of (db_registrations (fst (pgJoinEvent ''corr'' quiet (ex_ids ''r1'') ''ev'' ''u1'' '''' 2000 ex_created_db))) ''r1'' \<noteq> None"
  by (simp add: pgJoinEvent_def joinEventTx_def registration_row_def EventPostgresProps.pg_eval ex_created_db_ids)
    (simp add: ex_pg_event_def)

theorem event_requests_authorized_witness:
  "\<exists>d resp g. serveEvents postgresEvents ex_handler ex_event_call ex_authorization (PostJoin ''ev'' '''') ex_created_db = (d, resp) \<and>
     map_of (db_registrations d) ''r1'' = Some g \<and> r_UserID g = ''u1''"
proof -
  let ?a = "fst (Sign ex_jwt ex_manager (5 * second) ''t1'' ex_subject)"
  obtain d resp where run: "serveEvents postgresEvents ex_handler ex_event_call ex_authorization (PostJoin ''ev'' '''') ex_created_db = (d, resp)"
    by (metis surj_pair)
  then obtain g where g: "map_of (db_registrations d) ''r1'' = Some g" using ex_join ex_joined by (metis fst_conv option.exhaust)
  have old: "map_of (db_registrations ex_created_db) ''r1'' = None" by simp
  have "map_of (db_events ex_created_db) (ev_newID ex_event_call) = None" by (simp add: ex_event_call_def)
  from event_requests_authorized [OF ex_created_db_inv this run] obtain token claims subject user role where
    who: "BearerToken ex_authorization = Some token" "Verify ex_jwt ex_manager (ev_tokenNow ex_event_call) token = Inr claims"
      "Inr ex_subject = (Inr subject :: introspection_error + Subject)" "user = TrimSpace (cl_UserID claims)"
      "role = NormalizeRole (NormalizeRole (sj_Role subject))"
    and change: "r_UserID g = user \<or> CanPublishEvents role"
    using g old by (auto dest!: spec [of _ "''r1''"])
  have "token = ?a" using who(1) by (simp add: ex_authorization_def ex_bearer del: append.append_Cons)
  moreover have "ev_tokenNow ex_event_call = 10 * second" by (simp add: ex_event_call_def)
  ultimately have "claims = ex_claims" using who(2) ex_verifies by simp
  then have "user = ''u1''" using who(4) by (simp add: ex_claims_def str_eval)
  moreover have "subject = ex_subject" using who(3) by simp
  then have "role = RoleUser" using who(5) by (simp add: ex_subject_def ex_roles RoleUser_def)
  ultimately show ?thesis using run g change by auto
qed

end
