(* ===== verification/GoUrl.thy ===== *)
theory GoUrl imports GoStrings begin

text \<open>
  \<open>QueryEscape\<close> and \<open>PathEscape\<close> of \<^verbatim>\<open>net/url\<close>: a byte outside the safe set becomes a percent sign and two
  hexadecimal digits, a blank of a query a plus.
\<close>

definition hex_upper :: "nat \<Rightarrow> char" where
  "hex_upper d = (if d < 10 then char_of (48 + d) else char_of (55 + d))"

definition percent :: "char \<Rightarrow> string" where
  "percent c = [CHR ''%'', hex_upper (of_char c div 16), hex_upper (of_char c mod 16)]"

definition unreserved :: "char \<Rightarrow> bool" where
  "unreserved c \<longleftrightarrow> (65 \<le> byte c \<and> byte c \<le> 90) \<or> (97 \<le> byte c \<and> byte c \<le> 122) \<or> is_digit c \<or>
     c \<in> {CHR ''-'', CHR ''_'', CHR ''.'', CHR ''~''}"

definition query_char :: "char \<Rightarrow> string" where
  "query_char c = (if c = CHR '' '' then ''+'' else if unreserved c then [c] else percent c)"

definition QueryEscape :: "string \<Rightarrow> string" where
  "QueryEscape s = concat (map query_char s)"

definition PathEscape :: "string \<Rightarrow> string" where
  "PathEscape s = concat (map (\<lambda>c. if unreserved c \<or>
     c \<in> {CHR ''$'', CHR ''&'', CHR ''+'', CHR '':'', CHR ''='', CHR ''@''} then [c] else percent c) s)"

section \<open>An escaped query names one string\<close>

lemma of_char_less: "of_char c < (256 :: nat)"
  by (metis of_char_mod_256 mod_less_divisor zero_less_numeral)

lemma of_char_digits: "of_char c div 16 < (16 :: nat)" "of_char c mod 16 < (16 :: nat)"
  using of_char_less [of c] by (simp_all add: div_less_iff_less_mult)

lemma hex_upper_inj: "d < 16 \<Longrightarrow> e < 16 \<Longrightarrow> hex_upper d = hex_upper e \<Longrightarrow> d = e"
  by (auto simp: hex_upper_def char_of_eq_iff take_bit_eq_mod split: if_splits)

lemma percent_inj:
  assumes "percent c = percent d"
  shows "c = d"
proof -
  have "of_char c div 16 = (of_char d div 16 :: nat)" "of_char c mod 16 = (of_char d mod 16 :: nat)"
    using assms hex_upper_inj [OF of_char_digits(1) [of c] of_char_digits(1) [of d]]
      hex_upper_inj [OF of_char_digits(2) [of c] of_char_digits(2) [of d]]
    by (simp_all add: percent_def)
  then have "of_char c = (of_char d :: nat)" by (metis div_mult_mod_eq)
  then show ?thesis by simp
qed

lemma not_unreserved: "\<not> unreserved (CHR ''%'')" "\<not> unreserved (CHR ''+'')" "\<not> unreserved (CHR '':'')"
  by (simp_all add: unreserved_def is_digit_def byte_def)

lemma query_char_cancel: "query_char c @ s = query_char d @ t \<Longrightarrow> c = d \<and> s = t"
  using not_unreserved percent_inj [of c d]
  by (auto simp: query_char_def split: if_splits) (auto simp: percent_def)

lemma QueryEscape_inj: "QueryEscape s = QueryEscape t \<Longrightarrow> s = t"
proof (induction s arbitrary: t)
  case Nil
  then show ?case by (cases t) (auto simp: QueryEscape_def query_char_def percent_def split: if_splits)
next
  case (Cons c s)
  show ?case
  proof (cases t)
    case Nil
    then show ?thesis using Cons.prems by (auto simp: QueryEscape_def query_char_def percent_def split: if_splits)
  next
    case (Cons d u)
    then have "query_char c @ QueryEscape s = query_char d @ QueryEscape u"
      using Cons.prems by (simp add: QueryEscape_def)
    from query_char_cancel [OF this] show ?thesis using Cons.IH [of u] Cons by simp
  qed
qed

lemma hex_upper_digit: "d < 16 \<Longrightarrow> hex_upper d \<noteq> CHR '':''"
  by (auto simp: hex_upper_def char_of_eq_iff take_bit_eq_mod)

lemma QueryEscape_no_colon: "CHR '':'' \<notin> set (QueryEscape s)"
proof -
  have "CHR '':'' \<notin> set (query_char c)" for c
    using not_unreserved(3) hex_upper_digit [OF of_char_digits(1) [of c]] hex_upper_digit [OF of_char_digits(2) [of c]]
    by (auto simp: query_char_def percent_def)
  then show ?thesis by (auto simp: QueryEscape_def)
qed

section \<open>Numbers\<close>

lemma nat_str_digits: "c \<in> set (nat_str n) \<Longrightarrow> is_digit c"
proof (induction n rule: nat_str.induct)
  case (1 n)
  have d: "is_digit (digit_char k)" if "k < 10" for k
    using that by (simp add: is_digit_def digit_char_def byte_def)
  show ?case using 1 d [of n] d [of "n mod 10"] by (subst (asm) nat_str.simps) (auto split: if_splits)
qed

lemma digits_val_append: "digits_val acc (s @ t) = digits_val (digits_val acc s) t"
  by (induction s arbitrary: acc) auto

lemma digits_val_nat_str: "digits_val 0 (nat_str n) = int n"
proof (induction n rule: nat_str.induct)
  case (1 n)
  have d: "byte (digit_char k) - 48 = int k" if "k < 10" for k
    using that by (simp add: digit_char_def byte_def)
  show ?case
  proof (cases "n < 10")
    case True
    then show ?thesis using d [of n] by (subst nat_str.simps) simp
  next
    case False
    have "int (n div 10) * 10 + int (n mod 10) = int n"
      by (metis div_mult_mod_eq of_nat_add of_nat_mult of_nat_numeral)
    then show ?thesis using False 1 d [of "n mod 10"] by (subst nat_str.simps) (simp add: digits_val_append)
  qed
qed

lemma Itoa_inj:
  assumes "0 \<le> i" "0 \<le> j" "Itoa i = Itoa j"
  shows "i = j"
proof -
  have "nat_str (nat i) = nat_str (nat j)" using assms by (simp add: Itoa_def)
  then have "digits_val 0 (nat_str (nat i)) = digits_val 0 (nat_str (nat j))" by simp
  then show ?thesis using assms(1,2) by (simp add: digits_val_nat_str)
qed

lemma Itoa_no_colon: "0 \<le> i \<Longrightarrow> CHR '':'' \<notin> set (Itoa i)"
  using nat_str_digits [of "CHR '':''" "nat i"] by (auto simp: Itoa_def is_digit_def byte_def)

lemma split_at_first:
  "s @ d # t = s' @ d # t' \<Longrightarrow> d \<notin> set s \<Longrightarrow> d \<notin> set s' \<Longrightarrow> s = s' \<and> t = t'"
proof (induction s arbitrary: s')
  case Nil
  then show ?case by (cases s') auto
next
  case (Cons c s)
  then show ?case by (cases s') auto
qed

end
