(* ===== verification/Media.thy ===== *)
theory Media imports Tx Identity Base64 "HOL-Library.Product_Lexorder" begin

text \<open>
  \<^verbatim>\<open>internal/services/media\<close>: \<^verbatim>\<open>domain.go\<close> and \<^verbatim>\<open>repository.go\<close>. An asset is the record of an upload, from
  the intent to the checked object. The id that \<^verbatim>\<open>NewID\<close> draws and the clock are arguments; the table
  and the map of the in-memory repository are association lists by id.
\<close>

datatype MediaStatus = MediaUploading | MediaUploaded | MediaProcessing | MediaReady | MediaFailed

definition MaxUploadSizeBytes :: int where "MaxUploadSizeBytes = 10 * 1024 * 1024"

text \<open>
  \<open>ErrMediaStore\<close> is an error of the database, \<open>ErrStorage\<close> one of the object store with its text,
  \<open>ErrEventLookup\<close> any other failure of the request to the event service.
\<close>

datatype media_error =
    ErrMediaUnauthorized | ErrMediaForbidden | ErrMediaNotFound | ErrInvalidUpload
  | ErrInvalidContentType | ErrInvalidStateTransition
  | ErrMediaStore | ErrStorage string | ErrEventLookup

record Asset =
  as_ID :: string
  as_EventID :: string
  as_UploaderID :: string
  as_Filename :: string
  as_ContentType :: string
  as_SizeBytes :: int
  as_Bucket :: string
  as_ObjectKey :: string
  as_Status :: MediaStatus
  as_FailureReason :: string
  as_CreatedAt :: time
  as_UpdatedAt :: time
  as_ProcessedAt :: "time option"

record UploadCommand =
  uc_EventID :: string
  uc_UploaderID :: string
  uc_UploaderRole :: Role
  uc_AccessToken :: string
  uc_Filename :: string
  uc_ContentType :: string
  uc_SizeBytes :: int

section \<open>Domain\<close>

definition AllowedContentType :: "string \<Rightarrow> bool" where
  "AllowedContentType contentType \<longleftrightarrow>
     TrimSpace (ToLower contentType) \<in> {''image/jpeg'', ''image/png'', ''image/webp''}"

definition ValidateUpload :: "UploadCommand \<Rightarrow> media_error option" where
  "ValidateUpload cmd =
     (if TrimSpace (uc_UploaderID cmd) = '''' then Some ErrMediaUnauthorized
      else if TrimSpace (uc_EventID cmd) = '''' \<or> TrimSpace (uc_Filename cmd) = '''' then Some ErrInvalidUpload
      else if \<not> AllowedContentType (uc_ContentType cmd) then Some ErrInvalidContentType
      else if uc_SizeBytes cmd \<le> 0 \<or> uc_SizeBytes cmd > MaxUploadSizeBytes then Some ErrInvalidUpload
      else None)"

definition allowed_transitions :: "MediaStatus \<Rightarrow> MediaStatus list" where
  "allowed_transitions s =
     (case s of
        MediaUploading \<Rightarrow> [MediaUploaded, MediaFailed]
      | MediaUploaded \<Rightarrow> [MediaProcessing, MediaFailed]
      | MediaProcessing \<Rightarrow> [MediaReady, MediaFailed]
      | _ \<Rightarrow> [])"

definition ValidateTransition :: "MediaStatus \<Rightarrow> MediaStatus \<Rightarrow> media_error option" where
  "ValidateTransition s t = (if t \<in> set (allowed_transitions s) then None else Some ErrInvalidStateTransition)"

text \<open>\<^verbatim>\<open>filepath.Base\<close> of a path with slashes.\<close>

definition path_Base :: "string \<Rightarrow> string" where
  "path_Base path =
     (if path = '''' then ''.''
      else (let stripped = rev (dropWhile (\<lambda>c. c = CHR ''/'') (rev path));
                base = rev (takeWhile (\<lambda>c. c \<noteq> CHR ''/'') (rev stripped))
            in if base = '''' then ''/'' else base))"

definition safe_char :: "char \<Rightarrow> bool" where
  "safe_char c \<longleftrightarrow> (CHR ''a'' \<le> c \<and> c \<le> CHR ''z'') \<or> (CHR ''A'' \<le> c \<and> c \<le> CHR ''Z'') \<or>
     (CHR ''0'' \<le> c \<and> c \<le> CHR ''9'') \<or> c \<in> {CHR ''.'', CHR ''_'', CHR ''-''}"

text \<open>
  \<^verbatim>\<open>unsafeFilename.ReplaceAllString(name, "-")\<close>: every longest run of other characters becomes one
  dash. The bytes of a character above ASCII are all outside the class.
\<close>

fun replace_unsafe :: "bool \<Rightarrow> string \<Rightarrow> string" where
  "replace_unsafe in_run [] = []"
| "replace_unsafe in_run (c # s) =
     (if safe_char c then c # replace_unsafe False s
      else if in_run then replace_unsafe True s
      else CHR ''-'' # replace_unsafe True s)"

definition objectKey :: "string \<Rightarrow> string \<Rightarrow> string \<Rightarrow> string" where
  "objectKey eventID mediaID filename =
     (let name = Trim (replace_unsafe False (path_Base filename)) ''.-'' in
      ''events/'' @ eventID @ ''/'' @ mediaID @ ''/'' @ (if name = '''' then ''media'' else name))"

definition NewAsset :: "string \<Rightarrow> UploadCommand \<Rightarrow> string \<Rightarrow> time \<Rightarrow> media_error + Asset" where
  "NewAsset newID command bucket now =
     (let cmd = command\<lparr>uc_EventID := TrimSpace (uc_EventID command),
                uc_UploaderID := TrimSpace (uc_UploaderID command),
                uc_Filename := TrimSpace (uc_Filename command),
                uc_ContentType := TrimSpace (ToLower (uc_ContentType command))\<rparr>
      in check (ValidateUpload cmd) (Inr
           \<lparr>as_ID = newID, as_EventID = uc_EventID cmd, as_UploaderID = uc_UploaderID cmd,
            as_Filename = uc_Filename cmd, as_ContentType = uc_ContentType cmd,
            as_SizeBytes = uc_SizeBytes cmd, as_Bucket = TrimSpace bucket,
            as_ObjectKey = objectKey (uc_EventID cmd) newID (uc_Filename cmd),
            as_Status = MediaUploading, as_FailureReason = '''', as_CreatedAt = now, as_UpdatedAt = now,
            as_ProcessedAt = None\<rparr>))"

section \<open>The repository interface\<close>

text \<open>\<open>'x\<close> is what one call meets. A claim returns the asset, or none where no asset waits.\<close>

record ('x, 'r) MediaRepository =
  mr_Create :: "'x \<Rightarrow> Asset \<Rightarrow> 'r \<Rightarrow> 'r \<times> (media_error + Asset)"
  mr_Get :: "'x \<Rightarrow> string \<Rightarrow> 'r \<Rightarrow> media_error + Asset"
  mr_MarkUploaded :: "'x \<Rightarrow> string \<Rightarrow> string \<Rightarrow> time \<Rightarrow> 'r \<Rightarrow> 'r \<times> (media_error + Asset)"
  mr_ClaimNextUploaded :: "'x \<Rightarrow> time \<Rightarrow> 'r \<Rightarrow> 'r \<times> (media_error + Asset option)"
  mr_MarkReady :: "'x \<Rightarrow> string \<Rightarrow> time \<Rightarrow> 'r \<Rightarrow> 'r \<times> (media_error + Asset)"
  mr_MarkFailed :: "'x \<Rightarrow> string \<Rightarrow> string \<Rightarrow> time \<Rightarrow> 'r \<Rightarrow> 'r \<times> (media_error + Asset)"
  mr_CountByStatus :: "'x \<Rightarrow> MediaStatus \<Rightarrow> 'r \<Rightarrow> media_error + int"

section \<open>Postgres\<close>

type_synonym MediaDB = "(string, Asset) gomap"
type_synonym 'a media_tx = "(MediaDB, media_error, 'a) tx"

text \<open>
  What a call meets: the faults and the commit of its transaction, the faults of the read that
  follows an autocommitted statement, and the rows that other transactions hold locked.
\<close>

record MediaCall =
  mc_faults :: faults
  mc_commit :: commit_outcome
  mc_readFaults :: faults
  mc_locked :: "string \<Rightarrow> bool"

definition media_pg :: "'a media_tx \<Rightarrow> MediaCall \<Rightarrow> MediaDB \<Rightarrow> MediaDB \<times> (media_error + 'a)" where
  "media_pg m x d = in_tx ErrMediaStore m (mc_faults x) (mc_commit x) d"

definition asset_row :: "Asset \<Rightarrow> Asset" where
  "asset_row a = a\<lparr>as_CreatedAt := pg_ts (as_CreatedAt a), as_UpdatedAt := pg_ts (as_UpdatedAt a),
     as_ProcessedAt := map_option pg_ts (as_ProcessedAt a)\<rparr>"

text \<open>The keys and the checks of \<^verbatim>\<open>media_assets\<close>, and what a text column takes.\<close>

definition asset_insertable :: "Asset \<Rightarrow> MediaDB \<Rightarrow> bool" where
  "asset_insertable a d \<longleftrightarrow> map_of d (as_ID a) = None \<and> 0 < as_SizeBytes a \<and>
     (\<forall>b \<in> set (mvals d). as_ObjectKey b \<noteq> as_ObjectKey a) \<and>
     list_all text_ok [as_EventID a, as_UploaderID a, as_Filename a, as_Bucket a]"

definition scanAsset :: "Asset option \<Rightarrow> Asset media_tx" where
  "scanAsset row = (case row of None \<Rightarrow> tx_fail ErrMediaNotFound | Some a \<Rightarrow> tx_return a)"

definition select_asset :: "string \<Rightarrow> Asset media_tx" where
  "select_asset i = tx_bind (tx_query ErrMediaStore (\<lambda>d. map_of d i)) scanAsset"

definition pgGetAsset :: "faults \<Rightarrow> string \<Rightarrow> MediaDB \<Rightarrow> media_error + Asset" where
  "pgGetAsset fs i d = fst (select_asset i fs d)"

text \<open>The statement is committed by itself; the row is read back afterwards.\<close>

definition then_read :: "MediaCall \<Rightarrow> string \<Rightarrow> MediaDB \<times> (media_error + unit)
   \<Rightarrow> MediaDB \<times> (media_error + Asset)" where
  "then_read x i out =
     (case out of (d, Inl err) \<Rightarrow> (d, Inl err) | (d, Inr _) \<Rightarrow> (d, pgGetAsset (mc_readFaults x) i d))"

definition pgCreateAsset :: "MediaCall \<Rightarrow> Asset \<Rightarrow> MediaDB \<Rightarrow> MediaDB \<times> (media_error + Asset)" where
  "pgCreateAsset x a d = then_read x (as_ID a) (media_pg
     (tx_exec ErrMediaStore (asset_insertable a) (mput (as_ID a) (asset_row a))) x d)"

definition update_asset :: "string \<Rightarrow> (Asset \<Rightarrow> Asset) \<Rightarrow> MediaDB \<Rightarrow> MediaDB" where
  "update_asset i f d = (case map_of d i of None \<Rightarrow> d | Some a \<Rightarrow> mput i (f a) d)"

definition moved :: "MediaStatus \<Rightarrow> time \<Rightarrow> Asset \<Rightarrow> Asset" where
  "moved s now a = a\<lparr>as_Status := s, as_UpdatedAt := now\<rparr>"

definition markUploadedTx :: "string \<Rightarrow> string \<Rightarrow> time \<Rightarrow> Asset media_tx" where
  "markUploadedTx i userID now =
     tx_bind (select_asset i) (\<lambda>asset.
     if as_UploaderID asset \<noteq> userID then tx_fail ErrMediaForbidden
     else (case ValidateTransition (as_Status asset) MediaUploaded of
             Some err \<Rightarrow> tx_fail err
           | None \<Rightarrow>
               tx_bind (tx_exec ErrMediaStore (\<lambda>_. True)
                  (update_asset (as_ID asset) (moved MediaUploaded (pg_ts now)))) (\<lambda>_.
               tx_return (moved MediaUploaded now asset))))"

definition pgMarkUploaded :: "MediaCall \<Rightarrow> string \<Rightarrow> string \<Rightarrow> time \<Rightarrow> MediaDB \<Rightarrow> MediaDB \<times> (media_error + Asset)" where
  "pgMarkUploaded x i userID now d = media_pg (markUploadedTx i userID now) x d"

text \<open>The oldest waiting row that no other transaction holds (\<^verbatim>\<open>FOR UPDATE SKIP LOCKED\<close>).\<close>

definition next_uploaded :: "(string \<Rightarrow> bool) \<Rightarrow> MediaDB \<Rightarrow> Asset option" where
  "next_uploaded locked d =
     (let rows = sort_key (\<lambda>a. (as_UpdatedAt a, as_ID a))
        (filter (\<lambda>a. as_Status a = MediaUploaded \<and> \<not> locked (as_ID a)) (mvals d))
      in if rows = [] then None else Some (hd rows))"

definition claimUploadedTx :: "(string \<Rightarrow> bool) \<Rightarrow> time \<Rightarrow> Asset option media_tx" where
  "claimUploadedTx locked now =
     tx_bind (tx_query ErrMediaStore (next_uploaded locked)) (\<lambda>found.
     case found of
       None \<Rightarrow> tx_return None
     | Some asset \<Rightarrow>
         (case ValidateTransition (as_Status asset) MediaProcessing of
            Some err \<Rightarrow> tx_fail err
          | None \<Rightarrow>
              tx_bind (tx_exec ErrMediaStore (\<lambda>_. True)
                 (update_asset (as_ID asset) (moved MediaProcessing (pg_ts now)))) (\<lambda>_.
              tx_return (Some (moved MediaProcessing now asset)))))"

definition pgClaimNextUploaded :: "MediaCall \<Rightarrow> time \<Rightarrow> MediaDB \<Rightarrow> MediaDB \<times> (media_error + Asset option)" where
  "pgClaimNextUploaded x now d = media_pg (claimUploadedTx (mc_locked x) now) x d"

definition finished :: "MediaStatus \<Rightarrow> string \<Rightarrow> time \<Rightarrow> Asset \<Rightarrow> Asset" where
  "finished s reason now a = a\<lparr>as_Status := s, as_FailureReason := reason, as_UpdatedAt := now,
     as_ProcessedAt := Some now\<rparr>"

definition markFinal :: "MediaCall \<Rightarrow> string \<Rightarrow> MediaStatus \<Rightarrow> string \<Rightarrow> time \<Rightarrow> MediaDB
   \<Rightarrow> MediaDB \<times> (media_error + Asset)" where
  "markFinal x i s reason now d = then_read x i (media_pg
     (tx_exec ErrMediaStore (\<lambda>_. text_ok reason) (update_asset i (finished s reason (pg_ts now)))) x d)"

definition pgMarkReady :: "MediaCall \<Rightarrow> string \<Rightarrow> time \<Rightarrow> MediaDB \<Rightarrow> MediaDB \<times> (media_error + Asset)" where
  "pgMarkReady x i now d = markFinal x i MediaReady '''' now d"

definition pgMarkFailed :: "MediaCall \<Rightarrow> string \<Rightarrow> string \<Rightarrow> time \<Rightarrow> MediaDB \<Rightarrow> MediaDB \<times> (media_error + Asset)" where
  "pgMarkFailed x i reason now d = markFinal x i MediaFailed reason now d"

definition pgCountByStatus :: "MediaCall \<Rightarrow> MediaStatus \<Rightarrow> MediaDB \<Rightarrow> media_error + int" where
  "pgCountByStatus x s d = fst (tx_query ErrMediaStore
     (\<lambda>d. int (mcount (\<lambda>a. as_Status a = s) d)) (mc_readFaults x) d)"

definition postgresMedia :: "(MediaCall, MediaDB) MediaRepository" where
  "postgresMedia =
     \<lparr>mr_Create = pgCreateAsset, mr_Get = (\<lambda>x. pgGetAsset (mc_readFaults x)),
      mr_MarkUploaded = pgMarkUploaded, mr_ClaimNextUploaded = pgClaimNextUploaded,
      mr_MarkReady = pgMarkReady, mr_MarkFailed = pgMarkFailed, mr_CountByStatus = pgCountByStatus\<rparr>"

section \<open>Memory\<close>

type_synonym MemoryMedia = "(string, Asset) gomap"

definition memCreateAsset :: "Asset \<Rightarrow> MemoryMedia \<Rightarrow> MemoryMedia \<times> (media_error + Asset)" where
  "memCreateAsset a r = (mput (as_ID a) a r, Inr a)"

definition memGetAsset :: "string \<Rightarrow> MemoryMedia \<Rightarrow> media_error + Asset" where
  "memGetAsset i r = (case map_of r i of None \<Rightarrow> Inl ErrMediaNotFound | Some a \<Rightarrow> Inr a)"

definition memMarkUploaded :: "string \<Rightarrow> string \<Rightarrow> time \<Rightarrow> MemoryMedia \<Rightarrow> MemoryMedia \<times> (media_error + Asset)" where
  "memMarkUploaded i userID now r =
     (case map_of r i of
        None \<Rightarrow> (r, Inl ErrMediaNotFound)
      | Some asset \<Rightarrow>
          if as_UploaderID asset \<noteq> userID then (r, Inl ErrMediaForbidden)
          else (case ValidateTransition (as_Status asset) MediaUploaded of
                  Some err \<Rightarrow> (r, Inl err)
                | None \<Rightarrow> (mput i (moved MediaUploaded now asset) r, Inr (moved MediaUploaded now asset))))"

text \<open>The loop takes the first waiting entry in the order in which it meets them.\<close>

definition memClaimNextUploaded :: "time \<Rightarrow> MemoryMedia \<Rightarrow> MemoryMedia \<times> (media_error + Asset option)" where
  "memClaimNextUploaded now r =
     (case find (\<lambda>(i, a). as_Status a = MediaUploaded) r of
        None \<Rightarrow> (r, Inr None)
      | Some (i, a) \<Rightarrow> (mput i (moved MediaProcessing now a) r, Inr (Some (moved MediaProcessing now a))))"

definition memMark :: "string \<Rightarrow> MediaStatus \<Rightarrow> string \<Rightarrow> time \<Rightarrow> MemoryMedia \<Rightarrow> MemoryMedia \<times> (media_error + Asset)" where
  "memMark i s reason now r =
     (case map_of r i of
        None \<Rightarrow> (r, Inl ErrMediaNotFound)
      | Some a \<Rightarrow> (mput i (finished s reason now a) r, Inr (finished s reason now a)))"

definition memCountByStatus :: "MediaStatus \<Rightarrow> MemoryMedia \<Rightarrow> media_error + int" where
  "memCountByStatus s r = Inr (int (mcount (\<lambda>a. as_Status a = s) r))"

definition memoryMedia :: "(unit, MemoryMedia) MediaRepository" where
  "memoryMedia =
     \<lparr>mr_Create = (\<lambda>_. memCreateAsset), mr_Get = (\<lambda>_. memGetAsset),
      mr_MarkUploaded = (\<lambda>_. memMarkUploaded), mr_ClaimNextUploaded = (\<lambda>_. memClaimNextUploaded),
      mr_MarkReady = (\<lambda>_ i. memMark i MediaReady ''''), mr_MarkFailed = (\<lambda>_ i. memMark i MediaFailed),
      mr_CountByStatus = (\<lambda>_. memCountByStatus)\<rparr>"

end
