(* ===== verification/MediaService.thy ===== *)
theory MediaService imports GoUrl Media Authn HttpJson begin

text \<open>
  \<^verbatim>\<open>internal/services/media\<close>: \<^verbatim>\<open>storage.go\<close>, \<^verbatim>\<open>event_authorizer.go\<close>, \<^verbatim>\<open>service.go\<close> and \<^verbatim>\<open>http.go\<close>. The client
  of MinIO, the event service behind its URL and the JSON decoders are parameters.
\<close>

section \<open>Object storage\<close>

record UploadTarget =
  ut_URL :: string
  ut_Method :: string
  ut_FormData :: "(string, string) gomap"

record ObjectInfo =
  oi_Exists :: bool
  oi_SizeBytes :: int
  oi_ContentType :: string

text \<open>The interface \<^verbatim>\<open>Storage\<close>; an error is its text. A presigned upload is asked for a duration.\<close>

record Storage =
  sg_EnsureBucket :: "string \<Rightarrow> string option"
  sg_PresignedUpload :: "string \<Rightarrow> string \<Rightarrow> string \<Rightarrow> int \<Rightarrow> duration \<Rightarrow> string + UploadTarget"
  sg_StatObject :: "string \<Rightarrow> string \<Rightarrow> string + ObjectInfo"

text \<open>
  The client: whether a bucket exists, its creation, the code (if any) and text of an error of
  \<^verbatim>\<open>StatObject\<close> or the size and type of the object, the setters of a policy, its signing.
\<close>

datatype policy_field =
    PolicyBucket string | PolicyKey string | PolicyExpires time | PolicyContentType string
  | PolicyLengthRange int int

record MinioClient =
  mi_BucketExists :: "string \<Rightarrow> string + bool"
  mi_MakeBucket :: "string \<Rightarrow> string option"
  mi_StatObject :: "string \<Rightarrow> string \<Rightarrow> string option \<times> string + int \<times> string"
  mi_SetPolicy :: "policy_field \<Rightarrow> string option"
  mi_PresignedPostPolicy :: "policy_field list \<Rightarrow> string + string \<times> (string, string) gomap"

definition minioEnsureBucket :: "MinioClient \<Rightarrow> string \<Rightarrow> string option" where
  "minioEnsureBucket client bucket =
     (case mi_BucketExists client bucket of
        Inl err \<Rightarrow> Some err
      | Inr found \<Rightarrow> if found then None else mi_MakeBucket client bucket)"

definition minioPresignedUpload :: "MinioClient \<Rightarrow> time \<Rightarrow> string \<Rightarrow> string \<Rightarrow> string \<Rightarrow> int \<Rightarrow> duration
   \<Rightarrow> string + UploadTarget" where
  "minioPresignedUpload client now bucket key contentType sizeBytes expiry =
     (let steps = [PolicyBucket bucket, PolicyKey key, PolicyExpires (now + expiry),
                   PolicyContentType contentType, PolicyLengthRange 1 sizeBytes]
      in case List.find (\<lambda>s. mi_SetPolicy client s \<noteq> None) steps of
           Some s \<Rightarrow> Inl (the (mi_SetPolicy client s))
         | None \<Rightarrow>
             (case mi_PresignedPostPolicy client steps of
                Inl err \<Rightarrow> Inl err
              | Inr (url, form) \<Rightarrow> Inr \<lparr>ut_URL = url, ut_Method = ''POST'', ut_FormData = form\<rparr>))"

definition minioStatObject :: "MinioClient \<Rightarrow> string \<Rightarrow> string \<Rightarrow> string + ObjectInfo" where
  "minioStatObject client bucket key =
     (case mi_StatObject client bucket key of
        Inr (sizeBytes, contentType) \<Rightarrow>
          Inr \<lparr>oi_Exists = True, oi_SizeBytes = sizeBytes, oi_ContentType = ToLower (TrimSpace contentType)\<rparr>
      | Inl (code, err) \<Rightarrow>
          if code = Some ''NoSuchKey''
          then Inr \<lparr>oi_Exists = False, oi_SizeBytes = 0, oi_ContentType = ''''\<rparr> else Inl err)"

definition minioStorage :: "MinioClient \<Rightarrow> time \<Rightarrow> Storage" where
  "minioStorage client now =
     \<lparr>sg_EnsureBucket = minioEnsureBucket client, sg_PresignedUpload = minioPresignedUpload client now,
      sg_StatObject = minioStatObject client\<rparr>"

text \<open>The in-memory storage holds the objects by bucket and key and an error it may be told to give.\<close>

record MemoryStorage =
  ms_objects :: "(string, ObjectInfo) gomap"
  ms_err :: "string option"

definition memEnsureBucket :: "MemoryStorage \<Rightarrow> string \<Rightarrow> string option" where
  "memEnsureBucket s bucket = ms_err s"

definition memPresignedUpload :: "MemoryStorage \<Rightarrow> string \<Rightarrow> string \<Rightarrow> string \<Rightarrow> int \<Rightarrow> duration
   \<Rightarrow> string + UploadTarget" where
  "memPresignedUpload s bucket key contentType sizeBytes expiry =
     check (ms_err s) (Inr \<lparr>ut_URL = ''memory://'' @ bucket @ ''/'' @ key, ut_Method = ''POST'',
       ut_FormData = [(''key'', key), (''Content-Type'', contentType), (''maxSizeBytes'', Itoa sizeBytes)]\<rparr>)"

definition memStatObject :: "MemoryStorage \<Rightarrow> string \<Rightarrow> string \<Rightarrow> string + ObjectInfo" where
  "memStatObject s bucket key =
     check (ms_err s) (Inr (case map_of (ms_objects s) (bucket @ ''/'' @ key) of
        None \<Rightarrow> \<lparr>oi_Exists = False, oi_SizeBytes = 0, oi_ContentType = ''''\<rparr>
      | Some info \<Rightarrow> info\<lparr>oi_Exists := True, oi_ContentType := ToLower (TrimSpace (oi_ContentType info))\<rparr>))"

definition PutObjectInfo :: "string \<Rightarrow> string \<Rightarrow> int \<Rightarrow> string \<Rightarrow> MemoryStorage \<Rightarrow> MemoryStorage" where
  "PutObjectInfo bucket key sizeBytes contentType s =
     s\<lparr>ms_objects := mput (bucket @ ''/'' @ key) \<lparr>oi_Exists = True, oi_SizeBytes = sizeBytes,
        oi_ContentType = ToLower (TrimSpace contentType)\<rparr> (ms_objects s)\<rparr>"

definition memoryStorage :: "MemoryStorage \<Rightarrow> Storage" where
  "memoryStorage s = \<lparr>sg_EnsureBucket = memEnsureBucket s, sg_PresignedUpload = memPresignedUpload s,
     sg_StatObject = memStatObject s\<rparr>"

section \<open>Who may upload\<close>

record EventMediaAuthorization =
  ea_EventID :: string
  ea_UserID :: string
  ea_Role :: Role
  ea_AccessToken :: string

type_synonym EventAuthorizer = "EventMediaAuthorization \<Rightarrow> media_error option"

text \<open>
  \<open>PathEscape\<close>, and the escaping that \<^verbatim>\<open>url.URL\<close> applies again to the percent signs when the
  path is written. Dot segments are resolved against \<^verbatim>\<open>/v1/events/\<close>.
\<close>

definition event_path :: "string \<Rightarrow> string" where
  "event_path eventID =
     (let segment = concat (map (\<lambda>c. if c = CHR ''%'' then ''%25'' else [c]) (PathEscape eventID)) in
      if segment = ''.'' then ''/v1/events/''
      else if segment = ''..'' then ''/v1/''
      else ''/v1/events/'' @ segment)"

text \<open>
  \<open>ac_get path token\<close> is the answer of the event service, none where the request fails; \<open>ac_decode\<close>
  gives the members \<^verbatim>\<open>id\<close> and \<^verbatim>\<open>organizerId\<close> of \<^verbatim>\<open>event\<close>.
\<close>

record EventClient =
  ac_get :: "string \<Rightarrow> string option \<Rightarrow> (int \<times> string) option"
  ac_decode :: "string \<Rightarrow> (string \<times> string) option"

definition fetchEvent :: "EventClient \<Rightarrow> string \<Rightarrow> string \<Rightarrow> media_error + string \<times> string" where
  "fetchEvent client eventID accessToken =
     (let token = TrimSpace accessToken in
      case ac_get client (event_path eventID) (if token = '''' then None else Some token) of
        None \<Rightarrow> Inl ErrEventLookup
      | Some (status, body) \<Rightarrow>
          if status = 404 then Inl ErrMediaNotFound
          else if status = 401 \<or> status = 403 then Inl ErrMediaUnauthorized
          else if status < 200 \<or> status \<ge> 300 then Inl ErrEventLookup
          else (case ac_decode client (take (2 ^ 20) body) of
                  None \<Rightarrow> Inl ErrEventLookup
                | Some (i, organizerID) \<Rightarrow>
                    if TrimSpace i = '''' \<or> TrimSpace organizerID = '''' then Inl ErrMediaNotFound
                    else Inr (i, TrimSpace organizerID)))"

definition AuthorizeCreateMedia :: "EventClient \<Rightarrow> EventAuthorizer" where
  "AuthorizeCreateMedia client request =
     (let eventID = TrimSpace (ea_EventID request);
          userID = TrimSpace (ea_UserID request);
          role = NormalizeRole (ea_Role request)
      in if eventID = '''' then Some ErrInvalidUpload
         else if userID = '''' then Some ErrMediaUnauthorized
         else if \<not> CanPublishEvents role then Some ErrMediaForbidden
         else (case fetchEvent client eventID (ea_AccessToken request) of
                 Inl err \<Rightarrow> Some err
               | Inr (_, organizerID) \<Rightarrow>
                   if CanAdmin role then None
                   else if organizerID \<noteq> userID then Some ErrMediaForbidden
                   else None))"

definition denyEventAuthorizer :: EventAuthorizer where
  "denyEventAuthorizer request = Some ErrMediaForbidden"

section \<open>Service\<close>

record UploadIntent =
  ui_Asset :: Asset
  ui_UploadURL :: string
  ui_UploadMethod :: string
  ui_UploadForm :: "(string, string) gomap"

record MediaService =
  me_storage :: Storage
  me_eventAuthorizer :: EventAuthorizer
  me_bucket :: string

definition NewMediaService :: "Storage \<Rightarrow> string \<Rightarrow> EventAuthorizer option \<Rightarrow> MediaService" where
  "NewMediaService storage bucket authorizer =
     \<lparr>me_storage = storage,
      me_eventAuthorizer = (case authorizer of None \<Rightarrow> denyEventAuthorizer | Some a \<Rightarrow> a),
      me_bucket = TrimSpace bucket\<rparr>"

definition CreateUpload :: "('x, 'r) MediaRepository \<Rightarrow> MediaService \<Rightarrow> 'x \<Rightarrow> string \<Rightarrow> time \<Rightarrow> UploadCommand
   \<Rightarrow> 'r \<Rightarrow> 'r \<times> (media_error + UploadIntent)" where
  "CreateUpload repo s x newID now cmd r =
     (case NewAsset newID cmd (me_bucket s) now of
        Inl err \<Rightarrow> (r, Inl err)
      | Inr asset \<Rightarrow>
     (case me_eventAuthorizer s \<lparr>ea_EventID = as_EventID asset, ea_UserID = as_UploaderID asset,
             ea_Role = uc_UploaderRole cmd, ea_AccessToken = uc_AccessToken cmd\<rparr> of
        Some err \<Rightarrow> (r, Inl err)
      | None \<Rightarrow>
     (case sg_EnsureBucket (me_storage s) (me_bucket s) of
        Some err \<Rightarrow> (r, Inl (ErrStorage err))
      | None \<Rightarrow>
     (case sg_PresignedUpload (me_storage s) (as_Bucket asset) (as_ObjectKey asset) (as_ContentType asset)
             (as_SizeBytes asset) (15 * minute) of
        Inl err \<Rightarrow> (r, Inl (ErrStorage err))
      | Inr target \<Rightarrow>
     (case mr_Create repo x asset r of
        (r', Inl err) \<Rightarrow> (r', Inl err)
      | (r', Inr created) \<Rightarrow>
          (r', Inr \<lparr>ui_Asset = created, ui_UploadURL = ut_URL target,
                    ui_UploadMethod = ut_Method target, ui_UploadForm = ut_FormData target\<rparr>))))))"

definition svcMarkUploaded :: "('x, 'r) MediaRepository \<Rightarrow> 'x \<Rightarrow> time \<Rightarrow> string \<Rightarrow> string
   \<Rightarrow> 'r \<Rightarrow> 'r \<times> (media_error + Asset)" where
  "svcMarkUploaded repo x now mediaID userID r =
     (if TrimSpace userID = '''' then (r, Inl ErrMediaUnauthorized)
      else mr_MarkUploaded repo x (TrimSpace mediaID) (TrimSpace userID) now r)"

definition svcGetAsset :: "('x, 'r) MediaRepository \<Rightarrow> 'x \<Rightarrow> string \<Rightarrow> 'r \<Rightarrow> media_error + Asset" where
  "svcGetAsset repo x mediaID r = mr_Get repo x (TrimSpace mediaID) r"

section \<open>Worker\<close>

text \<open>What is wrong with the object of a claimed asset, if anything.\<close>

definition mismatch :: "ObjectInfo \<Rightarrow> Asset \<Rightarrow> string option" where
  "mismatch info asset =
     (if \<not> oi_Exists info then Some ''object missing''
      else if oi_SizeBytes info \<noteq> as_SizeBytes asset
      then Some ''object size does not match upload intent''
      else if ToLower (TrimSpace (oi_ContentType info)) \<noteq> as_ContentType asset
      then Some ''object content type does not match upload intent''
      else None)"

text \<open>
  The round behind the claim. A failing \<^verbatim>\<open>StatObject\<close> is the error of the round, whatever becomes of
  the mark; in the other branches the error of the mark is.
\<close>

definition finishAsset :: "('x, 'r) MediaRepository \<Rightarrow> Storage \<Rightarrow> 'x \<Rightarrow> time \<Rightarrow> Asset \<Rightarrow> 'r
   \<Rightarrow> 'r \<times> media_error option" where
  "finishAsset repo storage x now asset r =
     (let marked = (\<lambda>out. case out of (r', Inl err) \<Rightarrow> (r', Some err) | (r', Inr _) \<Rightarrow> (r', None))
      in case sg_StatObject storage (as_Bucket asset) (as_ObjectKey asset) of
           Inl err \<Rightarrow> (fst (mr_MarkFailed repo x (as_ID asset) err now r), Some (ErrStorage err))
         | Inr info \<Rightarrow>
             (case mismatch info asset of
                Some reason \<Rightarrow> marked (mr_MarkFailed repo x (as_ID asset) reason now r)
              | None \<Rightarrow> marked (mr_MarkReady repo x (as_ID asset) now r)))"

record 'x WorkerCall =
  wc_claimNow :: time
  wc_claim :: 'x
  wc_markNow :: time
  wc_mark :: 'x
  wc_storage :: Storage

text \<open>\<open>others\<close> is what happens to the repository between the claim and the mark.\<close>

definition mediaProcessOne :: "('x, 'r) MediaRepository \<Rightarrow> 'x WorkerCall \<Rightarrow> ('r \<Rightarrow> 'r) \<Rightarrow> 'r
   \<Rightarrow> 'r \<times> bool \<times> media_error option" where
  "mediaProcessOne repo w others r =
     (case mr_ClaimNextUploaded repo (wc_claim w) (wc_claimNow w) r of
        (r', Inl err) \<Rightarrow> (r', False, Some err)
      | (r', Inr None) \<Rightarrow> (r', False, None)
      | (r', Inr (Some asset)) \<Rightarrow>
          (case finishAsset repo (wc_storage w) (wc_mark w) (wc_markNow w) asset (others r') of
             (r'', err) \<Rightarrow> (r'', True, err)))"

section \<open>Requests\<close>

record MediaHandler =
  mh_jwt :: JwtLib
  mh_tokens :: TokenManager
  mh_introspector :: "string \<Rightarrow> introspection_error + Subject"

definition mediaDenyIntrospector :: "string \<Rightarrow> introspection_error + Subject" where
  "mediaDenyIntrospector token = Inl ErrIntrospectInvalid"

definition NewMediaHandler :: "JwtLib \<Rightarrow> TokenManager \<Rightarrow> (string \<Rightarrow> introspection_error + Subject) option
   \<Rightarrow> MediaHandler" where
  "NewMediaHandler lib tokens introspector =
     \<lparr>mh_jwt = lib, mh_tokens = tokens,
      mh_introspector = (case introspector of None \<Rightarrow> mediaDenyIntrospector | Some i \<Rightarrow> i)\<rparr>"

record mediaPrincipal =
  mp_UserID :: string
  mp_Role :: Role
  mp_AccessToken :: string

definition mediaPrincipalFromRequest :: "MediaHandler \<Rightarrow> time \<Rightarrow> string \<Rightarrow> mediaPrincipal option" where
  "mediaPrincipalFromRequest h tokenNow authorization =
     (case BearerToken authorization of None \<Rightarrow> None
      | Some token \<Rightarrow>
         (case Verify (mh_jwt h) (mh_tokens h) tokenNow token of Inl _ \<Rightarrow> None
          | Inr claims \<Rightarrow>
             (case mh_introspector h token of Inl _ \<Rightarrow> None
              | Inr subject \<Rightarrow>
                 if sj_UserID subject \<noteq> cl_UserID claims then None
                 else (let role = NormalizeRole (sj_Role subject) in
                       if \<not> ValidRole role then None
                       else Some \<lparr>mp_UserID = sj_UserID subject, mp_Role = role, mp_AccessToken = token\<rparr>))))"

definition mediaUserIDFromRequest :: "MediaHandler \<Rightarrow> time \<Rightarrow> string \<Rightarrow> string option" where
  "mediaUserIDFromRequest h tokenNow authorization =
     map_option mp_UserID (mediaPrincipalFromRequest h tokenNow authorization)"

record createUploadRequest =
  cu_EventID :: string
  cu_Filename :: string
  cu_ContentType :: string
  cu_SizeBytes :: int

datatype media_request =
    PostUpload "decode_error + createUploadRequest" | PostUploaded string | GetMedia string

datatype media_body =
    IntentBody UploadIntent | AssetBody Asset | MediaErrorBody string string \<comment> \<open>code and message\<close>

definition mediaError :: "int \<Rightarrow> string \<Rightarrow> string \<Rightarrow> int \<times> media_body" where
  "mediaError status code message = (status, MediaErrorBody code message)"

definition writeMediaError :: "media_error \<Rightarrow> int \<times> media_body" where
  "writeMediaError err =
     (case err of
        ErrMediaUnauthorized \<Rightarrow> mediaError 401 ''unauthorized'' ''user identity required''
      | ErrMediaForbidden \<Rightarrow> mediaError 403 ''forbidden'' ''operation is not allowed''
      | ErrMediaNotFound \<Rightarrow> mediaError 404 ''not_found'' ''resource not found''
      | ErrInvalidUpload \<Rightarrow> mediaError 400 ''invalid_request'' ''invalid upload''
      | ErrInvalidContentType \<Rightarrow> mediaError 400 ''invalid_request'' ''unsupported content type''
      | ErrInvalidStateTransition \<Rightarrow> mediaError 400 ''invalid_request'' ''invalid state transition''
      | _ \<Rightarrow> mediaError 500 ''internal'' ''internal server error'')"

definition mediaDecodeError :: "decode_error \<Rightarrow> int \<times> media_body" where
  "mediaDecodeError err =
     (case err of
        RequestTooLarge \<Rightarrow> mediaError 413 ''request_too_large'' ''request body is too large''
      | _ \<Rightarrow> mediaError 400 ''invalid_request'' ''invalid JSON request'')"

record 'x MediaReq =
  mq_tokenNow :: time
  mq_now :: time
  mq_newID :: string
  mq_repo :: 'x

definition createUpload_handler :: "('x, 'r) MediaRepository \<Rightarrow> MediaService \<Rightarrow> MediaHandler \<Rightarrow> 'x MediaReq \<Rightarrow> string
   \<Rightarrow> decode_error + createUploadRequest \<Rightarrow> 'r \<Rightarrow> 'r \<times> int \<times> media_body" where
  "createUpload_handler repo s h q authorization body r =
     (case mediaPrincipalFromRequest h (mq_tokenNow q) authorization of
        None \<Rightarrow> (r, writeMediaError ErrMediaUnauthorized)
      | Some p \<Rightarrow>
     (case body of
        Inl err \<Rightarrow> (r, mediaDecodeError err)
      | Inr req \<Rightarrow>
     (case CreateUpload repo s (mq_repo q) (mq_newID q) (mq_now q)
             \<lparr>uc_EventID = cu_EventID req, uc_UploaderID = mp_UserID p, uc_UploaderRole = mp_Role p,
              uc_AccessToken = mp_AccessToken p, uc_Filename = cu_Filename req,
              uc_ContentType = cu_ContentType req, uc_SizeBytes = cu_SizeBytes req\<rparr> r of
        (r', Inl err) \<Rightarrow> (r', writeMediaError err)
      | (r', Inr intent) \<Rightarrow> (r', (201, IntentBody intent)))))"

definition markUploaded_handler :: "('x, 'r) MediaRepository \<Rightarrow> MediaHandler \<Rightarrow> 'x MediaReq \<Rightarrow> string
   \<Rightarrow> string \<Rightarrow> 'r \<Rightarrow> 'r \<times> int \<times> media_body" where
  "markUploaded_handler repo h q authorization mediaID r =
     (case mediaUserIDFromRequest h (mq_tokenNow q) authorization of
        None \<Rightarrow> (r, writeMediaError ErrMediaUnauthorized)
      | Some userID \<Rightarrow>
     (case svcMarkUploaded repo (mq_repo q) (mq_now q) mediaID userID r of
        (r', Inl err) \<Rightarrow> (r', writeMediaError err)
      | (r', Inr asset) \<Rightarrow> (r', (200, AssetBody asset))))"

definition getMedia_handler :: "('x, 'r) MediaRepository \<Rightarrow> 'x MediaReq \<Rightarrow> string \<Rightarrow> 'r \<Rightarrow> 'r \<times> int \<times> media_body" where
  "getMedia_handler repo q mediaID r =
     (case svcGetAsset repo (mq_repo q) mediaID r of
        Inl err \<Rightarrow> (r, writeMediaError err) | Inr asset \<Rightarrow> (r, (200, AssetBody asset)))"

definition serveMedia :: "('x, 'r) MediaRepository \<Rightarrow> MediaService \<Rightarrow> MediaHandler \<Rightarrow> 'x MediaReq \<Rightarrow> string
   \<Rightarrow> media_request \<Rightarrow> 'r \<Rightarrow> 'r \<times> int \<times> media_body" where
  "serveMedia repo s h q authorization request r =
     (case request of
        PostUpload body \<Rightarrow> createUpload_handler repo s h q authorization body r
      | PostUploaded mediaID \<Rightarrow> markUploaded_handler repo h q authorization mediaID r
      | GetMedia mediaID \<Rightarrow> getMedia_handler repo q mediaID r)"

end
