(* ===== verification/MediaSteps.thy ===== *)
theory MediaSteps imports MediaService begin

text \<open>
  The life of an upload. \<open>upload_change\<close> is the protocol: who may change the row of an asset and how.
  \<open>media_step\<close> interleaves requests with the claims and marks of any number of workers, which may
  crash between the two. The interface \<open>media_store\<close> is what the protocol needs of a repository; both
  repositories provide it.
\<close>

section \<open>Protocol\<close>

text \<open>The members of an asset that are set once.\<close>

definition upload_of :: "Asset \<Rightarrow> (string \<times> string \<times> string \<times> string) \<times> string \<times> int \<times> string \<times> string" where
  "upload_of a = ((as_ID a, as_EventID a, as_UploaderID a, as_Filename a), as_ContentType a,
     as_SizeBytes a, as_Bucket a, as_ObjectKey a)"

text \<open>What the worker makes of a claimed asset: the failure it records, or none.\<close>

definition verdict :: "Storage \<Rightarrow> Asset \<Rightarrow> string option" where
  "verdict storage a =
     (case sg_StatObject storage (as_Bucket a) (as_ObjectKey a) of
        Inl err \<Rightarrow> Some err | Inr info \<Rightarrow> mismatch info a)"

datatype media_label =
    MediaRequest EventClient MediaHandler time string media_request
  | ClaimUpload nat
  | FinishUpload nat Storage
  | CrashWorker nat

type_synonym media_workers = "nat \<Rightarrow> Asset option" \<comment> \<open>the asset that a worker has claimed\<close>

text \<open>An event that the user may attach media to: one of its organizer, or any for an admin.\<close>

definition may_attach :: "EventClient \<Rightarrow> mediaPrincipal \<Rightarrow> string \<Rightarrow> bool" where
  "may_attach client p eventID \<longleftrightarrow> CanPublishEvents (mp_Role p) \<and>
     (\<exists>i organizerID. fetchEvent client eventID (mp_AccessToken p) = Inr (i, organizerID) \<and>
        (CanAdmin (mp_Role p) \<or> organizerID = TrimSpace (mp_UserID p)))"

inductive upload_change :: "media_workers \<Rightarrow> media_label \<Rightarrow> Asset option \<Rightarrow> Asset option \<Rightarrow> bool" where
  announced: "\<lbrakk>mediaPrincipalFromRequest h t authorization = Some p; may_attach client p (as_EventID a);
      as_EventID a = TrimSpace (cu_EventID req); as_UploaderID a = TrimSpace (mp_UserID p);
      as_Status a = MediaUploading; AllowedContentType (as_ContentType a);
      0 < as_SizeBytes a; as_SizeBytes a \<le> MaxUploadSizeBytes\<rbrakk>
    \<Longrightarrow> upload_change held (MediaRequest client h t authorization (PostUpload (Inr req))) None (Some a)"
| uploaded: "\<lbrakk>mediaPrincipalFromRequest h t authorization = Some p;
      as_UploaderID a = TrimSpace (mp_UserID p); as_ID a = TrimSpace mediaID;
      as_Status a = MediaUploading; b = moved MediaUploaded now a\<rbrakk>
    \<Longrightarrow> upload_change held (MediaRequest client h t authorization (PostUploaded mediaID)) (Some a) (Some b)"
| claimed: "\<lbrakk>held w = None; as_Status a = MediaUploaded; b = moved MediaProcessing now a\<rbrakk>
    \<Longrightarrow> upload_change held (ClaimUpload w) (Some a) (Some b)"
| published: "\<lbrakk>held w = Some c; upload_of c = upload_of a; as_Status a = MediaProcessing;
      verdict storage a = None; b = finished MediaReady '''' now a\<rbrakk>
    \<Longrightarrow> upload_change held (FinishUpload w storage) (Some a) (Some b)"
| rejected: "\<lbrakk>held w = Some c; upload_of c = upload_of a; as_Status a = MediaProcessing;
      verdict storage a = Some reason; b = finished MediaFailed reason now a\<rbrakk>
    \<Longrightarrow> upload_change held (FinishUpload w storage) (Some a) (Some b)"

inductive_cases upload_changeE: "upload_change held l x y"

section \<open>Steps\<close>

inductive media_step :: "('x, MediaDB) MediaRepository \<Rightarrow> string \<Rightarrow> MediaDB \<times> media_workers \<Rightarrow> media_label
   \<Rightarrow> MediaDB \<times> media_workers \<Rightarrow> bool" for repo bucket where
  request: "\<lbrakk>map_of r (mq_newID q) = None;
      serveMedia repo (NewMediaService storage bucket (Some (AuthorizeCreateMedia client))) h q
        authorization req r = (r', response)\<rbrakk>
    \<Longrightarrow> media_step repo bucket (r, held) (MediaRequest client h (mq_tokenNow q) authorization req) (r', held)"
| claim: "\<lbrakk>held w = None; mr_ClaimNextUploaded repo x now r = (r', out)\<rbrakk>
    \<Longrightarrow> media_step repo bucket (r, held) (ClaimUpload w)
          (r', held(w := (case out of Inr (Some a) \<Rightarrow> Some a | _ \<Rightarrow> None)))"
| finish: "\<lbrakk>held w = Some a; finishAsset repo storage x now a r = (r', err)\<rbrakk>
    \<Longrightarrow> media_step repo bucket (r, held) (FinishUpload w storage) (r', held(w := None))"
| crash: "held w = Some a
    \<Longrightarrow> media_step repo bucket (r, held) (CrashWorker w) (r, held(w := None))"

inductive_cases media_stepE: "media_step repo bucket s l s'"

inductive media_reachable :: "('x, MediaDB) MediaRepository \<Rightarrow> string \<Rightarrow> MediaDB \<times> media_workers \<Rightarrow> bool"
  for repo bucket where
  start: "media_reachable repo bucket ([], \<lambda>_. None)"
| step: "media_reachable repo bucket s \<Longrightarrow> media_step repo bucket s l s' \<Longrightarrow> media_reachable repo bucket s'"

text \<open>A round of \<open>mediaProcessOne\<close> is a claim, the steps of the others, and the mark.\<close>

lemma round_is_claim_and_finish:
  "mediaProcessOne repo w others r =
     (case mr_ClaimNextUploaded repo (wc_claim w) (wc_claimNow w) r of
        (r', out) \<Rightarrow>
          (case out of
             Inr (Some a) \<Rightarrow>
               (fst (finishAsset repo (wc_storage w) (wc_mark w) (wc_markNow w) a (others r')), True,
                snd (finishAsset repo (wc_storage w) (wc_mark w) (wc_markNow w) a (others r')))
           | Inr None \<Rightarrow> (r', False, None)
           | Inl err \<Rightarrow> (r', False, Some err)))"
  by (auto simp: mediaProcessOne_def split: prod.split sum.split option.split)

section \<open>The interface\<close>

definition keyed :: "MediaDB \<Rightarrow> bool" where
  "keyed r \<longleftrightarrow> distinct (mkeys r) \<and> (\<forall>(i, a) \<in> set r. as_ID a = i)"

lemma keyed_id: "keyed r \<Longrightarrow> map_of r i = Some a \<Longrightarrow> as_ID a = i"
  unfolding keyed_def by (auto dest: map_of_SomeD)

lemma keyed_vals: "keyed r \<Longrightarrow> a \<in> set (mvals r) \<Longrightarrow> map_of r (as_ID a) = Some a"
  unfolding keyed_def by (auto intro: map_of_is_SomeI)

lemma mput_entries: "p \<in> set (mput i a r) \<Longrightarrow> p = (i, a) \<or> p \<in> set r"
  by (induction r) (auto split: if_splits)

lemma keyed_mput: "keyed r \<Longrightarrow> as_ID a = i \<Longrightarrow> keyed (mput i a r)"
  unfolding keyed_def using mput_entries [of _ i a r] by (fastforce simp: distinct_update)

lemma keyed_Nil [simp]: "keyed []"
  by (simp add: keyed_def)

locale media_store =
  fixes repo :: "('x, MediaDB) MediaRepository"
  assumes create: "keyed r \<Longrightarrow> map_of r (as_ID a) = None \<Longrightarrow> mr_Create repo x a r = (r', out) \<Longrightarrow>
      r' = r \<or> (\<exists>b. r' = mput (as_ID a) b r \<and> upload_of b = upload_of a \<and> as_Status b = as_Status a)"
    and uploaded: "keyed r \<Longrightarrow> mr_MarkUploaded repo x i u now r = (r', out1) \<Longrightarrow>
      r' = r \<or> (\<exists>a t. map_of r i = Some a \<and> as_UploaderID a = u \<and>
        ValidateTransition (as_Status a) MediaUploaded = None \<and> r' = mput i (moved MediaUploaded t a) r)"
    and claim: "keyed r \<Longrightarrow> mr_ClaimNextUploaded repo x now r = (r', out2) \<Longrightarrow>
      r' = r \<and> (\<forall>a. out2 \<noteq> Inr (Some a)) \<or>
      (\<exists>a t. map_of r (as_ID a) = Some a \<and> as_Status a = MediaUploaded \<and>
        r' = mput (as_ID a) (moved MediaProcessing t a) r \<and>
        (\<forall>c. out2 = Inr (Some c) \<longrightarrow> upload_of c = upload_of a))"
    and ready: "keyed r \<Longrightarrow> mr_MarkReady repo x i now r = (r', out1) \<Longrightarrow>
      r' = r \<or> (\<exists>a t. map_of r i = Some a \<and> r' = mput i (finished MediaReady '''' t a) r)"
    and failed: "keyed r \<Longrightarrow> mr_MarkFailed repo x i reason now r = (r', out1) \<Longrightarrow>
      r' = r \<or> (\<exists>a t. map_of r i = Some a \<and> r' = mput i (finished MediaFailed reason t a) r)"

section \<open>Invariant\<close>

text \<open>The row of a claimed asset is in processing, and no two workers have claimed the same.\<close>

definition media_inv :: "MediaDB \<times> media_workers \<Rightarrow> bool" where
  "media_inv s \<longleftrightarrow> keyed (fst s) \<and>
     (\<forall>w c. snd s w = Some c \<longrightarrow> (\<exists>a. map_of (fst s) (as_ID c) = Some a \<and>
        as_Status a = MediaProcessing \<and> upload_of c = upload_of a)) \<and>
     (\<forall>w v c d. snd s w = Some c \<and> snd s v = Some d \<and> as_ID c = as_ID d \<longrightarrow> w = v)"

lemma upload_of_simps [simp]:
  "upload_of (moved s t a) = upload_of a" "upload_of (finished s reason t a) = upload_of a"
  "as_ID (moved s t a) = as_ID a" "as_ID (finished s reason t a) = as_ID a"
  "as_Status (moved s t a) = s" "as_Status (finished s reason t a) = s"
  by (simp_all add: upload_of_def moved_def finished_def)

lemma upload_of_ID: "upload_of a = upload_of b \<Longrightarrow> as_ID a = as_ID b"
  by (simp add: upload_of_def)

lemma verdict_upload: "upload_of a = upload_of b \<Longrightarrow> verdict storage a = verdict storage b"
  by (simp add: upload_of_def verdict_def mismatch_def split: sum.split)

lemma transition_from_uploading:
  "ValidateTransition s MediaUploaded = None \<longleftrightarrow> s = MediaUploading"
  "ValidateTransition s MediaProcessing = None \<longleftrightarrow> s = MediaUploaded"
  by (cases s; simp add: ValidateTransition_def allowed_transitions_def)+

text \<open>A step that changes one row that no worker has claimed keeps the invariant.\<close>

lemma media_inv_put:
  assumes "media_inv (r, held)" and "as_ID b = i"
    and "\<And>w c. held w = Some c \<Longrightarrow> as_ID c \<noteq> i"
  shows "media_inv (mput i b r, held)"
  using assms keyed_mput [of r b i] unfolding media_inv_def by fastforce

lemma media_inv_claim:
  assumes "media_inv (r, held)" and "map_of r i = Some a" and "as_Status a = MediaProcessing"
    and "upload_of c = upload_of a" and "as_ID c = i" and "\<And>v d. held v = Some d \<Longrightarrow> as_ID d \<noteq> i"
  shows "media_inv (r, held(w \<mapsto> c))"
  unfolding media_inv_def fst_conv snd_conv
proof (intro conjI allI impI)
  fix v u d e
  assume "(held(w \<mapsto> c)) v = Some d \<and> (held(w \<mapsto> c)) u = Some e \<and> as_ID d = as_ID e"
  then show "v = u"
    using assms(1,5) assms(6) [of v d] assms(6) [of u e]
    unfolding media_inv_def by (auto split: if_splits)
qed (use assms in \<open>auto simp: media_inv_def split: if_splits\<close>)

lemma media_inv_release: "media_inv (r, held) \<Longrightarrow> media_inv (r, held(w := None))"
  unfolding media_inv_def by (auto split: if_splits)

lemma unclaimed:
  "media_inv (r, held) \<Longrightarrow> map_of r i = Some a \<Longrightarrow> as_Status a \<noteq> MediaProcessing \<Longrightarrow>
     held w = Some c \<Longrightarrow> as_ID c \<noteq> i"
  unfolding media_inv_def by fastforce

lemma absent_unclaimed:
  "media_inv (r, held) \<Longrightarrow> map_of r i = None \<Longrightarrow> held w = Some c \<Longrightarrow> as_ID c \<noteq> i"
  unfolding media_inv_def by fastforce

end
