(* ===== verification/MediaProtocol.thy ===== *)
theory MediaProtocol imports MediaSteps begin

text \<open>
  Every step of requests and workers changes the rows as the protocol \<open>upload_change\<close> allows: proved
  once over the interface \<open>media_store\<close>, which both repositories provide.
\<close>

section \<open>What the operations let through\<close>

lemma NewAsset_ok:
  assumes "NewAsset newID cmd bucket now = Inr a"
  shows "as_ID a = newID \<and> as_EventID a = TrimSpace (uc_EventID cmd) \<and>
    as_UploaderID a = TrimSpace (uc_UploaderID cmd) \<and> as_Status a = MediaUploading \<and>
    AllowedContentType (as_ContentType a) \<and> 0 < as_SizeBytes a \<and> as_SizeBytes a \<le> MaxUploadSizeBytes"
  using assms by (auto simp: NewAsset_def Let_def check_Inr_iff ValidateUpload_def split: if_splits)

lemma AuthorizeCreateMedia_None:
  assumes "AuthorizeCreateMedia client request = None"
  shows "CanPublishEvents (NormalizeRole (ea_Role request)) \<and>
    (\<exists>i organizerID. fetchEvent client (TrimSpace (ea_EventID request)) (ea_AccessToken request) = Inr (i, organizerID) \<and>
      (CanAdmin (NormalizeRole (ea_Role request)) \<or> organizerID = TrimSpace (ea_UserID request)))"
  using assms by (auto simp: AuthorizeCreateMedia_def Let_def split: if_splits sum.splits prod.splits)

lemma media_principal_role:
  "mediaPrincipalFromRequest h t authorization = Some p \<Longrightarrow> ValidRole (mp_Role p)"
  by (auto simp: mediaPrincipalFromRequest_def Let_def split: option.splits sum.splits if_splits)

lemma CreateUpload_cases:
  assumes "CreateUpload repo s x newID now cmd r = (r', out)"
  shows "r' = r \<or> (\<exists>a made. NewAsset newID cmd (me_bucket s) now = Inr a \<and>
    me_eventAuthorizer s \<lparr>ea_EventID = as_EventID a, ea_UserID = as_UploaderID a,
      ea_Role = uc_UploaderRole cmd, ea_AccessToken = uc_AccessToken cmd\<rparr> = None \<and>
    mr_Create repo x a r = (r', made))"
  using assms by (auto simp: CreateUpload_def split: sum.splits option.splits prod.splits)

lemma may_attachI:
  assumes p: "mediaPrincipalFromRequest h t authorization = Some p"
    and auth: "AuthorizeCreateMedia client \<lparr>ea_EventID = e, ea_UserID = TrimSpace (mp_UserID p), ea_Role = mp_Role p,
      ea_AccessToken = mp_AccessToken p\<rparr> = None" and e: "TrimSpace e = e"
  shows "may_attach client p e"
  using AuthorizeCreateMedia_None [OF auth] e media_principal_role [OF p]
  by (auto simp: may_attach_def CanPublish_normalized CanAdmin_def NormalizeRole_idem_valid)

context media_store
begin

lemma create_request:
  assumes keyed: "keyed r" and fresh: "map_of r (mq_newID q) = None"
    and serve: "createUpload_handler repo (NewMediaService storage bucket (Some (AuthorizeCreateMedia client)))
      h q authorization body r = (r', response)"
  shows "r' = r \<or> (\<exists>a i. map_of r i = None \<and> as_ID a = i \<and> r' = mput i a r \<and>
    upload_change held (MediaRequest client h (mq_tokenNow q) authorization (PostUpload body)) None (Some a))"
proof (cases "r' = r")
  case False
  then obtain p req where p: "mediaPrincipalFromRequest h (mq_tokenNow q) authorization = Some p"
    and body: "body = Inr req"
    using serve by (auto simp: createUpload_handler_def split: option.splits sum.splits)
  let ?cmd = "\<lparr>uc_EventID = cu_EventID req, uc_UploaderID = mp_UserID p, uc_UploaderRole = mp_Role p,
    uc_AccessToken = mp_AccessToken p, uc_Filename = cu_Filename req, uc_ContentType = cu_ContentType req,
    uc_SizeBytes = cu_SizeBytes req\<rparr>"
  let ?s = "NewMediaService storage bucket (Some (AuthorizeCreateMedia client))"
  obtain out where "CreateUpload repo ?s (mq_repo q) (mq_newID q) (mq_now q) ?cmd r = (r', out)"
    using serve p body by (auto simp: createUpload_handler_def split: prod.splits sum.splits)
  from CreateUpload_cases [OF this] False obtain a made where
    a: "NewAsset (mq_newID q) ?cmd (me_bucket ?s) (mq_now q) = Inr a"
    and auth: "me_eventAuthorizer ?s \<lparr>ea_EventID = as_EventID a, ea_UserID = as_UploaderID a,
      ea_Role = mp_Role p, ea_AccessToken = mp_AccessToken p\<rparr> = None"
    and made: "mr_Create repo (mq_repo q) a r = (r', made)" by auto
  note ok = NewAsset_ok [OF a]
  have "map_of r (as_ID a) = None" using fresh ok by simp
  from create [OF keyed this made] False obtain b where
    b: "r' = mput (as_ID a) b r" "upload_of b = upload_of a" "as_Status b = as_Status a" by auto
  have same: "as_ID b = as_ID a" "as_EventID b = as_EventID a" "as_UploaderID b = as_UploaderID a"
    "as_ContentType b = as_ContentType a" "as_SizeBytes b = as_SizeBytes a"
    using b(2) by (simp_all add: upload_of_def)
  have "may_attach client p (as_EventID b)"
    using may_attachI [OF p, of client "as_EventID a"] auth ok same by (simp add: NewMediaService_def)
  then have "upload_change held (MediaRequest client h (mq_tokenNow q) authorization (PostUpload body)) None (Some b)"
    unfolding body using p ok same b(3) by (intro announced [of _ _ _ p]) simp_all
  then show ?thesis using b(1) same(1) ok fresh by (intro disjI2 exI [of _ b] exI [of _ "as_ID b"]) simp
qed simp

lemma uploaded_request:
  assumes keyed: "keyed r"
    and serve: "markUploaded_handler repo h q authorization mediaID r = (r', response)"
  shows "r' = r \<or> (\<exists>a b i. map_of r i = Some a \<and> as_Status a = MediaUploading \<and> as_ID b = i \<and> r' = mput i b r \<and>
    upload_change held (MediaRequest client h (mq_tokenNow q) authorization (PostUploaded mediaID)) (Some a) (Some b))"
proof (cases "r' = r")
  case False
  then obtain p out where p: "mediaPrincipalFromRequest h (mq_tokenNow q) authorization = Some p"
    and mark: "mr_MarkUploaded repo (mq_repo q) (TrimSpace mediaID) (TrimSpace (mp_UserID p)) (mq_now q) r = (r', out)"
    using serve by (auto simp: markUploaded_handler_def mediaUserIDFromRequest_def svcMarkUploaded_def
        split: option.splits sum.splits prod.splits if_splits)
  from uploaded [OF keyed mark] False obtain a t where
    a: "map_of r (TrimSpace mediaID) = Some a" "as_UploaderID a = TrimSpace (mp_UserID p)"
    "as_Status a = MediaUploading" and r': "r' = mput (TrimSpace mediaID) (moved MediaUploaded t a) r"
    by (auto simp: transition_from_uploading)
  have i: "as_ID a = TrimSpace mediaID" using keyed_id [OF keyed a(1)] .
  have "upload_change held (MediaRequest client h (mq_tokenNow q) authorization (PostUploaded mediaID)) (Some a)
    (Some (moved MediaUploaded t a))"
    using p a i by (intro upload_change.uploaded [of _ _ _ p]) simp_all
  then show ?thesis using a r' i by auto
qed simp

text \<open>One row was written, under an id that no worker holds.\<close>

lemma changed_row:
  assumes "media_inv (r, held)" and "as_ID b = i" and "\<And>w c. held w = Some c \<Longrightarrow> as_ID c \<noteq> i"
    and "upload_change held' l (map_of r i) (Some b)"
  shows "media_inv (mput i b r, held) \<and>
    (\<forall>j. map_of (mput i b r) j = map_of r j \<or> upload_change held' l (map_of r j) (map_of (mput i b r) j))"
  using media_inv_put [OF assms(1-3)] assms(4) by simp

lemma request_protocol:
  assumes inv: "media_inv (r, held)" and fresh: "map_of r (mq_newID q) = None"
    and serve: "serveMedia repo (NewMediaService storage bucket (Some (AuthorizeCreateMedia client))) h q
      authorization req r = (r', response)"
  shows "media_inv (r', held) \<and> (\<forall>i. map_of r' i = map_of r i \<or>
    upload_change held (MediaRequest client h (mq_tokenNow q) authorization req) (map_of r i) (map_of r' i))"
proof -
  have keyed: "keyed r" using inv by (simp add: media_inv_def)
  show ?thesis
  proof (cases req)
    case (PostUpload body)
    with serve have "createUpload_handler repo (NewMediaService storage bucket (Some (AuthorizeCreateMedia client)))
      h q authorization body r = (r', response)" by (simp add: serveMedia_def)
    from create_request [OF keyed fresh this, of held] show ?thesis
    proof
      assume "\<exists>a i. map_of r i = None \<and> as_ID a = i \<and> r' = mput i a r \<and>
        upload_change held (MediaRequest client h (mq_tokenNow q) authorization (PostUpload body)) None (Some a)"
      then obtain b i where b: "map_of r i = None" "as_ID b = i" "r' = mput i b r"
        "upload_change held (MediaRequest client h (mq_tokenNow q) authorization (PostUpload body))
          (map_of r i) (Some b)" by auto
      show ?thesis unfolding b(3) PostUpload
        by (rule changed_row [OF inv b(2) _ b(4)]) (rule absent_unclaimed [OF inv b(1)])
    qed (use inv in simp)
  next
    case (PostUploaded mediaID)
    with serve have "markUploaded_handler repo h q authorization mediaID r = (r', response)"
      by (simp add: serveMedia_def)
    from uploaded_request [OF keyed this, of held] show ?thesis
    proof
      assume "\<exists>a b i. map_of r i = Some a \<and> as_Status a = MediaUploading \<and> as_ID b = i \<and> r' = mput i b r \<and>
        upload_change held (MediaRequest client h (mq_tokenNow q) authorization (PostUploaded mediaID)) (Some a) (Some b)"
      then obtain a b i where b: "map_of r i = Some a" "as_Status a = MediaUploading" "as_ID b = i"
        "r' = mput i b r" "upload_change held (MediaRequest client h (mq_tokenNow q) authorization (PostUploaded mediaID))
          (Some a) (Some b)" by blast
      show ?thesis unfolding b(4) PostUploaded
        by (rule changed_row [OF inv b(3)]) (use unclaimed [OF inv b(1)] b in auto)
    qed (use inv in simp)
  next
    case (GetMedia mediaID)
    with serve show ?thesis using inv by (simp add: serveMedia_def getMedia_handler_def split: sum.splits)
  qed
qed

lemma claim_protocol:
  assumes inv: "media_inv (r, held)" and idle: "held w = None"
    and claimed: "mr_ClaimNextUploaded repo x now r = (r', out)"
  shows "media_inv (r', held(w := (case out of Inr (Some a) \<Rightarrow> Some a | _ \<Rightarrow> None))) \<and>
    (\<forall>i. map_of r' i = map_of r i \<or> upload_change held (ClaimUpload w) (map_of r i) (map_of r' i))"
proof -
  have "keyed r" using inv by (simp add: media_inv_def)
  from claim [OF this claimed] show ?thesis
  proof
    assume none: "r' = r \<and> (\<forall>a. out \<noteq> Inr (Some a))"
    then have "(case out of Inr (Some a) \<Rightarrow> Some a | _ \<Rightarrow> None) = None"
      by (auto split: sum.split option.split)
    then show ?thesis using none media_inv_release [OF inv, of w] by simp
  next
    assume "\<exists>a t. map_of r (as_ID a) = Some a \<and> as_Status a = MediaUploaded \<and>
        r' = mput (as_ID a) (moved MediaProcessing t a) r \<and>
        (\<forall>c. out = Inr (Some c) \<longrightarrow> upload_of c = upload_of a)"
    then obtain a t where a: "map_of r (as_ID a) = Some a" "as_Status a = MediaUploaded"
      and r': "r' = mput (as_ID a) (moved MediaProcessing t a) r"
      and out: "\<And>c. out = Inr (Some c) \<Longrightarrow> upload_of c = upload_of a" by blast
    have free: "\<And>v c. held v = Some c \<Longrightarrow> as_ID c \<noteq> as_ID a"
      using unclaimed [OF inv a(1)] a(2) by simp
    have change: "upload_change held (ClaimUpload w) (map_of r (as_ID a)) (Some (moved MediaProcessing t a))"
      using a idle by (auto intro: upload_change.claimed)
    have put: "media_inv (r', held)" "\<forall>i. map_of r' i = map_of r i \<or>
        upload_change held (ClaimUpload w) (map_of r i) (map_of r' i)"
      using changed_row [OF inv _ free change] unfolding r' by simp_all
    have row: "map_of r' (as_ID a) = Some (moved MediaProcessing t a)" by (simp add: r')
    have "media_inv (r', held(w := (case out of Inr (Some c) \<Rightarrow> Some c | _ \<Rightarrow> None)))"
    proof (cases "\<exists>c. out = Inr (Some c)")
      case True
      then obtain c where c: "out = Inr (Some c)" by blast
      note u = out [OF c] upload_of_ID [OF out [OF c]]
      show ?thesis unfolding c using media_inv_claim [OF put(1) row] free u by simp
    next
      case False
      then have "(case out of Inr (Some a) \<Rightarrow> Some a | _ \<Rightarrow> None) = None"
        by (auto split: sum.split option.split)
      then show ?thesis using media_inv_release [OF put(1), of w] by simp
    qed
    then show ?thesis using put(2) by blast
  qed
qed

lemma finish_protocol:
  assumes inv: "media_inv (r, held)" and holds: "held w = Some c"
    and fin: "finishAsset repo storage x now c r = (r', err)"
  shows "media_inv (r', held(w := None)) \<and>
    (\<forall>i. map_of r' i = map_of r i \<or> upload_change held (FinishUpload w storage) (map_of r i) (map_of r' i))"
proof -
  have keyed: "keyed r" using inv by (simp add: media_inv_def)
  obtain a where a: "map_of r (as_ID c) = Some a" "as_Status a = MediaProcessing" "upload_of c = upload_of a"
    using inv holds unfolding media_inv_def fst_conv snd_conv by blast
  have i: "as_ID a = as_ID c" using keyed_id [OF keyed a(1)] .
  have change: "r' = r \<or> (\<exists>b. as_ID b = as_ID c \<and> r' = mput (as_ID c) b r \<and>
    upload_change held (FinishUpload w storage) (Some a) (Some b))"
  proof (cases "verdict storage c")
    case None
    then have "\<exists>out. mr_MarkReady repo x (as_ID c) now r = (r', out)"
      using fin by (auto simp: finishAsset_def verdict_def Let_def split: sum.splits prod.splits option.splits)
    then obtain out where "mr_MarkReady repo x (as_ID c) now r = (r', out)" ..
    note marked = ready [OF keyed this]
    have "upload_change held (FinishUpload w storage) (Some a) (Some (finished MediaReady '''' t a))" for t
      using a holds None verdict_upload [OF a(3)] by (intro published [of _ _ c]) simp_all
    then show ?thesis using marked a(1) i by (metis upload_of_simps(4) option.inject)
  next
    case (Some reason)
    then have "r' = fst (mr_MarkFailed repo x (as_ID c) reason now r)"
      using fin by (auto simp: finishAsset_def verdict_def Let_def split: sum.splits prod.splits option.splits)
    then have "\<exists>out. mr_MarkFailed repo x (as_ID c) reason now r = (r', out)" by (metis prod.collapse)
    then obtain out where "mr_MarkFailed repo x (as_ID c) reason now r = (r', out)" ..
    note marked = failed [OF keyed this]
    have "upload_change held (FinishUpload w storage) (Some a) (Some (finished MediaFailed reason t a))" for t
      using a holds Some verdict_upload [OF a(3)] by (intro rejected [of _ _ c]) simp_all
    then show ?thesis using marked a(1) i by (metis upload_of_simps(4) option.inject)
  qed
  note released = media_inv_release [OF inv, of w]
  have free: "\<And>v d. (held(w := None)) v = Some d \<Longrightarrow> as_ID d \<noteq> as_ID c"
    using inv holds unfolding media_inv_def by (auto split: if_splits)
  from change show ?thesis
  proof
    assume "\<exists>b. as_ID b = as_ID c \<and> r' = mput (as_ID c) b r \<and>
      upload_change held (FinishUpload w storage) (Some a) (Some b)"
    then obtain b where b: "as_ID b = as_ID c" "r' = mput (as_ID c) b r"
      "upload_change held (FinishUpload w storage) (map_of r (as_ID c)) (Some b)" using a(1) by auto
    show ?thesis unfolding b(2) by (rule changed_row [OF released b(1) free b(3)])
  qed (use released in simp)
qed

lemma step_protocol:
  assumes inv: "media_inv (r, held)" and step: "media_step repo bucket (r, held) l (r', held')"
  shows "media_inv (r', held') \<and> (\<forall>i. map_of r' i = map_of r i \<or> upload_change held l (map_of r i) (map_of r' i))"
  using step
proof (cases rule: media_step.cases)
  case request
  then show ?thesis using request_protocol [OF inv] by auto
next
  case claim
  then show ?thesis using claim_protocol [OF inv] by auto
next
  case finish
  then show ?thesis using finish_protocol [OF inv] by auto
next
  case crash
  then show ?thesis using media_inv_release [OF inv] by auto
qed

lemma reachable_inv: "media_reachable repo bucket s \<Longrightarrow> media_inv s"
proof (induction rule: media_reachable.induct)
  case start
  show ?case by (simp add: media_inv_def)
next
  case (step s l s')
  then show ?case using step_protocol by (metis prod.collapse)
qed

lemma reachable_protocol:
  assumes "media_reachable repo bucket (r, held)" and "media_step repo bucket (r, held) l (r', held')"
  shows "map_of r' i = map_of r i \<or> upload_change held l (map_of r i) (map_of r' i)"
  using step_protocol [OF reachable_inv [OF assms(1)] assms(2)] by blast

end

section \<open>The two repositories\<close>

lemma in_media_pg:
  assumes "faults_abort m" and "media_pg m x d = (d', out)"
  shows "d' = d \<and> (\<exists>err. out = Inl err) \<or>
    (\<exists>a fs'. m [] d = (Inr a, fs', d') \<and> (out = Inr a \<or> (\<exists>err. out = Inl err)))"
proof -
  obtain q gs d2 where m: "m [] d = (q, gs, d2)" by (metis prod_cases3)
  show ?thesis
    using in_tx_atomic [OF assms(1), of ErrMediaStore "mc_faults x" "mc_commit x" d] assms(2) m
    by (cases q) (auto simp: media_pg_def in_tx_error_free [of m, OF m])
qed

lemma media_tx_aborts [faults_intros]:
  "faults_abort (select_asset i)" "faults_abort (markUploadedTx i u now)"
  "faults_abort (claimUploadedTx locked now)"
  unfolding select_asset_def scanAsset_def markUploadedTx_def claimUploadedTx_def
  by (intro faults_intros)+

lemma then_read_db: "fst (then_read x i out) = fst out"
  by (auto simp: then_read_def split: prod.split sum.split)

lemma next_uploaded_row:
  assumes "next_uploaded locked d = Some a"
  shows "a \<in> set (mvals d) \<and> as_Status a = MediaUploaded"
proof -
  let ?rows = "sort_key (\<lambda>a. (as_UpdatedAt a, as_ID a))
    (filter (\<lambda>a. as_Status a = MediaUploaded \<and> \<not> locked (as_ID a)) (mvals d))"
  have "?rows \<noteq> []" "a = hd ?rows" using assms by (simp_all add: next_uploaded_def Let_def split: if_splits)
  then have "a \<in> set ?rows" using hd_in_set by metis
  then show ?thesis by auto
qed

lemma markFinal_cases:
  assumes "markFinal x i s reason now d = (d', out)"
  shows "d' = d \<or> (\<exists>a t. map_of d i = Some a \<and> d' = mput i (finished s reason t a) d)"
proof -
  let ?m = "tx_exec ErrMediaStore (\<lambda>_. text_ok reason) (update_asset i (finished s reason (pg_ts now)))"
  obtain out' where m: "media_pg ?m x d = (d', out')"
    using assms then_read_db [of x i "media_pg ?m x d"] by (metis markFinal_def fst_conv prod.collapse)
  have "faults_abort ?m" by (intro faults_intros)
  from in_media_pg [OF this m] show ?thesis
    by (auto simp: tx_simps update_asset_def split: if_splits option.splits)
qed

lemma upload_of_asset_row [simp]: "upload_of (asset_row a) = upload_of a" "as_Status (asset_row a) = as_Status a"
  by (simp_all add: asset_row_def upload_of_def)

lemma pgCreateAsset_cases:
  assumes "pgCreateAsset x a d = (d', out)"
  shows "d' = d \<or> (\<exists>b. d' = mput (as_ID a) b d \<and> upload_of b = upload_of a \<and> as_Status b = as_Status a)"
proof -
  let ?m = "tx_exec ErrMediaStore (asset_insertable a) (mput (as_ID a) (asset_row a))"
  obtain out' where m: "media_pg ?m x d = (d', out')"
    using assms then_read_db [of x "as_ID a" "media_pg ?m x d"] by (metis pgCreateAsset_def fst_conv prod.collapse)
  have "faults_abort ?m" by (intro faults_intros)
  from in_media_pg [OF this m] show ?thesis
    by (auto simp: tx_simps split: if_splits intro!: exI [of _ "asset_row a"])
qed

lemma pgMarkUploaded_cases:
  assumes "pgMarkUploaded x i u now d = (d', out)" and "keyed d"
  shows "d' = d \<or> (\<exists>a t. map_of d i = Some a \<and> as_UploaderID a = u \<and>
    ValidateTransition (as_Status a) MediaUploaded = None \<and> d' = mput i (moved MediaUploaded t a) d)"
proof -
  from in_media_pg [OF media_tx_aborts(2) assms(1) [unfolded pgMarkUploaded_def]] show ?thesis
    using keyed_id [OF assms(2), of i]
    by (auto simp: markUploadedTx_def select_asset_def scanAsset_def tx_bind_def tx_simps update_asset_def
        split: option.splits if_splits)
qed

lemma pgClaimNextUploaded_cases:
  assumes "pgClaimNextUploaded x now d = (d', out)" and "keyed d"
  shows "d' = d \<and> (\<forall>a. out \<noteq> Inr (Some a)) \<or>
    (\<exists>a t. map_of d (as_ID a) = Some a \<and> as_Status a = MediaUploaded \<and>
      d' = mput (as_ID a) (moved MediaProcessing t a) d \<and> (\<forall>c. out = Inr (Some c) \<longrightarrow> upload_of c = upload_of a))"
proof (cases "next_uploaded (mc_locked x) d")
  case None
  then show ?thesis
    using in_media_pg [OF media_tx_aborts(3) assms(1) [unfolded pgClaimNextUploaded_def]]
    by (auto simp: claimUploadedTx_def tx_bind_def tx_simps)
next
  case (Some a)
  note row = next_uploaded_row [OF Some]
  have a: "map_of d (as_ID a) = Some a" using keyed_vals [OF assms(2)] row by blast
  have "claimUploadedTx (mc_locked x) now [] d = (Inr (Some (moved MediaProcessing now a)), [],
    mput (as_ID a) (moved MediaProcessing (pg_ts now) a) d)"
    using row a Some transition_from_uploading(2) [of "as_Status a"]
    by (simp add: claimUploadedTx_def tx_bind_def tx_simps update_asset_def)
  then show ?thesis
    using in_media_pg [OF media_tx_aborts(3) assms(1) [unfolded pgClaimNextUploaded_def]] a row
    by (auto intro!: exI [of _ a] exI [of _ "pg_ts now"])
qed

interpretation pg_media: media_store postgresMedia
  by (unfold_locales; unfold postgresMedia_def MediaRepository.simps pgMarkReady_def pgMarkFailed_def)
    (blast dest: pgCreateAsset_cases pgMarkUploaded_cases pgClaimNextUploaded_cases markFinal_cases)+

lemma memCreateAsset_cases:
  "memCreateAsset a r = (r', out) \<Longrightarrow>
     r' = r \<or> (\<exists>b. r' = mput (as_ID a) b r \<and> upload_of b = upload_of a \<and> as_Status b = as_Status a)"
  by (auto simp: memCreateAsset_def)

lemma memMark_cases:
  "memMark i s reason now r = (r', out) \<Longrightarrow>
     r' = r \<or> (\<exists>a t. map_of r i = Some a \<and> r' = mput i (finished s reason t a) r)"
  by (auto simp: memMark_def split: option.splits)

lemma memMarkUploaded_cases:
  "memMarkUploaded i u now r = (r', out) \<Longrightarrow>
     r' = r \<or> (\<exists>a t. map_of r i = Some a \<and> as_UploaderID a = u \<and>
       ValidateTransition (as_Status a) MediaUploaded = None \<and> r' = mput i (moved MediaUploaded t a) r)"
  by (auto simp: memMarkUploaded_def split: option.splits if_splits)

lemma find_SomeD: "find P xs = Some x \<Longrightarrow> x \<in> set xs \<and> P x"
  by (induction xs) (auto split: if_splits)

lemma memClaimNextUploaded_cases:
  assumes "memClaimNextUploaded now r = (r', out)" and "keyed r"
  shows "r' = r \<and> (\<forall>a. out \<noteq> Inr (Some a)) \<or>
    (\<exists>a t. map_of r (as_ID a) = Some a \<and> as_Status a = MediaUploaded \<and>
      r' = mput (as_ID a) (moved MediaProcessing t a) r \<and> (\<forall>c. out = Inr (Some c) \<longrightarrow> upload_of c = upload_of a))"
proof (cases "find (\<lambda>(i, a). as_Status a = MediaUploaded) r")
  case None
  then show ?thesis using assms(1) by (auto simp: memClaimNextUploaded_def)
next
  case (Some e)
  then obtain i a where e: "e = (i, a)" "(i, a) \<in> set r" "as_Status a = MediaUploaded"
    using find_SomeD [OF Some] by (cases e) auto
  have i: "as_ID a = i" "map_of r i = Some a"
    using e(2) assms(2) by (auto simp: keyed_def intro: map_of_is_SomeI)
  show ?thesis
    using assms(1) Some e i by (auto simp: memClaimNextUploaded_def intro!: exI [of _ a] exI [of _ now])
qed

interpretation mem_media: media_store memoryMedia
  by (unfold_locales; unfold memoryMedia_def MediaRepository.simps)
    (blast dest: memCreateAsset_cases memMark_cases memMarkUploaded_cases memClaimNextUploaded_cases)+

end
