(* ===== verification/MediaProps.thy ===== *)
theory MediaProps imports MediaProtocol AuthnProps begin

text \<open>
  The properties of the media service: the protocol of an upload, and a worker that meets no faults
  empties the queue, in as many rounds as assets wait.
\<close>

section \<open>Protocol\<close>


definition ex_media_handler :: MediaHandler where
  "ex_media_handler = NewMediaHandler ex_jwt ex_manager (Some (\<lambda>_. Inr (ex_subject\<lparr>sj_Role := ''ADMIN''\<rparr>)))"

definition ex_event_client :: EventClient where
  "ex_event_client = \<lparr>ac_get = (\<lambda>path token. Some (200, ''body'')), ac_decode = (\<lambda>body. Some (''ev'', ''o1''))\<rparr>"

definition ex_media_req :: "MediaCall MediaReq" where
  "ex_media_req = \<lparr>mq_tokenNow = 10 * second, mq_now = 7000, mq_newID = ''m1'',
     mq_repo = \<lparr>mc_faults = [], mc_commit = Committed, mc_readFaults = [], mc_locked = (\<lambda>_. False)\<rparr>\<rparr>"

definition ex_store :: Storage where
  "ex_store = memoryStorage (PutObjectInfo ''media'' ''k1'' 10 ''image/png''
     \<lparr>ms_objects = [], ms_err = None\<rparr>)"

definition ex_upload :: createUploadRequest where
  "ex_upload = \<lparr>cu_EventID = ''ev'', cu_Filename = ''a.png'', cu_ContentType = ''image/png'', cu_SizeBytes = 10\<rparr>"

definition ex_media_auth :: string where
  "ex_media_auth = ''Bearer '' @ fst (Sign ex_jwt ex_manager (5 * second) ''t1'' ex_subject)"

definition ex_asset :: Asset where
  "ex_asset = \<lparr>as_ID = ''m1'', as_EventID = ''ev'', as_UploaderID = ''u1'', as_Filename = ''a.png'',
     as_ContentType = ''image/png'', as_SizeBytes = 10, as_Bucket = ''media'',
     as_ObjectKey = ''events/ev/m1/a.png'', as_Status = MediaUploading, as_FailureReason = '''',
     as_CreatedAt = 7000, as_UpdatedAt = 7000, as_ProcessedAt = None\<rparr>"

lemma ex_media_principal:
  "mediaPrincipalFromRequest ex_media_handler (10 * second) ex_media_auth =
     Some \<lparr>mp_UserID = ''u1'', mp_Role = RoleAdmin,
       mp_AccessToken = fst (Sign ex_jwt ex_manager (5 * second) ''t1'' ex_subject)\<rparr>"
proof -
  have "NormalizeRole ''ADMIN'' = ''ADMIN''" "ValidRole ''ADMIN''"
    using role_capabilities(7) NormalizeRole_roles(3) by (simp_all add: RoleAdmin_def)
  moreover have "cl_UserID ex_claims = ''u1''" "sj_UserID ex_subject = ''u1''"
    by (simp_all add: ex_claims_def ex_subject_def)
  ultimately show ?thesis
    unfolding mediaPrincipalFromRequest_def ex_media_auth_def ex_bearer
    by (simp add: ex_media_handler_def NewMediaHandler_def ex_verifies RoleAdmin_def)
qed

lemma ex_new_asset:
  "NewAsset ''m1'' \<lparr>uc_EventID = ''ev'', uc_UploaderID = ''u1'', uc_UploaderRole = RoleAdmin, uc_AccessToken = tok,
     uc_Filename = ''a.png'', uc_ContentType = ''image/png'', uc_SizeBytes = 10\<rparr> ''media'' 7000 = Inr ex_asset"
proof -
  have "objectKey ''ev'' ''m1'' ''a.png'' = ''events/ev/m1/a.png''" by code_simp
  then show ?thesis
    by (simp add: NewAsset_def ValidateUpload_def AllowedContentType_def str_eval MaxUploadSizeBytes_def ex_asset_def)
qed

lemma ex_created:
  "fst (serveMedia postgresMedia (NewMediaService ex_store ''media'' (Some (AuthorizeCreateMedia ex_event_client)))
     ex_media_handler ex_media_req ex_media_auth (PostUpload (Inr ex_upload)) []) = [(''m1'', ex_asset)]"
proof -
  have trims: "TrimSpace ''ev'' = ''ev''" "TrimSpace ''u1'' = ''u1''" "TrimSpace ''o1'' = ''o1''"
    "TrimSpace ''media'' = ''media''" by (simp_all add: str_eval)
  have texts: "text_ok ''ev''" "text_ok ''u1''" "text_ok ''a.png''" "text_ok ''media''"
    by (simp_all add: text_ok_def utf8_valid_ascii byte_def)
  have allow: "AuthorizeCreateMedia ex_event_client \<lparr>ea_EventID = ''ev'', ea_UserID = ''u1'', ea_Role = RoleAdmin,
      ea_AccessToken = tok\<rparr> = None" for tok
    by (simp add: AuthorizeCreateMedia_def trims fetchEvent_def ex_event_client_def Let_def)
  have "pgCreateAsset (mq_repo ex_media_req) ex_asset [] = ([(''m1'', ex_asset)], Inr ex_asset)"
    by (simp add: pgCreateAsset_def then_read_def media_pg_def in_tx_def faulty_def tx_exec_def ex_media_req_def
        asset_insertable_def texts ex_asset_def asset_row_def pg_ts_def pgGetAsset_def select_asset_def tx_bind_def
        tx_query_def scanAsset_def tx_return_def)
  then show ?thesis
    using ex_media_principal
    by (simp add: serveMedia_def createUpload_handler_def ex_media_req_def ex_upload_def CreateUpload_def
        NewMediaService_def trims ex_new_asset postgresMedia_def)
      (simp add: ex_asset_def allow ex_store_def memoryStorage_def memEnsureBucket_def memPresignedUpload_def
        PutObjectInfo_def)
qed


section \<open>Draining the queue\<close>

text \<open>Calls without faults, none of whose rows is locked, on one object store.\<close>

definition quiet_worker :: "Storage \<Rightarrow> MediaCall WorkerCall \<Rightarrow> bool" where
  "quiet_worker storage w \<longleftrightarrow> wc_storage w = storage \<and>
     mc_faults (wc_claim w) = [] \<and> mc_commit (wc_claim w) = Committed \<and> mc_locked (wc_claim w) = (\<lambda>_. False) \<and>
     mc_faults (wc_mark w) = [] \<and> mc_commit (wc_mark w) = Committed \<and> mc_readFaults (wc_mark w) = []"

definition readable_errors :: "Storage \<Rightarrow> bool" where
  "readable_errors storage \<longleftrightarrow> (\<forall>bucket key err. sg_StatObject storage bucket key = Inl err \<longrightarrow> text_ok err)"

definition media_rounds :: "MediaCall WorkerCall list \<Rightarrow> MediaDB \<Rightarrow> MediaDB" where
  "media_rounds ws r = fold (\<lambda>w r. fst (mediaProcessOne postgresMedia w id r)) ws r"

definition waiting :: "MediaDB \<Rightarrow> nat" where
  "waiting r = mcount (\<lambda>a. as_Status a = MediaUploaded) r"

definition asset_settled :: "Storage \<Rightarrow> time \<Rightarrow> time \<Rightarrow> Asset \<Rightarrow> Asset" where
  "asset_settled storage t u a =
     (case verdict storage a of
        None \<Rightarrow> finished MediaReady '''' u (moved MediaProcessing t a)
      | Some reason \<Rightarrow> finished MediaFailed reason u (moved MediaProcessing t a))"

lemma asset_settled_upload [simp]: "upload_of (asset_settled storage t u a) = upload_of a" "as_ID (asset_settled storage t u a) = as_ID a"
  by (simp_all add: asset_settled_def split: option.split)

lemma asset_settled_status [simp]: "as_Status (asset_settled storage t u a) \<noteq> MediaUploaded"
  by (simp add: asset_settled_def split: option.split)

lemma mismatch_text: "mismatch info a = Some reason \<Longrightarrow> text_ok reason"
  by (auto simp: mismatch_def text_ok_def utf8_valid_ascii byte_def split: if_splits)

lemma verdict_text: "readable_errors storage \<Longrightarrow> verdict storage a = Some reason \<Longrightarrow> text_ok reason"
  unfolding readable_errors_def verdict_def using mismatch_text by (auto split: sum.splits)

lemma text_ok_Nil [simp]: "text_ok ''''"
  by (simp add: text_ok_def utf8_valid_ascii)

lemma mput_mput [simp]: "mput i a (mput i b m) = mput i a m"
  by (induction m) auto

lemma sort_key_Nil_iff [simp]: "sort_key f xs = [] \<longleftrightarrow> xs = []"
  by (metis length_0_conv length_sort)

lemma finish_quiet:
  assumes "quiet_worker storage w" and "readable_errors storage" and "map_of r (as_ID a) = Some b"
    and "upload_of b = upload_of a"
  shows "fst (finishAsset postgresMedia storage (wc_mark w) (wc_markNow w) a r) =
    mput (as_ID a) (case verdict storage a of
        None \<Rightarrow> finished MediaReady '''' (pg_ts (wc_markNow w)) b
      | Some reason \<Rightarrow> finished MediaFailed reason (pg_ts (wc_markNow w)) b) r"
proof -
  have mark: "fst (markFinal (wc_mark w) (as_ID a) s reason (wc_markNow w) r) =
      mput (as_ID a) (finished s reason (pg_ts (wc_markNow w)) b) r" if "text_ok reason" for s reason
    using assms(1,3) that
    by (simp add: markFinal_def then_read_db media_pg_def quiet_worker_def in_tx_def faulty_def tx_exec_def
        update_asset_def)
  show ?thesis
    using mark [OF verdict_text [OF assms(2), of a]] mark [of "''''" MediaReady]
    by (auto simp: finishAsset_def verdict_def Let_def postgresMedia_def pgMarkReady_def pgMarkFailed_def
        split: sum.split option.split prod.split) (metis fst_conv)+
qed

lemma round_quiet:
  assumes w: "quiet_worker storage w" and texts: "readable_errors storage" and keyed: "keyed r"
  shows "case next_uploaded (\<lambda>_. False) r of
      None \<Rightarrow> mediaProcessOne postgresMedia w id r = (r, False, None)
    | Some a \<Rightarrow> fst (mediaProcessOne postgresMedia w id r) =
        mput (as_ID a) (asset_settled storage (pg_ts (wc_claimNow w)) (pg_ts (wc_markNow w)) a) r"
proof (cases "next_uploaded (\<lambda>_. False) r")
  case None
  have "pgClaimNextUploaded (wc_claim w) (wc_claimNow w) r = (r, Inr None)"
    using w None by (simp add: pgClaimNextUploaded_def media_pg_def quiet_worker_def in_tx_def faulty_def
        claimUploadedTx_def tx_bind_def tx_simps)
  then show ?thesis using None by (simp add: mediaProcessOne_def postgresMedia_def)
next
  case (Some a)
  note row = next_uploaded_row [OF Some]
  have a: "map_of r (as_ID a) = Some a" using keyed_vals [OF keyed] row by blast
  let ?r = "mput (as_ID a) (moved MediaProcessing (pg_ts (wc_claimNow w)) a) r"
  let ?c = "moved MediaProcessing (wc_claimNow w) a"
  have claimed: "pgClaimNextUploaded (wc_claim w) (wc_claimNow w) r = (?r, Inr (Some ?c))"
    using w Some row a transition_from_uploading(2) [of "as_Status a"]
    by (simp add: pgClaimNextUploaded_def media_pg_def quiet_worker_def in_tx_def faulty_def
        claimUploadedTx_def tx_bind_def tx_simps update_asset_def)
  have "fst (mediaProcessOne postgresMedia w id r) =
      fst (finishAsset postgresMedia storage (wc_mark w) (wc_markNow w) ?c ?r)"
    using claimed w by (simp add: mediaProcessOne_def postgresMedia_def quiet_worker_def split: prod.split)
  also have "\<dots> = mput (as_ID a) (asset_settled storage (pg_ts (wc_claimNow w)) (pg_ts (wc_markNow w)) a) r"
    using finish_quiet [OF w texts, of ?r ?c] verdict_upload [of ?c a storage]
    by (auto simp: asset_settled_def split: option.split)
  finally show ?thesis using Some by simp
qed

lemma none_waiting: "next_uploaded (\<lambda>_. False) r = None \<longleftrightarrow> waiting r = 0"
  by (simp add: next_uploaded_def waiting_def mcount_def Let_def filter_map)

definition worked_off :: "Storage \<Rightarrow> Asset \<Rightarrow> Asset \<Rightarrow> bool" where
  "worked_off storage a b \<longleftrightarrow>
     (if as_Status a = MediaUploaded
      then upload_of b = upload_of a \<and>
        (case verdict storage a of
           None \<Rightarrow> as_Status b = MediaReady \<and> as_FailureReason b = ''''
         | Some reason \<Rightarrow> as_Status b = MediaFailed \<and> as_FailureReason b = reason)
      else b = a)"

lemma asset_settled_worked_off: "as_Status a = MediaUploaded \<Longrightarrow> worked_off storage a (asset_settled storage t u a)"
  by (simp add: worked_off_def asset_settled_def finished_def moved_def upload_of_def split: option.split)

lemma rounds_worked_off:
  assumes "keyed r" and "readable_errors storage" and "\<forall>w \<in> set ws. quiet_worker storage w"
    and "waiting r \<le> length ws"
  shows "keyed (media_rounds ws r) \<and> waiting (media_rounds ws r) = 0 \<and>
    (\<forall>i. rel_option (worked_off storage) (map_of r i) (map_of (media_rounds ws r) i))"
  using assms
proof (induction ws arbitrary: r)
  case Nil
  then have "as_Status a \<noteq> MediaUploaded" if "map_of r i = Some a" for i a
    using map_of_Some_val [OF that] by (auto simp: waiting_def mcount_zero_iff)
  then have "rel_option (worked_off storage) (map_of r i) (map_of r i)" for i
    by (cases "map_of r i") (auto simp: worked_off_def)
  then show ?case using Nil by (simp add: media_rounds_def)
next
  case (Cons w ws)
  let ?r = "fst (mediaProcessOne postgresMedia w id r)"
  have rounds: "media_rounds (w # ws) r = media_rounds ws ?r" by (simp add: media_rounds_def)
  note round = round_quiet [OF _ Cons.prems(2,1), of w]
  show ?case
  proof (cases "next_uploaded (\<lambda>_. False) r")
    case None
    then have "?r = r" using round Cons.prems(3) by simp
    moreover have "waiting r = 0" using None none_waiting by simp
    ultimately show ?thesis using Cons.IH [OF Cons.prems(1,2)] Cons.prems(3) by (simp add: rounds)
  next
    case (Some a)
    note row = next_uploaded_row [OF Some]
    have a: "map_of r (as_ID a) = Some a" using keyed_vals [OF Cons.prems(1)] row by blast
    obtain t u where r: "?r = mput (as_ID a) (asset_settled storage t u a) r"
      using round Cons.prems(3) Some by auto
    have "waiting ?r + 1 = waiting r"
      using mcount_put_old [OF a, of "\<lambda>a. as_Status a = MediaUploaded" "asset_settled storage t u a"] row
      by (simp add: r waiting_def)
    then have IH: "keyed (media_rounds ws ?r)" "waiting (media_rounds ws ?r) = 0"
      "\<And>i. rel_option (worked_off storage) (map_of ?r i) (map_of (media_rounds ws ?r) i)"
      using Cons.IH [of ?r] Cons.prems keyed_mput [OF Cons.prems(1), of "asset_settled storage t u a" "as_ID a"]
      by (simp_all add: r)
    have "rel_option (worked_off storage) (map_of r i) (map_of (media_rounds ws ?r) i)" for i
    proof (cases "i = as_ID a")
      case True
      have "worked_off storage (asset_settled storage t u a) b \<Longrightarrow> worked_off storage a b" for b
        using asset_settled_worked_off [of a storage t u] row by (simp add: worked_off_def [of _ "asset_settled storage t u a"])
      then show ?thesis using IH(3) [of i] True a r by (auto simp: option_rel_Some1)
    qed (use IH(3) [of i] r in simp)
    then show ?thesis using IH(1,2) rounds by simp
  qed
qed


definition ex_queue :: MediaDB where
  "ex_queue = [(''m1'', ex_asset\<lparr>as_Status := MediaUploaded, as_ObjectKey := ''k1''\<rparr>),
     (''m2'', ex_asset\<lparr>as_ID := ''m2'', as_Status := MediaUploaded, as_ObjectKey := ''k2''\<rparr>)]"

definition ex_worker :: "MediaCall WorkerCall" where
  "ex_worker = \<lparr>wc_claimNow = 8000, wc_claim = mq_repo ex_media_req, wc_markNow = 9000,
     wc_mark = mq_repo ex_media_req, wc_storage = ex_store\<rparr>"


end
