(* ===== verification/Observability.thy ===== *)
theory Observability imports GoStrings "HOL-Library.Word" begin

text \<open>
  \<^verbatim>\<open>internal/platform/observability\<close>: trace contexts, correlation ids and the counters that
  \<^verbatim>\<open>/metrics\<close> prints. Header names are in the canonical form in which \<^verbatim>\<open>net/http\<close> stores them; a header is
  the list of its fields.
\<close>

type_synonym headers = "(string \<times> string) list"

definition header_Get :: "headers \<Rightarrow> string \<Rightarrow> string" where
  "header_Get h name = (case map_of h name of None \<Rightarrow> '''' | Some v \<Rightarrow> v)"

definition header_Del :: "string \<Rightarrow> headers \<Rightarrow> headers" where
  "header_Del name h = filter (\<lambda>(n, v). n \<noteq> name) h"

definition header_Set :: "string \<Rightarrow> string \<Rightarrow> headers \<Rightarrow> headers" where
  "header_Set name v h = header_Del name h @ [(name, v)]"

lemma header_Get_Del [simp]:
  "header_Get (header_Del n h) m = (if m = n then '''' else header_Get h m)"
  by (induction h) (auto simp: header_Get_def header_Del_def)

section \<open>Trace contexts\<close>

definition isLowerHex :: "string \<Rightarrow> bool" where
  "isLowerHex value = list_all (\<lambda>c. is_digit c \<or> (97 \<le> byte c \<and> byte c \<le> 102)) value"

definition ValidTraceParent :: "string \<Rightarrow> bool" where
  "ValidTraceParent value =
     (case Split (TrimSpace value) (CHR ''-'') of
        [version, traceID, spanID, flags] \<Rightarrow>
          length version = 2 \<and> length traceID = 32 \<and> length spanID = 16 \<and> length flags = 2 \<and>
          isLowerHex version \<and> isLowerHex traceID \<and> isLowerHex spanID \<and> isLowerHex flags \<and>
          traceID \<noteq> replicate 32 (CHR ''0'') \<and> spanID \<noteq> replicate 16 (CHR ''0'')
      | _ \<Rightarrow> False)"

record TraceContext =
  tx_TraceParent :: string
  tx_TraceState :: string

definition TraceContextFromHeaders :: "headers \<Rightarrow> TraceContext" where
  "TraceContextFromHeaders header =
     (let traceParent = TrimSpace (header_Get header ''Traceparent'') in
      if \<not> ValidTraceParent traceParent then \<lparr>tx_TraceParent = '''', tx_TraceState = ''''\<rparr>
      else \<lparr>tx_TraceParent = ToLower traceParent, tx_TraceState = TrimSpace (header_Get header ''Tracestate'')\<rparr>)"

definition InjectTraceHeaders :: "headers \<Rightarrow> TraceContext \<Rightarrow> headers" where
  "InjectTraceHeaders header trace =
     (if tx_TraceParent trace = '''' then header
      else (let h = header_Set ''Traceparent'' (tx_TraceParent trace) header in
            if tx_TraceState trace \<noteq> '''' then header_Set ''Tracestate'' (tx_TraceState trace) h else h))"

text \<open>
  The values that a context carries: the empty string and the empty trace where there are none.
\<close>

record RequestContext =
  ct_CorrelationID :: string
  ct_Trace :: TraceContext

definition emptyContext :: RequestContext where
  "emptyContext = \<lparr>ct_CorrelationID = '''', ct_Trace = \<lparr>tx_TraceParent = '''', tx_TraceState = ''''\<rparr>\<rparr>"

definition ContextWithCorrelationID :: "string \<Rightarrow> RequestContext \<Rightarrow> RequestContext" where
  "ContextWithCorrelationID correlationID ctx = ctx\<lparr>ct_CorrelationID := TrimSpace correlationID\<rparr>"

definition ContextWithTraceContext :: "TraceContext \<Rightarrow> RequestContext \<Rightarrow> RequestContext" where
  "ContextWithTraceContext trace ctx =
     (let t = \<lparr>tx_TraceParent = TrimSpace (tx_TraceParent trace), tx_TraceState = TrimSpace (tx_TraceState trace)\<rparr>
      in if tx_TraceParent t = '''' then ctx else ctx\<lparr>ct_Trace := t\<rparr>)"

text \<open>
  New identifiers from the bytes of \<^verbatim>\<open>rand.Read\<close>, or from the nanoseconds of the clock where it fails;
  \<open>hex_low w n\<close> is \<open>n\<close> in \<open>w\<close> hexadecimal digits.
\<close>

definition hex_string :: "8 word list \<Rightarrow> string" where
  "hex_string bytes = concat (map (\<lambda>b. hex_byte (unat b)) bytes)"

fun hex_low :: "nat \<Rightarrow> nat \<Rightarrow> string" where
  "hex_low 0 n = ''''"
| "hex_low (Suc w) n = hex_low w (n div 16) @ [hex_digit (n mod 16)]"

definition NewCorrelationID :: "8 word list option \<Rightarrow> time \<Rightarrow> string" where
  "NewCorrelationID random now = (case random of None \<Rightarrow> Itoa now | Some bytes \<Rightarrow> hex_string bytes)"

definition NewTraceParent :: "8 word list option \<Rightarrow> 8 word list option \<Rightarrow> time \<Rightarrow> string" where
  "NewTraceParent randomTrace randomSpan now =
     (case randomTrace of
        None \<Rightarrow> ''00-'' @ hex_low 32 (nat now) @ ''-'' @ hex_low 16 (nat now) @ ''-01''
      | Some traceID \<Rightarrow>
     (case randomSpan of
        None \<Rightarrow> ''00-'' @ hex_string traceID @ ''-'' @ hex_low 16 (nat now) @ ''-01''
      | Some spanID \<Rightarrow> ''00-'' @ hex_string traceID @ ''-'' @ hex_string spanID @ ''-01''))"

section \<open>Counters\<close>

text \<open>The counters; \<open>labelValue\<close> escapes backslashes, line breaks and quotes.\<close>

definition labelValue :: "string \<Rightarrow> string" where
  "labelValue value = concat (map (\<lambda>c.
     if c = CHR 0x5C then [CHR 0x5C, CHR 0x5C]
     else if c = CHR 0x0A then [CHR 0x5C, CHR ''n'']
     else if c = CHR 0x22 then [CHR 0x5C, CHR 0x22]
     else [c]) value)"

definition quoted :: "string \<Rightarrow> string \<Rightarrow> string" where
  "quoted name value = name @ ''='' @ [CHR 0x22] @ labelValue value @ [CHR 0x22]"

text \<open>
  A histogram counts an observation under every bound that it does not exceed. The bounds are exact in
  nanoseconds: rounding to \<^verbatim>\<open>float64\<close> is monotone and gives the bound for the bound itself. The sum is the list of what
  \<^verbatim>\<open>float64\<close> addition adds up.
\<close>

record durationMetric =
  dm_count :: int
  dm_sum :: "duration list"
  dm_buckets :: "(duration, int) gomap"

definition httpDurationBuckets :: "(duration \<times> string) list" where
  "httpDurationBuckets =
     [(5000000, ''0.005''), (10000000, ''0.01''), (25000000, ''0.025''), (50000000, ''0.05''), (100000000, ''0.1''),
      (250000000, ''0.25''), (500000000, ''0.5''), (1000000000, ''1''), (2500000000, ''2.5''), (5000000000, ''5''),
      (10000000000, ''10'')]"

record Metrics =
  mt_httpRequests :: "(string, int) gomap"
  mt_httpRequestDuration :: "(string, durationMetric) gomap"
  mt_rateLimitedRequests :: "(string, int) gomap"
  mt_rateLimitStoreErrors :: "(string, int) gomap"
  mt_outboxMessages :: "(string, int) gomap"
  mt_consumerMessages :: "(string, int) gomap"

definition emptyMetrics :: Metrics where
  "emptyMetrics = \<lparr>mt_httpRequests = [], mt_httpRequestDuration = [], mt_rateLimitedRequests = [],
     mt_rateLimitStoreErrors = [], mt_outboxMessages = [], mt_consumerMessages = []\<rparr>"

text \<open>\<open>m[key]\<close> of a Go map of integers, 0 where there is no entry.\<close>

definition at_key :: "'k \<Rightarrow> ('k, int) gomap \<Rightarrow> int" where
  "at_key key m = (case map_of m key of None \<Rightarrow> 0 | Some n \<Rightarrow> n)"

definition bump :: "'k \<Rightarrow> ('k, int) gomap \<Rightarrow> ('k, int) gomap" where
  "bump key m = mput key (at_key key m + 1) m"

definition httpRequestKey :: "string \<Rightarrow> string \<Rightarrow> string \<Rightarrow> int \<Rightarrow> string" where
  "httpRequestKey svc meth path status = Join [quoted ''service'' svc, quoted ''method'' meth,
     quoted ''path'' path, ''status='' @ [CHR 0x22] @ Itoa status @ [CHR 0x22]] '',''"

definition RecordRateLimitedRequest :: "string \<Rightarrow> string \<Rightarrow> Metrics \<Rightarrow> Metrics" where
  "RecordRateLimitedRequest svc scope m =
     m\<lparr>mt_rateLimitedRequests := bump (Join [quoted ''service'' svc, quoted ''scope'' scope] '','')
        (mt_rateLimitedRequests m)\<rparr>"

definition RecordRateLimitStoreError :: "string \<Rightarrow> string \<Rightarrow> string \<Rightarrow> Metrics \<Rightarrow> Metrics" where
  "RecordRateLimitStoreError svc backend mode m =
     m\<lparr>mt_rateLimitStoreErrors := bump (Join [quoted ''service'' svc, quoted ''backend'' backend, quoted ''mode'' mode] '','')
        (mt_rateLimitStoreErrors m)\<rparr>"

definition RecordOutboxMessage :: "string \<Rightarrow> string \<Rightarrow> Metrics \<Rightarrow> Metrics" where
  "RecordOutboxMessage routingKey state m =
     m\<lparr>mt_outboxMessages := bump (Join [quoted ''routing_key'' routingKey, quoted ''state'' state] '','')
        (mt_outboxMessages m)\<rparr>"

definition RecordConsumerMessage :: "string \<Rightarrow> string \<Rightarrow> string \<Rightarrow> Metrics \<Rightarrow> Metrics" where
  "RecordConsumerMessage consumer routingKey state m =
     m\<lparr>mt_consumerMessages := bump (Join [quoted ''consumer'' consumer, quoted ''routing_key'' routingKey, quoted ''state'' state] '','')
        (mt_consumerMessages m)\<rparr>"

definition observe :: "duration \<Rightarrow> durationMetric option \<Rightarrow> durationMetric" where
  "observe d found =
     (let histogram = (case found of None \<Rightarrow> \<lparr>dm_count = 0, dm_sum = [], dm_buckets = []\<rparr> | Some h \<Rightarrow> h)
      in \<lparr>dm_count = dm_count histogram + 1, dm_sum = dm_sum histogram @ [d],
          dm_buckets = fold (\<lambda>(bucket, label) bs. if d \<le> bucket then bump bucket bs else bs)
            httpDurationBuckets (dm_buckets histogram)\<rparr>)"

definition RecordHTTPRequest :: "string \<Rightarrow> string \<Rightarrow> string \<Rightarrow> int \<Rightarrow> duration \<Rightarrow> Metrics \<Rightarrow> Metrics" where
  "RecordHTTPRequest svc meth path status d m =
     (let key = httpRequestKey svc meth path status in
      m\<lparr>mt_httpRequests := bump key (mt_httpRequests m),
        mt_httpRequestDuration := mput key (observe d (map_of (mt_httpRequestDuration m) key)) (mt_httpRequestDuration m)\<rparr>)"

section \<open>The text of the metrics\<close>

definition appendMetric :: "string \<Rightarrow> (string, int) gomap \<Rightarrow> string list" where
  "appendMetric name counts =
     map (\<lambda>key. name @ ''{'' @ key @ ''} '' @ Itoa (at_key key counts)) (sort (map fst counts))"

text \<open>\<open>formatSum\<close> adds and prints the \<^verbatim>\<open>float64\<close> seconds of the durations.\<close>

definition appendDurationMetric :: "(duration list \<Rightarrow> string) \<Rightarrow> string \<Rightarrow> (string, durationMetric) gomap \<Rightarrow> string list" where
  "appendDurationMetric formatSum name histograms =
     concat (map (\<lambda>key. case map_of histograms key of None \<Rightarrow> [] | Some metric \<Rightarrow>
         map (\<lambda>(bucket, label). name @ ''_bucket{'' @ key @ '',le='' @ [CHR 0x22] @ label @ [CHR 0x22] @ ''} '' @
           Itoa (at_key bucket (dm_buckets metric))) httpDurationBuckets @
         [name @ ''_bucket{'' @ key @ '',le='' @ [CHR 0x22] @ ''+Inf'' @ [CHR 0x22] @ ''} '' @ Itoa (dm_count metric),
          name @ ''_sum{'' @ key @ ''} '' @ formatSum (dm_sum metric),
          name @ ''_count{'' @ key @ ''} '' @ Itoa (dm_count metric)])
       (sort (map fst histograms)))"

definition MetricsText :: "(duration list \<Rightarrow> string) \<Rightarrow> Metrics \<Rightarrow> string" where
  "MetricsText formatSum m = Join (
     [''# HELP cityevents_http_requests_total Total HTTP requests handled by service.'',
      ''# TYPE cityevents_http_requests_total counter''] @
     appendMetric ''cityevents_http_requests_total'' (mt_httpRequests m) @
     [''# HELP cityevents_http_request_duration_seconds HTTP request duration histogram by service, method, path, and status.'',
      ''# TYPE cityevents_http_request_duration_seconds histogram''] @
     appendDurationMetric formatSum ''cityevents_http_request_duration_seconds'' (mt_httpRequestDuration m) @
     [''# HELP cityevents_rate_limited_requests_total Total HTTP requests rejected by rate limiting.'',
      ''# TYPE cityevents_rate_limited_requests_total counter''] @
     appendMetric ''cityevents_rate_limited_requests_total'' (mt_rateLimitedRequests m) @
     [''# HELP cityevents_rate_limit_store_errors_total Total rate-limit store errors by backend and configured failure mode.'',
      ''# TYPE cityevents_rate_limit_store_errors_total counter''] @
     appendMetric ''cityevents_rate_limit_store_errors_total'' (mt_rateLimitStoreErrors m) @
     [''# HELP cityevents_outbox_messages_total Outbox relay messages by routing key and state.'',
      ''# TYPE cityevents_outbox_messages_total counter''] @
     appendMetric ''cityevents_outbox_messages_total'' (mt_outboxMessages m) @
     [''# HELP cityevents_consumer_messages_total Consumer messages by consumer, routing key, and state.'',
      ''# TYPE cityevents_consumer_messages_total counter''] @
     appendMetric ''cityevents_consumer_messages_total'' (mt_consumerMessages m)) [CHR 0x0A] @ [CHR 0x0A]"

section \<open>Facts\<close>

text \<open>The buckets of a histogram: each counts the observations within its bound, none more than there are.\<close>

definition histogram_ok :: "durationMetric \<Rightarrow> bool" where
  "histogram_ok h \<longleftrightarrow> dm_count h = int (length (dm_sum h)) \<and>
     (\<forall>b \<in> fst ` set httpDurationBuckets. at_key b (dm_buckets h) = int (length (filter (\<lambda>d. d \<le> b) (dm_sum h))))"

lemma at_key_bump: "at_key k (bump j m) = (if k = j then at_key j m + 1 else at_key k m)"
  by (simp add: at_key_def bump_def)

lemma at_key_fold_bump:
  "distinct (map fst bs) \<Longrightarrow> at_key k (fold (\<lambda>(b, l) m. if P b then bump b m else m) bs m) =
     at_key k m + (if k \<in> fst ` set bs \<and> P k then 1 else 0)"
  by (induction bs arbitrary: m) (auto simp: at_key_bump, force)

lemma observe_ok: "(\<And>h. found = Some h \<Longrightarrow> histogram_ok h) \<Longrightarrow> histogram_ok (observe d found)"
proof -
  have bounds: "distinct (map fst httpDurationBuckets)" by (simp add: httpDurationBuckets_def)
  assume "\<And>h. found = Some h \<Longrightarrow> histogram_ok h"
  then show ?thesis
    by (cases found) (auto simp: observe_def histogram_ok_def at_key_fold_bump [OF bounds, where P = "\<lambda>b. d \<le> b"] at_key_def [of _ "[]"])
qed

text \<open>The invariant of the counters: every histogram is right, and counts what the counter of its key does.\<close>

definition metrics_ok :: "Metrics \<Rightarrow> bool" where
  "metrics_ok m \<longleftrightarrow> (\<forall>key h. map_of (mt_httpRequestDuration m) key = Some h \<longrightarrow> histogram_ok h) \<and>
     (\<forall>key. at_key key (mt_httpRequests m) =
        (case map_of (mt_httpRequestDuration m) key of None \<Rightarrow> 0 | Some h \<Rightarrow> dm_count h))"

lemma metrics_ok_empty: "metrics_ok emptyMetrics"
  by (simp add: metrics_ok_def emptyMetrics_def at_key_def)

lemma RecordHTTPRequest_ok:
  assumes "metrics_ok m"
  shows "metrics_ok (RecordHTTPRequest svc meth path status d m)"
proof -
  let ?key = "httpRequestKey svc meth path status"
  have "histogram_ok (observe d (map_of (mt_httpRequestDuration m) ?key))"
    using assms by (intro observe_ok) (simp add: metrics_ok_def)
  moreover have "dm_count (observe d (map_of (mt_httpRequestDuration m) ?key)) = at_key ?key (mt_httpRequests m) + 1"
    using assms by (simp add: metrics_ok_def observe_def split: option.split)
  ultimately show ?thesis using assms by (simp add: metrics_ok_def RecordHTTPRequest_def Let_def at_key_bump)
qed

text \<open>A new trace parent is valid unless one of its random parts is zero.\<close>

lemma isLowerHex_append [simp]: "isLowerHex (s @ t) \<longleftrightarrow> isLowerHex s \<and> isLowerHex t"
  by (simp add: isLowerHex_def)

lemma hex_byte_lower: "isLowerHex (hex_byte (unat (b :: 8 word)))"
proof -
  have "unat b < 256" using unsigned_less [of b] by simp
  moreover have "isLowerHex [hex_digit d]" if "d < 16" for d
    using that by (auto simp: isLowerHex_def hex_digit_def is_digit_def byte_def)
  ultimately show ?thesis by (simp add: hex_byte_def isLowerHex_def)
qed

lemma hex_string_props: "isLowerHex (hex_string bytes) \<and> length (hex_string bytes) = 2 * length bytes"
proof (induction bytes)
  case (Cons b bytes)
  then show ?case using hex_byte_lower [of b] by (simp add: hex_string_def) (simp add: hex_byte_def)
qed (simp add: hex_string_def isLowerHex_def)

lemma lower_hex_no_dash: "isLowerHex s \<Longrightarrow> CHR ''-'' \<notin> set s"
  by (auto simp: isLowerHex_def list_all_iff is_digit_def byte_def)

lemma zeros_iff: "concat (map (\<lambda>b. hex_byte (unat b)) bytes) = replicate (2 * n) (CHR ''0'') \<longleftrightarrow>
    bytes = replicate n (0 :: 8 word)"
proof (induction bytes arbitrary: n)
  case (Cons b bytes)
  have zero: "hex_digit d = CHR ''0'' \<longleftrightarrow> d = 0" if "d < 16" for d
    using that by (auto simp: hex_digit_def char_of_eq_iff take_bit_eq_mod split: if_splits)
  have "unat b < 256" using unsigned_less [of b] by simp
  then have "hex_byte (unat b) = ''00'' \<longleftrightarrow> unat b div 16 = 0 \<and> unat b mod 16 = 0"
    by (simp add: hex_byte_def zero div_less_iff_less_mult)
  moreover have "unat b = unat b div 16 * 16 + unat b mod 16" by (rule div_mult_mod_eq [symmetric])
  ultimately have "hex_byte (unat b) = ''00'' \<longleftrightarrow> b = 0" by (metis unat_eq_zero unat_0 div_0 mod_0 mult_zero_left add_0)
  then show ?case using Cons.IH by (cases n) (auto simp: hex_byte_def)
qed (simp add: replicate_empty)

lemma NewTraceParent_valid:
  assumes "length traceID = 16" "length spanID = 8" "traceID \<noteq> replicate 16 0" "spanID \<noteq> replicate 8 0"
  shows "ValidTraceParent (NewTraceParent (Some traceID) (Some spanID) now)"
proof -
  let ?t = "hex_string traceID" and ?s = "hex_string spanID"
  have h: "isLowerHex ?t" "isLowerHex ?s" "length ?t = 32" "length ?s = 16"
    using hex_string_props [of traceID] hex_string_props [of spanID] assms by simp_all
  have z: "?t \<noteq> replicate 32 (CHR ''0'')" "?s \<noteq> replicate 16 (CHR ''0'')"
    using assms(3,4) zeros_iff [of traceID 16] zeros_iff [of spanID 8] by (simp_all add: hex_string_def)
  have "Split (''00-'' @ ?t @ ''-'' @ ?s @ ''-01'') (CHR ''-'') = [''00'', ?t, ?s, ''01'']"
    using h(1,2)[THEN lower_hex_no_dash] Split_append [of "CHR ''-''" ?t "?s @ ''-01''"] Split_append [of "CHR ''-''" ?s "''01''"]
    by simp
  moreover have "TrimSpace (''00-'' @ ?t @ ''-'' @ ?s @ ''-01'') = ''00-'' @ ?t @ ''-'' @ ?s @ ''-01''"
    by (rule TrimSpace_solid) (simp add: solid_ends_def solid_def byte_def)
  moreover have "isLowerHex ''00''" "isLowerHex ''01''" by (simp_all add: isLowerHex_def is_digit_def byte_def)
  ultimately show ?thesis using h z by (simp add: ValidTraceParent_def NewTraceParent_def)
qed

end
