(* ===== verification/RateLimit.thy ===== *)
theory RateLimit imports Config Observability begin

text \<open>
  \<^verbatim>\<open>internal/platform/httpapi/rate_limit.go\<close>: fixed windows of requests, counted in memory or by a script in
  Redis, and the middleware in front of every service. A request is what the middleware reads of it.
\<close>

record HttpRequest =
  ht_Method :: string
  ht_Path :: string
  ht_RemoteAddr :: string
  ht_Header :: "string \<Rightarrow> string" \<comment> \<open>\<^verbatim>\<open>r.Header.Get\<close>\<close>

type_synonym rate_outcome = "string + bool \<times> duration" \<comment> \<open>allowed, and when to retry\<close>

section \<open>Windows in memory\<close>

record rateLimitBucket =
  rb_start :: time
  rb_count :: int

type_synonym rate_buckets = "(string, rateLimitBucket) gomap"

definition next_bucket :: "time \<Rightarrow> duration \<Rightarrow> rateLimitBucket option \<Rightarrow> rateLimitBucket" where
  "next_bucket now window found =
     (let bucket = (case found of None \<Rightarrow> \<lparr>rb_start = 0, rb_count = 0\<rparr> | Some b \<Rightarrow> b);
          current = (if rb_start bucket = 0 \<or> time_sub now (rb_start bucket) \<ge> window
                     then \<lparr>rb_start = now, rb_count = 0\<rparr> else bucket)
      in current\<lparr>rb_count := rb_count current + 1\<rparr>)"

definition memoryAllow :: "time \<Rightarrow> string \<Rightarrow> int \<Rightarrow> duration \<Rightarrow> rate_buckets \<Rightarrow> rate_buckets \<times> rate_outcome" where
  "memoryAllow now key limit window buckets =
     (if window \<le> 0 then (buckets, Inl ''rate limit window must be positive'')
      else (let bucket = next_bucket now window (map_of buckets key);
                retryAfter = time_sub (rb_start bucket + window) now
            in (mput key bucket buckets,
                Inr (if rb_count bucket \<le> limit then (True, 0)
                     else (False, if retryAfter < second then second else retryAfter)))))"

section \<open>Windows in Redis\<close>

text \<open>
  The script, with the commands as Redis documents them: a key may expire at an instant of the clock
  of the server, in milliseconds; \<^verbatim>\<open>PEXPIRE\<close> with no positive time deletes the key; \<^verbatim>\<open>PTTL\<close> is -1 for
  a key that does not expire and -2 for one that does not exist.
\<close>

type_synonym redis_counters = "(string, int \<times> int option) gomap"

definition redis_live :: "int \<Rightarrow> (int \<times> int option) option \<Rightarrow> (int \<times> int option) option" where
  "redis_live nowMs entry =
     (case entry of
        Some (hits, Some at) \<Rightarrow> if nowMs < at then Some (hits, Some at) else None
      | e \<Rightarrow> e)"

definition redis_incr :: "int \<Rightarrow> string \<Rightarrow> redis_counters \<Rightarrow> redis_counters \<times> int" where
  "redis_incr nowMs key db =
     (case redis_live nowMs (map_of db key) of
        None \<Rightarrow> (mput key (1, None) db, 1)
      | Some (hits, at) \<Rightarrow> (mput key (hits + 1, at) db, hits + 1))"

definition redis_pexpire :: "int \<Rightarrow> string \<Rightarrow> int \<Rightarrow> redis_counters \<Rightarrow> redis_counters" where
  "redis_pexpire nowMs key ms db =
     (case redis_live nowMs (map_of db key) of
        None \<Rightarrow> db
      | Some (hits, _) \<Rightarrow> if ms \<le> 0 then mdel key db else mput key (hits, Some (nowMs + ms)) db)"

definition redis_pttl :: "int \<Rightarrow> string \<Rightarrow> redis_counters \<Rightarrow> int" where
  "redis_pttl nowMs key db =
     (case redis_live nowMs (map_of db key) of
        None \<Rightarrow> - 2 | Some (_, None) \<Rightarrow> - 1 | Some (_, Some at) \<Rightarrow> at - nowMs)"

definition redisRateLimitScript :: "int \<Rightarrow> string \<Rightarrow> int \<Rightarrow> redis_counters \<Rightarrow> redis_counters \<times> int \<times> int" where
  "redisRateLimitScript nowMs key ms db =
     (let (db1, current) = redis_incr nowMs key db;
          db2 = (if current = 1 then redis_pexpire nowMs key ms db1 else db1)
      in (db2, current, redis_pttl nowMs key db2))"

text \<open>The values that the client makes of a reply.\<close>

datatype redis_value = RedisInt int | RedisString string | RedisOther

definition redisScriptInt :: "redis_value \<Rightarrow> int option" where
  "redisScriptInt v = (case v of RedisInt i \<Rightarrow> Some i | RedisString s \<Rightarrow> Atoi s | RedisOther \<Rightarrow> None)"

text \<open>The result of the script: an error, or the values if it is a list.\<close>

definition redisOutcome :: "string + redis_value list option \<Rightarrow> int \<Rightarrow> duration \<Rightarrow> rate_outcome" where
  "redisOutcome result limit window =
     (case result of
        Inl err \<Rightarrow> Inl err
      | Inr (Some [v, w]) \<Rightarrow>
          (case redisScriptInt v of
             None \<Rightarrow> Inl ''unexpected redis rate limit count''
           | Some hits \<Rightarrow>
          (case redisScriptInt w of
             None \<Rightarrow> Inl ''unexpected redis rate limit ttl''
           | Some ttlMillis \<Rightarrow>
               if hits \<le> limit then Inr (True, 0)
               else (let retryAfter = (if ttlMillis < 0 then window else wrap64 (ttlMillis * 1000000))
                     in Inr (False, if retryAfter < second then second else retryAfter))))
      | Inr _ \<Rightarrow> Inl ''unexpected redis rate limit response'')"

text \<open>\<open>reached\<close>: whether the script reached the server, and the error that the client reports, if any.\<close>

definition redisAllow :: "bool \<times> string option \<Rightarrow> int \<Rightarrow> string \<Rightarrow> int \<Rightarrow> duration \<Rightarrow> redis_counters
   \<Rightarrow> redis_counters \<times> rate_outcome" where
  "redisAllow net nowMs key limit window db =
     (if window \<le> 0 then (db, Inl ''rate limit window must be positive'')
      else (let (db', current, ttl) = redisRateLimitScript nowMs key (window div 1000000) db
            in case net of
                 (reached, Some err) \<Rightarrow> (if reached then db' else db, Inl err)
               | (_, None) \<Rightarrow> (db', redisOutcome (Inr (Some [RedisInt current, RedisInt ttl])) limit window)))"

definition unavailableAllow :: "string \<Rightarrow> 's \<Rightarrow> 's \<times> rate_outcome" where
  "unavailableAllow err s = (s, Inl err)"

text \<open>
  The store of a process: its own windows, or those of Redis. \<open>parseURL\<close> is the error of
  \<^verbatim>\<open>redis.ParseURL\<close>, if any; \<open>net\<close> and \<open>nowMs\<close> are what the script meets.
\<close>

definition newRedisRateLimitStore :: "(string \<Rightarrow> string option) \<Rightarrow> bool \<times> string option \<Rightarrow> int \<Rightarrow> string
   \<Rightarrow> string + (string \<Rightarrow> int \<Rightarrow> duration \<Rightarrow> redis_counters \<Rightarrow> redis_counters \<times> rate_outcome)" where
  "newRedisRateLimitStore parseURL net nowMs redisURL =
     (case parseURL redisURL of Some err \<Rightarrow> Inl err | None \<Rightarrow> Inr (redisAllow net nowMs))"

definition newRateLimitStore :: "(string \<Rightarrow> string option) \<Rightarrow> bool \<times> string option \<Rightarrow> int \<Rightarrow> Config
   \<Rightarrow> time \<Rightarrow> string \<Rightarrow> int \<Rightarrow> duration \<Rightarrow> rate_buckets \<times> redis_counters
   \<Rightarrow> (rate_buckets \<times> redis_counters) \<times> rate_outcome" where
  "newRateLimitStore parseURL net nowMs cfg now key limit window s =
     (if cf_RateLimitBackend cfg = ''redis''
      then (case newRedisRateLimitStore parseURL net nowMs (cf_RedisURL cfg) of
              Inl err \<Rightarrow> unavailableAllow err s
            | Inr allow \<Rightarrow> (case allow key limit window (snd s) of (db, out) \<Rightarrow> ((fst s, db), out)))
      else (case memoryAllow now key limit window (fst s) of (buckets, out) \<Rightarrow> ((buckets, snd s), out)))"

section \<open>Who is counted\<close>

definition isTrustedProxy :: "GoNet \<Rightarrow> string \<Rightarrow> string list \<Rightarrow> bool" where
  "isTrustedProxy net ip cidrs \<longleftrightarrow>
     list_ex (\<lambda>cidr. case gn_ParseCIDR net cidr of None \<Rightarrow> False | Some contains \<Rightarrow> contains ip) cidrs"

fun first_ip :: "GoNet \<Rightarrow> string list \<Rightarrow> string" where
  "first_ip net [] = ''''"
| "first_ip net (part # parts) =
     (let value = TrimSpace part in
      if value = '''' then first_ip net parts
      else (case gn_ParseIP net value of Some ip \<Rightarrow> ip | None \<Rightarrow> first_ip net parts))"

definition firstForwardedIP :: "GoNet \<Rightarrow> string \<Rightarrow> string" where
  "firstForwardedIP net header = first_ip net (Split header (CHR '',''))"

definition clientAddress :: "GoNet \<Rightarrow> Config \<Rightarrow> HttpRequest \<Rightarrow> string" where
  "clientAddress net cfg r =
     (let host = (case SplitHostPort (ht_RemoteAddr r) of
                    Some (h, _) \<Rightarrow> h | None \<Rightarrow> TrimSpace (ht_RemoteAddr r));
          direct = (if TrimSpace host \<noteq> '''' then TrimSpace host else TrimSpace (ht_RemoteAddr r))
      in case gn_ParseIP net (TrimSpace host) of
           None \<Rightarrow> direct
         | Some remoteIP \<Rightarrow>
             if isTrustedProxy net remoteIP (cf_TrustedProxyCIDRs cfg) \<and>
                firstForwardedIP net (ht_Header r ''X-Forwarded-For'') \<noteq> ''''
             then firstForwardedIP net (ht_Header r ''X-Forwarded-For'')
             else direct)"

definition tokenManagerOf :: "Config \<Rightarrow> TokenManager" where
  "tokenManagerOf cfg = \<lparr>tm_Secret = cf_JWTSecret cfg, tm_Issuer = cf_JWTIssuer cfg, tm_TTL = cf_AccessTokenTTL cfg\<rparr>"

definition rateLimitIdentity :: "JwtLib \<Rightarrow> GoNet \<Rightarrow> Config \<Rightarrow> time \<Rightarrow> HttpRequest \<Rightarrow> string" where
  "rateLimitIdentity lib net cfg now r =
     (case ClaimsFromRequest lib (tokenManagerOf cfg) now (ht_Header r ''Authorization'') of
        Some claims \<Rightarrow> ''user:'' @ cl_UserID claims
      | None \<Rightarrow> ''ip:'' @ clientAddress net cfg r)"

definition rateLimitScope :: "Config \<Rightarrow> HttpRequest \<Rightarrow> string \<times> int" where
  "rateLimitScope cfg r =
     (let path = ToLower (ht_Path r) in
      if ht_Method r = ''POST'' \<and> HasPrefix path ''/v1/auth/'' then (''auth'', cf_RateLimitAuthRequests cfg)
      else if ht_Method r = ''PATCH'' \<or> ht_Method r = ''DELETE'' \<or> ht_Method r = ''POST''
      then (''mutation'', cf_RateLimitMutationRequests cfg)
      else (''read'', cf_RateLimitRequests cfg))"

definition rateLimitKey :: "JwtLib \<Rightarrow> GoNet \<Rightarrow> Config \<Rightarrow> time \<Rightarrow> HttpRequest \<Rightarrow> string \<Rightarrow> string" where
  "rateLimitKey lib net cfg now r scope =
     Join [''cityevents'', ''rate-limit'', cf_Environment cfg, sd_Name (cf_Service cfg),
       rateLimitIdentity lib net cfg now r, scope, ht_Method r, ht_Path r] ''|''"

definition skipRateLimit :: "HttpRequest \<Rightarrow> bool" where
  "skipRateLimit r \<longleftrightarrow> ht_Method r = ''OPTIONS'' \<or> ht_Path r \<in> {''/'', ''/livez'', ''/readyz'', ''/metrics''}"

section \<open>The middleware\<close>

text \<open>\<^verbatim>\<open>int(math.Ceil(duration.Seconds()))\<close>, exact for durations below some weeks.\<close>

definition retryAfterSeconds :: "duration \<Rightarrow> string" where
  "retryAfterSeconds d = (let seconds = - ((- d) div second) in Itoa (if seconds < 1 then 1 else seconds))"

record rateLimitDecision =
  rd_allowed :: bool
  rd_limit :: int
  rd_retryAfter :: duration
  rd_scope :: string
  rd_storeErr :: "string option"

type_synonym 's rate_store = "time \<Rightarrow> string \<Rightarrow> int \<Rightarrow> duration \<Rightarrow> 's \<Rightarrow> 's \<times> rate_outcome"

definition rateLimitDecisionFor :: "JwtLib \<Rightarrow> GoNet \<Rightarrow> Config \<Rightarrow> 's rate_store \<Rightarrow> time \<Rightarrow> HttpRequest \<Rightarrow> 's
   \<Rightarrow> 's \<times> rateLimitDecision" where
  "rateLimitDecisionFor lib net cfg allow now r s =
     (let (scope, limit) = rateLimitScope cfg r;
          (s', out) = allow now (rateLimitKey lib net cfg now r scope) limit (cf_RateLimitWindow cfg) s
      in (s', (case out of
                 Inl err \<Rightarrow> \<lparr>rd_allowed = False, rd_limit = limit, rd_retryAfter = 0, rd_scope = scope,
                             rd_storeErr = Some err\<rparr>
               | Inr (allowed, retryAfter) \<Rightarrow> \<lparr>rd_allowed = allowed, rd_limit = limit,
                             rd_retryAfter = retryAfter, rd_scope = scope, rd_storeErr = None\<rparr>)))"

definition rateLimitFailureMode :: "Config \<Rightarrow> string" where
  "rateLimitFailureMode cfg = (if cf_RateLimitRedisFailOpen cfg then ''fail_open'' else ''fail_closed'')"

text \<open>
  The request goes on, or is answered by 429 with the header \<^verbatim>\<open>Retry-After\<close>; refusals and errors of the
  store are counted.
\<close>

datatype rate_answer = PassOn | TooMany string

definition rateLimitMiddleware :: "JwtLib \<Rightarrow> GoNet \<Rightarrow> Config \<Rightarrow> 's rate_store \<Rightarrow> time \<Rightarrow> HttpRequest
   \<Rightarrow> 's \<times> Metrics \<Rightarrow> ('s \<times> Metrics) \<times> rate_answer" where
  "rateLimitMiddleware lib net cfg allow now r s =
     (let (store, m) = s in
      if \<not> cf_RateLimitEnabled cfg \<or> skipRateLimit r then ((store, m), PassOn)
      else (let (store', decision) = rateLimitDecisionFor lib net cfg allow now r store;
                svc = sd_Name (cf_Service cfg);
                m1 = (if rd_storeErr decision \<noteq> None
                      then RecordRateLimitStoreError svc (cf_RateLimitBackend cfg) (rateLimitFailureMode cfg) m else m);
                retryAfter = (if rd_storeErr decision \<noteq> None \<and> rd_retryAfter decision \<le> 0 then second
                              else rd_retryAfter decision)
            in if rd_storeErr decision \<noteq> None \<and> cf_RateLimitRedisFailOpen cfg then ((store', m1), PassOn)
               else if rd_storeErr decision = None \<and> rd_allowed decision then ((store', m1), PassOn)
               else ((store', RecordRateLimitedRequest svc (rd_scope decision) m1),
                     TooMany (retryAfterSeconds retryAfter))))"

text \<open>The arrivals at one server, one after the other.\<close>

fun rate_run :: "JwtLib \<Rightarrow> GoNet \<Rightarrow> Config \<Rightarrow> 's rate_store \<Rightarrow> 's \<times> Metrics \<Rightarrow> (time \<times> HttpRequest) list \<Rightarrow> rate_answer list" where
  "rate_run lib net cfg allow s [] = []"
| "rate_run lib net cfg allow s ((now, r) # rs) =
     (let (s', answer) = rateLimitMiddleware lib net cfg allow now r s
      in answer # rate_run lib net cfg allow s' rs)"

end
