(* ===== verification/RateLimitProps.thy ===== *)
theory RateLimitProps imports RateLimit AuthnProps begin

text \<open>
  What a store of fixed windows promises, whichever store it is: the interface \<open>window_store\<close>, its
  interpretations by the memory store and the Redis script, and the bounds on the requests that the
  middleware lets through and refuses.
\<close>

section \<open>The interface\<close>

text \<open>
  \<open>bucket s k\<close> is the start of the window of \<open>k\<close> and the requests counted since, in the clock \<open>clk\<close> of
  the store; a window is over \<open>span\<close> after its start.
\<close>

definition counted :: "int \<Rightarrow> int \<Rightarrow> (int \<times> int) option \<Rightarrow> int \<times> int" where
  "counted now span b =
     (case b of Some (start, n) \<Rightarrow> if now - start < span then (start, n + 1) else (now, 1) | None \<Rightarrow> (now, 1))"

locale window_store =
  fixes allow :: "time \<Rightarrow> string \<Rightarrow> int \<Rightarrow> 's \<Rightarrow> 's \<times> rate_outcome"
    and bucket :: "'s \<Rightarrow> string \<Rightarrow> (int \<times> int) option"
    and clk :: "time \<Rightarrow> int" and span :: int and ok :: "'s \<Rightarrow> bool"
  assumes span: "0 < span"
    and keeps: "ok s \<Longrightarrow> 0 < now \<Longrightarrow> ok (fst (allow now k limit s))"
    and counts: "ok s \<Longrightarrow> 0 < now \<Longrightarrow> bucket (fst (allow now k limit s)) k = Some (counted (clk now) span (bucket s k))"
    and others: "ok s \<Longrightarrow> 0 < now \<Longrightarrow> j \<noteq> k \<Longrightarrow> bucket (fst (allow now k limit s)) j = bucket s j"
    and decides: "ok s \<Longrightarrow> 0 < now \<Longrightarrow> snd (allow now k limit s) = Inr (b, t) \<Longrightarrow>
      b \<longleftrightarrow> snd (counted (clk now) span (bucket s k)) \<le> limit"
    and positive: "ok s \<Longrightarrow> bucket s k = Some (start, n) \<Longrightarrow> 0 < n"

text \<open>The outcomes of a sequence of calls: instant, key and limit.\<close>

fun store_run :: "(time \<Rightarrow> string \<Rightarrow> int \<Rightarrow> 's \<Rightarrow> 's \<times> rate_outcome) \<Rightarrow> 's \<Rightarrow> (time \<times> string \<times> int) list
   \<Rightarrow> ((time \<times> string \<times> int) \<times> rate_outcome) list" where
  "store_run allow s [] = []"
| "store_run allow s ((now, k, limit) # es) =
     (((now, k, limit), snd (allow now k limit s)) # store_run allow (fst (allow now k limit s)) es)"

definition let_through :: "rate_outcome \<Rightarrow> bool" where
  "let_through out = (case out of Inr (True, _) \<Rightarrow> True | _ \<Rightarrow> False)"

definition refused :: "rate_outcome \<Rightarrow> bool" where
  "refused out = (case out of Inr (False, _) \<Rightarrow> True | _ \<Rightarrow> False)"

definition hits_in :: "(time \<Rightarrow> int) \<Rightarrow> string \<Rightarrow> int \<Rightarrow> int \<Rightarrow> int \<Rightarrow> ((time \<times> string \<times> int) \<times> rate_outcome) list \<Rightarrow> nat" where
  "hits_in clk k limit t u run =
     length (filter (\<lambda>((now, key, n), out). let_through out \<and> key = k \<and> n = limit \<and> t \<le> clk now \<and> clk now < u) run)"

definition calls_since :: "(time \<Rightarrow> int) \<Rightarrow> string \<Rightarrow> int \<Rightarrow> (time \<times> string \<times> int) list \<Rightarrow> nat" where
  "calls_since clk k t es = length (filter (\<lambda>(now, key, n). key = k \<and> t \<le> clk now) es)"

context window_store
begin

text \<open>What the window of a key may still let through before \<open>t + span\<close>.\<close>

definition budget :: "int \<Rightarrow> int \<Rightarrow> (int \<times> int) option \<Rightarrow> nat" where
  "budget limit t b = (case b of None \<Rightarrow> 2 * nat limit
     | Some (start, n) \<Rightarrow> nat (limit - n) + (if t \<le> start then 0 else nat limit))"

lemma budget_step:
  assumes "t \<le> now" and "now < t + span" and "\<And>start n. b = Some (start, n) \<Longrightarrow> 0 < n"
  shows "budget limit t (Some (counted now span b)) + (if snd (counted now span b) \<le> limit then 1 else 0)
    \<le> budget limit t b"
  using assms by (fastforce simp: counted_def budget_def split: option.splits)

lemma budget_le: "(\<And>start n. b = Some (start, n) \<Longrightarrow> 0 < n) \<Longrightarrow> budget limit t b \<le> 2 * nat limit"
  by (fastforce simp: budget_def split: option.splits)

lemma sorted_first: "sorted (map (clk \<circ> fst) (e # es)) \<Longrightarrow> (u, x) \<in> set es \<Longrightarrow> clk (fst e) \<le> clk u"
  by force

lemma no_later_hits:
  "(\<And>now x. (now, x) \<in> set es \<Longrightarrow> u \<le> clk now) \<Longrightarrow> hits_in clk k limit t u (store_run allow s es) = 0"
proof (induction es arbitrary: s)
  case (Cons f fs)
  obtain now key m where f: "f = (now, key, m)" by (cases f)
  show ?case using Cons.prems [of now "(key, m)"] Cons.IH Cons.prems by (auto simp: f hits_in_def)
qed (simp add: hits_in_def)

lemma window_run:
  "ok s \<Longrightarrow> \<forall>(now, _) \<in> set es. 0 < now \<Longrightarrow> \<forall>(now, _) \<in> set es. t \<le> clk now \<Longrightarrow>
     sorted (map (clk \<circ> fst) es) \<Longrightarrow>
     hits_in clk k limit t (t + span) (store_run allow s es) \<le> budget limit t (bucket s k)"
proof (induction es arbitrary: s)
  case Nil
  then show ?case by (simp add: hits_in_def)
next
  case (Cons e es)
  obtain now key n where e: "e = (now, key, n)" by (cases e)
  let ?s = "fst (allow now key n s)"
  have ok: "ok ?s" using keeps [OF Cons.prems(1)] Cons.prems(2) e by simp
  have IH: "hits_in clk k limit t (t + span) (store_run allow ?s es) \<le> budget limit t (bucket ?s k)"
    using Cons.IH [OF ok] Cons.prems by (simp add: e)
  have pos: "\<And>start m. bucket s k = Some (start, m) \<Longrightarrow> 0 < m" using positive [OF Cons.prems(1)] .
  show ?case
  proof (cases "key = k \<and> clk now < t + span")
    case True
    have b: "bucket ?s k = Some (counted (clk now) span (bucket s k))"
      using counts [OF Cons.prems(1)] Cons.prems(2) True e by simp
    have passed: "snd (counted (clk now) span (bucket s k)) \<le> limit"
      if "let_through (snd (allow now key n s))" "n = limit"
      using that decides [OF Cons.prems(1), of now k limit True] Cons.prems(2) e True
      by (auto simp: let_through_def split: sum.splits prod.splits bool.splits)
    have t: "t \<le> clk now" using Cons.prems(3) e by simp
    have "budget limit t (bucket ?s k) + (if snd (counted (clk now) span (bucket s k)) \<le> limit then 1 else 0)
        \<le> budget limit t (bucket s k)"
      unfolding b by (rule budget_step [OF t _ pos]) (use True in simp_all)
    moreover have "hits_in clk k limit t (t + span) (store_run allow s (e # es)) =
        (if let_through (snd (allow now key n s)) \<and> n = limit then 1 else 0) +
        hits_in clk k limit t (t + span) (store_run allow ?s es)"
      using True t by (auto simp: e hits_in_def)
    ultimately show ?thesis using IH passed by (auto split: if_splits)
  next
    case False
    have "hits_in clk k limit t (t + span) (store_run allow s (e # es)) =
        hits_in clk k limit t (t + span) (store_run allow ?s es)"
      using False by (auto simp: e hits_in_def)
    moreover have "hits_in clk k limit t (t + span) (store_run allow ?s es) \<le> budget limit t (bucket s k)"
    proof (cases "key = k")
      case True
      have "t + span \<le> clk u" if "(u, x) \<in> set es" for u x
        using False True sorted_first [OF Cons.prems(4) that] by (simp add: e)
      then have "hits_in clk k limit t (t + span) (store_run allow ?s es) = 0" by (rule no_later_hits)
      then show ?thesis by simp
    next
      case False
      then have "bucket ?s k = bucket s k" using others [OF Cons.prems(1), of now k key n] Cons.prems(2) e by auto
      then show ?thesis using IH by simp
    qed
    ultimately show ?thesis by simp
  qed
qed

text \<open>Any interval as long as a window sees at most twice the limit.\<close>

lemma sliding_bound:
  assumes "ok s" and "\<forall>(now, _) \<in> set es. 0 < now" and "sorted (map (clk \<circ> fst) es)"
  shows "hits_in clk k limit t (t + span) (store_run allow s es) \<le> 2 * nat limit"
  using assms
proof (induction es arbitrary: s)
  case (Cons e es)
  obtain now key n where e: "e = (now, key, n)" by (cases e)
  show ?case
  proof (cases "t \<le> clk now")
    case True
    have "t \<le> clk u" if "(u, x) \<in> set (e # es)" for u x
      using that sorted_first [OF Cons.prems(3), of u x] True by (auto simp: e)
    then have late: "\<forall>(u, _) \<in> set (e # es). t \<le> clk u" by blast
    have "budget limit t (bucket s k) \<le> 2 * nat limit" by (rule budget_le) (rule positive [OF Cons.prems(1)])
    then show ?thesis
      using window_run [OF Cons.prems(1,2) late Cons.prems(3), of k limit] by linarith
  next
    case False
    have "ok (fst (allow now key n s))" using keeps [OF Cons.prems(1)] Cons.prems(2) e by simp
    then show ?thesis using Cons.IH Cons.prems False by (simp add: e hits_in_def)
  qed
qed (simp add: hits_in_def)

text \<open>A call is refused only after as many calls with its key as the limit in the window before.\<close>

definition explained :: "(time \<times> string \<times> int) list \<Rightarrow> 's \<Rightarrow> bool" where
  "explained past s \<longleftrightarrow> (\<forall>k start n. bucket s k = Some (start, n) \<longrightarrow> n \<le> int (calls_since clk k start past))"

lemma explained_step:
  assumes "ok s" and "0 < now" and "explained past s" and "\<forall>(u, _) \<in> set past. clk u \<le> clk now"
  shows "explained (past @ [(now, k, limit)]) (fst (allow now k limit s))"
  unfolding explained_def
proof (intro allI impI)
  fix j start n
  assume b: "bucket (fst (allow now k limit s)) j = Some (start, n)"
  show "n \<le> int (calls_since clk j start (past @ [(now, k, limit)]))"
  proof (cases "j = k")
    case True
    then have "counted (clk now) span (bucket s k) = (start, n)"
      using counts [OF assms(1,2), of k limit] b by simp
    then consider "(start, n) = (clk now, 1)" | m where "bucket s k = Some (start, m)" "n = m + 1" "clk now - start < span"
      by (auto simp: counted_def split: option.splits if_splits)
    then show ?thesis
    proof cases
      case 1
      then show ?thesis using True by (simp add: calls_since_def)
    next
      case 2
      have "start \<le> clk now"
      proof (rule ccontr)
        assume "\<not> start \<le> clk now"
        then have "calls_since clk k start past = 0" using assms(4) by (auto simp: calls_since_def filter_empty_conv)
        then show False using assms(3) 2 positive [OF assms(1) 2(1)] unfolding explained_def by fastforce
      qed
      then show ?thesis using assms(3) 2 True unfolding explained_def by (auto simp: calls_since_def)
    qed
  next
    case False
    then have "bucket s j = Some (start, n)" using others [OF assms(1,2), of j k limit] b by simp
    then show ?thesis using assms(3) unfolding explained_def by (fastforce simp: calls_since_def)
  qed
qed

lemma refusals:
  assumes "ok s" and "\<forall>(now, _) \<in> set (past @ es). 0 < now" and "sorted (map (clk \<circ> fst) (past @ es))"
    and "explained past s" and "i < length es" and "es ! i = (now, k, limit)"
    and "refused (snd (store_run allow s es ! i))"
  shows "limit \<le> int (calls_since clk k (clk now - span + 1) (past @ take i es))"
  using assms
proof (induction es arbitrary: s past i)
  case (Cons e es)
  obtain u key n where e: "e = (u, key, n)" by (cases e)
  have u: "0 < u" using Cons.prems(2) e by simp
  have past: "\<forall>(v, _) \<in> set past. clk v \<le> clk u" using Cons.prems(3) e by (auto simp: sorted_append)
  show ?case
  proof (cases i)
    case 0
    then have eqs: "u = now" "key = k" "n = limit" using Cons.prems(6) e by simp_all
    have "\<not> snd (counted (clk now) span (bucket s k)) \<le> limit"
      using Cons.prems(7) 0 decides [OF Cons.prems(1), of now k limit False] u eqs
      by (auto simp: e refused_def split: sum.splits prod.splits bool.splits)
    then consider "limit \<le> 0" | start m where "bucket s k = Some (start, m)" "clk now - start < span" "limit \<le> m"
      by (auto simp: counted_def split: option.splits if_splits)
    then show ?thesis
    proof cases
      case 2
      have "calls_since clk k start past \<le> calls_since clk k (clk now - span + 1) past"
        unfolding calls_since_def using 2(2) by (induction past) auto
      then show ?thesis using 2 Cons.prems(4) 0 unfolding explained_def by fastforce
    qed simp
  next
    case (Suc j)
    have ok: "ok (fst (allow u key n s))" using keeps [OF Cons.prems(1) u] .
    note ex = explained_step [OF Cons.prems(1) u Cons.prems(4) past, of key n]
    from Cons.IH [OF ok _ _ ex, of j] show ?thesis using Cons.prems Suc by (simp add: e)
  qed
qed simp

end

section \<open>The memory store\<close>

text \<open>Windows that are positive and fit a duration; the default one otherwise.\<close>

definition valid_window :: "duration \<Rightarrow> duration" where
  "valid_window window = (if 0 < window \<and> window \<le> max_duration then window else minute)"

definition memory_bucket :: "rate_buckets \<Rightarrow> string \<Rightarrow> (int \<times> int) option" where
  "memory_bucket s k = (case map_of s k of None \<Rightarrow> None
     | Some b \<Rightarrow> if rb_start b = 0 then None else Some (rb_start b, rb_count b))"

definition memory_ok :: "rate_buckets \<Rightarrow> bool" where
  "memory_ok s \<longleftrightarrow> (\<forall>k b. map_of s k = Some b \<longrightarrow> 0 < rb_count b)"

lemma valid_window_range: "0 < valid_window window" "valid_window window \<le> max_duration"
  by (simp_all add: valid_window_def duration_defs max_duration_def)

lemma time_sub_less: "0 < window \<Longrightarrow> window \<le> max_duration \<Longrightarrow> time_sub now start < window \<longleftrightarrow> now - start < window"
  by (auto simp: time_sub_def max_duration_def min_duration_def)

lemma next_bucket_counted:
  assumes "0 < window" "window \<le> max_duration"
  shows "(rb_start (next_bucket now window (map_of s k)), rb_count (next_bucket now window (map_of s k))) =
    counted now window (memory_bucket s k)"
proof (cases "map_of s k")
  case None
  then show ?thesis by (simp add: next_bucket_def counted_def memory_bucket_def)
next
  case (Some b)
  then show ?thesis using time_sub_less [OF assms, of now "rb_start b"]
    by (simp add: next_bucket_def counted_def memory_bucket_def not_less [symmetric])
qed

lemma next_bucket_positive: "memory_ok s \<Longrightarrow> 0 < rb_count (next_bucket now window (map_of s k))"
  by (fastforce simp: next_bucket_def memory_ok_def Let_def split: option.split)

lemma next_bucket_start:
  "0 < now \<Longrightarrow> rb_start (next_bucket now window b) \<noteq> 0"
  by (auto simp: next_bucket_def Let_def split: option.split)

lemma memoryAllow_run:
  "0 < window \<Longrightarrow> fst (memoryAllow now k limit window s) = mput k (next_bucket now window (map_of s k)) s"
  "0 < window \<Longrightarrow> snd (memoryAllow now k limit window s) = Inr (b, t) \<Longrightarrow>
     b \<longleftrightarrow> rb_count (next_bucket now window (map_of s k)) \<le> limit"
  by (auto simp: memoryAllow_def Let_def split: if_splits)

interpretation memory_windows: window_store "\<lambda>now k limit. memoryAllow now k limit (valid_window window)"
  memory_bucket "\<lambda>now. now" "valid_window window" memory_ok for window
proof
  note range = valid_window_range [of window]
  note nb = next_bucket_counted [OF range]
  show "0 < valid_window window" using range(1) .
  fix s :: rate_buckets and now :: time and k j :: string and limit :: int and b and t start n
  show "memory_ok s \<Longrightarrow> memory_ok (fst (memoryAllow now k limit (valid_window window) s))"
    using next_bucket_positive [of s] by (auto simp: memoryAllow_run(1) [OF range(1)] memory_ok_def)
  show "0 < now \<Longrightarrow> memory_bucket (fst (memoryAllow now k limit (valid_window window) s)) k =
      Some (counted now (valid_window window) (memory_bucket s k))"
    using nb [of now s k] next_bucket_start by (simp add: memoryAllow_run(1) [OF range(1)] memory_bucket_def)
  show "j \<noteq> k \<Longrightarrow> memory_bucket (fst (memoryAllow now k limit (valid_window window) s)) j = memory_bucket s j"
    by (simp add: memoryAllow_run(1) [OF range(1)] memory_bucket_def)
  show "snd (memoryAllow now k limit (valid_window window) s) = Inr (b, t) \<Longrightarrow>
      b = (snd (counted now (valid_window window) (memory_bucket s k)) \<le> limit)"
    using memoryAllow_run(2) [OF range(1)] nb [of now s k] by (metis snd_conv)
  show "memory_ok s \<Longrightarrow> memory_bucket s k = Some (start, n) \<Longrightarrow> 0 < n"
    by (auto simp: memory_ok_def memory_bucket_def split: option.splits if_splits)
qed

section \<open>The script\<close>

text \<open>Windows of at least a millisecond, which is what the script is given.\<close>

definition valid_millis :: "duration \<Rightarrow> int" where
  "valid_millis window = (if 1000000 \<le> window then window div 1000000 else 60000)"

definition script_allow :: "duration \<Rightarrow> time \<Rightarrow> string \<Rightarrow> int \<Rightarrow> redis_counters \<Rightarrow> redis_counters \<times> rate_outcome" where
  "script_allow window now k limit s =
     redisAllow (True, None) (now div 1000000) k limit (valid_millis window * 1000000) s"

definition redis_bucket :: "int \<Rightarrow> redis_counters \<Rightarrow> string \<Rightarrow> (int \<times> int) option" where
  "redis_bucket ms s k = (case map_of s k of Some (n, Some at) \<Rightarrow> Some (at - ms, n) | _ \<Rightarrow> None)"

definition redis_ok :: "redis_counters \<Rightarrow> bool" where
  "redis_ok s \<longleftrightarrow> (\<forall>k n at. map_of s k = Some (n, at) \<longrightarrow> 0 < n \<and> at \<noteq> None)"

lemma valid_millis_pos: "0 < valid_millis window"
  by (simp add: valid_millis_def pos_imp_zdiv_pos_iff)

lemma script_run:
  assumes "redis_ok s" and "0 < ms"
  shows "redisRateLimitScript nowMs k ms s =
    (case counted nowMs ms (redis_bucket ms s k) of (start, n) \<Rightarrow>
       (mput k (n, Some (start + ms)) s, n, start + ms - nowMs))"
proof (cases "map_of s k")
  case None
  then show ?thesis using assms(2)
    by (simp add: redisRateLimitScript_def redis_incr_def redis_live_def redis_pexpire_def redis_pttl_def
        redis_bucket_def counted_def)
next
  case (Some e)
  obtain n at where e: "e = (n, Some at)" "0 < n" using assms(1) Some unfolding redis_ok_def by (cases e) blast
  show ?thesis using assms(2) Some e
    by (simp add: redisRateLimitScript_def redis_incr_def redis_live_def redis_pexpire_def redis_pttl_def
        redis_bucket_def counted_def)
qed

lemma script_allow_run:
  assumes "redis_ok s"
  shows "fst (script_allow window now k limit s) =
      (case counted (now div 1000000) (valid_millis window) (redis_bucket (valid_millis window) s k) of
         (start, n) \<Rightarrow> mput k (n, Some (start + valid_millis window)) s)"
    and "snd (script_allow window now k limit s) = Inr (b, t) \<Longrightarrow>
      b \<longleftrightarrow> snd (counted (now div 1000000) (valid_millis window) (redis_bucket (valid_millis window) s k)) \<le> limit"
  using script_run [OF assms valid_millis_pos, of "now div 1000000" k window] valid_millis_pos [of window]
  by (auto simp: script_allow_def redisAllow_def redisOutcome_def redisScriptInt_def Let_def split: prod.splits if_splits)

interpretation redis_windows: window_store "script_allow window" "redis_bucket (valid_millis window)"
  "\<lambda>now. now div 1000000" "valid_millis window" redis_ok for window
proof
  show "0 < valid_millis window" by (rule valid_millis_pos)
  fix s :: redis_counters and now :: time and k j :: string and limit :: int and b and t start n
  assume ok: "redis_ok s"
  note run = script_allow_run [OF ok, of window now k limit]
  show "redis_bucket (valid_millis window) s k = Some (start, n) \<Longrightarrow> 0 < n"
    using ok by (auto simp: redis_ok_def redis_bucket_def split: option.splits)
  then have "0 < snd (counted (now div 1000000) (valid_millis window) (redis_bucket (valid_millis window) s k))"
    using ok by (force simp: counted_def redis_ok_def redis_bucket_def split: option.splits)
  then show "redis_ok (fst (script_allow window now k limit s))"
    using ok run(1) by (auto simp: redis_ok_def split: prod.splits)
  show "redis_bucket (valid_millis window) (fst (script_allow window now k limit s)) k =
      Some (counted (now div 1000000) (valid_millis window) (redis_bucket (valid_millis window) s k))"
    using run(1) by (auto simp: redis_bucket_def [of _ "mput _ _ _"] split: prod.splits)
  show "j \<noteq> k \<Longrightarrow> redis_bucket (valid_millis window) (fst (script_allow window now k limit s)) j =
      redis_bucket (valid_millis window) s j"
    using run(1) by (auto simp: redis_bucket_def split: prod.splits)
  show "snd (script_allow window now k limit s) = Inr (b, t) \<Longrightarrow>
      b = (snd (counted (now div 1000000) (valid_millis window) (redis_bucket (valid_millis window) s k)) \<le> limit)"
    by (rule run(2))
qed

text \<open>
  A window below a millisecond passes the validation of the configuration, and the script then deletes
  its counter at once: every request is the first one.
\<close>

lemma tiny_windows_never_refuse:
  assumes "0 < window" "window < 1000000" "map_of s k = None" "1 \<le> limit"
  shows "snd (redisAllow (True, None) nowMs k limit window s) = Inr (True, 0) \<and>
    map_of (fst (redisAllow (True, None) nowMs k limit window s)) k = None"
  using assms by (simp add: redisAllow_def redisRateLimitScript_def redis_incr_def redis_live_def redis_pexpire_def
      redisOutcome_def redisScriptInt_def zdiv_eq_0_iff Let_def)

section \<open>The middleware over the memory store\<close>

definition rate_call :: "JwtLib \<Rightarrow> GoNet \<Rightarrow> Config \<Rightarrow> time \<times> HttpRequest \<Rightarrow> time \<times> string \<times> int" where
  "rate_call lib net cfg a = (fst a, rateLimitKey lib net cfg (fst a) (snd a) (fst (rateLimitScope cfg (snd a))),
     snd (rateLimitScope cfg (snd a)))"

definition limited :: "(time \<times> HttpRequest) list \<Rightarrow> (time \<times> HttpRequest) list" where
  "limited arrivals = filter (\<lambda>a. \<not> skipRateLimit (snd a)) arrivals"

abbreviation (input) memory_windows_of :: "Config \<Rightarrow> time \<Rightarrow> string \<Rightarrow> int \<Rightarrow> rate_buckets \<Rightarrow> rate_buckets \<times> rate_outcome" where
  "memory_windows_of cfg \<equiv> \<lambda>now k limit. memoryAllow now k limit (valid_window (cf_RateLimitWindow cfg))"

lemma valid_window_same: "0 < w \<Longrightarrow> w \<le> max_duration \<Longrightarrow> valid_window w = w"
  by (simp add: valid_window_def)

lemma memoryAllow_cases:
  assumes "0 < window"
  obtains s' t where "memoryAllow now k limit window s = (s', Inr (True, t))"
  | s' t where "memoryAllow now k limit window s = (s', Inr (False, t))"
proof (cases "rb_count (next_bucket now window (map_of s k)) \<le> limit")
  case True
  then show ?thesis using assms that(1) by (simp add: memoryAllow_def Let_def)
next
  case False
  then show ?thesis using assms that(2) by (simp add: memoryAllow_def Let_def)
qed

lemma middleware_memory:
  assumes "cf_RateLimitEnabled cfg" and "0 < cf_RateLimitWindow cfg" "cf_RateLimitWindow cfg \<le> max_duration"
    and "\<not> skipRateLimit r" and "rate_call lib net cfg (now, r) = (now, k, limit)"
  obtains s' m' out answer where "memory_windows_of cfg now k limit s = (s', out)"
    and "rateLimitMiddleware lib net cfg memoryAllow now r (s, m) = ((s', m'), answer)"
    and "answer = PassOn \<longleftrightarrow> let_through out" and "answer \<noteq> PassOn \<longleftrightarrow> refused out"
proof -
  obtain scope where scope: "rateLimitScope cfg r = (scope, limit)" "rateLimitKey lib net cfg now r scope = k"
    using assms(5) by (cases "rateLimitScope cfg r") (auto simp: rate_call_def)
  note w = valid_window_same [OF assms(2,3)]
  show thesis
    by (rule memoryAllow_cases [OF assms(2), of now k limit s])
      (use assms(1,4) scope that in
        \<open>simp_all add: w rateLimitMiddleware_def rateLimitDecisionFor_def let_through_def refused_def\<close>)
qed

text \<open>The answers are the outcomes of the calls, in order, and a pass for the requests that are not counted.\<close>

lemma rate_run_calls:
  assumes "cf_RateLimitEnabled cfg" and "0 < cf_RateLimitWindow cfg" "cf_RateLimitWindow cfg \<le> max_duration"
  shows "map (\<lambda>(a, answer). (rate_call lib net cfg a, answer = PassOn))
      (filter (\<lambda>(a, answer). \<not> skipRateLimit (snd a)) (zip arrivals (rate_run lib net cfg memoryAllow (s, m) arrivals))) =
    map (\<lambda>(c, out). (c, let_through out))
      (store_run (memory_windows_of cfg) s (map (rate_call lib net cfg) (limited arrivals)))"
proof (induction arrivals arbitrary: s m)
  case (Cons a arrivals)
  obtain now r where a: "a = (now, r)" by (cases a)
  obtain k limit where c: "rate_call lib net cfg (now, r) = (now, k, limit)" by (simp add: rate_call_def)
  show ?case
  proof (cases "skipRateLimit r")
    case True
    then show ?thesis using Cons.IH [of s m] by (simp add: a limited_def rateLimitMiddleware_def)
  next
    case False
    obtain s' m' out answer where step: "memory_windows_of cfg now k limit s = (s', out)"
      "rateLimitMiddleware lib net cfg memoryAllow now r (s, m) = ((s', m'), answer)" "answer = PassOn \<longleftrightarrow> let_through out"
      by (rule middleware_memory [OF assms False c, of s m])
    show ?thesis using Cons.IH [of s' m'] False step by (simp add: a c limited_def)
  qed
qed (simp add: limited_def)

lemma rate_run_refused:
  assumes "cf_RateLimitEnabled cfg" and "0 < cf_RateLimitWindow cfg" "cf_RateLimitWindow cfg \<le> max_duration"
    and "rate_run lib net cfg memoryAllow (s, m) (before @ a # after) ! length before \<noteq> PassOn"
  shows "\<not> skipRateLimit (snd a) \<and>
    refused (snd (store_run (memory_windows_of cfg) s (map (rate_call lib net cfg) (limited (before @ a # after))) !
      length (limited before)))"
  using assms(4)
proof (induction before arbitrary: s m)
  case Nil
  obtain now r where a: "a = (now, r)" by (cases a)
  obtain k limit where c: "rate_call lib net cfg (now, r) = (now, k, limit)" by (simp add: rate_call_def)
  have counted: "\<not> skipRateLimit r" using Nil by (auto simp: a rateLimitMiddleware_def)
  obtain s' m' out answer where step: "memory_windows_of cfg now k limit s = (s', out)"
    "rateLimitMiddleware lib net cfg memoryAllow now r (s, m) = ((s', m'), answer)" "answer \<noteq> PassOn \<longleftrightarrow> refused out"
    by (rule middleware_memory [OF assms(1-3) counted c, of s m])
  show ?case using Nil counted step by (simp add: a c limited_def)
next
  case (Cons b before)
  obtain now r where b: "b = (now, r)" by (cases b)
  obtain k limit where c: "rate_call lib net cfg (now, r) = (now, k, limit)" by (simp add: rate_call_def)
  show ?case
  proof (cases "skipRateLimit r")
    case True
    then show ?thesis using Cons.IH [of s m] Cons.prems by (auto simp: b limited_def rateLimitMiddleware_def)
  next
    case False
    obtain s' m' out answer where step: "memory_windows_of cfg now k limit s = (s', out)"
      "rateLimitMiddleware lib net cfg memoryAllow now r (s, m) = ((s', m'), answer)"
      by (rule middleware_memory [OF assms(1-3) False c, of s m])
    show ?thesis using Cons.IH [of s' m'] Cons.prems False step by (auto simp: b c limited_def)
  qed
qed

lemma length_filter_map:
  "(\<And>x. Q x \<Longrightarrow> S x \<and> P (f x)) \<Longrightarrow> length (filter Q xs) \<le> length (filter P (map f (filter S xs)))"
  by (induction xs) auto

lemma passed_calls:
  assumes "cf_RateLimitEnabled cfg" and "0 < cf_RateLimitWindow cfg" "cf_RateLimitWindow cfg \<le> max_duration"
  shows "length (filter (\<lambda>((now, key, n), passed). passed \<and> key = k \<and> n = limit \<and> t \<le> now \<and> now < u)
      (map (\<lambda>(a, answer). (rate_call lib net cfg a, answer = PassOn))
        (filter (\<lambda>(a, answer). \<not> skipRateLimit (snd a)) (zip arrivals (rate_run lib net cfg memoryAllow (s, m) arrivals))))) =
    hits_in (\<lambda>now. now) k limit t u
      (store_run (memory_windows_of cfg) s (map (rate_call lib net cfg) (limited arrivals)))"
  unfolding rate_run_calls [OF assms] hits_in_def by (simp add: filter_map comp_def case_prod_unfold)

lemma calls_sorted:
  assumes "sorted (map fst arrivals)" and "\<forall>(now, r) \<in> set arrivals. 0 < now"
  shows "sorted (map ((\<lambda>now. now) \<circ> fst) (map (rate_call lib net cfg) (limited arrivals)))"
    and "\<forall>(now, _) \<in> set (map (rate_call lib net cfg) (limited arrivals)). 0 < now"
proof -
  have times: "map ((\<lambda>now. now) \<circ> fst) (map (rate_call lib net cfg) (limited arrivals)) = map fst (limited arrivals)"
    by (simp add: rate_call_def)
  show "sorted (map ((\<lambda>now. now) \<circ> fst) (map (rate_call lib net cfg) (limited arrivals)))"
    unfolding times unfolding limited_def using assms(1) by (rule sorted_filter)
  show "\<forall>(now, _) \<in> set (map (rate_call lib net cfg) (limited arrivals)). 0 < now"
    using assms(2) by (auto simp: limited_def rate_call_def)
qed

lemma refused_calls:
  assumes enabled: "cf_RateLimitEnabled cfg" and w: "0 < cf_RateLimitWindow cfg" "cf_RateLimitWindow cfg \<le> max_duration"
    and arrivals: "sorted (map fst (before @ (now, r) # after))" "\<forall>(now, r) \<in> set (before @ (now, r) # after). 0 < now"
    and answer: "rate_run lib net cfg memoryAllow ([], m) (before @ (now, r) # after) ! length before \<noteq> PassOn"
    and scope: "rateLimitScope cfg r = (scope, limit)"
  shows "limit \<le> int (length (filter (\<lambda>(u, q). \<not> skipRateLimit q \<and> now - cf_RateLimitWindow cfg < u \<and>
    rateLimitKey lib net cfg u q (fst (rateLimitScope cfg q)) = rateLimitKey lib net cfg now r scope) before))"
proof -
  let ?es = "map (rate_call lib net cfg) (limited (before @ (now, r) # after))"
  let ?k = "rateLimitKey lib net cfg now r scope" and ?i = "length (limited before)"
  note run = rate_run_refused [OF enabled w answer]
  have es: "?es = map (rate_call lib net cfg) (limited before) @ (now, ?k, limit) #
      map (rate_call lib net cfg) (limited after)"
    using run scope by (simp add: limited_def rate_call_def)
  have "memory_windows.explained [] []" by (simp add: memory_windows.explained_def memory_bucket_def)
  moreover have "memory_ok []" by (simp add: memory_ok_def)
  ultimately have "limit \<le> int (calls_since (\<lambda>now. now) ?k (now - valid_window (cf_RateLimitWindow cfg) + 1) ([] @ take ?i ?es))"
    using calls_sorted [OF arrivals, of lib net cfg] run
    by (intro memory_windows.refusals [where s = "[]"]) (simp_all add: es nth_append)
  moreover have "calls_since (\<lambda>now. now) ?k (now - cf_RateLimitWindow cfg + 1) (map (rate_call lib net cfg) (limited before)) =
      length (filter (\<lambda>(u, q). \<not> skipRateLimit q \<and> now - cf_RateLimitWindow cfg < u \<and>
        rateLimitKey lib net cfg u q (fst (rateLimitScope cfg q)) = ?k) before)"
    unfolding calls_since_def limited_def by (induction before) (auto simp: rate_call_def)
  ultimately show ?thesis by (simp add: es valid_window_same [OF w])
qed

lemma rate_run_length: "length (rate_run lib net cfg allow s arrivals) = length arrivals"
  by (induction arrivals arbitrary: s) (auto split: prod.split)

section \<open>Bounds\<close>

text \<open>
  C39: behind a configuration that the loader accepts, with the counters in memory, whatever the requests
  are and in whichever interval as long as the window: at most twice the limit of its scope is let
  through under one key; and a request is refused only if as many requests under its key as the limit
  allows have arrived within the window before it.
\<close>

theorem rate_limit_bounds:
  assumes "Load net name environ = Inr cfg" and "cf_RateLimitEnabled cfg"
    and "cf_RateLimitWindow cfg \<le> max_duration"
    and "sorted (map fst arrivals)" and "\<forall>(now, r) \<in> set arrivals. 0 < now"
  shows "int (length (filter (\<lambda>((now, r), answer). answer = PassOn \<and> \<not> skipRateLimit r \<and>
        rateLimitScope cfg r = (scope, limit) \<and> rateLimitKey lib net cfg now r scope = k \<and>
        t \<le> now \<and> now < t + cf_RateLimitWindow cfg)
      (zip arrivals (rate_run lib net cfg memoryAllow ([], m) arrivals)))) \<le> 2 * max limit 0 \<and>
    (arrivals = before @ (now, r) # after \<and> rateLimitScope cfg r = (scope, limit) \<and>
       rate_run lib net cfg memoryAllow ([], m) arrivals ! length before \<noteq> PassOn \<longrightarrow>
     limit \<le> int (length (filter (\<lambda>(u, q). \<not> skipRateLimit q \<and> now - cf_RateLimitWindow cfg < u \<and>
        rateLimitKey lib net cfg u q (fst (rateLimitScope cfg q)) = rateLimitKey lib net cfg now r scope) before)))"
proof -
  let ?w = "cf_RateLimitWindow cfg" and ?es = "map (rate_call lib net cfg) (limited arrivals)"
  have "0 < ?w" using Load_ok [OF assms(1)] assms(2) by (simp add: config_ok_def)
  note w = this assms(3)
  note vw = valid_window_same [OF w]
  have empty: "memory_ok []" by (simp add: memory_ok_def)
  have upper: "length (filter (\<lambda>((now, r), answer). answer = PassOn \<and> \<not> skipRateLimit r \<and>
        rateLimitScope cfg r = (scope, limit) \<and> rateLimitKey lib net cfg now r scope = k \<and> t \<le> now \<and> now < t + ?w)
      (zip arrivals (rate_run lib net cfg memoryAllow ([], m) arrivals))) \<le>
    hits_in (\<lambda>now. now) k limit t (t + ?w) (store_run (memory_windows_of cfg) [] ?es)"
    unfolding passed_calls [OF assms(2) w, where m = m, symmetric]
    by (rule length_filter_map) (auto simp: rate_call_def)
  have "hits_in (\<lambda>now. now) k limit t (t + ?w) (store_run (memory_windows_of cfg) [] ?es) \<le> 2 * nat limit"
    using memory_windows.sliding_bound [where window = ?w, OF empty calls_sorted(2,1) [OF assms(4,5)]] unfolding vw .
  with upper show ?thesis
    using refused_calls [OF assms(2) w] assms(4,5) by auto
qed

definition ex_net :: GoNet where
  "ex_net = \<lparr>gn_ParseDuration = (\<lambda>v. Some minute), gn_ParseIP = (\<lambda>v. Some v), gn_ParseCIDR = (\<lambda>v. None),
     gn_ParseURL = (\<lambda>v. Some (''http'', v))\<rparr>"

definition ex_read :: HttpRequest where
  "ex_read = \<lparr>ht_Method = ''GET'', ht_Path = ''/v1/feed/events'', ht_RemoteAddr = ''10.0.0.1:5000'', ht_Header = (\<lambda>_. '''')\<rparr>"

lemma env_default [simp]: "env_or (\<lambda>_. '''') key fallback = fallback" "serviceEnv (\<lambda>_. '''') svc key fallback = fallback"
  by (simp_all add: env_or_def serviceEnv_def str_eval)

lemma ex_parses:
  "parseDuration ex_net ''10s'' = Some minute" "parseDuration ex_net ''15m'' = Some minute"
  "parseDuration ex_net ''720h'' = Some minute" "parseDuration ex_net ''1m'' = Some minute"
  "parseDuration ex_net ''200ms'' = Some minute"
  "parseBool ''true'' = Some True" "parseBool ''false'' = Some False"
  "parseInt ''600'' = Some 600" "parseInt ''60'' = Some 60" "parseInt ''240'' = Some 240"
proof -
  have "Atoi ''10s'' = None" "Atoi ''15m'' = None" "Atoi ''720h'' = None" "Atoi ''1m'' = None" "Atoi ''200ms'' = None"
    by code_simp+
  then show "parseDuration ex_net ''10s'' = Some minute" "parseDuration ex_net ''15m'' = Some minute"
    "parseDuration ex_net ''720h'' = Some minute" "parseDuration ex_net ''1m'' = Some minute"
    "parseDuration ex_net ''200ms'' = Some minute" by (simp_all add: parseDuration_def ex_net_def)
  show "parseBool ''true'' = Some True" "parseBool ''false'' = Some False" by (simp_all add: parseBool_def str_eval)
  have "Atoi ''600'' = Some 600" "Atoi ''60'' = Some 60" "Atoi ''240'' = Some 240" by code_simp+
  then show "parseInt ''600'' = Some 600" "parseInt ''60'' = Some 60" "parseInt ''240'' = Some 240"
    by (simp_all add: parseInt_def str_eval)
qed

lemma ex_load:
  obtains cfg where "Load ex_net ''feed-service'' None = Inr cfg" and "cf_RateLimitEnabled cfg"
    and "cf_RateLimitWindow cfg = minute" and "cf_RateLimitRequests cfg = 600"
proof -
  have "LookupService ''feed-service'' = Some \<lparr>sd_Name = ''feed-service'', sd_Role = ''http-service'', sd_DefaultHTTPAddr = '':8083''\<rparr>"
    by (simp add: LookupService_def serviceDefinitions_def)
  moreover have "SplitHostPort ''localhost:8083'' = Some (''localhost'', ''8083'')" by code_simp
  moreover have "parseCSV '''' = []" by (simp add: parseCSV_def str_eval)
  ultimately have "\<exists>cfg. Load ex_net ''feed-service'' None = Inr cfg \<and> cf_RateLimitEnabled cfg \<and>
      cf_RateLimitWindow cfg = minute \<and> cf_RateLimitRequests cfg = 600"
    by (simp add: Load_def Let_def parsed_def ex_parses check_Inr_iff ValidateConfig_def validateRateLimit_def
        normalizeAddr_def HasPrefix_def isLocalEnvironment_def str_eval duration_defs validateHTTPURL_def)
      (simp add: ex_net_def)
  then show thesis using that by blast
qed

theorem rate_limit_bounds_witness:
  "\<exists>cfg. Load ex_net ''feed-service'' None = Inr cfg \<and>
     length (filter (\<lambda>answer. answer = PassOn)
       (rate_run ex_jwt ex_net cfg memoryAllow ([], emptyMetrics) (replicate 2000 (5 * second, ex_read)))) \<le> 1200"
proof -
  obtain cfg where cfg: "Load ex_net ''feed-service'' None = Inr cfg" "cf_RateLimitEnabled cfg"
    "cf_RateLimitWindow cfg = minute" "cf_RateLimitRequests cfg = 600" by (rule ex_load)
  have scope: "rateLimitScope cfg ex_read = (''read'', 600)" and counted: "\<not> skipRateLimit ex_read"
    using cfg(4) by (simp_all add: rateLimitScope_def ex_read_def skipRateLimit_def)
  let ?arrivals = "replicate 2000 (5 * second, ex_read)"
  let ?run = "rate_run ex_jwt ex_net cfg memoryAllow ([], emptyMetrics) ?arrivals"
  let ?P = "\<lambda>((now, r), answer). answer = PassOn \<and> \<not> skipRateLimit r \<and> rateLimitScope cfg r = (''read'', 600) \<and>
    rateLimitKey ex_jwt ex_net cfg now r ''read'' = rateLimitKey ex_jwt ex_net cfg (5 * second) ex_read ''read'' \<and>
    0 \<le> now \<and> now < 0 + cf_RateLimitWindow cfg"
  have "cf_RateLimitWindow cfg \<le> max_duration" using cfg(3) by (simp add: duration_defs max_duration_def)
  from rate_limit_bounds [OF cfg(1,2) this, of ?arrivals "''read''" 600 ex_jwt
      "rateLimitKey ex_jwt ex_net cfg (5 * second) ex_read ''read''" 0 emptyMetrics]
  have "int (length (filter ?P (zip ?arrivals ?run))) \<le> 1200" by (simp add: duration_defs)
  moreover have "length ?run = 2000" by (simp add: rate_run_length)
  moreover have "length (filter (\<lambda>answer. answer = PassOn) xs) = length (filter ?P (zip (replicate n (5 * second, ex_read)) xs))"
    if "length xs = n" for xs n
    using that scope counted cfg(3) by (induction xs arbitrary: n) (auto simp: duration_defs)
  ultimately show ?thesis using cfg(1) by (intro exI [of _ cfg]) simp
qed

end
