(* ===== verification/BaseRouter.thy ===== *)
theory BaseRouter imports RateLimit Observability begin

text \<open>
  \<^verbatim>\<open>internal/platform/httpapi/router.go\<close> and \<^verbatim>\<open>observability.go\<close>: what every service puts in front of its
  routes.
\<close>

section \<open>The token of the metrics\<close>

definition authorizedForMetrics :: "Config \<Rightarrow> string \<Rightarrow> bool" where
  "authorizedForMetrics cfg authorization =
     (let expected = TrimSpace (cf_MetricsBearerToken cfg) in
      if expected = '''' then True
      else (let (token, found) = CutPrefix (TrimSpace authorization) ''Bearer '' in
            found \<and> TrimSpace token = expected))"

text \<open>What the middleware gives the request, and the headers of the answer.\<close>

definition observabilityMiddleware :: "headers \<Rightarrow> string \<Rightarrow> string \<Rightarrow> RequestContext \<times> headers" where
  "observabilityMiddleware header newCorrelationID newTraceParent =
     (let given = TrimSpace (header_Get header ''X-Correlation-Id'');
          correlationID = (if given = '''' then newCorrelationID else given);
          found = TraceContextFromHeaders header;
          trace = (if tx_TraceParent found = '''' then found\<lparr>tx_TraceParent := newTraceParent\<rparr> else found)
      in (ContextWithTraceContext trace (ContextWithCorrelationID correlationID emptyContext),
          [(''X-Correlation-Id'', correlationID), (''Traceparent'', tx_TraceParent trace)] @
          (if tx_TraceState trace \<noteq> '''' then [(''Tracestate'', tx_TraceState trace)] else [])))"

section \<open>CORS\<close>

definition corsHeaders :: "Config \<Rightarrow> string \<Rightarrow> headers" where
  "corsHeaders cfg origin =
     (if origin \<noteq> '''' \<and> origin \<in> set (cf_AllowedOrigins cfg)
      then [(''Access-Control-Allow-Origin'', origin), (''Access-Control-Allow-Credentials'', ''true''), (''Vary'', ''Origin'')]
      else []) @
     [(''Access-Control-Allow-Methods'', ''GET, POST, PATCH, DELETE, OPTIONS''),
      (''Access-Control-Allow-Headers'', ''Authorization, Content-Type, X-CSRF-Token, Idempotency-Key, X-Correlation-ID, traceparent, tracestate''),
      (''Access-Control-Max-Age'', ''600'')]"

section \<open>Health\<close>

text \<open>\<^verbatim>\<open>internal/platform/health\<close>: the two probes answer with constants; none of them looks at a dependency.\<close>

record HealthResponse =
  hl_Status :: string
  hl_Service :: string
  hl_Environment :: string
  hl_Timestamp :: time
  hl_Checks :: "(string, string) gomap"

definition Live :: "time \<Rightarrow> string \<Rightarrow> string \<Rightarrow> HealthResponse" where
  "Live now serviceName environment =
     \<lparr>hl_Status = ''ok'', hl_Service = serviceName, hl_Environment = environment, hl_Timestamp = now,
      hl_Checks = [(''process'', ''ok'')]\<rparr>"

definition Ready :: "time \<Rightarrow> string \<Rightarrow> string \<Rightarrow> HealthResponse" where
  "Ready now serviceName environment =
     \<lparr>hl_Status = ''ok'', hl_Service = serviceName, hl_Environment = environment, hl_Timestamp = now,
      hl_Checks = [(''config'', ''ok'')]\<rparr>"

section \<open>The router\<close>

record BaseRequest =
  bq_Method :: string
  bq_Path :: string
  bq_RawPath :: string \<comment> \<open>the path as it came, where that is not the default encoding of \<open>bq_Path\<close>\<close>
  bq_RemoteAddr :: string
  bq_Header :: headers
  bq_Body :: string

definition limited_view :: "BaseRequest \<Rightarrow> HttpRequest" where
  "limited_view r = \<lparr>ht_Method = bq_Method r, ht_Path = bq_Path r, ht_RemoteAddr = bq_RemoteAddr r,
     ht_Header = header_Get (bq_Header r)\<rparr>"

text \<open>The path that chi routes by.\<close>

definition route_path :: "BaseRequest \<Rightarrow> string" where
  "route_path r = (if bq_RawPath r \<noteq> '''' then bq_RawPath r else bq_Path r)"

text \<open>
  The recorder around the \<^verbatim>\<open>ResponseWriter\<close> keeps the first status that a handler writes.
\<close>

record statusRecorder =
  sr_status :: int
  sr_wroteHeader :: bool

definition WriteHeader :: "int \<Rightarrow> statusRecorder \<Rightarrow> statusRecorder" where
  "WriteHeader status rec = (if sr_wroteHeader rec then rec else rec\<lparr>sr_status := status, sr_wroteHeader := True\<rparr>)"

definition recorded_status :: "int list \<Rightarrow> int" where
  "recorded_status statuses = sr_status (fold WriteHeader statuses \<lparr>sr_status = 200, sr_wroteHeader = False\<rparr>)"

text \<open>\<open>pattern\<close> is the route that chi found, empty where none matched or routing did not begin.\<close>

definition routePattern :: "string \<Rightarrow> BaseRequest \<Rightarrow> string" where
  "routePattern pattern r = (if pattern \<noteq> '''' then pattern else bq_Path r)"

text \<open>
  The answers of the router itself, and \<open>Routed\<close> for what the service's own routes answer. \<open>Running\<close> is the
  root, \<open>Healthy\<close> the two probes, \<open>MetricsAnswer\<close> the counters.
\<close>

datatype 'a base_answer =
    NoContent headers | RateLimited headers string | Running headers "(string, string) gomap" | Healthy headers HealthResponse
  | MetricsAnswer headers string | MetricsUnauthorized headers | Routed headers 'a

text \<open>
  The routes of a service: what they answer, the statuses that an answer writes, and the pattern
  that chi reports for a request.
\<close>

record ('r, 'a) Routes =
  rt_serve :: "BaseRequest \<Rightarrow> RequestContext \<Rightarrow> 'r \<Rightarrow> 'r \<times> 'a"
  rt_statuses :: "'a \<Rightarrow> int list"
  rt_pattern :: "BaseRequest \<Rightarrow> string"

text \<open>What a request meets: clock, duration, drawn identifiers, and the printing of \<^verbatim>\<open>float64\<close> sums.\<close>

record RequestEnv =
  rq_now :: time
  rq_elapsed :: duration
  rq_correlationID :: string
  rq_traceParent :: string
  rq_formatSum :: "duration list \<Rightarrow> string"

definition answer_statuses :: "('a \<Rightarrow> int list) \<Rightarrow> 'a base_answer \<Rightarrow> int list" where
  "answer_statuses statuses answer =
     (case answer of
        NoContent _ \<Rightarrow> [204] | RateLimited _ _ \<Rightarrow> [429] | Running _ _ \<Rightarrow> [200] | Healthy _ _ \<Rightarrow> [200]
      | MetricsAnswer _ _ \<Rightarrow> [] | MetricsUnauthorized _ \<Rightarrow> [401] | Routed _ a \<Rightarrow> statuses a)"

text \<open>
  The chain below the observability middleware, with the pattern that routing left in the context. The
  state is that of the rate limit store, the counters and the service.
\<close>

definition serveLimited :: "JwtLib \<Rightarrow> GoNet \<Rightarrow> Config \<Rightarrow> 's rate_store \<Rightarrow> RequestEnv \<Rightarrow> ('r, 'a) Routes \<Rightarrow> BaseRequest
   \<Rightarrow> RequestContext \<Rightarrow> headers \<Rightarrow> ('s \<times> Metrics) \<times> 'r \<Rightarrow> (('s \<times> Metrics) \<times> 'r) \<times> 'a base_answer \<times> string" where
  "serveLimited lib net cfg allow env routes r ctx h s =
     (case rateLimitMiddleware lib net cfg allow (rq_now env) (limited_view r) (fst s) of
        (c, TooMany retryAfter) \<Rightarrow> ((c, snd s), RateLimited h retryAfter, '''')
      | (c, PassOn) \<Rightarrow>
          if bq_Method r = ''GET'' \<and> route_path r = ''/''
          then ((c, snd s), Running h [(''service'', sd_Name (cf_Service cfg)), (''environment'', cf_Environment cfg),
            (''status'', ''running'')], ''/'')
          else if bq_Method r = ''GET'' \<and> route_path r = ''/livez''
          then ((c, snd s), Healthy h (Live (rq_now env) (sd_Name (cf_Service cfg)) (cf_Environment cfg)), ''/livez'')
          else if bq_Method r = ''GET'' \<and> route_path r = ''/readyz''
          then ((c, snd s), Healthy h (Ready (rq_now env) (sd_Name (cf_Service cfg)) (cf_Environment cfg)), ''/readyz'')
          else if bq_Method r = ''GET'' \<and> route_path r = ''/metrics''
          then ((c, snd s), if authorizedForMetrics cfg (header_Get (bq_Header r) ''Authorization'')
                            then MetricsAnswer h (MetricsText (rq_formatSum env) (snd c)) else MetricsUnauthorized h, ''/metrics'')
          else (case rt_serve routes r ctx (snd s) of (r', answer) \<Rightarrow> ((c, r'), Routed h answer, rt_pattern routes r)))"

text \<open>Around it the middleware that gives the request its trace context and counts it.\<close>

definition serveObserved :: "JwtLib \<Rightarrow> GoNet \<Rightarrow> Config \<Rightarrow> 's rate_store \<Rightarrow> RequestEnv \<Rightarrow> ('r, 'a) Routes \<Rightarrow> BaseRequest
   \<Rightarrow> headers \<Rightarrow> ('s \<times> Metrics) \<times> 'r \<Rightarrow> (('s \<times> Metrics) \<times> 'r) \<times> 'a base_answer" where
  "serveObserved lib net cfg allow env routes r h s =
     (let (ctx, traced) = observabilityMiddleware (bq_Header r) (rq_correlationID env) (rq_traceParent env);
          (((c, m), s'), answer, pattern) = serveLimited lib net cfg allow env routes r ctx (h @ traced) s;
          status = recorded_status (answer_statuses (rt_statuses routes) answer)
      in (((c, RecordHTTPRequest (sd_Name (cf_Service cfg)) (bq_Method r) (routePattern pattern r) status
                 (rq_elapsed env) m), s'), answer))"

text \<open>A preflight is answered by the CORS middleware, before all others.\<close>

definition serveBase :: "JwtLib \<Rightarrow> GoNet \<Rightarrow> Config \<Rightarrow> 's rate_store \<Rightarrow> RequestEnv \<Rightarrow> ('r, 'a) Routes \<Rightarrow> BaseRequest
   \<Rightarrow> ('s \<times> Metrics) \<times> 'r \<Rightarrow> (('s \<times> Metrics) \<times> 'r) \<times> 'a base_answer" where
  "serveBase lib net cfg allow env routes r s =
     (let cors = corsHeaders cfg (header_Get (bq_Header r) ''Origin'') in
      if bq_Method r = ''OPTIONS'' then (s, NoContent cors)
      else serveObserved lib net cfg allow env routes r cors s)"

text \<open>The requests that one server answers, one after the other, each with what it meets.\<close>

fun base_run :: "JwtLib \<Rightarrow> GoNet \<Rightarrow> Config \<Rightarrow> 's rate_store \<Rightarrow> ('r, 'a) Routes \<Rightarrow> ('s \<times> Metrics) \<times> 'r
   \<Rightarrow> (RequestEnv \<times> BaseRequest) list \<Rightarrow> (('s \<times> Metrics) \<times> 'r) \<times> 'a base_answer list" where
  "base_run lib net cfg allow routes s [] = (s, [])"
| "base_run lib net cfg allow routes s ((env, r) # rs) =
     (let (s', answer) = serveBase lib net cfg allow env routes r s;
          (s'', answers) = base_run lib net cfg allow routes s' rs
      in (s'', answer # answers))"

section \<open>Facts\<close>

lemma HasPrefix_iff: "HasPrefix s p \<longleftrightarrow> (\<exists>t. s = p @ t)"
  by (metis HasPrefix_append HasPrefix_def append_take_drop_id)

lemma CutPrefix_iff: "(case CutPrefix s p of (t, found) \<Rightarrow> found \<and> Q t) \<longleftrightarrow> (\<exists>t. s = p @ t \<and> Q t)"
proof (cases "HasPrefix s p")
  case True
  then obtain t where "s = p @ t" using HasPrefix_iff by blast
  then show ?thesis by simp
next
  case False
  then show ?thesis by (auto simp: CutPrefix_def HasPrefix_iff)
qed

lemma authorizedForMetrics_iff:
  "authorizedForMetrics cfg authorization \<longleftrightarrow> TrimSpace (cf_MetricsBearerToken cfg) = '''' \<or>
     (\<exists>token. TrimSpace authorization = ''Bearer '' @ token \<and> TrimSpace token = TrimSpace (cf_MetricsBearerToken cfg))"
  unfolding authorizedForMetrics_def Let_def CutPrefix_iff by simp

lemma recorded_status_first: "recorded_status statuses = (case statuses of [] \<Rightarrow> 200 | status # _ \<Rightarrow> status)"
proof -
  have "fold WriteHeader ss rec = rec" if "sr_wroteHeader rec" for ss rec
    using that by (induction ss) (simp_all add: WriteHeader_def)
  then show ?thesis by (simp add: recorded_status_def WriteHeader_def split: list.split)
qed

lemma serveLimited_cases:
  assumes "serveLimited lib net cfg allow env routes r ctx h (c, s) = ((c', s'), answer, pattern)"
    and "rateLimitMiddleware lib net cfg allow (rq_now env) (limited_view r) c = (c1, pass)"
  shows "c' = c1 \<and> (pass = PassOn \<longleftrightarrow> (\<forall>h x. answer \<noteq> RateLimited h x)) \<and>
    (pass = PassOn \<and> (\<exists>a. rt_serve routes r ctx s = (s', a) \<and> answer = Routed h a) \<or>
     s' = s \<and> (\<forall>h a. answer \<noteq> Routed h a))"
proof -
  obtain t a where "rt_serve routes r ctx s = (t, a)" by (metis surj_pair)
  with assms show ?thesis by (cases pass) (auto simp: serveLimited_def split: if_splits)
qed

section \<open>Every request is counted\<close>

text \<open>The sum of the counters of one map.\<close>

definition total :: "('k, int) gomap \<Rightarrow> int" where
  "total m = sum_list (mvals m)"

lemma total_bump: "distinct (mkeys m) \<Longrightarrow> total (bump k m) = total m + 1"
proof (cases "map_of m k")
  case (Some u)
  assume "distinct (mkeys m)"
  with Some obtain xs ys where "m = xs @ (k, u) # ys" "\<And>v. mput k v m = xs @ (k, v) # ys"
    by (rule mput_split) (rule that; assumption)
  then show ?thesis using Some by (simp add: total_def bump_def at_key_def)
next
  case None
  then have "mput k v m = m @ [(k, v)]" for v by (simp add: mput_fresh map_of_eq_None_iff)
  then show ?thesis using None by (simp add: total_def bump_def at_key_def)
qed

lemma keys_bump: "distinct (mkeys m) \<Longrightarrow> distinct (mkeys (bump k m))"
  by (simp add: bump_def distinct_update)

text \<open>The counters are maps, and every histogram counts what it observed.\<close>

definition metrics_inv :: "Metrics \<Rightarrow> bool" where
  "metrics_inv m \<longleftrightarrow> metrics_ok m \<and> distinct (mkeys (mt_httpRequests m)) \<and> distinct (mkeys (mt_rateLimitedRequests m)) \<and>
     distinct (mkeys (mt_rateLimitStoreErrors m))"

lemma metrics_inv_empty: "metrics_inv emptyMetrics"
  using metrics_ok_empty by (simp add: metrics_inv_def emptyMetrics_def)

lemma record_request:
  "metrics_inv m \<Longrightarrow> metrics_inv (RecordHTTPRequest svc meth path status d m) \<and>
     total (mt_httpRequests (RecordHTTPRequest svc meth path status d m)) = total (mt_httpRequests m) + 1 \<and>
     mt_rateLimitedRequests (RecordHTTPRequest svc meth path status d m) = mt_rateLimitedRequests m"
  using RecordHTTPRequest_ok [of m svc meth path status d]
  by (simp add: metrics_inv_def RecordHTTPRequest_def Let_def total_bump keys_bump)

lemma middleware_counts:
  assumes "rateLimitMiddleware lib net cfg allow now r (c, m) = ((c', m'), answer)" and "metrics_inv m"
  shows "metrics_inv m' \<and> mt_httpRequests m' = mt_httpRequests m \<and>
    total (mt_rateLimitedRequests m') = total (mt_rateLimitedRequests m) + (if answer = PassOn then 0 else 1)"
  using assms
  by (auto simp: rateLimitMiddleware_def Let_def metrics_inv_def metrics_ok_def total_bump keys_bump
      RecordRateLimitedRequest_def RecordRateLimitStoreError_def split: if_splits prod.splits)

text \<open>
  A request that is no preflight adds one to the requests, and one to the refusals exactly when it
  is refused; a preflight adds to none.
\<close>

lemma serveBase_counts:
  assumes run: "serveBase lib net cfg allow env routes r ((c, m), s) = (((c', m'), s'), answer)" and m: "metrics_inv m"
  shows "metrics_inv m' \<and>
    total (mt_httpRequests m') = total (mt_httpRequests m) + (if bq_Method r = ''OPTIONS'' then 0 else 1) \<and>
    total (mt_rateLimitedRequests m') =
      total (mt_rateLimitedRequests m) + (case answer of RateLimited _ _ \<Rightarrow> 1 | _ \<Rightarrow> 0)"
proof (cases "bq_Method r = ''OPTIONS''")
  case True
  then have "m' = m \<and> (\<exists>h. answer = NoContent h)" using run by (auto simp: serveBase_def serveObserved_def Let_def)
  then show ?thesis using True m by auto
next
  case False
  obtain ctx traced where mid: "observabilityMiddleware (bq_Header r) (rq_correlationID env) (rq_traceParent env) = (ctx, traced)"
    by (metis surj_pair)
  let ?h = "corsHeaders cfg (header_Get (bq_Header r) ''Origin'') @ traced"
  obtain c1 m1 s1 a pattern where below: "serveLimited lib net cfg allow env routes r ctx ?h ((c, m), s) =
      (((c1, m1), s1), a, pattern)" by (metis surj_pair)
  obtain c2 m2 pass where rate: "rateLimitMiddleware lib net cfg allow (rq_now env) (limited_view r) (c, m) = ((c2, m2), pass)"
    by (metis surj_pair)
  have m': "m' = RecordHTTPRequest (sd_Name (cf_Service cfg)) (bq_Method r) (routePattern pattern r)
      (recorded_status (answer_statuses (rt_statuses routes) a)) (rq_elapsed env) m1" "answer = a"
    using run False mid below by (auto simp: serveBase_def serveObserved_def Let_def)
  have "m1 = m2" and "pass = PassOn \<longleftrightarrow> (\<forall>h x. a \<noteq> RateLimited h x)" using serveLimited_cases [OF below rate] by auto
  moreover have "(case a of RateLimited _ _ \<Rightarrow> 1 | _ \<Rightarrow> 0) = (if \<forall>h x. a \<noteq> RateLimited h x then 0 else 1 :: int)"
    by (cases a) simp_all
  ultimately show ?thesis
    using middleware_counts [OF rate m] record_request [of m1] False unfolding m' by simp
qed

definition refusal :: "'a base_answer \<Rightarrow> bool" where
  "refusal answer \<longleftrightarrow> (case answer of RateLimited _ _ \<Rightarrow> True | _ \<Rightarrow> False)"

lemma base_run_counts:
  assumes "base_run lib net cfg allow routes ((c, m), s) requests = (((c', m'), s'), answers)" and "metrics_inv m"
  shows "metrics_inv m' \<and>
    total (mt_httpRequests m') =
      total (mt_httpRequests m) + int (length (filter (\<lambda>(env, r). bq_Method r \<noteq> ''OPTIONS'') requests)) \<and>
    total (mt_rateLimitedRequests m') = total (mt_rateLimitedRequests m) + int (length (filter refusal answers))"
  using assms
proof (induction requests arbitrary: c m s answers)
  case (Cons request requests)
  obtain env r where request: "request = (env, r)" by (cases request)
  obtain c1 m1 s1 a where first: "serveBase lib net cfg allow env routes r ((c, m), s) = (((c1, m1), s1), a)"
    by (metis surj_pair)
  obtain as where rest: "base_run lib net cfg allow routes ((c1, m1), s1) requests = (((c', m'), s'), as)"
    "answers = a # as" using Cons.prems(1) by (auto simp: request first split: prod.splits)
  note step = serveBase_counts [OF first Cons.prems(2)]
  have "(case a of RateLimited _ _ \<Rightarrow> 1 | _ \<Rightarrow> 0) = (if refusal a then 1 else 0 :: int)"
    by (cases a) (simp_all add: refusal_def)
  then show ?case using Cons.IH [OF rest(1)] step by (simp add: request rest(2))
qed simp

end
