(* ===== verification/Gateway.thy ===== *)
theory Gateway imports BaseRouter begin

text \<open>
  \<^verbatim>\<open>internal/services/gateway/http.go\<close>: the public entrance. It drops identity headers that a client
  sends, asks the auth service about the token where a route needs a user, and hands the request to
  the service behind the route. The auth service, the JSON decoder and the services are parameters.
\<close>

datatype upstream = AuthUpstream | EventUpstream | FeedUpstream | MediaUpstream

datatype gateway_error = ErrGatewayUnauthorized | ErrGatewayUpstream

record gatewayPrincipal =
  gp_UserID :: string
  gp_Role :: Role

section \<open>Requests\<close>

text \<open>\<^verbatim>\<open>Header.Del\<close> takes the canonical form of the two names.\<close>

definition sanitizedRequest :: "BaseRequest \<Rightarrow> BaseRequest" where
  "sanitizedRequest r =
     r\<lparr>bq_Header := header_Del ''X-User-Role'' (header_Del ''X-User-Id'' (bq_Header r))\<rparr>"

definition requestWithPrincipal :: "BaseRequest \<Rightarrow> gatewayPrincipal \<Rightarrow> BaseRequest" where
  "requestWithPrincipal r user = sanitizedRequest r"

definition gatewayBearerToken :: "BaseRequest \<Rightarrow> string option" where
  "gatewayBearerToken r =
     (let (token, found) = CutPrefix (TrimSpace (header_Get (bq_Header r) ''Authorization'')) ''Bearer '' in
      if \<not> found \<or> TrimSpace token = '''' then None else Some (TrimSpace token))"

section \<open>Authentication\<close>

text \<open>
  \<open>me\<close> is the answer of the auth service to \<^verbatim>\<open>GET /v1/auth/me\<close> with the token, none where the request
  fails; \<open>decode\<close> gives the members \<^verbatim>\<open>id\<close> and \<^verbatim>\<open>role\<close> of \<^verbatim>\<open>user\<close>.
\<close>

record AuthClient =
  au_me :: "string \<Rightarrow> (int \<times> string) option"
  au_decode :: "string \<Rightarrow> (string \<times> string) option"

definition authenticate :: "AuthClient \<Rightarrow> string \<Rightarrow> gateway_error + gatewayPrincipal" where
  "authenticate client token =
     (case au_me client token of
        None \<Rightarrow> Inl ErrGatewayUpstream
      | Some (status, body) \<Rightarrow>
          if status = 401 \<or> status = 403 then Inl ErrGatewayUnauthorized
          else if status < 200 \<or> status \<ge> 300 then Inl ErrGatewayUpstream
          else (case au_decode client body of
                  None \<Rightarrow> Inl ErrGatewayUpstream
                | Some (i, r) \<Rightarrow>
                    (let role = NormalizeRole r in
                     if TrimSpace i = '''' \<or> \<not> ValidRole role then Inl ErrGatewayUnauthorized
                     else Inr \<lparr>gp_UserID = i, gp_Role = role\<rparr>)))"

definition requirePrincipal :: "AuthClient \<Rightarrow> BaseRequest \<Rightarrow> gateway_error + gatewayPrincipal" where
  "requirePrincipal client r =
     (case gatewayBearerToken r of None \<Rightarrow> Inl ErrGatewayUnauthorized | Some token \<Rightarrow> authenticate client token)"

datatype authMode = AuthNotRequired | AuthOptional | AuthRequired

definition eventAuthMode :: "BaseRequest \<Rightarrow> authMode" where
  "eventAuthMode r =
     (if bq_Method r \<noteq> ''GET'' then AuthRequired
      else (let remaining = Trim (TrimPrefix (bq_Path r) ''/v1/events'') ''/'' in
            if remaining = '''' then AuthNotRequired
            else if CHR ''/'' \<notin> set remaining then AuthOptional
            else AuthRequired))"

section \<open>Routes\<close>

text \<open>What becomes of a request: it is handed on, refused with status, code and message, or has no route.\<close>

datatype gateway_decision = Forward upstream BaseRequest | Refuse int string string | NoRoute

definition writeGatewayAuthError :: "gateway_error \<Rightarrow> gateway_decision" where
  "writeGatewayAuthError err =
     (case err of
        ErrGatewayUnauthorized \<Rightarrow> Refuse 401 ''unauthorized'' ''authentication required''
      | ErrGatewayUpstream \<Rightarrow> Refuse 502 ''bad_gateway'' ''authentication service unavailable'')"

definition proxyAuth :: "BaseRequest \<Rightarrow> gateway_decision" where
  "proxyAuth r = Forward AuthUpstream (sanitizedRequest r)"

definition proxyPublic :: "upstream \<Rightarrow> BaseRequest \<Rightarrow> gateway_decision" where
  "proxyPublic up r = Forward up (sanitizedRequest r)"

definition proxyEvents :: "AuthClient \<Rightarrow> BaseRequest \<Rightarrow> gateway_decision" where
  "proxyEvents client r =
     (case eventAuthMode r of
        AuthNotRequired \<Rightarrow> Forward EventUpstream (sanitizedRequest r)
      | AuthOptional \<Rightarrow>
          (case gatewayBearerToken r of
             None \<Rightarrow> Forward EventUpstream (sanitizedRequest r)
           | Some token \<Rightarrow>
               (case authenticate client token of
                  Inl err \<Rightarrow> writeGatewayAuthError err
                | Inr _ \<Rightarrow> Forward EventUpstream (sanitizedRequest r)))
      | AuthRequired \<Rightarrow>
          (case requirePrincipal client r of
             Inl err \<Rightarrow> writeGatewayAuthError err
           | Inr user \<Rightarrow> Forward EventUpstream (requestWithPrincipal r user)))"

definition proxyMedia :: "AuthClient \<Rightarrow> BaseRequest \<Rightarrow> gateway_decision" where
  "proxyMedia client r =
     (if bq_Method r = ''GET'' then Forward MediaUpstream (sanitizedRequest r)
      else (case requirePrincipal client r of
              Inl err \<Rightarrow> writeGatewayAuthError err
            | Inr user \<Rightarrow> Forward MediaUpstream (requestWithPrincipal r user)))"

definition gatewayRoute :: "AuthClient \<Rightarrow> BaseRequest \<Rightarrow> gateway_decision" where
  "gatewayRoute client r =
     (let path = route_path r in
      if HasPrefix path ''/v1/auth/'' then proxyAuth r
      else if path = ''/v1/events'' \<or> HasPrefix path ''/v1/events/'' then proxyEvents client r
      else if HasPrefix path ''/v1/feed/'' then proxyPublic FeedUpstream r
      else if HasPrefix path ''/v1/media/'' then proxyMedia client r
      else NoRoute)"

section \<open>Proxies\<close>

definition stripCORSHeaders :: "headers \<Rightarrow> headers" where
  "stripCORSHeaders header = fold header_Del
     [''Access-Control-Allow-Origin'', ''Access-Control-Allow-Credentials'', ''Access-Control-Allow-Methods'',
      ''Access-Control-Allow-Headers'', ''Access-Control-Max-Age''] header"

text \<open>The answer of a service: status, header and body; none where it cannot be reached.\<close>

type_synonym reply = "int \<times> headers \<times> string"

datatype gateway_answer = Proxied reply | GatewayError int string string | NotFound

definition modifyResponse :: "reply option \<Rightarrow> gateway_answer" where
  "modifyResponse reply =
     (case reply of
        None \<Rightarrow> GatewayError 502 ''bad_gateway'' ''upstream service unavailable''
      | Some (status, header, body) \<Rightarrow> Proxied (status, stripCORSHeaders header, body))"

definition gatewayRoutes :: "AuthClient \<Rightarrow> (upstream \<Rightarrow> BaseRequest \<Rightarrow> 'r \<Rightarrow> 'r \<times> reply option) \<Rightarrow> BaseRequest
   \<Rightarrow> RequestContext \<Rightarrow> 'r \<Rightarrow> 'r \<times> gateway_answer" where
  "gatewayRoutes client services r ctx s =
     (case gatewayRoute client r of
        Forward up r' \<Rightarrow> (case services up r' s of (s', reply) \<Rightarrow> (s', modifyResponse reply))
      | Refuse status code message \<Rightarrow> (s, GatewayError status code message)
      | NoRoute \<Rightarrow> (s, NotFound))"

text \<open>The gateway behind the base router: CORS, trace context and rate limit come first.\<close>

definition gatewayPattern :: "BaseRequest \<Rightarrow> string" where
  "gatewayPattern r =
     (let path = route_path r in
      if HasPrefix path ''/v1/auth/'' then ''/v1/auth/*''
      else if path = ''/v1/events'' then ''/v1/events''
      else if HasPrefix path ''/v1/events/'' then ''/v1/events/*''
      else if HasPrefix path ''/v1/feed/'' then ''/v1/feed/*''
      else if HasPrefix path ''/v1/media/'' then ''/v1/media/*''
      else '''')"

definition gateway_statuses :: "gateway_answer \<Rightarrow> int list" where
  "gateway_statuses answer =
     (case answer of Proxied (status, _, _) \<Rightarrow> [status] | GatewayError status _ _ \<Rightarrow> [status] | NotFound \<Rightarrow> [404])"

definition serveGateway :: "JwtLib \<Rightarrow> GoNet \<Rightarrow> Config \<Rightarrow> 's rate_store \<Rightarrow> RequestEnv \<Rightarrow> AuthClient
   \<Rightarrow> (upstream \<Rightarrow> BaseRequest \<Rightarrow> 'r \<Rightarrow> 'r \<times> reply option) \<Rightarrow> BaseRequest \<Rightarrow> ('s \<times> Metrics) \<times> 'r
   \<Rightarrow> (('s \<times> Metrics) \<times> 'r) \<times> gateway_answer base_answer" where
  "serveGateway lib net cfg allow env client services r s =
     serveBase lib net cfg allow env \<lparr>rt_serve = gatewayRoutes client services, rt_statuses = gateway_statuses,
       rt_pattern = gatewayPattern\<rparr> r s"

section \<open>Facts\<close>

lemma sanitized_headers:
  "header_Get (bq_Header (sanitizedRequest r)) n =
     (if n = ''X-User-Id'' \<or> n = ''X-User-Role'' then '''' else header_Get (bq_Header r) n)"
  by (simp add: sanitizedRequest_def)

lemma gatewayBearerToken_eq: "gatewayBearerToken r = BearerToken (header_Get (bq_Header r) ''Authorization'')"
  by (simp add: gatewayBearerToken_def BearerToken_def)

text \<open>The user that the auth service confirms for a request.\<close>

definition confirmed :: "AuthClient \<Rightarrow> BaseRequest \<Rightarrow> bool" where
  "confirmed client r \<longleftrightarrow> (\<exists>token status body i role.
     BearerToken (header_Get (bq_Header r) ''Authorization'') = Some token \<and>
     au_me client token = Some (status, body) \<and> 200 \<le> status \<and> status < 300 \<and>
     au_decode client body = Some (i, role) \<and> TrimSpace i \<noteq> '''' \<and> ValidRole (NormalizeRole role))"

lemma requirePrincipal_confirmed: "requirePrincipal client r = Inr user \<Longrightarrow> confirmed client r"
  unfolding requirePrincipal_def gatewayBearerToken_eq authenticate_def confirmed_def
  by (auto simp: Let_def split: option.splits prod.splits if_splits)

end
