(* ===== verification/GatewayProps.thy ===== *)
theory GatewayProps imports Gateway RateLimitProps begin

text \<open>What passes the gateway.\<close>

section \<open>Requests that reach a service\<close>

text \<open>Reads that need no user: the listing and one event, the feed, media, and everything of the auth service.\<close>

definition open_route :: "upstream \<Rightarrow> BaseRequest \<Rightarrow> bool" where
  "open_route up r \<longleftrightarrow> up = AuthUpstream \<or> up = FeedUpstream \<or> bq_Method r = ''GET'' \<and>
     (up = EventUpstream \<longrightarrow> CHR ''/'' \<notin> set (Trim (TrimPrefix (bq_Path r) ''/v1/events'') ''/''))"

lemma gatewayRoute_forward:
  assumes "gatewayRoute client r = Forward up r'"
  shows "r' = sanitizedRequest r \<and> (open_route up r \<or> confirmed client r)"
proof -
  have refuse: "writeGatewayAuthError err \<noteq> Forward up r'" for err
    by (simp add: writeGatewayAuthError_def split: gateway_error.split)
  show ?thesis
    using assms refuse requirePrincipal_confirmed [of client r]
    by (auto simp: gatewayRoute_def proxyAuth_def proxyPublic_def proxyEvents_def proxyMedia_def open_route_def
        requestWithPrincipal_def eventAuthMode_def Let_def split: if_splits authMode.splits option.splits sum.splits)
qed

lemma serveBase_cases:
  assumes "serveBase lib net cfg allow env routes r (c, s) = ((c', s'), answer)"
  shows "bq_Method r \<noteq> ''OPTIONS'' \<and> snd (rateLimitMiddleware lib net cfg allow (rq_now env) (limited_view r) c) = PassOn \<and>
      (\<exists>ctx h a. rt_serve routes r ctx s = (s', a) \<and> answer = Routed h a) \<or>
    s' = s \<and> (\<forall>h a. answer \<noteq> Routed h a)"
proof (cases "bq_Method r = ''OPTIONS''")
  case True
  then show ?thesis using assms by (auto simp: serveBase_def serveObserved_def Let_def)
next
  case False
  obtain ctx traced where mid: "observabilityMiddleware (bq_Header r) (rq_correlationID env) (rq_traceParent env) = (ctx, traced)"
    by (metis surj_pair)
  let ?h = "corsHeaders cfg (header_Get (bq_Header r) ''Origin'') @ traced"
  obtain c1 s1 a pattern where below: "serveLimited lib net cfg allow env routes r ctx ?h (c, s) = ((c1, s1), a, pattern)"
    by (metis surj_pair)
  have "s' = s1" "answer = a" using assms False mid below by (auto simp: serveBase_def serveObserved_def Let_def split: prod.splits)
  then show ?thesis using serveLimited_cases [OF below surjective_pairing] False by blast
qed

lemma gatewayRoutes_cases:
  assumes "gatewayRoutes client services r ctx s = (s', a)"
  shows "(\<exists>up r'. gatewayRoute client r = Forward up r' \<and> fst (services up r' s) = s' \<and>
      a = modifyResponse (snd (services up r' s))) \<or>
    s' = s \<and> (\<forall>reply. a \<noteq> Proxied reply)"
proof (cases "gatewayRoute client r")
  case (Forward up r')
  then show ?thesis using assms by (cases "services up r' s") (auto simp: gatewayRoutes_def)
qed (use assms in \<open>auto simp: gatewayRoutes_def\<close>)

text \<open>
  C4: whatever the client sends, the proxies of the services behind the gateway are called only for a
  request that is neither a preflight nor over its rate limit, and are given the same method, path,
  body and header fields but for the two identity fields, which are gone; a call of the event service that is not a public
  read, and a call of the media service that is not a read, is made only when the auth service has
  confirmed the bearer token of the request as that of a user with a known role. A request that reaches
  no service changes none.
\<close>

theorem gateway_guards_services:
  assumes "serveGateway lib net cfg allow env client services r (c, s) = ((c', s'), answer)"
  shows "(\<exists>up r' h. fst (services up r' s) = s' \<and> answer = Routed h (modifyResponse (snd (services up r' s))) \<and>
      bq_Method r \<noteq> ''OPTIONS'' \<and> snd (rateLimitMiddleware lib net cfg allow (rq_now env) (limited_view r) c) = PassOn \<and>
      bq_Method r' = bq_Method r \<and> bq_Path r' = bq_Path r \<and> bq_RawPath r' = bq_RawPath r \<and> bq_Body r' = bq_Body r \<and>
      (\<forall>n. header_Get (bq_Header r') n =
         (if n = ''X-User-Id'' \<or> n = ''X-User-Role'' then '''' else header_Get (bq_Header r) n)) \<and>
      (open_route up r \<or> confirmed client r)) \<or>
    s' = s \<and> (\<forall>h status header body. answer \<noteq> Routed h (Proxied (status, header, body)))"
proof -
  note base = serveBase_cases [OF assms [unfolded serveGateway_def], unfolded Routes.select_convs]
  show ?thesis
  proof (cases "\<exists>up r' h. gatewayRoute client r = Forward up r' \<and> fst (services up r' s) = s' \<and>
      answer = Routed h (modifyResponse (snd (services up r' s))) \<and>
      bq_Method r \<noteq> ''OPTIONS'' \<and> snd (rateLimitMiddleware lib net cfg allow (rq_now env) (limited_view r) c) = PassOn")
    case True
    then obtain up r' h where fwd: "gatewayRoute client r = Forward up r'" and
      call: "fst (services up r' s) = s'" "answer = Routed h (modifyResponse (snd (services up r' s)))"
        "bq_Method r \<noteq> ''OPTIONS''" "snd (rateLimitMiddleware lib net cfg allow (rq_now env) (limited_view r) c) = PassOn" by blast
    have r': "r' = sanitizedRequest r" "open_route up r \<or> confirmed client r"
      using gatewayRoute_forward [OF fwd] by simp_all
    have "bq_Method r' = bq_Method r \<and> bq_Path r' = bq_Path r \<and> bq_RawPath r' = bq_RawPath r \<and> bq_Body r' = bq_Body r"
      by (simp add: r'(1) sanitizedRequest_def)
    then show ?thesis using call r'(2) sanitized_headers [of r] unfolding r'(1) by blast
  next
    case False
    then show ?thesis using base gatewayRoutes_cases [of client services r _ s s'] by blast
  qed
qed

section \<open>An instance\<close>

text \<open>A client without a token that claims to be somebody: the listing is read without the claim.\<close>

definition ex_listing :: BaseRequest where
  "ex_listing = \<lparr>bq_Method = ''GET'', bq_Path = ''/v1/events'', bq_RawPath = '''', bq_RemoteAddr = ''10.0.0.1:5000'',
     bq_Header = [(''X-User-Id'', ''u1''), (''Accept'', ''application/json'')], bq_Body = ''''\<rparr>"

definition ex_services :: "upstream \<Rightarrow> BaseRequest \<Rightarrow> BaseRequest list \<Rightarrow> BaseRequest list \<times> reply option" where
  "ex_services up r log = (log @ [r], Some (200, [], ''events''))"

definition ex_auth_client :: AuthClient where
  "ex_auth_client = \<lparr>au_me = (\<lambda>token. None), au_decode = (\<lambda>body. None)\<rparr>"

definition ex_env :: RequestEnv where
  "ex_env = \<lparr>rq_now = 5 * second, rq_elapsed = 1000000, rq_correlationID = ''cid'', rq_traceParent = ''tp'',
     rq_formatSum = (\<lambda>_. ''0'')\<rparr>"

theorem gateway_guards_services_witness:
  "\<exists>cfg c' s' answer r'. Load ex_net ''feed-service'' None = Inr cfg \<and>
     serveGateway ex_jwt ex_net cfg memoryAllow ex_env ex_auth_client ex_services ex_listing (([], emptyMetrics), []) =
       ((c', s'), answer) \<and>
     s' = [r'] \<and> header_Get (bq_Header r') ''X-User-Id'' = '''' \<and> header_Get (bq_Header r') ''Accept'' = ''application/json''"
proof -
  obtain cfg where cfg: "Load ex_net ''feed-service'' None = Inr cfg" "cf_RateLimitEnabled cfg"
    "cf_RateLimitWindow cfg = minute" "cf_RateLimitRequests cfg = 600" by (rule ex_load)
  obtain c' s' answer where run: "serveGateway ex_jwt ex_net cfg memoryAllow ex_env ex_auth_client ex_services
      ex_listing (([], emptyMetrics), []) = ((c', s'), answer)" by (metis surj_pair)
  have "\<exists>c1. rateLimitMiddleware ex_jwt ex_net cfg memoryAllow (5 * second) (limited_view ex_listing) ([], emptyMetrics) =
      (c1, PassOn)"
    using cfg(2-4) by (simp add: rateLimitMiddleware_def rateLimitDecisionFor_def skipRateLimit_def limited_view_def
        ex_listing_def rateLimitScope_def memoryAllow_def next_bucket_def duration_defs Let_def)
  then obtain c1 where pass: "rateLimitMiddleware ex_jwt ex_net cfg memoryAllow (5 * second) (limited_view ex_listing)
      ([], emptyMetrics) = (c1, PassOn)" by blast
  have "gatewayRoute ex_auth_client ex_listing = Forward EventUpstream (sanitizedRequest ex_listing)"
    by (simp add: gatewayRoute_def ex_listing_def route_path_def HasPrefix_def proxyEvents_def eventAuthMode_def
        TrimPrefix_def Trim_def)
  moreover obtain ctx traced where mid: "observabilityMiddleware (bq_Header ex_listing) ''cid'' ''tp'' = (ctx, traced)"
    by (metis surj_pair)
  ultimately have called: "s' \<noteq> []"
    using run pass by (cases c1) (auto simp: serveGateway_def serveBase_def serveObserved_def serveLimited_def gatewayRoutes_def ex_services_def
      ex_env_def Let_def route_path_def ex_listing_def split: if_splits prod.splits)
  from gateway_guards_services [OF run] called obtain r' where
    "s' = [r']" "\<forall>n. header_Get (bq_Header r') n = (if n = ''X-User-Id'' \<or> n = ''X-User-Role'' then ''''
      else header_Get (bq_Header ex_listing) n)"
    by (auto simp: ex_services_def)
  then show ?thesis using cfg(1) run
    by (intro exI [of _ cfg] exI [of _ c'] exI [of _ s'] exI [of _ answer] exI [of _ r'])
      (simp add: ex_listing_def header_Get_def)
qed

section \<open>Counters\<close>

text \<open>
  C22: behind the base router, whatever the requests of a server are and whatever its routes and its
  store of windows do: the counters stay maps in which every histogram has as many observations as the
  counter of its label and in each bucket those within its bound; the counters of requests add up to
  the requests that were no preflight, and those of refusals to the answers 429.
\<close>

theorem every_request_counted:
  assumes "base_run lib net cfg allow routes ((c, emptyMetrics), s) requests = (((c', m'), s'), answers)"
  shows "metrics_inv m' \<and>
    total (mt_httpRequests m') = int (length (filter (\<lambda>(env, r). bq_Method r \<noteq> ''OPTIONS'') requests)) \<and>
    total (mt_rateLimitedRequests m') = int (length (filter refusal answers))"
proof -
  have "total (mt_httpRequests emptyMetrics) = 0" "total (mt_rateLimitedRequests emptyMetrics) = 0"
    by (simp_all add: total_def emptyMetrics_def)
  then show ?thesis using base_run_counts [OF assms metrics_inv_empty] by simp
qed

definition ex_preflight :: BaseRequest where
  "ex_preflight = ex_listing\<lparr>bq_Method := ''OPTIONS''\<rparr>"

theorem every_request_counted_witness:
  "\<exists>cfg c m s answers. base_run ex_jwt ex_net cfg memoryAllow \<lparr>rt_serve = gatewayRoutes ex_auth_client ex_services,
       rt_statuses = gateway_statuses, rt_pattern = gatewayPattern\<rparr> (([], emptyMetrics), [])
       [(ex_env, ex_preflight), (ex_env, ex_listing), (ex_env, ex_listing)] = (((c, m), s), answers) \<and>
     Load ex_net ''feed-service'' None = Inr cfg \<and> total (mt_httpRequests m) = 2"
proof -
  obtain cfg where cfg: "Load ex_net ''feed-service'' None = Inr cfg" by (rule ex_load)
  let ?routes = "\<lparr>rt_serve = gatewayRoutes ex_auth_client ex_services, rt_statuses = gateway_statuses,
    rt_pattern = gatewayPattern\<rparr>"
  let ?requests = "[(ex_env, ex_preflight), (ex_env, ex_listing), (ex_env, ex_listing)]"
  obtain c m s answers where run: "base_run ex_jwt ex_net cfg memoryAllow ?routes (([], emptyMetrics), []) ?requests =
      (((c, m), s), answers)" by (metis surj_pair)
  have "total (mt_httpRequests m) = 2"
    using every_request_counted [OF run] by (simp add: ex_preflight_def ex_listing_def)
  then show ?thesis using cfg run by blast
qed

end
