(* ===== verification/Feed.thy ===== *)
theory Feed imports FeedProjection GoUrl "HOL-Library.Product_Lexorder" begin

text \<open>
  \<^verbatim>\<open>internal/services/feed\<close>: the listing and the detail of published events, read from the table that
  the projection keeps, behind a cache of encoded answers. The JSON codec is a parameter; the fields
  of \<^verbatim>\<open>feed.Event\<close> are those of the projection's row.
\<close>

definition DefaultLimit :: int where "DefaultLimit = 20"
definition MaxLimit :: int where "MaxLimit = 100"

datatype feed_error = ErrFeedNotFound | ErrFeedStore

record FeedQuery =
  fq_City :: string
  fq_Limit :: int
  fq_Offset :: int

definition NormalizeQuery :: "FeedQuery \<Rightarrow> FeedQuery" where
  "NormalizeQuery query =
     (let q1 = query\<lparr>fq_City := TrimSpace (fq_City query)\<rparr>;
          q2 = (if fq_Limit q1 \<le> 0 then q1\<lparr>fq_Limit := DefaultLimit\<rparr> else q1);
          q3 = (if fq_Limit q2 > MaxLimit then q2\<lparr>fq_Limit := MaxLimit\<rparr> else q2)
      in if fq_Offset q3 < 0 then q3\<lparr>fq_Offset := 0\<rparr> else q3)"

section \<open>Repositories\<close>

text \<open>\<^verbatim>\<open>ORDER BY starts_at ASC NULLS LAST, event_id ASC\<close>.\<close>

definition feed_order :: "FeedEvent \<Rightarrow> bool \<times> time \<times> string" where
  "feed_order e = (f_StartsAt e = None, (case f_StartsAt e of None \<Rightarrow> 0 | Some t \<Rightarrow> t), f_EventID e)"

definition listed :: "string \<Rightarrow> FeedEvent \<Rightarrow> bool" where
  "listed city e \<longleftrightarrow> f_Status e = ''PUBLISHED'' \<and> (city = '''' \<or> f_City e = city)"

definition pgListFeed :: "faults \<Rightarrow> FeedQuery \<Rightarrow> FeedDB \<Rightarrow> feed_error + FeedEvent list" where
  "pgListFeed fs q d =
     (let query = NormalizeQuery q in
      fst (tx_query ErrFeedStore
        (\<lambda>d. take (nat (fq_Limit query)) (drop (nat (fq_Offset query))
           (sort_key feed_order (filter (listed (fq_City query)) (mvals (fd_events d)))))) fs d))"

definition pgGetFeed :: "faults \<Rightarrow> string \<Rightarrow> FeedDB \<Rightarrow> feed_error + FeedEvent" where
  "pgGetFeed fs eventID d =
     fst (tx_bind (tx_query ErrFeedStore (\<lambda>d. map_of (fd_events d) (TrimSpace eventID))) (\<lambda>row.
       case row of
         Some e \<Rightarrow> if f_Status e = ''PUBLISHED'' then tx_return e else tx_fail ErrFeedNotFound
       | None \<Rightarrow> tx_fail ErrFeedNotFound) fs d)"

type_synonym MemoryFeed = "(string, FeedEvent) gomap"

definition NewMemoryFeed :: "FeedEvent list \<Rightarrow> MemoryFeed" where
  "NewMemoryFeed events = fold (\<lambda>e m. mput (f_EventID e) e m) events []"

text \<open>The comparison that \<^verbatim>\<open>sort.Slice\<close> is given.\<close>

definition feed_less :: "FeedEvent \<Rightarrow> FeedEvent \<Rightarrow> bool" where
  "feed_less left right =
     (case (f_StartsAt left, f_StartsAt right) of
        (None, Some _) \<Rightarrow> False
      | (Some _, None) \<Rightarrow> True
      | (Some t, Some u) \<Rightarrow> if t \<noteq> u then t < u else f_EventID left < f_EventID right
      | (None, None) \<Rightarrow> f_EventID left < f_EventID right)"

text \<open>Sorting by the comparison, which orders the events of a map completely.\<close>

fun insert_by :: "('a \<Rightarrow> 'a \<Rightarrow> bool) \<Rightarrow> 'a \<Rightarrow> 'a list \<Rightarrow> 'a list" where
  "insert_by lt x [] = [x]"
| "insert_by lt x (y # ys) = (if lt y x then y # insert_by lt x ys else x # y # ys)"

definition sort_by :: "('a \<Rightarrow> 'a \<Rightarrow> bool) \<Rightarrow> 'a list \<Rightarrow> 'a list" where
  "sort_by lt xs = foldr (insert_by lt) xs []"

definition memListFeed :: "FeedQuery \<Rightarrow> MemoryFeed \<Rightarrow> feed_error + FeedEvent list" where
  "memListFeed q r =
     (let query = NormalizeQuery q;
          events = sort_by feed_less (filter (\<lambda>e. f_Status e = ''PUBLISHED'' \<and>
            \<not> (fq_City query \<noteq> '''' \<and> f_City e \<noteq> fq_City query)) (mvals r));
          n = int (length events)
      in if fq_Offset query \<ge> n then Inr []
         else (let last = (if fq_Offset query + fq_Limit query > n then n else fq_Offset query + fq_Limit query)
               in Inr (take (nat (last - fq_Offset query)) (drop (nat (fq_Offset query)) events))))"

definition memGetFeed :: "string \<Rightarrow> MemoryFeed \<Rightarrow> feed_error + FeedEvent" where
  "memGetFeed eventID r =
     (case map_of r (TrimSpace eventID) of
        None \<Rightarrow> Inl ErrFeedNotFound
      | Some e \<Rightarrow> if f_Status e \<noteq> ''PUBLISHED'' then Inl ErrFeedNotFound else Inr e)"

section \<open>Cache\<close>

definition cacheTTL :: duration where "cacheTTL = 30 * second"

definition listCacheKey :: "FeedQuery \<Rightarrow> string" where
  "listCacheKey q =
     (let query = NormalizeQuery q in
      ''feed:v1:list:city='' @ QueryEscape (ToLower (fq_City query)) @ '':limit='' @ Itoa (fq_Limit query) @
      '':offset='' @ Itoa (fq_Offset query))"

definition detailCacheKey :: "string \<Rightarrow> string" where
  "detailCacheKey eventID = ''feed:v1:detail:'' @ PathEscape (TrimSpace eventID)"

text \<open>
  The interface \<^verbatim>\<open>Cache\<close> on encoded values: a \<open>Get\<close> gives none, a value or an error; a \<open>Set\<close> may fail, which
  the service ignores.
\<close>

record 'c FeedCache =
  fc_Get :: "string \<Rightarrow> 'c \<Rightarrow> 'c \<times> (string + string option)"
  fc_Set :: "string \<Rightarrow> string \<Rightarrow> duration \<Rightarrow> 'c \<Rightarrow> 'c"

record FeedCodec =
  co_events :: "FeedEvent list \<Rightarrow> string"
  co_of_events :: "string \<Rightarrow> FeedEvent list option"
  co_event :: "FeedEvent \<Rightarrow> string"
  co_of_event :: "string \<Rightarrow> FeedEvent option"

record FeedMemoryCache =
  ca_values :: "(string, string) gomap"
  ca_err :: "string option"
  ca_gets :: int
  ca_sets :: int

definition memCacheGet :: "string \<Rightarrow> FeedMemoryCache \<Rightarrow> FeedMemoryCache \<times> (string + string option)" where
  "memCacheGet key c =
     (let c' = c\<lparr>ca_gets := ca_gets c + 1\<rparr>
      in (c', case ca_err c of Some err \<Rightarrow> Inl err | None \<Rightarrow> Inr (map_of (ca_values c) key)))"

definition memCacheSet :: "string \<Rightarrow> string \<Rightarrow> duration \<Rightarrow> FeedMemoryCache \<Rightarrow> FeedMemoryCache" where
  "memCacheSet key raw ttl c =
     (let c' = c\<lparr>ca_sets := ca_sets c + 1\<rparr>
      in case ca_err c of Some _ \<Rightarrow> c' | None \<Rightarrow> c'\<lparr>ca_values := mput key raw (ca_values c)\<rparr>)"

definition memoryCache :: "FeedMemoryCache FeedCache" where
  "memoryCache = \<lparr>fc_Get = memCacheGet, fc_Set = memCacheSet\<rparr>"

text \<open>
  Redis at an instant, with the commands \<^verbatim>\<open>GET\<close> and \<^verbatim>\<open>SET\<close> with an expiry as they are documented; a key that
  has expired is not found. \<open>fault\<close> is the error that the client meets.
\<close>

type_synonym redis_values = "(string, string \<times> time) gomap"

definition redisCache :: "time \<Rightarrow> string option \<Rightarrow> redis_values FeedCache" where
  "redisCache now fault =
     \<lparr>fc_Get = (\<lambda>key c. (c, case fault of Some err \<Rightarrow> Inl err
        | None \<Rightarrow> Inr (case map_of c key of Some (raw, until) \<Rightarrow> if now < until then Some raw else None | None \<Rightarrow> None))),
      fc_Set = (\<lambda>key raw ttl c. if fault \<noteq> None then c else mput key (raw, now + ttl) c)\<rparr>"

section \<open>Service\<close>

text \<open>
  An error of the cache, or a value that does not decode, counts as a miss. The repository is what
  answers a query; without a cache it is asked at once.
\<close>

definition cache_lookup :: "'c FeedCache \<Rightarrow> (string \<Rightarrow> 'a option) \<Rightarrow> string \<Rightarrow> 'c \<Rightarrow> 'c \<times> 'a option" where
  "cache_lookup cache decode key c =
     (case fc_Get cache key c of
        (c', Inr (Some raw)) \<Rightarrow> (c', decode raw)
      | (c', _) \<Rightarrow> (c', None))"

definition feedListEvents :: "FeedCodec \<Rightarrow> 'c FeedCache option \<Rightarrow> (FeedQuery \<Rightarrow> feed_error + FeedEvent list)
   \<Rightarrow> FeedQuery \<Rightarrow> 'c \<Rightarrow> 'c \<times> (feed_error + FeedEvent list)" where
  "feedListEvents codec cache repo q c =
     (let query = NormalizeQuery q; key = listCacheKey query in
      case cache of
        None \<Rightarrow> (c, repo query)
      | Some k \<Rightarrow>
          (case cache_lookup k (co_of_events codec) key c of
             (c', Some events) \<Rightarrow> (c', Inr events)
           | (c', None) \<Rightarrow>
               (case repo query of
                  Inl err \<Rightarrow> (c', Inl err)
                | Inr events \<Rightarrow> (fc_Set k key (co_events codec events) cacheTTL c', Inr events))))"

definition feedGetEvent :: "FeedCodec \<Rightarrow> 'c FeedCache option \<Rightarrow> (string \<Rightarrow> feed_error + FeedEvent)
   \<Rightarrow> string \<Rightarrow> 'c \<Rightarrow> 'c \<times> (feed_error + FeedEvent)" where
  "feedGetEvent codec cache repo i c =
     (let eventID = TrimSpace i; key = detailCacheKey eventID in
      case cache of
        None \<Rightarrow> (c, repo eventID)
      | Some k \<Rightarrow>
          (case cache_lookup k (co_of_event codec) key c of
             (c', Some event) \<Rightarrow> (c', Inr event)
           | (c', None) \<Rightarrow>
               (case repo eventID of
                  Inl err \<Rightarrow> (c', Inl err)
                | Inr event \<Rightarrow> (fc_Set k key (co_event codec event) cacheTTL c', Inr event))))"

section \<open>Requests\<close>

definition parseOptionalInt :: "string \<Rightarrow> int \<Rightarrow> int option" where
  "parseOptionalInt value fallback =
     (let v = TrimSpace value in if v = '''' then Some fallback else Atoi v)"

text \<open>\<open>values\<close> is \<^verbatim>\<open>r.URL.Query().Get\<close>.\<close>

definition parseFeedQuery :: "(string \<Rightarrow> string) \<Rightarrow> string + FeedQuery" where
  "parseFeedQuery values =
     (case parseOptionalInt (values ''limit'') DefaultLimit of
        None \<Rightarrow> Inl ''limit must be an integer''
      | Some limit \<Rightarrow>
     (case parseOptionalInt (values ''offset'') 0 of
        None \<Rightarrow> Inl ''offset must be an integer''
      | Some offset \<Rightarrow>
          if limit < 0 then Inl ''limit must be non-negative''
          else if offset < 0 then Inl ''offset must be non-negative''
          else Inr (NormalizeQuery \<lparr>fq_City = TrimSpace (values ''city''), fq_Limit = limit, fq_Offset = offset\<rparr>)))"

datatype feed_body = FeedEventsBody "FeedEvent list" | FeedEventBody FeedEvent | FeedErrorBody string string

definition writeFeedError :: "feed_error \<Rightarrow> int \<times> feed_body" where
  "writeFeedError err =
     (case err of
        ErrFeedNotFound \<Rightarrow> (404, FeedErrorBody ''not_found'' ''resource not found'')
      | _ \<Rightarrow> (500, FeedErrorBody ''internal'' ''internal server error''))"

datatype feed_request = ListFeed "string \<Rightarrow> string" | GetFeed string

definition listFeed_handler :: "FeedCodec \<Rightarrow> 'c FeedCache option \<Rightarrow> (FeedQuery \<Rightarrow> feed_error + FeedEvent list)
   \<Rightarrow> (string \<Rightarrow> string) \<Rightarrow> 'c \<Rightarrow> 'c \<times> int \<times> feed_body" where
  "listFeed_handler codec cache repo values c =
     (case parseFeedQuery values of
        Inl err \<Rightarrow> (c, (400, FeedErrorBody ''invalid_query'' err))
      | Inr query \<Rightarrow>
          (case feedListEvents codec cache repo query c of
             (c', Inl err) \<Rightarrow> (c', writeFeedError err)
           | (c', Inr events) \<Rightarrow> (c', (200, FeedEventsBody events))))"

definition getFeed_handler :: "FeedCodec \<Rightarrow> 'c FeedCache option \<Rightarrow> (string \<Rightarrow> feed_error + FeedEvent)
   \<Rightarrow> string \<Rightarrow> 'c \<Rightarrow> 'c \<times> int \<times> feed_body" where
  "getFeed_handler codec cache repo eventID c =
     (case feedGetEvent codec cache repo eventID c of
        (c', Inl err) \<Rightarrow> (c', writeFeedError err)
      | (c', Inr event) \<Rightarrow> (c', (200, FeedEventBody event)))"

definition serveFeed :: "FeedCodec \<Rightarrow> 'c FeedCache option \<Rightarrow> faults \<Rightarrow> feed_request \<Rightarrow> FeedDB \<times> 'c
   \<Rightarrow> (FeedDB \<times> 'c) \<times> int \<times> feed_body" where
  "serveFeed codec cache fs request s =
     (case request of
        ListFeed values \<Rightarrow>
          (case listFeed_handler codec cache (\<lambda>q. pgListFeed fs q (fst s)) values (snd s) of
             (c, answer) \<Rightarrow> ((fst s, c), answer))
      | GetFeed eventID \<Rightarrow>
          (case getFeed_handler codec cache (\<lambda>i. pgGetFeed fs i (fst s)) eventID (snd s) of
             (c, answer) \<Rightarrow> ((fst s, c), answer)))"

end
