(* ===== verification/FeedProps.thy ===== *)
theory FeedProps imports Feed begin

text \<open>
  The listing of the feed: pages of one sorted list, the same from both repositories, and answers from
  the cache that are no older than its lifetime.
\<close>

section \<open>Pages\<close>

definition full_listing :: "string \<Rightarrow> FeedEvent list \<Rightarrow> FeedEvent list" where
  "full_listing city events = sort_key feed_order (filter (listed city) events)"

lemma feed_less_order: "feed_less x y \<longleftrightarrow> feed_order x < feed_order y"
  by (auto simp: feed_less_def feed_order_def less_prod_def split: option.split)

lemma sort_by_order: "sort_by feed_less xs = sort_key feed_order xs"
proof -
  have "insert_by feed_less x ys = insort_key feed_order x ys" for x ys
    by (induction ys) (auto simp: feed_less_order not_less)
  then have "insert_by feed_less = insort_key feed_order" by (intro ext)
  then show ?thesis by (simp add: sort_by_def sort_key_def)
qed

lemma NormalizeQuery_range:
  "0 < fq_Limit (NormalizeQuery q) \<and> fq_Limit (NormalizeQuery q) \<le> 100 \<and> 0 \<le> fq_Offset (NormalizeQuery q)"
  by (simp add: NormalizeQuery_def Let_def DefaultLimit_def MaxLimit_def)

lemma pgListFeed_page:
  "pgListFeed [] q d = Inr (take (nat (fq_Limit (NormalizeQuery q))) (drop (nat (fq_Offset (NormalizeQuery q)))
     (full_listing (fq_City (NormalizeQuery q)) (mvals (fd_events d)))))"
  by (simp add: pgListFeed_def tx_query_def faulty_def full_listing_def Let_def)

lemma listed_filter:
  "(\<lambda>e. f_Status e = ''PUBLISHED'' \<and> \<not> (city \<noteq> '''' \<and> f_City e \<noteq> city)) = listed city"
  by (auto simp: listed_def)

lemma memListFeed_same: "memListFeed q (fd_events d) = pgListFeed [] q d"
proof -
  let ?q = "NormalizeQuery q"
  let ?es = "full_listing (fq_City ?q) (mvals (fd_events d))"
  have r: "0 < fq_Limit ?q" "0 \<le> fq_Offset ?q" using NormalizeQuery_range [of q] by auto
  have es: "sort_by feed_less (filter (\<lambda>e. f_Status e = ''PUBLISHED'' \<and>
      \<not> (fq_City ?q \<noteq> '''' \<and> f_City e \<noteq> fq_City ?q)) (mvals (fd_events d))) = ?es"
    unfolding listed_filter sort_by_order full_listing_def ..
  show ?thesis
  proof (cases "fq_Offset ?q \<ge> int (length ?es)")
    case True
    then show ?thesis unfolding memListFeed_def pgListFeed_page es Let_def by simp
  next
    case False
    let ?o = "nat (fq_Offset ?q)" and ?l = "nat (fq_Limit ?q)"
    have "take (nat ((if fq_Offset ?q + fq_Limit ?q > int (length ?es) then int (length ?es)
        else fq_Offset ?q + fq_Limit ?q) - fq_Offset ?q)) (drop ?o ?es) = take ?l (drop ?o ?es)"
    proof (cases "fq_Offset ?q + fq_Limit ?q > int (length ?es)")
      case True
      then have "length (drop ?o ?es) \<le> ?l" using r by simp
      moreover have "length (drop ?o ?es) \<le> nat (int (length ?es) - fq_Offset ?q)" using r by simp
      ultimately show ?thesis using True by simp
    qed simp
    then show ?thesis using False unfolding memListFeed_def pgListFeed_page es Let_def by simp
  qed
qed

lemma memGetFeed_same: "memGetFeed i (fd_events d) = pgGetFeed [] i d"
  by (simp add: memGetFeed_def pgGetFeed_def tx_bind_def tx_simps split: option.split)

lemma concat_pages: "concat (map (\<lambda>i. take l (drop (i * l) xs)) [0..<n]) = take (n * l) xs"
proof (induction n)
  case (Suc n)
  then show ?case by (simp add: take_add [symmetric] add.commute)
qed simp

text \<open>The page of a query with a limit that needs no correction.\<close>

lemma page_of:
  assumes "0 < l" "l \<le> 100" "TrimSpace city = city"
  shows "pgListFeed [] \<lparr>fq_City = city, fq_Limit = int l, fq_Offset = int (i * l)\<rparr> d =
    Inr (take l (drop (i * l) (full_listing city (mvals (fd_events d)))))"
proof -
  have "NormalizeQuery \<lparr>fq_City = city, fq_Limit = int l, fq_Offset = int (i * l)\<rparr> =
      \<lparr>fq_City = city, fq_Limit = int l, fq_Offset = int (i * l)\<rparr>"
    using assms by (simp add: NormalizeQuery_def Let_def DefaultLimit_def MaxLimit_def mult_less_0_iff)
  moreover have "nat (int i * int l) = i * l" by (metis nat_int of_nat_mult)
  ultimately show ?thesis by (simp add: pgListFeed_page)
qed

text \<open>
  C7: the pages of a listing are cut from one list: the published events of the city, those without a
  start last, the others by their start and then their id. Page after page gives that list once and in
  order, no page is longer than its limit, and the in-memory repository answers every query the same.
\<close>

theorem feed_pages:
  assumes "0 < l" and "l \<le> 100" and "TrimSpace city = city"
  shows "concat (map (\<lambda>i. projr (pgListFeed [] \<lparr>fq_City = city, fq_Limit = int l, fq_Offset = int (i * l)\<rparr> d)) [0..<n]) =
      take (n * l) (full_listing city (mvals (fd_events d))) \<and>
    sorted (map feed_order (full_listing city (mvals (fd_events d)))) \<and>
    mset (full_listing city (mvals (fd_events d))) =
      filter_mset (\<lambda>e. f_Status e = ''PUBLISHED'' \<and> (city = '''' \<or> f_City e = city)) (mset (mvals (fd_events d))) \<and>
    (\<forall>q. memListFeed q (fd_events d) = pgListFeed [] q d \<and>
      (\<forall>events. pgListFeed [] q d = Inr events \<longrightarrow> length events \<le> 100))"
proof (intro conjI allI impI)
  show "concat (map (\<lambda>i. projr (pgListFeed [] \<lparr>fq_City = city, fq_Limit = int l, fq_Offset = int (i * l)\<rparr> d)) [0..<n]) =
      take (n * l) (full_listing city (mvals (fd_events d)))"
    unfolding page_of [OF assms] by (simp add: concat_pages)
  show "sorted (map feed_order (full_listing city (mvals (fd_events d))))"
    by (simp add: full_listing_def)
  show "mset (full_listing city (mvals (fd_events d))) =
      filter_mset (\<lambda>e. f_Status e = ''PUBLISHED'' \<and> (city = '''' \<or> f_City e = city)) (mset (mvals (fd_events d)))"
    by (simp add: full_listing_def listed_def [abs_def])
  show "memListFeed q (fd_events d) = pgListFeed [] q d" for q by (rule memListFeed_same)
  show "length events \<le> 100" if "pgListFeed [] q d = Inr events" for q events
    using that NormalizeQuery_range [of q] by (auto simp: pgListFeed_page)
qed

definition ex_feed_event :: "string \<Rightarrow> string \<Rightarrow> time option \<Rightarrow> FeedEvent" where
  "ex_feed_event i city at = \<lparr>f_EventID = i, f_Title = ''t'', f_City = city, f_Venue = '''', f_StartsAt = at,
     f_Capacity = 5, f_Status = ''PUBLISHED'', f_ConfirmedCount = 0, f_UpdatedAt = 0\<rparr>"

definition ex_feed :: FeedDB where
  "ex_feed = \<lparr>fd_events = [(''a'', ex_feed_event ''a'' ''Paris'' None), (''b'', ex_feed_event ''b'' ''Paris'' (Some 9)),
     (''c'', ex_feed_event ''c'' ''Lyon'' (Some 1))], fd_processed = []\<rparr>"

lemma ex_full_listing:
  "full_listing ''Paris'' (mvals (fd_events ex_feed)) = [ex_feed_event ''b'' ''Paris'' (Some 9), ex_feed_event ''a'' ''Paris'' None]"
  by (simp add: full_listing_def ex_feed_def ex_feed_event_def listed_def feed_order_def less_eq_prod_def)

theorem feed_pages_witness:
  "concat (map (\<lambda>i. projr (pgListFeed [] \<lparr>fq_City = ''Paris'', fq_Limit = int 1, fq_Offset = int (i * 1)\<rparr> ex_feed)) [0..<2]) =
   [ex_feed_event ''b'' ''Paris'' (Some 9), ex_feed_event ''a'' ''Paris'' None]"
  using feed_pages [of 1 "''Paris''" ex_feed 2] by (simp add: ex_full_listing TrimSpace_solid str_eval)

section \<open>Answers from the cache\<close>

text \<open>Queries with the same key ask for the same page, up to the case of the city.\<close>

lemma listCacheKey_inj:
  assumes "listCacheKey p = listCacheKey q"
  shows "ToLower (fq_City (NormalizeQuery p)) = ToLower (fq_City (NormalizeQuery q)) \<and>
    fq_Limit (NormalizeQuery p) = fq_Limit (NormalizeQuery q) \<and>
    fq_Offset (NormalizeQuery p) = fq_Offset (NormalizeQuery q)"
proof -
  let ?c = "\<lambda>q. QueryEscape (ToLower (fq_City (NormalizeQuery q)))"
  let ?l = "\<lambda>q. Itoa (fq_Limit (NormalizeQuery q))" and ?o = "\<lambda>q. Itoa (fq_Offset (NormalizeQuery q))"
  have r: "0 \<le> fq_Limit (NormalizeQuery q)" "0 \<le> fq_Offset (NormalizeQuery q)" for q
    using NormalizeQuery_range [of q] by auto
  have "?c p @ CHR '':'' # (''limit='' @ ?l p @ '':offset='' @ ?o p) = ?c q @ CHR '':'' # (''limit='' @ ?l q @ '':offset='' @ ?o q)"
    using assms by (simp add: listCacheKey_def Let_def)
  from split_at_first [OF this QueryEscape_no_colon QueryEscape_no_colon]
  have c: "?c p = ?c q" and rest: "?l p @ CHR '':'' # (''offset='' @ ?o p) = ?l q @ CHR '':'' # (''offset='' @ ?o q)"
    by simp_all
  from split_at_first [OF rest Itoa_no_colon [OF r(1)] Itoa_no_colon [OF r(1)]]
  have "?l p = ?l q" "?o p = ?o q" by simp_all
  then show ?thesis using QueryEscape_inj [OF c] Itoa_inj r by blast
qed

lemma keys_differ [simp]: "listCacheKey q \<noteq> detailCacheKey i"
  by (simp add: listCacheKey_def detailCacheKey_def Let_def)

text \<open>
  The service, the projection and Redis together: \<open>feed_run codec past d c\<close> holds of the table \<open>d\<close> and the
  cache \<open>c\<close> that some run reaches, \<open>past\<close> being the instants at which requests were served and the table
  each of them read.
\<close>

inductive feed_run :: "FeedCodec \<Rightarrow> (time \<times> FeedDB) list \<Rightarrow> FeedDB \<Rightarrow> redis_values \<Rightarrow> bool" for codec where
  start: "feed_run codec [] d []"
| project: "\<lbrakk>feed_run codec past d c; HandleEnvelope parse_time dbNow fs outcome envelope d = (d', result)\<rbrakk>
    \<Longrightarrow> feed_run codec past d' c"
| serve: "\<lbrakk>feed_run codec past d c; \<forall>(t, _) \<in> set past. t \<le> now;
      serveFeed codec (Some (redisCache now fault)) fs request (d, c) = ((d', c'), answer)\<rbrakk>
    \<Longrightarrow> feed_run codec ((now, d) # past) d' c'"

definition cached_ok :: "FeedCodec \<Rightarrow> (time \<times> FeedDB) list \<Rightarrow> redis_values \<Rightarrow> bool" where
  "cached_ok codec past c \<longleftrightarrow> (\<forall>q raw until. map_of c (listCacheKey q) = Some (raw, until) \<longrightarrow>
     (\<exists>p t d events. (t, d) \<in> set past \<and> until = t + cacheTTL \<and> listCacheKey p = listCacheKey q \<and>
        pgListFeed [] p d = Inr events \<and> raw = co_events codec events))"

lemma cached_ok_more: "cached_ok codec past c \<Longrightarrow> cached_ok codec (x # past) c"
  unfolding cached_ok_def by (meson list.set_intros(2))

lemma NormalizeQuery_idem [simp]: "NormalizeQuery (NormalizeQuery q) = NormalizeQuery q"
  by (simp add: NormalizeQuery_def Let_def DefaultLimit_def MaxLimit_def)

lemma pgListFeed_Inr: "pgListFeed fs q d = Inr events \<Longrightarrow> pgListFeed [] q d = Inr events"
  by (auto simp: pgListFeed_def tx_query_def faulty_def Let_def split: if_splits)

lemma listCacheKey_norm [simp]: "listCacheKey (NormalizeQuery q) = listCacheKey q"
  by (simp add: listCacheKey_def)

lemma pgListFeed_norm [simp]: "pgListFeed fs (NormalizeQuery q) d = pgListFeed fs q d"
  by (simp add: pgListFeed_def)

lemma redis_set: "fc_Set (redisCache now fault) key raw ttl c = (if fault \<noteq> None then c else mput key (raw, now + ttl) c)"
  by (simp add: redisCache_def)

text \<open>What one listing answers and leaves.\<close>

lemma feedListEvents_cases:
  assumes "feedListEvents codec (Some (redisCache now fault)) (\<lambda>q. pgListFeed fs q d) q c = (c', out)"
  shows "(c' = c \<and> (\<forall>events. out \<noteq> Inr events)) \<or>
    (\<exists>events raw until. c' = c \<and> out = Inr events \<and> map_of c (listCacheKey q) = Some (raw, until) \<and>
       now < until \<and> co_of_events codec raw = Some events) \<or>
    (\<exists>events. out = Inr events \<and> pgListFeed [] q d = Inr events \<and>
       (c' = c \<or> c' = mput (listCacheKey q) (co_events codec events, now + cacheTTL) c))"
proof -
  let ?hit = "cache_lookup (redisCache now fault) (co_of_events codec) (listCacheKey q) c"
  have hit: "fst ?hit = c" "snd ?hit = Some events \<Longrightarrow> \<exists>raw until. map_of c (listCacheKey q) = Some (raw, until) \<and>
      now < until \<and> co_of_events codec raw = Some events" for events
    by (auto simp: cache_lookup_def redisCache_def split: option.splits if_splits)
  show ?thesis
  proof (cases "snd ?hit")
    case (Some events)
    then have "?hit = (c, Some events)" using hit(1) by (simp add: prod_eq_iff)
    then show ?thesis using hit(2) [OF Some] assms by (auto simp: feedListEvents_def Let_def)
  next
    case None
    then have h: "?hit = (c, None)" using hit(1) by (simp add: prod_eq_iff)
    show ?thesis
    proof (cases "pgListFeed fs q d")
      case (Inl err)
      then show ?thesis using assms h by (auto simp: feedListEvents_def Let_def)
    next
      case (Inr events)
      have "out = Inr events" "c' = c \<or> c' = mput (listCacheKey q) (co_events codec events, now + cacheTTL) c"
        using assms h Inr by (auto simp: feedListEvents_def redis_set split: if_splits)
      then show ?thesis using pgListFeed_Inr [OF Inr] by blast
    qed
  qed
qed

lemma feedGetEvent_cases:
  assumes "feedGetEvent codec (Some (redisCache now fault)) repo i c = (c', out)"
  shows "c' = c \<or> (\<exists>v. c' = mput (detailCacheKey (TrimSpace i)) v c)"
proof -
  let ?hit = "cache_lookup (redisCache now fault) (co_of_event codec) (detailCacheKey (TrimSpace i)) c"
  have hit: "fst ?hit = c" by (auto simp: cache_lookup_def redisCache_def split: option.splits if_splits)
  show ?thesis
  proof (cases "snd ?hit")
    case (Some e)
    then have "?hit = (c, Some e)" using hit by (simp add: prod_eq_iff)
    then show ?thesis using assms by (simp add: feedGetEvent_def Let_def)
  next
    case None
    then have "?hit = (c, None)" using hit by (simp add: prod_eq_iff)
    then show ?thesis using assms redis_set [of now fault]
      by (cases "repo (TrimSpace i)") (auto simp: feedGetEvent_def Let_def split: if_splits)
  qed
qed

lemma cached_ok_put:
  assumes "cached_ok codec past c" and "pgListFeed [] q d = Inr events"
  shows "cached_ok codec ((now, d) # past) (mput (listCacheKey q) (co_events codec events, now + cacheTTL) c)"
  unfolding cached_ok_def
proof (intro allI impI)
  fix p raw until
  assume at: "map_of (mput (listCacheKey q) (co_events codec events, now + cacheTTL) c) (listCacheKey p) = Some (raw, until)"
  show "\<exists>p' t d' events. (t, d') \<in> set ((now, d) # past) \<and> until = t + cacheTTL \<and> listCacheKey p' = listCacheKey p \<and>
    pgListFeed [] p' d' = Inr events \<and> raw = co_events codec events"
  proof (cases "listCacheKey p = listCacheKey q")
    case True
    then show ?thesis using at assms(2) by (intro exI [of _ q] exI [of _ now] exI [of _ d] exI [of _ events]) simp
  next
    case False
    then show ?thesis using at cached_ok_more [OF assms(1), of "(now, d)"] unfolding cached_ok_def by simp
  qed
qed

lemma feed_run_cached: "feed_run codec past d c \<Longrightarrow> cached_ok codec past c"
proof (induction rule: feed_run.induct)
  case (serve past d c now fault fs request d' c' answer)
  show ?case
  proof (cases request)
    case (ListFeed vals)
    show ?thesis
    proof (cases "parseFeedQuery vals")
      case (Inl err)
      then have "c' = c" using serve.hyps(3) by (simp add: ListFeed serveFeed_def listFeed_handler_def)
      then show ?thesis using cached_ok_more [OF serve.IH] by simp
    next
      case (Inr q)
      obtain out where "feedListEvents codec (Some (redisCache now fault)) (\<lambda>q. pgListFeed fs q d) q c = (c', out)"
        using serve.hyps(3) Inr by (auto simp: ListFeed serveFeed_def listFeed_handler_def split: prod.splits sum.splits)
      from feedListEvents_cases [OF this] show ?thesis
        using cached_ok_more [OF serve.IH] cached_ok_put [OF serve.IH] by blast
    qed
  next
    case (GetFeed i)
    obtain out where "feedGetEvent codec (Some (redisCache now fault)) (\<lambda>i. pgGetFeed fs i d) i c = (c', out)"
      using serve.hyps(3) by (auto simp: GetFeed serveFeed_def getFeed_handler_def split: prod.splits sum.splits)
    from feedGetEvent_cases [OF this] show ?thesis
      using cached_ok_more [OF serve.IH] by (auto simp: cached_ok_def)
  qed
qed (simp_all add: cached_ok_def)


definition ex_codec :: FeedCodec where
  "ex_codec = \<lparr>co_events = (\<lambda>es. if es = [ex_feed_event ''b'' ''Paris'' (Some 9), ex_feed_event ''a'' ''Paris'' None]
       then ''two'' else ''''),
     co_of_events = (\<lambda>raw. if raw = ''two''
       then Some [ex_feed_event ''b'' ''Paris'' (Some 9), ex_feed_event ''a'' ''Paris'' None] else None),
     co_event = (\<lambda>_. ''''), co_of_event = (\<lambda>_. None)\<rparr>"

definition ex_city :: "string \<Rightarrow> string \<Rightarrow> string" where
  "ex_city city key = (if key = ''city'' then city else '''')"

definition ex_page :: "string \<Rightarrow> FeedQuery" where
  "ex_page city = \<lparr>fq_City = city, fq_Limit = 20, fq_Offset = 0\<rparr>"

definition ex_cached :: redis_values where
  "ex_cached = [(listCacheKey (ex_page ''Paris''), (''two'', 30 * second))]"

lemma ex_page_norm: "solid_ends city \<Longrightarrow> NormalizeQuery (ex_page city) = ex_page city"
  by (simp add: NormalizeQuery_def ex_page_def DefaultLimit_def MaxLimit_def TrimSpace_solid)

lemma ex_parse: "solid_ends city \<Longrightarrow> parseFeedQuery (ex_city city) = Inr (ex_page city)"
  using ex_page_norm [of city]
  by (simp add: parseFeedQuery_def ex_city_def parseOptionalInt_def DefaultLimit_def TrimSpace_solid ex_page_def)

lemma ex_solid: "solid_ends ''Paris''" "solid_ends ''paris''"
  by (simp_all add: str_eval)

lemma ex_same_key: "listCacheKey (ex_page ''paris'') = listCacheKey (ex_page ''Paris'')"
  unfolding listCacheKey_def Let_def ex_page_norm [OF ex_solid(1)] ex_page_norm [OF ex_solid(2)]
  by (simp add: ex_page_def str_eval)

lemma ex_first:
  "serveFeed ex_codec (Some (redisCache 0 None)) [] (ListFeed (ex_city ''Paris'')) (ex_feed, []) =
   ((ex_feed, ex_cached), 200, FeedEventsBody [ex_feed_event ''b'' ''Paris'' (Some 9), ex_feed_event ''a'' ''Paris'' None])"
proof -
  have "pgListFeed [] (ex_page ''Paris'') ex_feed =
      Inr [ex_feed_event ''b'' ''Paris'' (Some 9), ex_feed_event ''a'' ''Paris'' None]"
    unfolding pgListFeed_page ex_page_norm [OF ex_solid(1)] by (simp add: ex_page_def ex_full_listing)
  then show ?thesis
    by (simp add: serveFeed_def listFeed_handler_def ex_parse [OF ex_solid(1)] feedListEvents_def
        ex_page_norm [OF ex_solid(1)] cache_lookup_def redisCache_def ex_cached_def ex_codec_def cacheTTL_def)
qed


end
