(* ===== verification/EventFlow.thy ===== *)
theory EventFlow imports EventPostgresProps OutboxRelayProps FeedProjectionProps begin

text \<open>
  From an event to the feed: the outbox rows that the Postgres repository of the event service writes,
  published by the relay and consumed by the projection, show the events.
\<close>

section \<open>Payloads on the wire\<close>

text \<open>
  \<open>marshalPayload\<close> and what \<^verbatim>\<open>json.Unmarshal\<close> makes of its bytes: a time is the text that
  \<^verbatim>\<open>time.Time\<close> marshals to, \<open>format\<close>, and a number prints as \<open>sprint\<close>.
\<close>

fun marshalValue :: "(time \<Rightarrow> string) \<Rightarrow> (int \<Rightarrow> string) \<Rightarrow> payload_value \<Rightarrow> json" where
  "marshalValue format sprint (PString s) = JString s"
| "marshalValue format sprint (PInt i) = JNumber i (sprint i)"
| "marshalValue format sprint (PTime t) = JString (format t)"

definition marshalPayload :: "(time \<Rightarrow> string) \<Rightarrow> (int \<Rightarrow> string) \<Rightarrow> payload \<Rightarrow> json_object" where
  "marshalPayload format sprint p = map (\<lambda>(k, v). (k, marshalValue format sprint v)) p"

text \<open>The row as the relay reads it: the columns that the insertion leaves out have their defaults.\<close>

definition relay_row :: "(time \<Rightarrow> string) \<Rightarrow> (int \<Rightarrow> string) \<Rightarrow> OutboxMessage \<Rightarrow> OutboxRow" where
  "relay_row format sprint m =
     \<lparr>x_ID = o_ID m, x_AggregateType = o_AggregateType m, x_AggregateID = o_AggregateID m,
      x_RoutingKey = o_RoutingKey m, x_Payload = Some (marshalPayload format sprint (o_Payload m)),
      x_Status = OutboxPending, x_CreatedAt = o_CreatedAt m, x_AvailableAt = o_AvailableAt m,
      x_Attempts = 0, x_LastError = '''', x_SentAt = None\<rparr>"

definition row_envelope :: "(time \<Rightarrow> string) \<Rightarrow> (int \<Rightarrow> string) \<Rightarrow> OutboxMessage \<Rightarrow> Envelope" where
  "row_envelope format sprint m = projr (recordEnvelope (relay_row format sprint m))"

text \<open>
  Identifiers without blanks around them, as \<open>NewID\<close> draws them, and start times that
  \<open>parse\<close>, which is \<^verbatim>\<open>time.Parse\<close>, reads back.
\<close>

definition readable :: "(time \<Rightarrow> string) \<Rightarrow> (string \<Rightarrow> time option) \<Rightarrow> OutboxMessage \<Rightarrow> bool" where
  "readable format parse m \<longleftrightarrow>
     TrimSpace (o_ID m) = o_ID m \<and> o_ID m \<noteq> '''' \<and> TrimSpace (o_AggregateID m) \<noteq> '''' \<and> o_CreatedAt m \<noteq> 0 \<and>
     (case map_of (o_Payload m) ''eventId'' of
        Some (PString ev) \<Rightarrow> TrimSpace ev = ev \<and> ev \<noteq> '''' | _ \<Rightarrow> True) \<and>
     (case map_of (o_Payload m) ''startsAt'' of
        Some (PTime t) \<Rightarrow> TrimSpace (format t) \<noteq> '''' \<and> parse (TrimSpace (format t)) = Some t | _ \<Rightarrow> True)"

text \<open>
  A consumer that takes the messages one after the other, each redelivered under any faults until an
  attempt is acknowledged.
\<close>

inductive consumed :: "(string \<Rightarrow> time option) \<Rightarrow> Envelope list \<Rightarrow> FeedDB \<Rightarrow> FeedDB \<Rightarrow> bool" where
  consumed_none: "consumed parse [] d d"
| consumed_more: "snd (attempt_handle parse x v (deliver parse v xs d)) = Inr h \<Longrightarrow>
    consumed parse vs (deliver parse v (xs @ [x]) d) d' \<Longrightarrow> consumed parse (v # vs) d d'"

inductive_cases consumed_Nil [elim!]: "consumed parse [] d d'"
inductive_cases consumed_Cons: "consumed parse (v # vs) d d'"

lemma consumed_append:
  "consumed parse (us @ vs) d d' \<longleftrightarrow> (\<exists>e. consumed parse us d e \<and> consumed parse vs e d')"
proof (induction us arbitrary: d)
  case Nil
  then show ?case by (auto intro: consumed_none)
next
  case (Cons u us)
  show ?case
  proof
    assume "consumed parse ((u # us) @ vs) d d'"
    then obtain x xs h where ack: "snd (attempt_handle parse x u (deliver parse u xs d)) = Inr h"
      and rest: "consumed parse (us @ vs) (deliver parse u (xs @ [x]) d) d'"
      by (auto simp only: append_Cons elim: consumed_Cons)
    then show "\<exists>e. consumed parse (u # us) d e \<and> consumed parse vs e d'"
      using Cons.IH consumed_more [OF ack] by blast
  next
    assume "\<exists>e. consumed parse (u # us) d e \<and> consumed parse vs e d'"
    then obtain x xs h e where ack: "snd (attempt_handle parse x u (deliver parse u xs d)) = Inr h"
      and rest: "consumed parse us (deliver parse u (xs @ [x]) d) e" "consumed parse vs e d'"
      by (blast elim: consumed_Cons)
    then show "consumed parse ((u # us) @ vs) d d'"
      using Cons.IH consumed_more [OF ack] by auto
  qed
qed

text \<open>An acknowledged message was handled exactly once.\<close>

lemma consumed_one:
  assumes "consumed parse [v] d d'"
  shows "\<exists>now. d' = handled_once parse now v d"
proof -
  obtain x xs h where ack: "snd (attempt_handle parse x v (deliver parse v xs d)) = Inr h"
    and d': "d' = deliver parse v (xs @ [x]) d" using assms by (blast elim: consumed_Cons)
  have clean: "fst (attempt_handle parse (clean_attempt y) v d) = handled_once parse (fst y) v d" for y
    by (simp add: attempt_handle_def clean_attempt_def handled_once_def)
  show ?thesis
    using feed_consumer.exactly_once [OF ack [unfolded deliver_def], of "[]"] d' unfolding clean deliver_def by blast
qed

lemma consumed_once:
  assumes "HandleEnvelope parse now [] Committed v d = (d', Inr h)"
  shows "consumed parse [v] d d'"
proof -
  have run: "attempt_handle parse (now, [], Committed) v d = (d', Inr h)"
    using assms by (simp add: attempt_handle_def)
  show ?thesis
    by (rule consumed_more [where x = "(now, [], Committed)" and xs = "[]"])
      (simp_all add: deliver_def run consumed_none)
qed

section \<open>What the feed shows\<close>

definition shows_event :: "Event \<Rightarrow> FeedEvent \<Rightarrow> bool" where
  "shows_event e row \<longleftrightarrow> f_EventID row = e_ID e \<and> f_Title row = TrimSpace (e_Title e) \<and>
     f_City row = TrimSpace (e_City e) \<and> f_Venue row = TrimSpace (e_Venue e) \<and>
     f_StartsAt row = Some (pg_ts (e_StartsAt e)) \<and> f_Capacity row = e_Capacity e \<and>
     f_Status row = EventStatus_string (e_Status e)"

definition attendees :: "string \<Rightarrow> EventDB \<Rightarrow> int" where
  "attendees ev d = int (mcount (confirmed_for ev) (db_registrations d))"

text \<open>What the columns of the feed can hold.\<close>

definition listable :: "Event \<Rightarrow> bool" where
  "listable e \<longleftrightarrow> int4 (e_Capacity e) \<and> 0 \<le> e_Capacity e \<and> (e_Status e = EventPublished \<or> e_Status e = EventCanceled)"

definition shows_row :: "EventDB \<Rightarrow> string \<Rightarrow> Event option \<Rightarrow> FeedEvent option \<Rightarrow> bool" where
  "shows_row d ev = rel_option (\<lambda>e row. shows_event e row \<and> listable e \<and>
     (e_Status e \<noteq> EventCanceled \<longrightarrow> f_ConfirmedCount row = attendees ev d))"

text \<open>The events and the feed agree, and the projection has handled the rows of the outbox.\<close>

definition mirrors :: "FeedDB \<Rightarrow> EventDB \<Rightarrow> bool" where
  "mirrors f d \<longleftrightarrow>
     (\<forall>ev. shows_row d ev (map_of (db_events d) ev) (map_of (fd_events f) ev)) \<and>
     set (fd_processed f) = Pair DefaultConsumerName ` o_ID ` set (db_outbox d)"

text \<open>What the consumption of \<open>ms\<close> makes of a feed that mirrors \<open>d\<close>: one that mirrors \<open>d'\<close>.\<close>

definition follows :: "(time \<Rightarrow> string) \<Rightarrow> (int \<Rightarrow> string) \<Rightarrow> (string \<Rightarrow> time option) \<Rightarrow> OutboxMessage list
   \<Rightarrow> EventDB \<Rightarrow> EventDB \<Rightarrow> bool" where
  "follows format sprint parse ms d d' \<longleftrightarrow> (\<forall>f. mirrors f d \<longrightarrow>
     (\<exists>f'. consumed parse (map (row_envelope format sprint) ms) f f') \<and>
     (\<forall>f'. consumed parse (map (row_envelope format sprint) ms) f f' \<longrightarrow> mirrors f' d'))"

lemma follows_append:
  assumes "follows format sprint parse ms d e" and "follows format sprint parse ns e d'"
  shows "follows format sprint parse (ms @ ns) d d'"
  unfolding follows_def map_append consumed_append
proof (intro allI impI conjI)
  fix f assume f: "mirrors f d"
  then obtain g where g: "consumed parse (map (row_envelope format sprint) ms) f g"
    using assms(1) unfolding follows_def by blast
  then have "mirrors g e" using f assms(1) unfolding follows_def by blast
  then show "\<exists>f' g. consumed parse (map (row_envelope format sprint) ms) f g \<and>
      consumed parse (map (row_envelope format sprint) ns) g f'"
    using g assms(2) unfolding follows_def by blast
  fix f' assume "\<exists>g. consumed parse (map (row_envelope format sprint) ms) f g \<and>
      consumed parse (map (row_envelope format sprint) ns) g f'"
  then obtain g where g: "consumed parse (map (row_envelope format sprint) ms) f g"
    and f': "consumed parse (map (row_envelope format sprint) ns) g f'" by blast
  have "mirrors g e" using f g assms(1) unfolding follows_def by blast
  then show "mirrors f' d'" using f' assms(2) unfolding follows_def by blast
qed

lemma shows_row_mono:
  "shows_row d ev x y \<Longrightarrow> (\<And>e. x = Some e \<Longrightarrow> e_Status e \<noteq> EventCanceled \<Longrightarrow> attendees ev d' = attendees ev d) \<Longrightarrow>
     shows_row d' ev x y"
  by (cases x; cases y) (auto simp: shows_row_def)

lemma mirrors_same:
  assumes "mirrors f d" and "map_of (db_events d') = map_of (db_events d)"
    and "\<And>ev e. map_of (db_events d) ev = Some e \<Longrightarrow> e_Status e \<noteq> EventCanceled \<Longrightarrow> attendees ev d' = attendees ev d"
    and "o_ID ` set (db_outbox d') = o_ID ` set (db_outbox d)"
  shows "mirrors f d'"
proof -
  have "shows_row d' ev (map_of (db_events d) ev) (map_of (fd_events f) ev)" for ev
    by (rule shows_row_mono [of d]) (use assms(1,3) in \<open>simp_all add: mirrors_def\<close>)
  then show ?thesis using assms(1) unfolding mirrors_def assms(2,4) by blast
qed

lemma follows_Nil:
  assumes "map_of (db_events d') = map_of (db_events d)"
    and "\<And>ev e. map_of (db_events d) ev = Some e \<Longrightarrow> e_Status e \<noteq> EventCanceled \<Longrightarrow> attendees ev d' = attendees ev d"
    and "o_ID ` set (db_outbox d') = o_ID ` set (db_outbox d)"
  shows "follows format sprint parse [] d d'"
  unfolding follows_def
proof (intro allI impI conjI)
  fix f f' assume "mirrors f d"
  then show "mirrors f' d'" if "consumed parse (map (row_envelope format sprint) []) f f'"
    using that mirrors_same [OF _ assms] by auto
qed (auto intro: consumed_none)

lemma follows_one:
  assumes "\<And>f now. mirrors f d \<Longrightarrow> \<exists>f'.
    HandleEnvelope parse now [] Committed (row_envelope format sprint m) f = (f', Inr HandledProcessed) \<and> mirrors f' d'"
  shows "follows format sprint parse [m] d d'"
  unfolding follows_def
proof (intro allI impI conjI)
  fix f assume f: "mirrors f d"
  show "\<exists>f'. consumed parse (map (row_envelope format sprint) [m]) f f'"
    using assms [OF f] consumed_once by fastforce
  fix f' assume "consumed parse (map (row_envelope format sprint) [m]) f f'"
  then obtain now where "f' = handled_once parse now (row_envelope format sprint m) f"
    using consumed_one [of parse "row_envelope format sprint m" f f'] by auto
  then show "mirrors f' d'" using assms [OF f, of now] by (auto simp: handled_once_def)
qed

section \<open>One message\<close>

lemma map_of_marshalPayload:
  "map_of (marshalPayload format sprint p) k = map_option (marshalValue format sprint) (map_of p k)"
  by (induction p) (auto simp: marshalPayload_def)

lemma map_of_withCorrelation: "k \<noteq> ''correlationId'' \<Longrightarrow> map_of (withCorrelation corr p) k = map_of p k"
  by (simp add: withCorrelation_def)

definition service_keys :: "string set" where
  "service_keys = {RoutingEventPublished, RoutingEventUpdated, RoutingEventCanceled, RoutingJoinConfirmed,
     RoutingJoinWaitlisted, RoutingJoinCanceled, RoutingJoinPromoted}"

lemma service_keys_trimmed: "k \<in> service_keys \<Longrightarrow> TrimSpace k = k \<and> k \<noteq> ''''"
  by (auto simp: service_keys_def routing_defs str_eval)

definition sendable :: "OutboxMessage \<Rightarrow> bool" where
  "sendable m \<longleftrightarrow> o_RoutingKey m \<in> service_keys \<and> (o_AggregateType m = ''event'' \<or> o_AggregateType m = ''registration'')"

lemma row_envelope_valid:
  assumes "readable format parse m" and "sendable m"
  shows "recordEnvelope (relay_row format sprint m) = Inr (row_envelope format sprint m) \<and>
    v_MessageID (row_envelope format sprint m) = o_ID m \<and> v_RoutingKey (row_envelope format sprint m) = o_RoutingKey m \<and>
    v_Payload (row_envelope format sprint m) = Some (marshalPayload format sprint (o_Payload m)) \<and>
    ValidateEnvelope (row_envelope format sprint m) = None"
proof -
  have key: "TrimSpace (o_RoutingKey m) = o_RoutingKey m \<and> o_RoutingKey m \<noteq> ''''"
    and "TrimSpace (o_AggregateType m) \<noteq> ''''"
    using assms(2) service_keys_trimmed by (auto simp: sendable_def str_eval)
  then have "\<exists>v. recordEnvelope (relay_row format sprint m) = Inr v"
    using assms(1) key
    by (simp add: recordEnvelope_def NewEnvelope_def relay_row_def readable_def check_Inr_iff ValidateEnvelope_None Let_def)
  then obtain v where v: "recordEnvelope (relay_row format sprint m) = Inr v" by blast
  from v [unfolded recordEnvelope_def Let_def] show ?thesis
    using assms(1) key unfolding row_envelope_def v
    by (auto simp: relay_row_def readable_def dest!: NewEnvelope_Inr)
qed

text \<open>Handling a message that is new to the projection, without faults.\<close>

definition processed_too :: "string \<Rightarrow> FeedDB \<Rightarrow> FeedDB" where
  "processed_too i f = f\<lparr>fd_processed := fd_processed f @ [(DefaultConsumerName, i)]\<rparr>"

lemma handle_new:
  assumes "readable format parse m" and "sendable m"
    and "(DefaultConsumerName, o_ID m) \<notin> set (fd_processed f)"
    and "applyEnvelope parse now (row_envelope format sprint m) [] (processed_too (o_ID m) f) = (Inr (), [], f')"
  shows "HandleEnvelope parse now [] Committed (row_envelope format sprint m) f = (f', Inr HandledProcessed)"
  using row_envelope_valid [OF assms(1,2), of sprint] assms(3,4)
  by (simp add: HandleEnvelope_def in_tx_error_free handleTx_def tx_bind_def claimMessage_def faulty_def
      tx_return_def processed_too_def)

text \<open>A message that describes \<open>e\<close>, and one that changes the count of \<open>ev\<close> by \<open>n\<close>.\<close>

definition describes :: "OutboxMessage \<Rightarrow> Event \<Rightarrow> bool" where
  "describes m e \<longleftrightarrow> o_RoutingKey m \<in> {RoutingEventPublished, RoutingEventUpdated, RoutingEventCanceled} \<and>
     o_AggregateType m = ''event'' \<and>
     (\<forall>k. k \<noteq> ''correlationId'' \<longrightarrow> map_of (o_Payload m) k = map_of (eventPayload e) k)"

definition changes :: "OutboxMessage \<Rightarrow> string \<Rightarrow> int \<Rightarrow> bool" where
  "changes m ev n \<longleftrightarrow> o_AggregateType m = ''registration'' \<and>
     map_of (o_Payload m) ''eventId'' = Some (PString ev) \<and>
     (o_RoutingKey m = RoutingJoinConfirmed \<and> n = 1 \<or> o_RoutingKey m = RoutingJoinPromoted \<and> n = 1 \<or>
      o_RoutingKey m = RoutingJoinWaitlisted \<and> n = 0 \<or>
      o_RoutingKey m = RoutingJoinCanceled \<and>
        (\<exists>s. map_of (o_Payload m) ''previousStatus'' = Some (PString (RegistrationStatus_string s)) \<and>
           n = (if s = Confirmed then - 1 else 0)))"

lemma describes_sendable: "describes m e \<Longrightarrow> sendable m" and changes_sendable: "changes m ev n \<Longrightarrow> sendable m"
  by (auto simp: describes_def changes_def sendable_def service_keys_def)

text \<open>The row that a description of \<open>e\<close> writes.\<close>

definition described_row :: "time \<Rightarrow> Event \<Rightarrow> FeedEvent" where
  "described_row now e =
     \<lparr>f_EventID = e_ID e, f_Title = TrimSpace (e_Title e), f_City = TrimSpace (e_City e),
      f_Venue = TrimSpace (e_Venue e), f_StartsAt = Some (pg_ts (e_StartsAt e)), f_Capacity = e_Capacity e,
      f_Status = EventStatus_string (e_Status e), f_ConfirmedCount = 0, f_UpdatedAt = now\<rparr>"

lemma EventStatus_trimmed:
  "e_Status e = EventPublished \<or> e_Status e = EventCanceled \<Longrightarrow>
     TrimSpace (EventStatus_string (e_Status e)) = EventStatus_string (e_Status e)"
  by (auto simp: str_eval)

lemma apply_event:
  assumes m: "readable format parse m" "describes m e" and ok: "listable e"
  shows "applyEnvelope parse now (row_envelope format sprint m) [] f = (Inr (), [], upsert_row now (described_row now e) f)"
proof -
  note v = row_envelope_valid [OF m(1) describes_sendable [OF m(2)], of sprint]
  have p: "map_of (o_Payload m) ''eventId'' = Some (PString (e_ID e))"
    "map_of (o_Payload m) ''title'' = Some (PString (e_Title e))"
    "map_of (o_Payload m) ''city'' = Some (PString (e_City e))"
    "map_of (o_Payload m) ''venue'' = Some (PString (e_Venue e))"
    "map_of (o_Payload m) ''startsAt'' = Some (PTime (e_StartsAt e))"
    "map_of (o_Payload m) ''capacity'' = Some (PInt (e_Capacity e))"
    "map_of (o_Payload m) ''status'' = Some (PString (EventStatus_string (e_Status e)))"
    using m(2) by (simp_all add: describes_def eventPayload_def)
  have r: "TrimSpace (e_ID e) = e_ID e" "e_ID e \<noteq> ''''" "TrimSpace (format (e_StartsAt e)) \<noteq> ''''"
    "parse (TrimSpace (format (e_StartsAt e))) = Some (e_StartsAt e)"
    using m(1) p by (simp_all add: readable_def)
  let ?p = "marshalPayload format sprint (o_Payload m)"
  have fields: "stringField ?p ''eventId'' = e_ID e" "stringField ?p ''title'' = TrimSpace (e_Title e)"
    "stringField ?p ''city'' = TrimSpace (e_City e)" "stringField ?p ''venue'' = TrimSpace (e_Venue e)"
    "stringField ?p ''status'' = EventStatus_string (e_Status e)"
    "timeField parse ?p ''startsAt'' = Inr (Some (e_StartsAt e))" "intField ?p ''capacity'' = e_Capacity e"
    using ok r EventStatus_trimmed [of e]
    by (simp_all add: stringField_def timeField_def intField_def map_of_marshalPayload p listable_def Let_def)
  have "o_RoutingKey m \<in> {''event.published'', ''event.updated'', ''event.canceled''}"
    using m(2) by (simp add: describes_def routing_defs)
  then have "applyEnvelope parse now (row_envelope format sprint m) [] f = upsertEvent parse now ?p [] f"
    using v by (simp add: applyEnvelope_def)
  also have "\<dots> = (Inr (), [], upsert_row now (described_row now e) f)"
    using ok r(2)
    by (simp add: upsertEvent_def fields tx_simps described_row_def listable_def int4_def feed_int4_def)
  finally show ?thesis .
qed

lemma apply_change:
  assumes m: "readable format parse m" "changes m ev n" and row: "map_of (fd_events f) ev = Some row"
    and range: "0 \<le> f_ConfirmedCount row + n" "f_ConfirmedCount row + n < 2 ^ 31" "0 \<le> f_ConfirmedCount row"
  shows "\<exists>f' row'. applyEnvelope parse now (row_envelope format sprint m) [] f = (Inr (), [], f') \<and>
    fd_processed f' = fd_processed f \<and> map_of (fd_events f') = (map_of (fd_events f))(ev \<mapsto> row') \<and>
    f_ConfirmedCount row' = f_ConfirmedCount row + n \<and> (\<forall>e. shows_event e row' \<longleftrightarrow> shows_event e row)"
proof -
  note v = row_envelope_valid [OF m(1) changes_sendable [OF m(2)], of sprint]
  let ?p = "marshalPayload format sprint (o_Payload m)"
  have ev: "stringField ?p ''eventId'' = ev" "TrimSpace ev = ev" "ev \<noteq> ''''"
    using m by (simp_all add: stringField_def map_of_marshalPayload changes_def readable_def)
  have previous: "stringField ?p ''previousStatus'' = RegistrationStatus_string s"
    if "map_of (o_Payload m) ''previousStatus'' = Some (PString (RegistrationStatus_string s))" for s
    using that by (cases s) (simp_all add: stringField_def map_of_marshalPayload str_eval)
  have confirmed: "RegistrationStatus_string s = ''CONFIRMED'' \<longleftrightarrow> s = Confirmed" for s by (cases s) simp_all
  have run: "applyEnvelope parse now (row_envelope format sprint m) [] f =
      (if n = 0 then tx_return () else changeConfirmedCount now ev n) [] f"
    using m(2) v ev previous unfolding changes_def
    by (elim conjE disjE exE) (simp_all add: applyEnvelope_def routing_defs confirmed)
  show ?thesis
  proof (cases "n = 0")
    case True
    have "map_of (fd_events f) = (map_of (fd_events f))(ev \<mapsto> row)" using row by auto
    then show ?thesis using True run by (auto simp: tx_return_def)
  next
    case False
    then show ?thesis
      using run row range ev
      by (simp add: changeConfirmedCount_def changed_count_def feed_int4_def tx_simps shows_event_def)
        (rule exI [of _ "row\<lparr>f_ConfirmedCount := f_ConfirmedCount row + n, f_UpdatedAt := now\<rparr>"], simp)
  qed
qed

section \<open>One call\<close>

lemma follows_event:
  assumes m: "readable format parse m" "describes m e" and ok: "\<And>f. mirrors f d \<Longrightarrow> listable e"
    and old: "\<And>e0. map_of (db_events d) (e_ID e) = Some e0 \<Longrightarrow> e_ID e0 = e_ID e \<and> e_Status e0 \<noteq> EventCanceled"
    and new: "map_of (db_events d') = (map_of (db_events d))(e_ID e \<mapsto> row)" "\<And>r. shows_event row r \<longleftrightarrow> shows_event e r"
      "e_Capacity row = e_Capacity e" "e_Status row = e_Status e"
    and ids: "o_ID m \<notin> o_ID ` set (db_outbox d)" "db_outbox d' = db_outbox d @ [m]"
    and same: "\<And>ev e0. map_of (db_events d) ev = Some e0 \<Longrightarrow> ev \<noteq> e_ID e \<Longrightarrow> attendees ev d' = attendees ev d"
    and own: "e_Status e \<noteq> EventCanceled \<Longrightarrow> attendees (e_ID e) d' =
      (case map_of (db_events d) (e_ID e) of None \<Rightarrow> 0 | Some e0 \<Rightarrow> attendees (e_ID e) d)"
  shows "follows format sprint parse [m] d d'"
proof (rule follows_one)
  fix f now assume f: "mirrors f d"
  let ?f = "upsert_row now (described_row now e) (processed_too (o_ID m) f)"
  have unseen: "(DefaultConsumerName, o_ID m) \<notin> set (fd_processed f)" using f ids(1) by (auto simp: mirrors_def)
  have rows: "shows_row d ev (map_of (db_events d) ev) (map_of (fd_events f) ev)" for ev using f by (simp add: mirrors_def)
  have "shows_row d' ev (map_of (db_events d') ev) (map_of (fd_events ?f) ev)" for ev
  proof (cases "ev = e_ID e")
    case True
    have cap: "listable row" using ok [OF f] by (simp add: listable_def new)
    show ?thesis
    proof (cases "map_of (db_events d) (e_ID e)")
      case None
      moreover have "map_of (fd_events f) (e_ID e) = None" using rows [of "e_ID e"] None by (simp add: shows_row_def)
      moreover have "shows_event e (described_row now e)" by (simp add: described_row_def shows_event_def)
      ultimately show ?thesis
        using True cap own None by (simp add: shows_row_def new upsert_row_def processed_too_def) (simp add: described_row_def)
    next
      case (Some e0)
      then obtain r where r: "map_of (fd_events f) (e_ID e) = Some r" "shows_event e0 r"
        "f_ConfirmedCount r = attendees (e_ID e) d"
        using rows [of "e_ID e"] old [OF Some] by (auto simp: shows_row_def option_rel_Some1)
      moreover have "shows_event e (r\<lparr>f_Title := TrimSpace (e_Title e), f_City := TrimSpace (e_City e),
          f_Venue := TrimSpace (e_Venue e), f_StartsAt := Some (pg_ts (e_StartsAt e)), f_Capacity := e_Capacity e,
          f_Status := EventStatus_string (e_Status e), f_UpdatedAt := now\<rparr>)"
        using r(2) old [OF Some] by (simp add: shows_event_def)
      ultimately show ?thesis
        using True cap own Some by (simp add: shows_row_def new upsert_row_def processed_too_def described_row_def)
    qed
  next
    case False
    then show ?thesis
      using shows_row_mono [OF rows, of ev d'] same [of ev]
      by (simp add: new(1) upsert_row_def processed_too_def described_row_def)
  qed
  moreover have "set (fd_processed ?f) = Pair DefaultConsumerName ` o_ID ` set (db_outbox d')"
    using f by (auto simp: mirrors_def upsert_row_def processed_too_def ids(2))
  ultimately have "mirrors ?f d'" by (simp add: mirrors_def)
  then show "\<exists>f'. HandleEnvelope parse now [] Committed (row_envelope format sprint m) f = (f', Inr HandledProcessed) \<and>
      mirrors f' d'"
    using handle_new [OF m(1) describes_sendable [OF m(2)] unseen apply_event [OF m ok [OF f]]] by blast
qed

lemma follows_change:
  assumes m: "readable format parse m" "changes m ev n"
    and e: "map_of (db_events d) ev = Some e" "e_Status e \<noteq> EventCanceled"
    and new: "map_of (db_events d') = map_of (db_events d)"
    and ids: "o_ID m \<notin> o_ID ` set (db_outbox d)" "db_outbox d' = db_outbox d @ [m]"
    and same: "\<And>ev' e0. map_of (db_events d) ev' = Some e0 \<Longrightarrow> ev' \<noteq> ev \<Longrightarrow> attendees ev' d' = attendees ev' d"
    and own: "attendees ev d' = attendees ev d + n" "attendees ev d' \<le> e_Capacity e"
  shows "follows format sprint parse [m] d d'"
proof (rule follows_one)
  fix f now assume f: "mirrors f d"
  have unseen: "(DefaultConsumerName, o_ID m) \<notin> set (fd_processed f)" using f ids(1) by (auto simp: mirrors_def)
  have rows: "shows_row d ev (map_of (db_events d) ev) (map_of (fd_events f) ev)" for ev using f by (simp add: mirrors_def)
  obtain r where r: "map_of (fd_events f) ev = Some r" "shows_event e r" "listable e"
    "f_ConfirmedCount r = attendees ev d"
    using rows [of ev] e by (auto simp: shows_row_def option_rel_Some1)
  have range: "0 \<le> f_ConfirmedCount r + n" "f_ConfirmedCount r + n < 2 ^ 31" "0 \<le> f_ConfirmedCount r"
    using own r(3,4) by (simp_all add: attendees_def [of ev d'] attendees_def [of ev d] listable_def int4_def)
  have "map_of (fd_events (processed_too (o_ID m) f)) ev = Some r" by (simp add: processed_too_def r(1))
  then obtain f' r' where run: "applyEnvelope parse now (row_envelope format sprint m) [] (processed_too (o_ID m) f) =
      (Inr (), [], f')" and f': "fd_processed f' = fd_processed (processed_too (o_ID m) f)"
      "map_of (fd_events f') = (map_of (fd_events (processed_too (o_ID m) f)))(ev \<mapsto> r')"
      "f_ConfirmedCount r' = f_ConfirmedCount r + n" "\<forall>e. shows_event e r' \<longleftrightarrow> shows_event e r"
    using apply_change [OF m _ range, where f = "processed_too (o_ID m) f" and sprint = sprint and now = now] by blast
  have "shows_row d' ev' (map_of (db_events d') ev') (map_of (fd_events f') ev')" for ev'
  proof (cases "ev' = ev")
    case True
    then show ?thesis using e r f' own by (simp add: shows_row_def new)
  next
    case False
    then show ?thesis
      using shows_row_mono [OF rows, of ev' d'] same [of ev'] by (simp add: new f'(2) processed_too_def)
  qed
  moreover have "set (fd_processed f') = Pair DefaultConsumerName ` o_ID ` set (db_outbox d')"
    using f by (auto simp: mirrors_def f'(1) processed_too_def ids(2))
  ultimately have "mirrors f' d'" by (simp add: mirrors_def)
  then show "\<exists>f'. HandleEnvelope parse now [] Committed (row_envelope format sprint m) f = (f', Inr HandledProcessed) \<and>
      mirrors f' d'"
    using handle_new [OF m(1) changes_sendable [OF m(2)] unseen run] by blast
qed

lemma attendees_count: "attendees ev d = int (confirmed_count ev (mvals (db_registrations d)))"
  by (simp add: attendees_def pg_count)

text \<open>A call appends messages under new identifiers, and a consumer of readable ones follows it.\<close>

definition grows :: "(time \<Rightarrow> string) \<Rightarrow> (int \<Rightarrow> string) \<Rightarrow> (string \<Rightarrow> time option) \<Rightarrow> EventDB \<Rightarrow> EventDB \<Rightarrow> bool" where
  "grows format sprint parse d d' \<longleftrightarrow> (\<exists>ms. db_outbox d' = db_outbox d @ ms \<and> pg_new_ids ms d \<and> (\<forall>m \<in> set ms. sendable m) \<and>
     ((\<forall>m \<in> set ms. readable format parse m) \<longrightarrow> follows format sprint parse ms d d'))"

lemma grows_same:
  "db_events d' = db_events d \<Longrightarrow> db_registrations d' = db_registrations d \<Longrightarrow> db_outbox d' = db_outbox d \<Longrightarrow>
     grows format sprint parse d d'"
  unfolding grows_def by (rule exI [of _ "[]"]) (auto simp: pg_new_ids_def attendees_def intro: follows_Nil)

lemma describes_payload:
  "k \<in> {RoutingEventPublished, RoutingEventUpdated, RoutingEventCanceled} \<Longrightarrow>
     describes (pg_message i corr ''event'' a k (eventPayload e) now) e"
  by (auto simp: describes_def map_of_withCorrelation)

lemma key_is_id: "pg_inv d \<Longrightarrow> map_of (db_events d) ev = Some e \<Longrightarrow> e_ID e = ev"
  by (auto simp: pg_inv_def store_inv_def event_ok_def)

lemma create_grows:
  assumes inv: "pg_inv d" and e: "e_Status e = EventPublished"
  shows "grows format sprint parse d (tx_final (createEventTx nid corr e) d)"
  using create_final_cases [of nid corr e d]
proof (elim disjE conjE)
  let ?m = "pg_message (nid 0) corr ''event'' (e_ID e) RoutingEventPublished (eventPayload e) (e_CreatedAt e)"
  let ?d = "d\<lparr>db_events := mput (e_ID e) (event_row e) (db_events d), db_outbox := db_outbox d @ [?m]\<rparr>"
  assume new: "map_of (db_events d) (e_ID e) = None" and ok: "event_row_ok e"
    and id: "nid 0 \<notin> o_ID ` set (db_outbox d)" and out: "tx_final (createEventTx nid corr e) d = ?d"
  have "active_users (e_ID e) (mvals (db_registrations d)) = []"
    using inv new active_users_imp_event [of "db_events d" "db_registrations d"]
    by (fastforce simp: pg_inv_def store_inv_def)
  then have none: "attendees (e_ID e) ?d = 0" by (simp add: attendees_count confirmed_zero)
  have "follows format sprint parse [?m] d ?d" if "readable format parse ?m"
    by (rule follows_event [OF that describes_payload, where row = "event_row e"])
      (use new id none ok in \<open>simp_all add: event_row_def shows_event_def attendees_def event_row_ok_def listable_def\<close>)
  then show ?thesis
    unfolding grows_def out using id by (intro exI [of _ "[?m]"]) (simp add: pg_new_ids_def sendable_def service_keys_def)
qed (simp add: grows_same)

lemma update_grows:
  assumes inv: "pg_inv d"
  shows "grows format sprint parse d (tx_final (updateEventTx nid corr ev org role cmd now) d)"
  using update_final_cases [of nid corr ev org role cmd now d]
proof (elim disjE exE conjE)
  fix e e' :: Event
  let ?m = "pg_message (nid 0) corr ''event'' (e_ID e') RoutingEventUpdated (eventPayload e') now"
  let ?d = "tx_final (updateEventTx nid corr ev org role cmd now) d"
  let ?row = "e\<lparr>e_Title := e_Title e', e_Description := e_Description e', e_City := e_City e', e_Venue := e_Venue e',
    e_StartsAt := pg_ts (e_StartsAt e'), e_Capacity := e_Capacity e', e_UpdatedAt := pg_ts (e_UpdatedAt e')\<rparr>"
  assume e: "map_of (db_events d) ev = Some e" "e_Status e \<noteq> EventCanceled"
    and up: "applyUpdate cmd (int (mcount (confirmed_for ev) (db_registrations d))) now e = Inr e'"
    and es: "db_events ?d = db_events (update_event (e_ID e') (\<lambda>row. row\<lparr>e_Title := e_Title e',
        e_Description := e_Description e', e_City := e_City e', e_Venue := e_Venue e',
        e_StartsAt := pg_ts (e_StartsAt e'), e_Capacity := e_Capacity e',
        e_UpdatedAt := pg_ts (e_UpdatedAt e')\<rparr>) d)"
    and rs: "db_registrations ?d = db_registrations d" and out: "db_outbox ?d = db_outbox d @ [?m]"
    and id: "nid 0 \<notin> o_ID ` set (db_outbox d)" and ok: "event_row_ok e'"
  have ids: "e_ID e = ev" "e_ID e' = ev" "e_Status e' = e_Status e"
    using key_is_id [OF inv e(1)] applyUpdate_Inr [OF up] by simp_all
  have "follows format sprint parse [?m] d ?d" if "readable format parse ?m"
    by (rule follows_event [OF that describes_payload, where row = ?row])
      (use e id ids ok in \<open>simp_all add: es rs out update_event_def shows_event_def attendees_def event_row_ok_def listable_def\<close>)
  then show ?thesis
    unfolding grows_def out using id by (intro exI [of _ "[?m]"]) (simp add: pg_new_ids_def sendable_def service_keys_def)
qed (simp add: grows_same)

lemma cancel_grows:
  assumes inv: "pg_inv d"
  shows "grows format sprint parse d (tx_final (cancelEventTx nid corr ev org role now) d)"
  using cancel_final_cases [of nid corr ev org role now d]
proof (elim disjE exE conjE)
  fix e :: Event
  let ?e = "e\<lparr>e_Status := EventCanceled, e_UpdatedAt := now\<rparr>"
  let ?m = "pg_message (nid 0) corr ''event'' (e_ID e) RoutingEventCanceled (eventPayload ?e) now"
  let ?d = "tx_final (cancelEventTx nid corr ev org role now) d"
  assume e: "map_of (db_events d) ev = Some e" "e_Status e \<noteq> EventCanceled"
    and es: "db_events ?d = db_events (update_event (e_ID e) (\<lambda>row. row\<lparr>e_Status := EventCanceled, e_UpdatedAt := pg_ts now\<rparr>) d)"
    and rs: "db_registrations ?d = regs_canceled (e_ID e) (pg_ts now) (db_registrations d)"
    and out: "db_outbox ?d = db_outbox d @ [?m]" and id: "nid 0 \<notin> o_ID ` set (db_outbox d)"
  have ids: "e_ID e = ev" using key_is_id [OF inv e(1)] .
  have row_ok: "listable ?e" if "mirrors f d" for f
  proof -
    have "shows_row d ev (Some e) (map_of (fd_events f) ev)" using that e(1) unfolding mirrors_def by metis
    then show ?thesis by (auto simp: shows_row_def option_rel_Some1 listable_def)
  qed
  have same: "attendees ev' ?d = attendees ev' d" if "ev' \<noteq> ev" for ev'
    using that by (simp add: attendees_count rs ids mvals_regs_canceled canceled_count del: map_map)
  have "follows format sprint parse [?m] d ?d" if "readable format parse ?m"
    by (rule follows_event [OF that describes_payload, where row = "e\<lparr>e_Status := EventCanceled, e_UpdatedAt := pg_ts now\<rparr>"])
      (use e id ids same row_ok in \<open>simp_all add: es out update_event_def shows_event_def\<close>)
  then show ?thesis
    unfolding grows_def out using id by (intro exI [of _ "[?m]"]) (simp add: pg_new_ids_def sendable_def service_keys_def)
qed (simp add: grows_same)

lemma changes_payload:
  "r_EventID g = ev \<Longrightarrow> changes (pg_message i corr ''registration'' a RoutingJoinConfirmed (registrationPayload g) now) ev 1"
  "r_EventID g = ev \<Longrightarrow> changes (pg_message i corr ''registration'' a RoutingJoinWaitlisted (registrationPayload g) now) ev 0"
  "r_EventID g = ev \<Longrightarrow>
     changes (pg_message i corr ''registration'' a RoutingJoinCanceled (registrationTransitionPayload g s) now) ev
       (if s = Confirmed then - 1 else 0)"
  "r_EventID g = ev \<Longrightarrow>
     changes (pg_message i corr ''registration'' a RoutingJoinPromoted (registrationTransitionPayload g s) now) ev 1"
  by (auto simp: changes_def map_of_withCorrelation registrationPayload_def registrationTransitionPayload_def
      routing_defs intro!: exI [of _ s])

lemma within_capacity: "pg_inv d \<Longrightarrow> map_of (db_events d) ev = Some e \<Longrightarrow> attendees ev d \<le> e_Capacity e"
  by (auto simp: pg_inv_def store_inv_def event_ok_def attendees_count)

lemma active_event:
  assumes "pg_inv d" and "g \<in> set (mvals (db_registrations d))" and "active g"
  obtains e where "map_of (db_events d) (r_EventID g) = Some e" and "e_Status e \<noteq> EventCanceled"
proof -
  obtain k where "(k, g) \<in> set (db_registrations d)" using assms(2) by auto
  then obtain e where e: "map_of (db_events d) (r_EventID g) = Some e"
    using assms(1) by (fastforce simp: pg_inv_def store_inv_def refs_ok_def)
  have "r_UserID g \<in> set (active_users (r_EventID g) (mvals (db_registrations d)))"
    using assms(2,3) by (auto simp: active_users_def)
  then have "e_Status e \<noteq> EventCanceled"
    using assms(1) e by (auto simp: pg_inv_def store_inv_def event_ok_def)
  with e show thesis by (rule that)
qed

lemma join_grows:
  assumes inv: "pg_inv d"
  shows "grows format sprint parse d (tx_final (joinEventTx nid corr ev u key now) d)"
proof -
  let ?d = "fst (pgJoinEvent corr quiet nid ev u key now d)"
  have "grows format sprint parse d ?d"
    using pg_join_state [of corr nid ev u key now d]
  proof (elim disjE exE conjE)
    fix e s
    let ?g = "registration_row (pg_joined nid ev u key now s d)" and ?m = "pg_join_message nid corr ev u key now s d"
    assume e: "map_of (db_events d) ev = Some e"
      and s: "DecideJoinStatus e (int (mcount (confirmed_for ev) (db_registrations d))) now = Inr s"
      and k: "map_of (db_registrations d) (nid 0) = None"
      and es: "db_events ?d = db_events d" and rs: "db_registrations ?d = mput (nid 0) ?g (db_registrations d)"
      and out: "db_outbox ?d = db_outbox d @ [?m]" and id: "nid 1 \<notin> o_ID ` set (db_outbox d)"
    let ?n = "if s = Confirmed then 1 else 0 :: int"
    have st: "e_Status e \<noteq> EventCanceled" "s = (if attendees ev d < e_Capacity e then Confirmed else Waitlisted)"
      using s by (auto simp: DecideJoinStatus_Inr attendees_def)
    have "s = Confirmed \<or> s = Waitlisted" using st(2) by simp
    then have m: "changes ?m ev ?n" "o_ID ?m = nid 1" by (auto simp: pg_join_message_def changes_payload(1,2))
    have count: "attendees ev' ?d = attendees ev' d + (if ev' = ev then ?n else 0)" for ev'
      using mcount_put_new [OF k, of "confirmed_for ev'" ?g] by (auto simp: attendees_def rs confirmed_for_def)
    have "follows format sprint parse [?m] d ?d" if "readable format parse ?m"
      by (rule follows_change [OF that m(1) e st(1)])
        (use id m(2) st(2) within_capacity [OF inv e] in \<open>simp_all add: es out count\<close>)
    then show ?thesis
      unfolding grows_def out using id m changes_sendable [OF m(1)] by (intro exI [of _ "[?m]"]) (simp add: pg_new_ids_def)
  qed (simp add: grows_same)
  then show ?thesis by (simp add: pgJoinEvent_def quiet_def tx_final_def)
qed

text \<open>A registration that leaves, and one that is promoted.\<close>

lemma leave_follows:
  assumes inv: "pg_inv d" and g: "g \<in> set (mvals (db_registrations d))" "active g"
    and m: "readable format parse (pg_cancel_message nid corr now g)" "nid 0 \<notin> o_ID ` set (db_outbox d)"
  shows "follows format sprint parse [pg_cancel_message nid corr now g] d
    (d\<lparr>db_registrations := pg_regs_left now g d, db_outbox := db_outbox d @ [pg_cancel_message nid corr now g]\<rparr>)"
proof -
  let ?n = "if r_Status g = Confirmed then - 1 else 0 :: int"
  let ?d = "d\<lparr>db_registrations := pg_regs_left now g d, db_outbox := db_outbox d @ [pg_cancel_message nid corr now g]\<rparr>"
  obtain e where e: "map_of (db_events d) (r_EventID g) = Some e" "e_Status e \<noteq> EventCanceled"
    by (rule active_event [OF inv g])
  obtain xs ys where "db_registrations d = xs @ (r_ID g, g) # ys" "pg_regs_left now g d = xs @ (r_ID g, pg_left now g) # ys"
    by (rule pg_left_split [OF inv g(1)])
  then have count: "attendees ev ?d = attendees ev d + (if ev = r_EventID g then ?n else 0)" for ev
    by (auto simp: attendees_def confirmed_for_def)
  have "changes (pg_cancel_message nid corr now g) (r_EventID g) ?n"
    unfolding pg_cancel_message_def by (rule changes_payload) simp
  moreover have "o_ID (pg_cancel_message nid corr now g) = nid 0" by (simp add: pg_cancel_message_def)
  ultimately show ?thesis
    by (intro follows_change [OF m(1) _ e]) (use m(2) within_capacity [OF inv e(1)] in \<open>simp_all add: count\<close>)
qed

lemma promote_follows:
  assumes inv: "pg_inv d" and first: "pg_first_waiting ev (db_registrations d) = Some f"
    and after: "pg_inv (d\<lparr>db_registrations := mput (r_ID f) (pg_promoted now f) (db_registrations d)\<rparr>)"
    and ms: "pg_promote_messages nid corr now (Some f) = [m]" "readable format parse m" "nid 1 \<notin> o_ID ` set (db_outbox d)"
  shows "follows format sprint parse [m] d
    (d\<lparr>db_registrations := mput (r_ID f) (pg_promoted now f) (db_registrations d), db_outbox := db_outbox d @ [m]\<rparr>)"
proof -
  let ?d = "d\<lparr>db_registrations := mput (r_ID f) (pg_promoted now f) (db_registrations d), db_outbox := db_outbox d @ [m]\<rparr>"
  have "pg_inv (d\<lparr>db_registrations := db_registrations d\<rparr>)" using inv by simp
  note f = pg_first_waiting_some(3,4) [OF this first]
  have fe: "r_EventID f = ev" "r_Status f = Waitlisted" using f(1) by (simp_all add: waitlisted_for_def)
  obtain e where e: "map_of (db_events d) ev = Some e" "e_Status e \<noteq> EventCanceled"
    using active_event [OF inv f(2)] fe by (auto simp: active_def)
  have row: "map_of (db_registrations d) (r_ID f) = Some f"
    using store_lookup [of "db_events d" "db_registrations d" f] inv f(2) by (simp add: pg_inv_def)
  have count: "attendees ev' ?d = attendees ev' d + (if ev' = ev then 1 else 0)" for ev'
    using mcount_put_old [OF row, of "confirmed_for ev'" "pg_promoted now f"] fe
    by (auto simp: attendees_def confirmed_for_def)
  have "attendees ev ?d \<le> e_Capacity e" using within_capacity [OF after, of ev e] e by (simp add: attendees_def)
  moreover have "changes m ev 1" "o_ID m = nid 1"
    using ms(1) changes_payload(4) [of "f\<lparr>r_Status := Confirmed, r_WaitlistPosition := 0, r_UpdatedAt := now\<rparr>" ev] fe
    by (auto simp: pg_promote_messages_def)
  ultimately show ?thesis
    by (intro follows_change [OF ms(2) _ e]) (use ms(3) in \<open>simp_all add: count\<close>)
qed

lemma after_cancel_grows:
  assumes inv: "pg_inv d" and out: "pg_after_cancel nid corr ev u now d d'"
  shows "grows format sprint parse d d'"
  using out unfolding pg_after_cancel_def
proof (elim conjE disjE bexE)
  fix g
  assume es: "db_events d' = db_events d" and rs: "db_registrations d' = pg_regs_after ev now g d"
    and g: "g \<in> set (mvals (db_registrations d))" "r_EventID g = ev" "active g"
    and ids: "pg_new_ids (pg_cancel_messages nid corr ev now g d) d"
    and ob: "db_outbox d' = db_outbox d @ pg_cancel_messages nid corr ev now g d"
  let ?m = "pg_cancel_message nid corr now g"
  let ?d = "d\<lparr>db_registrations := pg_regs_left now g d, db_outbox := db_outbox d @ [?m]\<rparr>"
  have left: "follows format sprint parse [?m] d ?d" if "readable format parse ?m"
    by (rule leave_follows [OF inv g(1,3) that])
      (use ids in \<open>simp add: pg_new_ids_def pg_cancel_messages_def pg_cancel_message_def\<close>)
  have "follows format sprint parse (pg_cancel_messages nid corr ev now g d) d d'"
    if r: "\<forall>m \<in> set (pg_cancel_messages nid corr ev now g d). readable format parse m"
  proof (cases "r_Status g = Confirmed \<and> pg_first_waiting ev (pg_regs_left now g d) \<noteq> None")
    case False
    then have ms: "pg_cancel_messages nid corr ev now g d = [?m]" and regs: "pg_regs_after ev now g d = pg_regs_left now g d"
      by (auto simp: pg_cancel_messages_def pg_regs_after_def pg_promote_messages_def)
    have "follows format sprint parse [] ?d d'"
      by (rule follows_Nil) (simp_all add: es rs ob ms regs attendees_def)
    then show ?thesis
      using follows_append [OF left, of "[]" d'] r by (simp add: ms)
  next
    case True
    then obtain f where f: "pg_first_waiting ev (pg_regs_left now g d) = Some f" by blast
    obtain m where m: "pg_promote_messages nid corr now (Some f) = [m]" by (simp add: pg_promote_messages_def)
    have ms: "pg_cancel_messages nid corr ev now g d = [?m] @ [m]"
      and regs: "pg_regs_after ev now g d = mput (r_ID f) (pg_promoted now f) (pg_regs_left now g d)"
      using True f m by (simp_all add: pg_cancel_messages_def pg_regs_after_def)
    let ?d' = "?d\<lparr>db_registrations := mput (r_ID f) (pg_promoted now f) (db_registrations ?d), db_outbox := db_outbox ?d @ [m]\<rparr>"
    have "o_ID m = nid 1" "o_ID ?m = nid 0"
      using m by (auto simp: pg_promote_messages_def pg_cancel_message_def)
    then have new: "nid 1 \<notin> o_ID ` set (db_outbox ?d)" using ids by (auto simp: pg_new_ids_def ms)
    have i1: "pg_inv ?d" using pg_left_db_inv [OF inv g(1), of now] by (simp add: pg_inv_def)
    have i2: "pg_inv (?d\<lparr>db_registrations := mput (r_ID f) (pg_promoted now f) (db_registrations ?d)\<rparr>)"
      using pg_after_inv [OF inv g, of now] by (simp add: pg_inv_def regs)
    have "follows format sprint parse [m] ?d ?d'"
      by (rule promote_follows [OF i1 _ i2 m _ new]) (use f r in \<open>simp_all add: ms\<close>)
    moreover have "follows format sprint parse [] ?d' d'"
      by (rule follows_Nil) (simp_all add: es rs ob ms regs attendees_def)
    ultimately have "follows format sprint parse [m] ?d d'" using follows_append by fastforce
    then show ?thesis using follows_append [OF left, of "[m]" d'] r by (simp add: ms)
  qed
  moreover have "\<forall>m \<in> set (pg_cancel_messages nid corr ev now g d). sendable m"
    by (auto simp: pg_cancel_messages_def pg_cancel_message_def pg_promote_messages_def sendable_def service_keys_def
        split: option.splits)
  ultimately show ?thesis unfolding grows_def ob using ids by blast
qed (simp add: grows_same)

end
