(* ===== verification/EventFlowProps.thy ===== *)
theory EventFlowProps imports EventFlow Feed begin

text \<open>
  Every call of the Postgres event repository is told by its messages, and with the relay and the
  projection the feed serves what the event service holds.
\<close>

section \<open>Every call\<close>

lemma in_tx_grows:
  "faults_abort m \<Longrightarrow> grows format sprint parse d (tx_final m d) \<Longrightarrow>
     grows format sprint parse d (fst (in_tx ErrStore m fs c d))"
  using in_tx_final [of m fs c d] by (auto simp: grows_same)

lemma leave_grows:
  assumes inv: "pg_inv d"
  shows "grows format sprint parse d (tx_final
    (tx_bind (selectEventForUpdate ev) (\<lambda>_. cancelRegistrationTx nid corr ev u now)) d)"
  using pg_cancel_state [OF inv, of corr nid ev u now] after_cancel_grows [OF inv] 
  by (auto simp: pgCancelJoin_def quiet_def tx_final_def grows_same)

lemma manager_grows:
  assumes inv: "pg_inv d"
  shows "grows format sprint parse d (tx_final (cancelByManagerTx nid corr ev actor role u now) d)"
  using manager_final_cases [OF inv, of nid corr ev actor role u now] after_cancel_grows [OF inv]
  by (auto simp: grows_same)

lemma pg_step_grows: "pg_step d d' \<Longrightarrow> pg_inv d \<Longrightarrow> grows format sprint parse d d'"
proof (induction rule: pg_step.induct)
  case (pg_create i org ti de ci ve st cap now e d corr net nid)
  then show ?case
    using NewEvent_Inr [OF pg_create.hyps]
    by (auto simp: pgCreateEvent_def then_detail_fst intro!: in_tx_grows create_grows bodies_abort)
next
  case (pg_update d corr net nid ev org role cmd now)
  then show ?case
    by (auto simp: pgUpdateEvent_def then_detail_fst intro!: in_tx_grows update_grows bodies_abort)
next
  case (pg_cancel d corr net nid ev org role now)
  then show ?case
    by (auto simp: pgCancelEvent_def then_detail_fst intro!: in_tx_grows cancel_grows bodies_abort)
next
  case (pg_join d corr net nid ev u key now)
  then show ?case by (auto simp: pgJoinEvent_def intro!: in_tx_grows join_grows bodies_abort)
next
  case (pg_leave d corr net nid ev u now)
  then show ?case by (auto simp: pgCancelJoin_def intro!: in_tx_grows leave_grows cancel_join_abort)
next
  case (pg_manager d corr net nid ev actor role u now)
  then show ?case by (auto simp: pgCancelRegistration_def intro!: in_tx_grows manager_grows bodies_abort)
qed

text \<open>The outbox tells the whole story of the tables: its messages lead from no events to the present ones.\<close>

lemma outbox_tells_all:
  "pg_reachable d \<Longrightarrow> \<forall>m \<in> set (db_outbox d). readable format parse m \<Longrightarrow>
     follows format sprint parse (db_outbox d) emptyEventDB d"
proof (induction rule: pg_reachable.induct)
  case pg_empty
  show ?case by (simp add: emptyEventDB_def follows_Nil)
next
  case (pg_more d d')
  obtain ms where ob: "db_outbox d' = db_outbox d @ ms"
    and ms: "(\<forall>m \<in> set ms. readable format parse m) \<Longrightarrow> follows format sprint parse ms d d'"
    using pg_step_grows [OF pg_more.hyps(2) pg_reachable_inv [OF pg_more.hyps(1)]] unfolding grows_def by blast
  show ?case
    using pg_more.IH pg_more.prems ms unfolding ob by (intro follows_append) auto
qed

lemma outbox_sendable: "pg_reachable d \<Longrightarrow> \<forall>m \<in> set (db_outbox d). sendable m"
proof (induction rule: pg_reachable.induct)
  case (pg_more d d')
  obtain ms where "db_outbox d' = db_outbox d @ ms" "\<forall>m \<in> set ms. sendable m"
    using pg_step_grows [OF pg_more.hyps(2) pg_reachable_inv [OF pg_more.hyps(1)]] unfolding grows_def by blast
  with pg_more.IH show ?case by auto
qed (simp add: emptyEventDB_def)

definition emptyFeedDB :: FeedDB where "emptyFeedDB = \<lparr>fd_events = [], fd_processed = []\<rparr>"

lemma mirrors_empty: "mirrors emptyFeedDB emptyEventDB"
  by (simp add: mirrors_def emptyFeedDB_def emptyEventDB_def shows_row_def)

text \<open>A batch of the relay over all rows.\<close>

lemma batch_of_all:
  assumes rows: "y_rows s = map (relay_row format sprint) ms" and ord: "sorted (map (\<lambda>m. (o_CreatedAt m, o_ID m)) ms)"
    and due: "\<forall>m \<in> set ms. o_AvailableAt m \<le> pg_ts (z_now env) \<and> \<not> z_locked env (o_ID m)"
    and lim: "int (length ms) \<le> limit"
  shows "selectAvailable env limit (y_rows s) = y_rows s"
proof -
  have all: "filter (\<lambda>r. (x_Status r = OutboxPending \<or> x_Status r = OutboxFailed) \<and>
      x_AvailableAt r \<le> pg_ts (z_now env) \<and> \<not> z_locked env (x_ID r)) (y_rows s) = y_rows s"
    using due by (intro filter_all_same) (auto simp: rows relay_row_def)
  have "sorted (map (\<lambda>r. (x_CreatedAt r, x_ID r)) (y_rows s))"
    using ord by (simp add: rows relay_row_def comp_def)
  then have "sort_key (\<lambda>r. (x_CreatedAt r, x_ID r)) (y_rows s) = y_rows s" by (rule sort_key_id_if_sorted)
  moreover have "length (y_rows s) \<le> nat limit" using lim by (simp add: rows)
  ultimately show ?thesis unfolding selectAvailable_def all by simp
qed

text \<open>What a feed that mirrors the events answers.\<close>

lemma mirrored_feed:
  assumes "mirrors f d" and "TrimSpace ev = ev"
  shows "case map_of (db_events d) ev of None \<Rightarrow> pgGetFeed [] ev f = Inl ErrFeedNotFound
      | Some e \<Rightarrow> if e_Status e = EventPublished
          then (\<exists>row. pgGetFeed [] ev f = Inr row \<and> shows_event e row \<and>
            pgConfirmedCount quiet ev d = Inr (f_ConfirmedCount row))
          else pgGetFeed [] ev f = Inl ErrFeedNotFound"
proof -
  have get: "pgGetFeed [] ev f = (case map_of (fd_events f) ev of
      Some r \<Rightarrow> if f_Status r = ''PUBLISHED'' then Inr r else Inl ErrFeedNotFound | None \<Rightarrow> Inl ErrFeedNotFound)"
    by (simp add: pgGetFeed_def tx_bind_def tx_simps assms(2) split: option.split)
  have row: "shows_row d ev (map_of (db_events d) ev) (map_of (fd_events f) ev)"
    using assms(1) by (simp add: mirrors_def)
  show ?thesis
  proof (cases "map_of (db_events d) ev")
    case None
    then show ?thesis using row by (simp add: get shows_row_def)
  next
    case (Some e)
    then obtain r where r: "map_of (fd_events f) ev = Some r" "shows_event e r" "listable e"
      "e_Status e \<noteq> EventCanceled \<longrightarrow> f_ConfirmedCount r = attendees ev d"
      using row by (auto simp: shows_row_def option_rel_Some1)
    then show ?thesis
      using Some by (auto simp: get shows_event_def listable_def pgConfirmedCount_def quiet_def faulty_def attendees_def)
  qed
qed

section \<open>From the event to the feed\<close>

text \<open>
  C8. Events, outbox, relay and projection together: after any calls of the Postgres event repository
  under any faults, let the relay publish the outbox (in one batch without faults, the rows being
  written in the order of the clock) and the projection consume what was published, one message after
  the other, each redelivered under any faults until it is acknowledged. This can always be done, and
  then the feed serves exactly the published events, each with the data and the number of confirmed
  registrations of the event service; an event that was cancelled or never was is not found.
\<close>

theorem feed_serves_events:
  assumes "pg_reachable d" and "\<forall>m \<in> set (db_outbox d). readable format parse m"
    and "y_rows s = map (relay_row format sprint) (db_outbox d)" and "y_broker s = []"
    and "sorted (map (\<lambda>m. (o_CreatedAt m, o_ID m)) (db_outbox d))"
    and "\<forall>m \<in> set (db_outbox d). o_AvailableAt m \<le> pg_ts (z_now env) \<and> \<not> z_locked env (o_ID m)"
    and "0 < limit" and "int (length (db_outbox d)) \<le> limit"
    and "z_faults env = []" and "z_commit env = Committed" and "\<And>v. z_publish env v = PublishAcked"
  shows "(\<exists>f. consumed parse (map snd (y_broker (fst (PublishBatch env limit s)))) emptyFeedDB f) \<and>
    (\<forall>f. consumed parse (map snd (y_broker (fst (PublishBatch env limit s)))) emptyFeedDB f \<longrightarrow>
      (\<forall>ev. TrimSpace ev = ev \<longrightarrow>
        (case map_of (db_events d) ev of
           None \<Rightarrow> pgGetFeed [] ev f = Inl ErrFeedNotFound
         | Some e \<Rightarrow>
             if e_Status e = EventPublished
             then (\<exists>row. pgGetFeed [] ev f = Inr row \<and> shows_event e row \<and>
                     pgConfirmedCount quiet ev d = Inr (f_ConfirmedCount row))
             else pgGetFeed [] ev f = Inl ErrFeedNotFound)))"
proof -
  have sel: "selectAvailable env limit (y_rows s) = y_rows s"
    by (rule batch_of_all [OF assms(3,5,6,8)])
  have valid: "recordEnvelope r = Inr (projr (recordEnvelope r))" if "r \<in> set (y_rows s)" for r
    using that row_envelope_valid [of format parse _ sprint] assms(2) outbox_sendable [OF assms(1)]
    by (auto simp: assms(3) row_envelope_def)
  have broker: "map snd (y_broker (fst (PublishBatch env limit s))) = map (row_envelope format sprint) (db_outbox d)"
  proof -
    have "publish_records env (y_rows s @ []) 0 [] s = publish_records env [] (0 + int (length (y_rows s))) []
        \<lparr>y_rows = map (\<lambda>q. if x_ID q \<in> x_ID ` set (y_rows s) then sent_row env q else q) (y_rows s),
         y_broker = y_broker s @ map (\<lambda>r. (x_RoutingKey r, projr (recordEnvelope r))) (y_rows s)\<rparr>"
      by (rule publish_prefix) (use valid assms(11) in blast)
    then have "y_broker (fst (PublishBatch env limit s)) = map (\<lambda>r. (x_RoutingKey r, projr (recordEnvelope r))) (y_rows s)"
      using assms(4,7,9,10) by (simp add: PublishBatch_def withBatch_def faulty_def sel)
    then show ?thesis by (simp add: assms(3) row_envelope_def comp_def)
  qed
  note story = outbox_tells_all [OF assms(1,2), of sprint, unfolded follows_def, rule_format, OF mirrors_empty]
  have "case map_of (db_events d) ev of None \<Rightarrow> pgGetFeed [] ev f = Inl ErrFeedNotFound
      | Some e \<Rightarrow> if e_Status e = EventPublished
          then (\<exists>row. pgGetFeed [] ev f = Inr row \<and> shows_event e row \<and>
            pgConfirmedCount quiet ev d = Inr (f_ConfirmedCount row))
          else pgGetFeed [] ev f = Inl ErrFeedNotFound"
    if "mirrors f d" "TrimSpace ev = ev" for f ev
    using mirrored_feed [OF that] .
  then show ?thesis unfolding broker using story by blast
qed

text \<open>The event of \<open>ex_full_db\<close>, whose only place \<open>alice\<close> took.\<close>

definition ex_batch :: BatchEnv where
  "ex_batch = \<lparr>z_now = 5000, z_failNow = 5000, z_dbNow = 5000, z_locked = (\<lambda>_. False), z_publish = (\<lambda>_. PublishAcked),
     z_faults = [], z_commit = Committed\<rparr>"

definition ex_start :: "time \<Rightarrow> string" where "ex_start t = ''1970''"
definition ex_sprint :: "int \<Rightarrow> string" where "ex_sprint i = ''1''"

definition ex_outbox :: RelayState where
  "ex_outbox = \<lparr>y_rows = map (relay_row ex_start ex_sprint) (db_outbox ex_full_db), y_broker = []\<rparr>"

lemma ex_full_db_outbox:
  "db_outbox ex_full_db =
     [pg_message ''o'' ''corr'' ''event'' ''ev'' RoutingEventPublished (eventPayload ex_pg_event) 1000,
      pg_message ''r1-a'' ''corr'' ''registration'' ''r1'' RoutingJoinConfirmed
        (registrationPayload (ex_reg ''r1'' ''alice'' Confirmed 0 ''k1'' 2000)) 2000]"
proof -
  have "ex_created_db = tx_final (createEventTx (ex_ids ''o'') ''corr'' ex_pg_event) emptyEventDB"
    by (simp add: ex_created_db_def pgCreateEvent_def then_detail_fst tx_final_def)
  then consider "ex_created_db = emptyEventDB" | "ex_created_db = emptyEventDB\<lparr>
      db_events := mput (e_ID ex_pg_event) (event_row ex_pg_event) (db_events emptyEventDB),
      db_outbox := db_outbox emptyEventDB @ [pg_message (ex_ids ''o'' 0) ''corr'' ''event'' (e_ID ex_pg_event)
        RoutingEventPublished (eventPayload ex_pg_event) (e_CreatedAt ex_pg_event)]\<rparr>"
    using create_final_cases [of "ex_ids ''o''" "''corr''" ex_pg_event emptyEventDB] by metis
  then have created: "db_outbox ex_created_db =
      [pg_message ''o'' ''corr'' ''event'' ''ev'' RoutingEventPublished (eventPayload ex_pg_event) 1000]"
  proof cases
    case 1
    have "db_events emptyEventDB = [(''ev'', ex_pg_event)]" unfolding 1 [symmetric] by simp
    then show ?thesis by (simp add: emptyEventDB_def)
  next
    case 2
    have "db_outbox ex_created_db = [pg_message (ex_ids ''o'' 0) ''corr'' ''event'' (e_ID ex_pg_event)
        RoutingEventPublished (eventPayload ex_pg_event) (e_CreatedAt ex_pg_event)]"
      by (subst 2) (simp add: emptyEventDB_def)
    then show ?thesis by (simp add: ex_ids_def) (simp add: ex_pg_event_def)
  qed
  have "db_registrations (fst (pgJoinEvent ''corr'' quiet (ex_ids ''r1'') ''ev'' ''alice'' ''k1'' 2000 ex_created_db)) \<noteq> []"
    unfolding ex_full_db_def [symmetric] by simp
  then obtain e s where e: "map_of (db_events ex_created_db) ''ev'' = Some e"
    and s: "DecideJoinStatus e (int (mcount (confirmed_for ''ev'') (db_registrations ex_created_db))) 2000 = Inr s"
    and ob: "db_outbox ex_full_db = db_outbox ex_created_db @
      [pg_join_message (ex_ids ''r1'') ''corr'' ''ev'' ''alice'' ''k1'' 2000 s ex_created_db]"
    using pg_join_state [of "''corr''" "ex_ids ''r1''" "''ev''" "''alice''" "''k1''" 2000 ex_created_db]
    unfolding ex_full_db_def by (elim disjE exE conjE) auto
  have "s = Confirmed" using e s by (auto simp: DecideJoinStatus_def time_after_def ex_pg_event_def split: if_splits)
  then show ?thesis by (simp add: ob created pg_join_message_def pg_joined_def ex_reg_def ex_ids_def)
qed

theorem feed_serves_events_witness:
  "\<exists>f row. consumed (\<lambda>_. Some 90000) (map snd (y_broker (fst (PublishBatch ex_batch 10 ex_outbox)))) emptyFeedDB f \<and>
     pgGetFeed [] ''ev'' f = Inr row \<and> f_Title row = ''T'' \<and> f_ConfirmedCount row = 1"
proof -
  have ok: "\<forall>m \<in> set (db_outbox ex_full_db). readable ex_start (\<lambda>_. Some 90000) m"
    by (simp add: ex_full_db_outbox readable_def map_of_withCorrelation ex_start_def pg_ts_def str_eval)
      (simp add: eventPayload_def registrationPayload_def ex_pg_event_def ex_reg_def ex_start_def str_eval)
  have "sorted (map (\<lambda>m. (o_CreatedAt m, o_ID m)) (db_outbox ex_full_db))"
    by (simp add: ex_full_db_outbox pg_ts_def)
  moreover have "\<forall>m \<in> set (db_outbox ex_full_db). o_AvailableAt m \<le> pg_ts (z_now ex_batch) \<and> \<not> z_locked ex_batch (o_ID m)"
    by (simp add: ex_full_db_outbox pg_message_def ex_batch_def pg_ts_def)
  ultimately have serves: "(\<exists>f. consumed (\<lambda>_. Some 90000) (map snd (y_broker (fst (PublishBatch ex_batch 10 ex_outbox)))) emptyFeedDB f) \<and>
    (\<forall>f. consumed (\<lambda>_. Some 90000) (map snd (y_broker (fst (PublishBatch ex_batch 10 ex_outbox)))) emptyFeedDB f \<longrightarrow>
      (\<forall>ev. TrimSpace ev = ev \<longrightarrow>
        (case map_of (db_events ex_full_db) ev of
           None \<Rightarrow> pgGetFeed [] ev f = Inl ErrFeedNotFound
         | Some e \<Rightarrow>
             if e_Status e = EventPublished
             then (\<exists>row. pgGetFeed [] ev f = Inr row \<and> shows_event e row \<and>
                     pgConfirmedCount quiet ev ex_full_db = Inr (f_ConfirmedCount row))
             else pgGetFeed [] ev f = Inl ErrFeedNotFound)))"
    by (intro feed_serves_events [OF ex_full_db_reachable ok, of ex_outbox ex_sprint])
      (simp_all add: ex_outbox_def ex_full_db_outbox ex_batch_def)
  then obtain f where f: "consumed (\<lambda>_. Some 90000) (map snd (y_broker (fst (PublishBatch ex_batch 10 ex_outbox)))) emptyFeedDB f"
    by blast
  have "TrimSpace ''ev'' = ''ev''" by (simp add: str_eval)
  then have "\<exists>row. pgGetFeed [] ''ev'' f = Inr row \<and> shows_event ex_pg_event row \<and>
      pgConfirmedCount quiet ''ev'' ex_full_db = Inr (f_ConfirmedCount row)"
    using serves f by (fastforce simp: ex_pg_event_def)
  then show ?thesis using f
    by (fastforce simp: shows_event_def ex_pg_event_def pgConfirmedCount_def quiet_def faulty_def ex_reg_def confirmed_for_def str_eval)
qed

end
