(* ===== verification/Publisher.thy ===== *)
theory Publisher imports Messaging Observability begin

text \<open>
  \<^verbatim>\<open>internal/platform/messaging/rabbitmq.go\<close>, publishing on a channel in confirm mode: \<open>Publish\<close> of the
  relay's publisher, \<open>publishWithConfirm\<close> of a consumer, and the iteration of the loops \<^verbatim>\<open>Consumer.Run\<close>.

  The broker decides on the messages of a channel, and the client library hands its decisions to the
  listener in the order in which the messages were published; \<open>verdict n\<close> is the decision on the
  message number \<open>n\<close> of the channel, from 0. A reader cannot tell to which message a decision belongs other
  than by this order.
\<close>

record AmqpPublishing =
  pm_Exchange :: string
  pm_RoutingKey :: string
  pm_ContentType :: string
  pm_Headers :: "amqp_table option"
  pm_MessageId :: string
  pm_CorrelationId :: string
  pm_Timestamp :: time
  pm_Body :: string

record ConfirmChannel =
  cn_published :: "AmqpPublishing list"
  cn_read :: nat \<comment> \<open>decisions taken from the listener\<close>

text \<open>
  What one call meets: the error of \<^verbatim>\<open>PublishWithContext\<close>, after which nothing was published, and how
  the \<^verbatim>\<open>select\<close> that waits for a decision ends.
\<close>

datatype confirm_wait = ConfirmArrives | ConfirmsClosed | WaitCanceled string | ConfirmTimeout

record PublishCall =
  pc_error :: "string option"
  pc_wait :: confirm_wait

definition fresh_channel :: ConfirmChannel where
  "fresh_channel = \<lparr>cn_published = [], cn_read = 0\<rparr>"

definition awaitConfirm :: "string \<Rightarrow> string \<Rightarrow> (nat \<Rightarrow> bool) \<Rightarrow> confirm_wait \<Rightarrow> ConfirmChannel
   \<Rightarrow> ConfirmChannel \<times> string option" where
  "awaitConfirm nacked timeout verdict w c =
     (case w of
        ConfirmArrives \<Rightarrow> (c\<lparr>cn_read := cn_read c + 1\<rparr>, if verdict (cn_read c) then None else Some nacked)
      | ConfirmsClosed \<Rightarrow> (c, Some ''publisher confirms channel closed'')
      | WaitCanceled err \<Rightarrow> (c, Some err)
      | ConfirmTimeout \<Rightarrow> (c, Some timeout))"

definition publish_and_wait :: "string \<Rightarrow> string \<Rightarrow> (nat \<Rightarrow> bool) \<Rightarrow> PublishCall \<Rightarrow> AmqpPublishing \<Rightarrow> ConfirmChannel
   \<Rightarrow> ConfirmChannel \<times> string option" where
  "publish_and_wait nacked timeout verdict call msg c =
     (case pc_error call of
        Some err \<Rightarrow> (c, Some err)
      | None \<Rightarrow> awaitConfirm nacked timeout verdict (pc_wait call) (c\<lparr>cn_published := cn_published c @ [msg]\<rparr>))"

section \<open>The publisher of the relay\<close>

text \<open>
  The steps that open a channel, in their order: the channel, the declarations of the topology and
  confirm mode; each with its error, if any.
\<close>

definition NewConfirmingPublisher :: "string option list \<Rightarrow> string + ConfirmChannel" where
  "NewConfirmingPublisher steps =
     (case List.find (\<lambda>e. e \<noteq> None) steps of Some (Some err) \<Rightarrow> Inl err | _ \<Rightarrow> Inr fresh_channel)"

definition traceHeadersFromContext :: "RequestContext \<Rightarrow> amqp_table option" where
  "traceHeadersFromContext ctx =
     (let trace = ct_Trace ctx in
      if tx_TraceParent trace = '''' then None
      else Some ((''traceparent'', AString (tx_TraceParent trace)) #
        (if tx_TraceState trace \<noteq> '''' then [(''tracestate'', AString (tx_TraceState trace))] else [])))"

definition ConfirmingPublish :: "(Envelope \<Rightarrow> string + string) \<Rightarrow> (nat \<Rightarrow> bool) \<Rightarrow> PublishCall \<Rightarrow> RequestContext \<Rightarrow> string
   \<Rightarrow> Envelope \<Rightarrow> ConfirmChannel \<Rightarrow> ConfirmChannel \<times> string option" where
  "ConfirmingPublish marshal verdict call ctx routingKey envelope c =
     (case MarshalJSONBytes marshal envelope of
        Inl err \<Rightarrow> (c, Some err)
      | Inr body \<Rightarrow>
          publish_and_wait ''rabbitmq publish was negatively acknowledged'' ''publisher confirm timeout'' verdict call
            \<lparr>pm_Exchange = EventExchange, pm_RoutingKey = routingKey, pm_ContentType = ''application/json'',
             pm_Headers = traceHeadersFromContext ctx, pm_MessageId = v_MessageID envelope,
             pm_CorrelationId = v_CorrelationID envelope, pm_Timestamp = v_OccurredAt envelope, pm_Body = body\<rparr> c)"

text \<open>The calls of one session of the relay, which ends with the first error.\<close>

fun publish_session :: "(Envelope \<Rightarrow> string + string) \<Rightarrow> (nat \<Rightarrow> bool) \<Rightarrow> (PublishCall \<times> RequestContext \<times> string \<times> Envelope) list
   \<Rightarrow> ConfirmChannel \<Rightarrow> ConfirmChannel \<times> string option list" where
  "publish_session marshal verdict [] c = (c, [])"
| "publish_session marshal verdict ((call, ctx, routingKey, envelope) # calls) c =
     (case ConfirmingPublish marshal verdict call ctx routingKey envelope c of
        (c', Some err) \<Rightarrow> (c', [Some err])
      | (c', None) \<Rightarrow> (case publish_session marshal verdict calls c' of (c'', results) \<Rightarrow> (c'', None # results)))"

section \<open>Failed deliveries\<close>

record AmqpDelivery =
  dv_RoutingKey :: string
  dv_Headers :: amqp_table
  dv_ContentType :: string
  dv_MessageId :: string
  dv_CorrelationId :: string
  dv_Body :: string

definition copy_of :: "time \<Rightarrow> AmqpDelivery \<Rightarrow> Publishing \<Rightarrow> AmqpPublishing" where
  "copy_of now delivery msg =
     \<lparr>pm_Exchange = b_Exchange msg, pm_RoutingKey = b_RoutingKey msg, pm_ContentType = dv_ContentType delivery,
      pm_Headers = Some (b_Headers msg), pm_MessageId = dv_MessageId delivery,
      pm_CorrelationId = dv_CorrelationId delivery, pm_Timestamp = now, pm_Body = dv_Body delivery\<rparr>"

definition publishWithConfirm :: "(nat \<Rightarrow> bool) \<Rightarrow> PublishCall \<Rightarrow> time \<Rightarrow> AmqpDelivery \<Rightarrow> ConfirmChannel \<Rightarrow> Publishing
   \<Rightarrow> ConfirmChannel \<times> string option" where
  "publishWithConfirm verdict call now delivery c msg =
     publish_and_wait ''failed delivery publish was negatively acknowledged'' ''failed delivery publish confirm timeout''
       verdict call (copy_of now delivery msg) c"

text \<open>A header that is no string counts as the empty one.\<close>

definition ContextWithAMQPTraceHeaders :: "RequestContext \<Rightarrow> amqp_table \<Rightarrow> RequestContext" where
  "ContextWithAMQPTraceHeaders ctx headers =
     (let text = (\<lambda>key. case map_of headers key of Some (AString v) \<Rightarrow> v | _ \<Rightarrow> '''');
          trace = \<lparr>tx_TraceParent = TrimSpace (text ''traceparent''), tx_TraceState = TrimSpace (text ''tracestate'')\<rparr>
      in if ValidTraceParent (tx_TraceParent trace) then ContextWithTraceContext trace ctx else ctx)"

section \<open>The loop of a consumer\<close>

text \<open>
  \<open>handle x\<close> is what the service does with an envelope in an attempt that meets \<open>x\<close>; \<open>error_text\<close> is \<^verbatim>\<open>err.Error()\<close>.
\<close>

record ('x, 'd, 'e) ConsumerHandler =
  ch_queue :: string
  ch_unmarshal :: "string \<Rightarrow> string + Envelope"
  ch_handle :: "'x \<Rightarrow> Envelope \<Rightarrow> 'd \<Rightarrow> 'd \<times> 'e option"
  ch_error_text :: "'e \<Rightarrow> string"

record 'x ConsumerCall =
  ci_attempt :: 'x
  ci_publish :: PublishCall
  ci_now :: time

definition handleDelivery :: "('x, 'd, 'e) ConsumerHandler \<Rightarrow> 'x \<Rightarrow> AmqpDelivery \<Rightarrow> 'd \<Rightarrow> 'd \<times> string option" where
  "handleDelivery h x delivery d =
     (case DecodeEnvelope (ch_unmarshal h) (dv_Body delivery) of
        Inl err \<Rightarrow> (d, Some err)
      | Inr envelope \<Rightarrow> (case ch_handle h x envelope d of (d', e) \<Rightarrow> (d', map_option (ch_error_text h) e)))"

definition consumeDelivery :: "('x, 'd, 'e) ConsumerHandler \<Rightarrow> (nat \<Rightarrow> bool) \<Rightarrow> 'x ConsumerCall \<times> AmqpDelivery
   \<Rightarrow> ConfirmChannel \<times> 'd \<Rightarrow> (ConfirmChannel \<times> 'd) \<times> settled" where
  "consumeDelivery h verdict step s =
     (let (call, delivery) = step; (c, d) = s in
      case handleDelivery h (ci_attempt call) delivery d of
        (d', None) \<Rightarrow> ((c, d'), Acked)
      | (d', Some err) \<Rightarrow>
          (let send = publishWithConfirm verdict (ci_publish call) (ci_now call) delivery c in
           case PublishFailedDelivery (ch_queue h) (dv_RoutingKey delivery) (dv_Headers delivery) (Some err)
                  (\<lambda>msg. snd (send msg) = None) of
             Republished action msg \<Rightarrow> ((fst (send msg), d'), AckedRepublished action msg)
           | PublishRefused msg \<Rightarrow> ((fst (send msg), d'), Requeued)
           | PublishPanics \<Rightarrow> ((c, d'), Crashed)
           | NoRetryPolicy \<Rightarrow> ((c, d'), Requeued)))"

text \<open>The deliveries of one session, in their order; a panic ends the process.\<close>

fun consume_run :: "('x, 'd, 'e) ConsumerHandler \<Rightarrow> (nat \<Rightarrow> bool) \<Rightarrow> ('x ConsumerCall \<times> AmqpDelivery) list
   \<Rightarrow> ConfirmChannel \<times> 'd \<Rightarrow> (ConfirmChannel \<times> 'd) \<times> settled list" where
  "consume_run h verdict [] s = (s, [])"
| "consume_run h verdict (step # steps) s =
     (case consumeDelivery h verdict step s of
        (s', Crashed) \<Rightarrow> (s', [Crashed])
      | (s', result) \<Rightarrow> (case consume_run h verdict steps s' of (s'', results) \<Rightarrow> (s'', result # results)))"

end
