(* ===== verification/PublisherProps.thy ===== *)
theory PublisherProps imports Publisher MessagingProps FeedProjection Notification begin

text \<open>
  Which decision of the broker a publisher takes for the decision on its own message: its own while
  every wait on the channel has ended with a decision, that of an earlier message afterwards.
\<close>

section \<open>The consumers of the program\<close>

text \<open>
  \<^verbatim>\<open>feedprojection/consumer.go\<close> and \<^verbatim>\<open>notification/consumer.go\<close>. An attempt of the projection meets the
  \<^verbatim>\<open>now()\<close> of the database, faults and the outcome of the commit; one of the notifications also draws an id.
\<close>

definition feedConsumer :: "(string \<Rightarrow> time option) \<Rightarrow> (string \<Rightarrow> string + Envelope)
   \<Rightarrow> (time \<times> faults \<times> commit_outcome, FeedDB, string) ConsumerHandler" where
  "feedConsumer parse_time unmarshal =
     \<lparr>ch_queue = FeedQueue, ch_unmarshal = unmarshal,
      ch_handle = (\<lambda>(dbNow, fs, outcome) envelope d.
        case HandleEnvelope parse_time dbNow fs outcome envelope d of
          (d', Inl err) \<Rightarrow> (d', Some err) | (d', Inr _) \<Rightarrow> (d', None)),
      ch_error_text = (\<lambda>err. err)\<rparr>"

definition notificationConsumer :: "(notification_error \<Rightarrow> string) \<Rightarrow> (string \<Rightarrow> string + Envelope)
   \<Rightarrow> (string \<times> time \<times> faults \<times> commit_outcome, NotificationDB, notification_error) ConsumerHandler" where
  "notificationConsumer error_text unmarshal =
     \<lparr>ch_queue = NotificationQueue, ch_unmarshal = unmarshal,
      ch_handle = (\<lambda>(newID, now, fs, outcome) envelope d.
        case ProcessEnvelope newID now fs outcome envelope d of
          (d', Inl err) \<Rightarrow> (d', Some err) | (d', Inr _) \<Rightarrow> (d', None)),
      ch_error_text = error_text\<rparr>"

section \<open>Waits without a decision\<close>

definition sent :: "ConfirmChannel \<Rightarrow> nat" where
  "sent c = length (cn_published c)"

text \<open>The delivery was put back because the wait for the decision on its copy ended without one.\<close>

definition unanswered :: "('x ConsumerCall \<times> AmqpDelivery) \<times> settled \<Rightarrow> bool" where
  "unanswered = (\<lambda>((call, delivery), result). result = Requeued \<and> pc_error (ci_publish call) = None \<and>
     pc_wait (ci_publish call) \<noteq> ConfirmArrives)"

definition missed :: "('x ConsumerCall \<times> AmqpDelivery) list \<Rightarrow> settled list \<Rightarrow> nat \<Rightarrow> nat" where
  "missed steps results i = length (filter unanswered (take i (zip steps results)))"

lemma publish_and_wait_cases:
  assumes "publish_and_wait nacked timeout verdict call msg c = (c', r)"
  obtains (failed) "pc_error call \<noteq> None" "c' = c" "r \<noteq> None"
  | (answered) "pc_error call = None" "pc_wait call = ConfirmArrives" "cn_published c' = cn_published c @ [msg]"
      "cn_read c' = cn_read c + 1" "r = None \<longleftrightarrow> verdict (cn_read c)"
  | (waited) "pc_error call = None" "pc_wait call \<noteq> ConfirmArrives" "cn_published c' = cn_published c @ [msg]"
      "cn_read c' = cn_read c" "r \<noteq> None"
proof (cases "pc_error call")
  case (Some err)
  then have "c' = c" "r = Some err" using assms by (simp_all add: publish_and_wait_def)
  with Some show ?thesis by (intro failed) simp_all
next
  case None
  then show ?thesis using assms answered waited
    by (cases "pc_wait call") (auto simp: publish_and_wait_def awaitConfirm_def split: if_splits)
qed

lemma PublishFailedDelivery_outcome:
  "PublishFailedDelivery queue key hs cause accepts = Republished action msg \<Longrightarrow> accepts msg"
  "PublishFailedDelivery queue key hs cause accepts = PublishRefused msg \<Longrightarrow> \<not> accepts msg"
  "PublishFailedDelivery queue key hs cause accepts = NoRetryPolicy \<Longrightarrow> map_of retryPolicies queue = None"
  by (auto simp: PublishFailedDelivery_def Let_def split: option.splits if_splits)

text \<open>One delivery: what its result says, and how far the reader lags behind afterwards.\<close>

lemma consumeDelivery_step:
  assumes "map_of retryPolicies (ch_queue h) \<noteq> None" and "cn_read c \<le> sent c"
    and "consumeDelivery h verdict (call, delivery) (c, d) = ((c', d'), result)"
  shows "cn_read c' \<le> sent c' \<and> prefix (cn_published c) (cn_published c') \<and>
    sent c' - cn_read c' = sent c - cn_read c + (if unanswered ((call, delivery), result) then 1 else 0) \<and>
    (result = Acked \<longrightarrow> snd (handleDelivery h (ci_attempt call) delivery d) = None) \<and>
    (\<forall>action msg. result = AckedRepublished action msg \<longrightarrow>
       cn_published c' = cn_published c @ [copy_of (ci_now call) delivery msg] \<and> verdict (cn_read c))"
proof -
  obtain d1 e where h: "handleDelivery h (ci_attempt call) delivery d = (d1, e)" by (metis surj_pair)
  show ?thesis
  proof (cases e)
    case None
    then show ?thesis using assms h by (simp add: consumeDelivery_def unanswered_def)
  next
    case (Some err)
    let ?send = "publishWithConfirm verdict (ci_publish call) (ci_now call) delivery c"
    let ?out = "PublishFailedDelivery (ch_queue h) (dv_RoutingKey delivery) (dv_Headers delivery) (Some err)
      (\<lambda>msg. snd (?send msg) = None)"
    have pub: "publish_and_wait ''failed delivery publish was negatively acknowledged''
        ''failed delivery publish confirm timeout'' verdict (ci_publish call) (copy_of (ci_now call) delivery msg) c =
      (fst (?send msg), snd (?send msg))" for msg
      by (simp add: publishWithConfirm_def)
    show ?thesis
    proof (cases ?out)
      case (Republished action msg)
      then have "c' = fst (?send msg)" "result = AckedRepublished action msg" "snd (?send msg) = None"
        using assms(3) h Some PublishFailedDelivery_outcome(1) [OF Republished]
        by (simp_all add: consumeDelivery_def Let_def)
      then show ?thesis using assms(2)
        by (cases rule: publish_and_wait_cases [OF pub [of msg]]) (auto simp: sent_def unanswered_def)
    next
      case (PublishRefused msg)
      then have "c' = fst (?send msg)" "result = Requeued" "snd (?send msg) \<noteq> None"
        using assms(3) h Some PublishFailedDelivery_outcome(2) [OF PublishRefused]
        by (simp_all add: consumeDelivery_def Let_def)
      then show ?thesis using assms(2)
        by (cases rule: publish_and_wait_cases [OF pub [of msg]]) (auto simp: sent_def unanswered_def)
    next
      case PublishPanics
      then show ?thesis using assms h Some by (simp add: consumeDelivery_def Let_def unanswered_def)
    next
      case NoRetryPolicy
      then show ?thesis using assms(1) PublishFailedDelivery_outcome(3) [OF NoRetryPolicy] by simp
    qed
  qed
qed

lemma consume_run_Cons:
  assumes "consume_run h verdict (step # steps) s = (s'', results)"
  obtains s' result rest where "consumeDelivery h verdict step s = (s', result)" "results = result # rest"
    "result = Crashed \<and> rest = [] \<and> s'' = s' \<or> result \<noteq> Crashed \<and> consume_run h verdict steps s' = (s'', rest)"
  using assms by (auto split: prod.splits settled.splits)

lemma consume_run_published:
  assumes "map_of retryPolicies (ch_queue h) \<noteq> None" and "cn_read c \<le> sent c"
    and "consume_run h verdict steps (c, d) = ((c', d'), results)"
  shows "prefix (cn_published c) (cn_published c')"
  using assms(2-)
proof (induction steps arbitrary: c d results)
  case (Cons step steps)
  obtain s' result rest where one: "consumeDelivery h verdict step (c, d) = (s', result)"
    and rest: "result = Crashed \<and> rest = [] \<and> (c', d') = s' \<or>
      result \<noteq> Crashed \<and> consume_run h verdict steps s' = ((c', d'), rest)"
    using Cons.prems(2) by (rule consume_run_Cons)
  obtain c1 d1 where s': "s' = (c1, d1)" by (metis surj_pair)
  obtain call delivery where "step = (call, delivery)" by (metis surj_pair)
  then have now: "cn_read c1 \<le> sent c1 \<and> prefix (cn_published c) (cn_published c1)"
    using consumeDelivery_step [OF assms(1) Cons.prems(1)] one s' by blast
  then show ?case using rest Cons.IH [of c1 d1 rest] s' by (auto intro: prefix_order.trans)
qed simp

text \<open>The lag at the start of a session counts as waits without a decision do.\<close>

lemma consume_run_states:
  assumes "map_of retryPolicies (ch_queue h) \<noteq> None" and "cn_read c \<le> sent c"
    and "consume_run h verdict steps (c, d) = ((c', d'), results)" and "i < length results"
    and "steps ! i = (call, delivery)"
  shows "(results ! i = Acked \<longrightarrow>
       snd (handleDelivery h (ci_attempt call) delivery (snd (fst (consume_run h verdict (take i steps) (c, d))))) = None) \<and>
    (\<forall>action msg. results ! i = AckedRepublished action msg \<longrightarrow>
       (\<exists>p < sent c'. cn_published c' ! p = copy_of (ci_now call) delivery msg \<and>
          sent c - cn_read c + missed steps results i \<le> p \<and>
          verdict (p - (sent c - cn_read c + missed steps results i))))"
  using assms(2-)
proof (induction steps arbitrary: c d results i)
  case (Cons step steps)
  obtain s' result rest where one: "consumeDelivery h verdict step (c, d) = (s', result)" "results = result # rest"
    and rest: "result = Crashed \<and> rest = [] \<and> (c', d') = s' \<or>
      result \<noteq> Crashed \<and> consume_run h verdict steps s' = ((c', d'), rest)"
    using Cons.prems(2) by (rule consume_run_Cons)
  obtain c1 d1 where s': "s' = (c1, d1)" by (metis surj_pair)
  obtain call0 delivery0 where st: "step = (call0, delivery0)" by (metis surj_pair)
  note now = consumeDelivery_step [OF assms(1) Cons.prems(1) one(1) [unfolded s' st]]
  show ?case
  proof (cases i)
    case 0
    have "prefix (cn_published c1) (cn_published c')"
      using rest consume_run_published [OF assms(1)] now s' by blast
    then have "sent c < sent c' \<and> cn_published c' ! sent c = copy_of (ci_now call) delivery msg"
      if "cn_published c1 = cn_published c @ [copy_of (ci_now call) delivery msg]" for msg
      using that by (auto simp: sent_def prefix_def)
    then show ?thesis using now Cons.prems(1,4) one(2) st 0
      by (auto simp: missed_def intro!: exI [of _ "sent c"])
  next
    case (Suc j)
    then have run: "result \<noteq> Crashed" "consume_run h verdict steps (c1, d1) = ((c', d'), rest)" "j < length rest"
      using rest one(2) Cons.prems(3) s' by auto
    have at: "steps ! j = (call, delivery)" using Cons.prems(4) Suc by simp
    have state: "fst (consume_run h verdict (take i (step # steps)) (c, d)) = fst (consume_run h verdict (take j steps) (c1, d1))"
      using run(1) one(1) s' Suc by (auto split: prod.split settled.split)
    have "missed (step # steps) results i = missed steps rest j + (if unanswered (step, result) then 1 else 0)"
      by (simp add: missed_def one(2) Suc)
    then have lag: "sent c - cn_read c + missed (step # steps) results i = sent c1 - cn_read c1 + missed steps rest j"
      using now st by simp
    have "results ! i = rest ! j" using one(2) Suc by simp
    then show ?thesis using Cons.IH [OF conjunct1 [OF now] run(2,3) at] unfolding state lag by simp
  qed
qed simp

section \<open>The relay\<close>

text \<open>
  The session of the relay ends with its first error, so its reader never lags: a message that it
  counts as published is one that the broker accepted.
\<close>

lemma ConfirmingPublish_own:
  assumes "cn_read c = sent c" and "ConfirmingPublish marshal verdict call ctx routingKey envelope c = (c', None)"
  shows "cn_read c' = sent c' \<and> verdict (sent c) \<and> (\<exists>msg. cn_published c' = cn_published c @ [msg] \<and>
    pm_MessageId msg = v_MessageID envelope \<and> pm_RoutingKey msg = routingKey)"
proof -
  obtain msg where "publish_and_wait ''rabbitmq publish was negatively acknowledged'' ''publisher confirm timeout''
      verdict call msg c = (c', None)" "pm_MessageId msg = v_MessageID envelope" "pm_RoutingKey msg = routingKey"
    using assms(2) by (fastforce simp: ConfirmingPublish_def split: sum.splits)
  then show ?thesis using assms(1)
    by (cases rule: publish_and_wait_cases) (auto simp: sent_def)
qed

lemma publish_session_prefix:
  "publish_session marshal verdict calls c = (c', results) \<Longrightarrow> prefix (cn_published c) (cn_published c')"
proof (induction calls arbitrary: c results)
  case (Cons one calls)
  obtain call ctx key envelope where one: "one = (call, ctx, key, envelope)" by (metis surj_pair)
  obtain c1 r where first: "ConfirmingPublish marshal verdict call ctx key envelope c = (c1, r)" by (metis surj_pair)
  have "prefix (cn_published c) (cn_published c1)"
    using first by (auto simp: ConfirmingPublish_def publish_and_wait_def awaitConfirm_def
        split: sum.splits option.splits confirm_wait.splits if_splits)
  then show ?case using Cons.prems Cons.IH one first
    by (auto split: option.splits prod.splits intro: prefix_order.trans)
qed simp

lemma publish_session_own:
  assumes "cn_read c = sent c" and "publish_session marshal verdict calls c = (c', results)"
    and "i < length results" and "results ! i = None" and "calls ! i = (call, ctx, routingKey, envelope)"
  shows "verdict (sent c + i) \<and> (\<exists>more. cn_published c' = cn_published c @ more \<and> i < length more \<and>
    pm_MessageId (more ! i) = v_MessageID envelope \<and> pm_RoutingKey (more ! i) = routingKey)"
  using assms
proof (induction calls arbitrary: c results i)
  case (Cons one calls)
  obtain call1 ctx1 key1 envelope1 where one: "one = (call1, ctx1, key1, envelope1)" by (metis surj_pair)
  obtain c1 r where first: "ConfirmingPublish marshal verdict call1 ctx1 key1 envelope1 c = (c1, r)" by (metis surj_pair)
  show ?case
  proof (cases r)
    case (Some err)
    then show ?thesis using Cons.prems one first by auto
  next
    case None
    obtain c2 rest where "publish_session marshal verdict calls c1 = (c2, rest)" by (metis surj_pair)
    then have tail: "publish_session marshal verdict calls c1 = (c', rest)" and rs: "results = None # rest"
      using Cons.prems(2) one first None by auto
    obtain msg where own: "cn_read c1 = sent c1" "verdict (sent c)" "cn_published c1 = cn_published c @ [msg]"
      "pm_MessageId msg = v_MessageID envelope1" "pm_RoutingKey msg = key1"
      using ConfirmingPublish_own [OF Cons.prems(1) first [unfolded None]] by blast
    show ?thesis
    proof (cases i)
      case 0
      then show ?thesis using own one Cons.prems(5) publish_session_prefix [OF tail] by (auto simp: prefix_def)
    next
      case (Suc j)
      then have "j < length rest" "rest ! j = None" "calls ! j = (call, ctx, routingKey, envelope)"
        using Cons.prems(3-5) rs by simp_all
      from Cons.IH [OF own(1) tail this] obtain more where "verdict (sent c1 + j)"
        "cn_published c' = cn_published c1 @ more" "j < length more" "pm_MessageId (more ! j) = v_MessageID envelope"
        "pm_RoutingKey (more ! j) = routingKey" by blast
      then show ?thesis using own(3) Suc by (auto simp: sent_def intro!: exI [of _ "msg # more"])
    qed
  qed
qed simp

section \<open>Acknowledgements of a consumer\<close>

text \<open>
  C15: a consumer tells the broker to forget a delivery only when its handler succeeded, or when it
  has published a copy and has taken a positive decision for the one on it. That decision is the one
  on the copy itself as long as every earlier wait of the session ended with a decision; after \<open>n\<close> waits that
  did not (a timeout, say), it is the one on the message published \<open>n\<close> before, so a copy that the
  broker refuses can count as accepted, and the message is lost.
\<close>

theorem consumer_acknowledges:
  assumes "ch_queue h \<in> {FeedQueue, NotificationQueue}"
    and "consume_run h verdict steps (fresh_channel, d) = ((c', d'), results)"
    and "i < length results" and "steps ! i = (call, delivery)"
  shows "(results ! i = Acked \<longrightarrow>
       snd (handleDelivery h (ci_attempt call) delivery
         (snd (fst (consume_run h verdict (take i steps) (fresh_channel, d))))) = None) \<and>
    (\<forall>action msg. results ! i = AckedRepublished action msg \<longrightarrow>
       (\<exists>p < length (cn_published c'). cn_published c' ! p = copy_of (ci_now call) delivery msg \<and>
          missed steps results i \<le> p \<and> verdict (p - missed steps results i)))"
proof -
  have "map_of retryPolicies (ch_queue h) \<noteq> None" using assms(1) by auto
  from consume_run_states [OF this _ assms(2-4)] show ?thesis
    by (simp add: fresh_channel_def sent_def)
qed

definition ex_bad_delivery :: "string \<Rightarrow> AmqpDelivery" where
  "ex_bad_delivery i = \<lparr>dv_RoutingKey = ''join.confirmed'', dv_Headers = [], dv_ContentType = ''application/json'',
     dv_MessageId = i, dv_CorrelationId = '''', dv_Body = ''?''\<rparr>"

definition ex_wait_call :: "confirm_wait \<Rightarrow> (time \<times> faults \<times> commit_outcome) ConsumerCall" where
  "ex_wait_call w = \<lparr>ci_attempt = (7, [], Committed), ci_publish = \<lparr>pc_error = None, pc_wait = w\<rparr>, ci_now = 7\<rparr>"

text \<open>Two bodies that do not decode; the wait for the first copy times out, the broker refuses the second copy.\<close>

theorem consumer_acknowledges_witness:
  "\<exists>verdict c d msg. \<not> verdict 1 \<and> consume_run (feedConsumer (\<lambda>_. None) (\<lambda>_. Inl ''syntax'')) verdict
      [(ex_wait_call ConfirmTimeout, ex_bad_delivery ''m1''), (ex_wait_call ConfirmArrives, ex_bad_delivery ''m2'')]
      (fresh_channel, \<lparr>fd_events = [], fd_processed = []\<rparr>) = ((c, d), [Requeued, AckedRepublished FailedDeliveryRetried msg]) \<and>
    cn_published c ! 1 = copy_of 7 (ex_bad_delivery ''m2'') msg"
proof -
  let ?h = "feedConsumer (\<lambda>_. None) (\<lambda>_. Inl ''syntax'')" and ?v = "\<lambda>n. n = (0 :: nat)"
  let ?steps = "[(ex_wait_call ConfirmTimeout, ex_bad_delivery ''m1''), (ex_wait_call ConfirmArrives, ex_bad_delivery ''m2'')]"
  obtain c d msg where run: "consume_run ?h ?v ?steps (fresh_channel, \<lparr>fd_events = [], fd_processed = []\<rparr>) =
      ((c, d), [Requeued, AckedRepublished FailedDeliveryRetried msg])" and two: "length (cn_published c) = 2"
    by (simp add: consumeDelivery_def handleDelivery_def feedConsumer_def DecodeEnvelope_def ex_wait_call_def ex_bad_delivery_def
        PublishFailedDelivery_def DeliveryRetryCount_def MaxConsumerRetries_def consumerRetryDelays_def
        publishWithConfirm_def publish_and_wait_def awaitConfirm_def fresh_channel_def)
  have "missed ?steps [Requeued, AckedRepublished FailedDeliveryRetried msg] 1 = 1"
    by (simp add: missed_def unanswered_def ex_wait_call_def)
  then obtain p where "p < 2" "cn_published c ! p = copy_of 7 (ex_bad_delivery ''m2'') msg" "1 \<le> p"
    using consumer_acknowledges [OF _ run, of 1 "ex_wait_call ConfirmArrives" "ex_bad_delivery ''m2''"] two
    by (auto simp: feedConsumer_def ex_wait_call_def)
  moreover have "p = 1" using calculation(1,3) by simp
  ultimately show ?thesis using run by (intro exI [of _ ?v] exI [of _ c] exI [of _ d] exI [of _ msg]) simp
qed

end
