(* ===== verification/Processes.thy ===== *)
theory Processes imports Config OutboxRelayProps PublisherProps MediaService begin

text \<open>
  The processes of \<^verbatim>\<open>cmd\<close> and \<^verbatim>\<open>internal/platform/app\<close>: how they start, loop and end. A loop runs over
  the script of what its iterations meet: the errors of opening connections, the answers of the database
  and the broker, whether the context was cancelled and whether a pause ran to its end. What other
  processes do to the shared state in between is part of the script.
\<close>

text \<open>\<open>Running\<close>: the script is over before the process is. A panic ends a process with code 2.\<close>

datatype exit = Exited int | Running

datatype session_end = SessionError string | SessionRunning | SessionPanic

text \<open>The first error of a sequence of steps, each of which is tried only after the one before it.\<close>

definition first_failure :: "string option list \<Rightarrow> string option" where
  "first_failure steps = (case List.find (\<lambda>e. e \<noteq> None) steps of None \<Rightarrow> None | Some e \<Rightarrow> e)"

definition truthy :: "string \<Rightarrow> bool" where
  "truthy value \<longleftrightarrow> ToLower (TrimSpace value) \<in> {''1'', ''true'', ''yes''}"

definition envInt :: "(string \<Rightarrow> string) \<Rightarrow> string \<Rightarrow> int \<Rightarrow> int" where
  "envInt getenv key fallback =
     (let value = TrimSpace (getenv key) in
      if value = '''' then fallback
      else (case Atoi value of None \<Rightarrow> fallback | Some v \<Rightarrow> if v \<le> 0 then fallback else v))"

definition envDuration :: "GoNet \<Rightarrow> (string \<Rightarrow> string) \<Rightarrow> string \<Rightarrow> duration \<Rightarrow> duration" where
  "envDuration net getenv key fallback =
     (let value = TrimSpace (getenv key) in
      if value = '''' then fallback
      else (case gn_ParseDuration net value of
              None \<Rightarrow> fallback | Some v \<Rightarrow> if v \<le> 0 then fallback else v))"

section \<open>The outbox relay\<close>

text \<open>
  \<open>rs_setup\<close> are the errors of dialling and of opening the publisher; an iteration of a session is a
  batch, what the services write before it, and the error of the context if it is done afterwards.
  \<open>rs_canceled\<close> is the test \<^verbatim>\<open>errors.Is(err, context.Canceled) || ctx.Err() != nil\<close> after the session.
\<close>

type_synonym relay_iteration = "(RelayState \<Rightarrow> RelayState) \<times> BatchEnv \<times> string option"

record RelaySession =
  rs_setup :: "string option list"
  rs_batches :: "relay_iteration list"
  rs_canceled :: bool
  rs_slept :: bool

fun relay_batches :: "int \<Rightarrow> relay_iteration list \<Rightarrow> RelayState \<Rightarrow> RelayState \<times> session_end" where
  "relay_batches batchSize [] s = (s, SessionRunning)"
| "relay_batches batchSize ((others, env, ctx_done) # script) s =
     (case PublishBatch env batchSize (others s) of
        (s', published, Some err) \<Rightarrow> (s', SessionError err)
      | (s', published, None) \<Rightarrow>
          (case ctx_done of
             Some err \<Rightarrow> (s', SessionError err)
           | None \<Rightarrow> relay_batches batchSize script s'))"

definition runRelaySession :: "int \<Rightarrow> RelaySession \<Rightarrow> RelayState \<Rightarrow> RelayState \<times> session_end" where
  "runRelaySession batchSize x s =
     (case first_failure (rs_setup x) of
        Some err \<Rightarrow> (s, SessionError err)
      | None \<Rightarrow> relay_batches batchSize (rs_batches x) s)"

fun runRelayLoop :: "int \<Rightarrow> RelaySession list \<Rightarrow> RelayState \<Rightarrow> RelayState \<times> exit" where
  "runRelayLoop batchSize [] s = (s, Running)"
| "runRelayLoop batchSize (x # script) s =
     (case runRelaySession batchSize x s of
        (s', SessionError err) \<Rightarrow>
          if rs_canceled x then (s', Exited 0)
          else if \<not> rs_slept x then (s', Exited 0)
          else runRelayLoop batchSize script s'
      | (s', SessionRunning) \<Rightarrow> (s', Running)
      | (s', SessionPanic) \<Rightarrow> (s', Exited 2))"

text \<open>
  \<open>setup\<close> are the errors of opening the pool and of its ping, \<open>once\<close> what the one batch of
  \<^verbatim>\<open>OUTBOX_RELAY_RUN_ONCE\<close> meets.
\<close>

definition relay_run :: "GoNet \<Rightarrow> (string \<Rightarrow> string) \<Rightarrow> string option list \<Rightarrow> string option list \<times> BatchEnv
   \<Rightarrow> RelaySession list \<Rightarrow> RelayState \<Rightarrow> RelayState \<times> exit" where
  "relay_run net getenv setup once script s =
     (case Load net ''outbox-relay'' (Some getenv) of
        Inl err \<Rightarrow> (s, Exited 1)
      | Inr cfg \<Rightarrow>
          if first_failure setup \<noteq> None then (s, Exited 1)
          else (let batchSize = envInt getenv ''OUTBOX_RELAY_BATCH_SIZE'' DefaultBatchSize in
            if truthy (getenv ''OUTBOX_RELAY_RUN_ONCE'')
            then (if first_failure (fst once) \<noteq> None then (s, Exited 1)
                  else (case PublishBatch (snd once) batchSize s of
                          (s', published, Some err) \<Rightarrow> (s', Exited 1)
                        | (s', published, None) \<Rightarrow> (s', Exited 0)))
            else runRelayLoop batchSize script s))"

section \<open>Consumers\<close>

text \<open>How the \<^verbatim>\<open>select\<close> of \<^verbatim>\<open>Consumer.Run\<close> goes on after the deliveries of the script.\<close>

datatype serving = StillServing | ServingCanceled string | DeliveriesClosed

record 'x ConsumerSession =
  ks_setup :: "string option list" \<comment> \<open>dialling, channel, topology, confirm mode, prefetch, consume\<close>
  ks_verdict :: "nat \<Rightarrow> bool"
  ks_steps :: "('x ConsumerCall \<times> AmqpDelivery) list"
  ks_end :: serving
  ks_canceled :: bool
  ks_slept :: bool

definition runConsumerSession :: "string \<Rightarrow> ('x, 'd, 'e) ConsumerHandler \<Rightarrow> 'x ConsumerSession \<Rightarrow> 'd \<Rightarrow> 'd \<times> session_end" where
  "runConsumerSession stopped h x d =
     (case first_failure (ks_setup x) of
        Some err \<Rightarrow> (d, SessionError err)
      | None \<Rightarrow>
          (case consume_run h (ks_verdict x) (ks_steps x) (fresh_channel, d) of
             ((c, d'), results) \<Rightarrow>
               (d', if Crashed \<in> set results then SessionPanic
                    else (case ks_end x of
                            StillServing \<Rightarrow> SessionRunning
                          | ServingCanceled err \<Rightarrow> SessionError err
                          | DeliveriesClosed \<Rightarrow> SessionError stopped))))"

fun runConsumerLoop :: "string \<Rightarrow> ('x, 'd, 'e) ConsumerHandler \<Rightarrow> 'x ConsumerSession list \<Rightarrow> 'd \<Rightarrow> 'd \<times> exit" where
  "runConsumerLoop stopped h [] d = (d, Running)"
| "runConsumerLoop stopped h (x # script) d =
     (case runConsumerSession stopped h x d of
        (d', SessionError err) \<Rightarrow>
          if ks_canceled x then (d', Exited 0)
          else if \<not> ks_slept x then (d', Exited 0)
          else runConsumerLoop stopped h script d'
      | (d', SessionRunning) \<Rightarrow> (d', Running)
      | (d', SessionPanic) \<Rightarrow> (d', Exited 2))"

definition feed_worker_run :: "GoNet \<Rightarrow> (string \<Rightarrow> string) \<Rightarrow> string option list \<Rightarrow> (string \<Rightarrow> time option)
   \<Rightarrow> (string \<Rightarrow> string + Envelope) \<Rightarrow> (time \<times> faults \<times> commit_outcome) ConsumerSession list \<Rightarrow> FeedDB \<Rightarrow> FeedDB \<times> exit" where
  "feed_worker_run net getenv setup parse_time unmarshal script d =
     (case Load net ''feed-worker'' (Some getenv) of
        Inl err \<Rightarrow> (d, Exited 1)
      | Inr cfg \<Rightarrow>
          if first_failure setup \<noteq> None then (d, Exited 1)
          else runConsumerLoop ''feed consumer stopped'' (feedConsumer parse_time unmarshal) script d)"

text \<open>The notification worker has its own copy of the loop; its delivery loop runs beside the consumer.\<close>

definition notificationConsumerSession ::
  "('x, 'd, 'e) ConsumerHandler \<Rightarrow> 'x ConsumerSession \<Rightarrow> 'd \<Rightarrow> 'd \<times> session_end" where
  "notificationConsumerSession = runConsumerSession ''notification consumer stopped''"

fun notificationConsumerLoop ::
  "('x, 'd, 'e) ConsumerHandler \<Rightarrow> 'x ConsumerSession list \<Rightarrow> 'd \<Rightarrow> 'd \<times> exit" where
  "notificationConsumerLoop h [] d = (d, Running)"
| "notificationConsumerLoop h (x # script) d =
     (case notificationConsumerSession h x d of
        (d', SessionError err) \<Rightarrow>
          if ks_canceled x then (d', Exited 0)
          else if \<not> ks_slept x then (d', Exited 0)
          else notificationConsumerLoop h script d'
      | (d', SessionRunning) \<Rightarrow> (d', Running)
      | (d', SessionPanic) \<Rightarrow> (d', Exited 2))"

definition notification_worker_run :: "GoNet \<Rightarrow> (string \<Rightarrow> string) \<Rightarrow> string option list \<Rightarrow> (notification_error \<Rightarrow> string)
   \<Rightarrow> (string \<Rightarrow> string + Envelope) \<Rightarrow> (string \<times> time \<times> faults \<times> commit_outcome) ConsumerSession list
   \<Rightarrow> NotificationDB \<Rightarrow> NotificationDB \<times> exit" where
  "notification_worker_run net getenv setup error_text unmarshal script d =
     (case Load net ''notification-worker'' (Some getenv) of
        Inl err \<Rightarrow> (d, Exited 1)
      | Inr cfg \<Rightarrow>
          if first_failure setup \<noteq> None then (d, Exited 1)
          else notificationConsumerLoop (notificationConsumer error_text unmarshal) script d)"

text \<open>
  An iteration: what other workers and consumers do before and during it, what the round meets, whether
  it ends the loop (\<^verbatim>\<open>errors.Is(err, context.Canceled) || ctx.Err() != nil\<close>), and whether the pause of an
  idle round ran to its end. The value is true where the loop has ended.
\<close>

type_synonym delivery_iteration =
  "(NotificationDB \<Rightarrow> NotificationDB) \<times> (NotificationDB \<Rightarrow> NotificationDB) \<times> WorkerEnv \<times> bool \<times> bool"

fun runDeliveryLoop :: "duration \<Rightarrow> delivery_iteration list \<Rightarrow> NotificationDB \<Rightarrow> NotificationDB \<times> bool" where
  "runDeliveryLoop lease [] d = (d, False)"
| "runDeliveryLoop lease ((before, others, env, canceled, slept) # script) d =
     (case ProcessOne env lease others (before d) of
        (d', processed, err) \<Rightarrow>
          if canceled then (d', True)
          else if processed then runDeliveryLoop lease script d'
          else if \<not> slept then (d', True)
          else runDeliveryLoop lease script d')"

section \<open>The media worker\<close>

type_synonym ('x, 'r) media_iteration = "('r \<Rightarrow> 'r) \<times> ('r \<Rightarrow> 'r) \<times> 'x WorkerCall \<times> bool"

fun worker_loop :: "('x, 'r) MediaRepository \<Rightarrow> ('x, 'r) media_iteration list \<Rightarrow> 'r \<Rightarrow> 'r \<times> exit" where
  "worker_loop repo [] r = (r, Running)"
| "worker_loop repo ((before, others, w, ctx_done) # script) r =
     (case mediaProcessOne repo w others (before r) of
        (r', processed, err) \<Rightarrow> if ctx_done then (r', Exited 0) else worker_loop repo script r')"

text \<open>\<open>setup\<close> are the errors of the pool, its ping and the client of MinIO, \<open>once\<close> the round of \<^verbatim>\<open>MEDIA_WORKER_RUN_ONCE\<close>.\<close>

definition media_worker_run :: "GoNet \<Rightarrow> (string \<Rightarrow> string) \<Rightarrow> string option list \<Rightarrow> ('x, 'r) MediaRepository
   \<Rightarrow> 'x WorkerCall \<times> ('r \<Rightarrow> 'r) \<Rightarrow> ('x, 'r) media_iteration list \<Rightarrow> 'r \<Rightarrow> 'r \<times> exit" where
  "media_worker_run net getenv setup repo once script r =
     (case Load net ''media-worker'' (Some getenv) of
        Inl err \<Rightarrow> (r, Exited 1)
      | Inr cfg \<Rightarrow>
          if first_failure setup \<noteq> None then (r, Exited 1)
          else if truthy (getenv ''MEDIA_WORKER_RUN_ONCE'')
          then (case mediaProcessOne repo (fst once) (snd once) r of
                  (r', processed, Some err) \<Rightarrow> (r', Exited 1)
                | (r', processed, None) \<Rightarrow> (r', Exited 0))
          else worker_loop repo script r)"

section \<open>HTTP services\<close>

definition startupCheckOnly :: "(string \<Rightarrow> string) \<Rightarrow> bool" where
  "startupCheckOnly getenv \<longleftrightarrow>
     TrimSpace (ToLower (getenv ''CITYEVENTS_STARTUP_CHECK_ONLY'')) \<in> {''1'', ''true'', ''yes''}"

text \<open>What ends the wait of a server: \<^verbatim>\<open>ListenAndServe\<close> with its error, if it is not \<^verbatim>\<open>ErrServerClosed\<close>, or a signal.\<close>

datatype server_wait = Served "string option" | Signalled | StillListening

record ServerRun =
  sr_factory :: "string + bool" \<comment> \<open>the error of the router, or whether there is a cleanup\<close>
  sr_wait :: server_wait
  sr_shutdown :: "string option"

text \<open>The exit code, and whether the cleanup of the router has run.\<close>

definition app_Run :: "GoNet \<Rightarrow> (string \<Rightarrow> string) \<Rightarrow> string \<Rightarrow> ServerRun \<Rightarrow> exit \<times> bool" where
  "app_Run net getenv serviceName x =
     (case Load net serviceName (Some getenv) of
        Inl err \<Rightarrow> (Exited 1, False)
      | Inr cfg \<Rightarrow>
          if startupCheckOnly getenv then (Exited 0, False)
          else (case sr_factory x of
                  Inl err \<Rightarrow> (Exited 1, False)
                | Inr cleanup \<Rightarrow>
                    (case sr_wait x of
                       StillListening \<Rightarrow> (Running, False)
                     | Served (Some err) \<Rightarrow> (Exited 1, cleanup)
                     | _ \<Rightarrow> if sr_shutdown x \<noteq> None then (Exited 1, cleanup) else (Exited 0, cleanup))))"

section \<open>Facts\<close>

lemma first_failure_None [simp]: "first_failure steps = None \<longleftrightarrow> (\<forall>e \<in> set steps. e = None)"
  unfolding first_failure_def by (induction steps) (auto split: option.splits)

text \<open>
  The relay stays within the states that the lemmas of the relay are about: whatever a whole run meets, it
  takes a reachable state to a reachable state, if the other services do.
\<close>

definition keeps_reachable :: "(RelayState \<Rightarrow> RelayState) \<Rightarrow> bool" where
  "keeps_reachable others \<longleftrightarrow> (\<forall>s. relay_reachable s \<longrightarrow> relay_reachable (others s))"

lemma PublishBatch_reachable: "relay_reachable s \<Longrightarrow> relay_reachable (fst (PublishBatch env limit s))"
  by (rule relay_more [OF _ relay_batch])

lemma relay_batches_reachable:
  "relay_reachable s \<Longrightarrow> \<forall>(others, _) \<in> set script. keeps_reachable others \<Longrightarrow>
     relay_reachable (fst (relay_batches batchSize script s))"
proof (induction batchSize script s rule: relay_batches.induct)
  case (2 batchSize others env ctx_done script s)
  obtain s' published err where b: "PublishBatch env batchSize (others s) = (s', published, err)" by (metis surj_pair)
  have "relay_reachable (others s)" using 2(2,3) by (simp add: keeps_reachable_def)
  then have s': "relay_reachable s'" using PublishBatch_reachable [of "others s" env batchSize] b by simp
  show ?case
  proof (cases err)
    case None
    show ?thesis
    proof (cases ctx_done)
      case None
      have "relay_reachable (fst (relay_batches batchSize script s'))"
        using "2.IH" [OF b [symmetric] _ \<open>err = None\<close> None] 2(3) s' by auto
      then show ?thesis using b \<open>err = None\<close> None by simp
    qed (use b s' None in simp)
  qed (use b s' in simp)
qed simp

lemma runRelaySession_reachable:
  "relay_reachable s \<Longrightarrow> \<forall>(others, _) \<in> set (rs_batches x). keeps_reachable others \<Longrightarrow>
     relay_reachable (fst (runRelaySession batchSize x s))"
  using relay_batches_reachable by (auto simp: runRelaySession_def split: option.split)

definition session_ok :: "RelaySession \<Rightarrow> bool" where
  "session_ok x \<longleftrightarrow> (\<forall>(others, _) \<in> set (rs_batches x). keeps_reachable others)"

lemma runRelayLoop_reachable:
  "relay_reachable s \<Longrightarrow> \<forall>x \<in> set script. session_ok x \<Longrightarrow> relay_reachable (fst (runRelayLoop batchSize script s))"
proof (induction script arbitrary: s)
  case (Cons x script)
  obtain s' e where run: "runRelaySession batchSize x s = (s', e)" by (metis surj_pair)
  have "relay_reachable s'"
    using runRelaySession_reachable [OF Cons.prems(1), of x batchSize] Cons.prems(2) run by (simp add: session_ok_def)
  then show ?case using Cons.IH [of s'] Cons.prems(2) run by (cases e) simp_all
qed simp

lemma relay_run_reachable:
  assumes "relay_reachable s" and "\<forall>x \<in> set script. session_ok x"
  shows "relay_reachable (fst (relay_run net getenv setup once script s))"
proof -
  have "relay_reachable (fst (PublishBatch (snd once) limit s))" for limit
    by (rule PublishBatch_reachable [OF assms(1)])
  then show ?thesis using assms(1) runRelayLoop_reachable [OF assms]
    by (auto simp: relay_run_def Let_def split: sum.split option.split prod.split) (metis fst_conv)+
qed

text \<open>A loop of a worker ends by itself only when it was asked to, or when a delivery makes it panic.\<close>

lemma runRelayLoop_exit:
  "snd (runRelayLoop batchSize script s) = Exited code \<Longrightarrow>
     code = 0 \<and> (\<exists>x \<in> set script. rs_canceled x \<or> \<not> rs_slept x)"
proof (induction script arbitrary: s)
  case (Cons x script)
  have no_panic: "snd (relay_batches batchSize bs t) \<noteq> SessionPanic" for bs t
    by (induction batchSize bs t rule: relay_batches.induct) (auto split: prod.split option.split)
  obtain s' e where run: "runRelaySession batchSize x s = (s', e)" by (metis surj_pair)
  then have "e \<noteq> SessionPanic" using no_panic by (auto simp: runRelaySession_def split: option.splits) (metis snd_conv)
  then show ?case using Cons.IH [of s'] Cons.prems run by (cases e) (auto split: if_splits)
qed simp

lemma notificationConsumerLoop_same:
  "notificationConsumerLoop h script d = runConsumerLoop ''notification consumer stopped'' h script d"
  by (induction script arbitrary: d) (simp_all add: notificationConsumerSession_def split: prod.split session_end.split)

lemma runConsumerLoop_exit:
  "snd (runConsumerLoop stopped h script d) = Exited code \<Longrightarrow>
     code = 0 \<and> (\<exists>x \<in> set script. ks_canceled x \<or> \<not> ks_slept x) \<or>
     code = 2 \<and> (\<exists>x \<in> set script. \<exists>d. snd (runConsumerSession stopped h x d) = SessionPanic)"
proof (induction script arbitrary: d)
  case (Cons x script)
  obtain d' e where run: "runConsumerSession stopped h x d = (d', e)" by (metis surj_pair)
  show ?case
  proof (cases e)
    case SessionPanic
    then have "code = 2" "snd (runConsumerSession stopped h x d) = SessionPanic" using Cons.prems run by simp_all
    then show ?thesis by auto
  qed (use Cons.IH [of d'] Cons.prems run in \<open>auto split: if_splits\<close>)
qed simp

end
