(* ===== verification/Startup.thy ===== *)
theory Startup imports AuthProps EventHttp MediaService Feed Gateway Processes begin

text \<open>
  How the HTTP services are put together: the functions \<^verbatim>\<open>NewRouter\<close> of \<^verbatim>\<open>internal/services\<close> and the
  constructors they call. A router is started on a configuration; what opening the connections
  answers is an argument. The connections that a start opens are written down, so that what a failing start
  leaves open can be seen.
\<close>

section \<open>Connections\<close>

datatype resource = PgPool | RevocationClient | FeedRedis

text \<open>
  What a start meets: the errors of \<^verbatim>\<open>pgxpool.New\<close> and of its ping, of the URL or the ping of the
  revocation cache, of the URL of the feed cache, and of the MinIO client for an endpoint.
\<close>

record StartEnv =
  se_pool :: "string option"
  se_ping :: "string option"
  se_revocation :: "string option"
  se_redis :: "string \<Rightarrow> string option"
  se_minio :: "string \<Rightarrow> bool \<Rightarrow> string option"

text \<open>The connections that are open at the end; an error, or the handler and the connections its cleanup closes.\<close>

type_synonym 'h factory_result = "resource list \<times> (string + 'h \<times> resource list)"

definition openPool :: "StartEnv \<Rightarrow> resource list \<times> string option" where
  "openPool x =
     (case se_pool x of
        Some err \<Rightarrow> ([], Some err)
      | None \<Rightarrow> (case se_ping x of Some err \<Rightarrow> (remove1 PgPool [PgPool], Some err) | None \<Rightarrow> ([PgPool], None)))"

section \<open>The auth service\<close>

definition NewTokenManager :: "string \<Rightarrow> string \<Rightarrow> duration \<Rightarrow> TokenManager" where
  "NewTokenManager secret issuer ttl = \<lparr>tm_Secret = secret, tm_Issuer = issuer, tm_TTL = ttl\<rparr>"

text \<open>The login guard is state: a new service comes with an empty one.\<close>

definition NewAuthService :: "AuthLib \<Rightarrow> ('x, 'r) Repository \<Rightarrow> TokenManager \<Rightarrow> LoginGuard option
   \<Rightarrow> ('x, 'r) Service \<times> LoginGuard" where
  "NewAuthService lib repo tokens guard =
     (\<lparr>sv_repo = repo, sv_lib = lib, sv_tokens = tokens, sv_refreshTokenTTL = 30 * 24 * hour\<rparr>,
      case guard of None \<Rightarrow> NewLoginGuard 5 minute | Some g \<Rightarrow> g)"

definition NewDefaultServiceWithRefreshTTL :: "AuthLib \<Rightarrow> ('x, 'r) Repository \<Rightarrow> string \<Rightarrow> string \<Rightarrow> duration \<Rightarrow> duration
   \<Rightarrow> ('x, 'r) Service \<times> LoginGuard" where
  "NewDefaultServiceWithRefreshTTL lib repo secret issuer accessTTL refreshTTL =
     (let (svc, guard) = NewAuthService lib repo (NewTokenManager secret issuer accessTTL) (Some (NewLoginGuard 5 minute))
      in (svc\<lparr>sv_refreshTokenTTL := refreshTTL\<rparr>, guard))"

definition defaultAuthService :: "AuthLib \<Rightarrow> Config \<Rightarrow> ('x, 'r) Repository \<Rightarrow> ('x, 'r) Service \<times> LoginGuard" where
  "defaultAuthService lib cfg repo = NewDefaultServiceWithRefreshTTL lib repo (cf_JWTSecret cfg) (cf_JWTIssuer cfg)
     (cf_AccessTokenTTL cfg) (cf_RefreshTokenTTL cfg)"

definition seedAdmin :: "Config \<Rightarrow> ('x, 'r) Service \<Rightarrow> 'x CallEnv \<Rightarrow> 'r \<Rightarrow> 'r \<times> auth_error option" where
  "seedAdmin cfg s e r =
     (if cf_SeedAdminEmail cfg \<noteq> '''' \<or> cf_SeedAdminPass cfg \<noteq> ''''
      then (case EnsureSeedAdmin s e (cf_SeedAdminEmail cfg) (cf_SeedAdminPass cfg) (cf_SeedAdminName cfg) r of
              (r', Inl err) \<Rightarrow> (r', Some err)
            | (r', Inr admin) \<Rightarrow> (r', None))
      else (r, None))"

text \<open>The service runs with the cache of revocations where it is enabled and can be reached, without it otherwise.\<close>

datatype ('t, 'c) auth_service =
    Cached "(('t, PgCall) CachedCall, AuthDB \<times> 'c) Service"
  | Uncached "(PgCall, AuthDB) Service"

text \<open>The same call, of a service that has no cache.\<close>

definition uncached_call :: "('t, PgCall) CachedCall CallEnv \<Rightarrow> PgCall CallEnv" where
  "uncached_call e =
     \<lparr>ce_now = ce_now e, ce_userNow = ce_userNow e, ce_tokenNow = ce_tokenNow e, ce_allowNow = ce_allowNow e,
      ce_failNow = ce_failNow e, ce_userID = ce_userID e, ce_familyID = ce_familyID e, ce_auditID = ce_auditID e,
      ce_jti = ce_jti e, ce_random = ce_random e, ce_bcrypt = ce_bcrypt e, ce_correlationID = ce_correlationID e,
      ce_repo = (\<lambda>k. cx_repo (ce_repo e k))\<rparr>"

definition auth_NewRouter :: "AuthLib \<Rightarrow> ('t, 'c) RedisClient \<Rightarrow> (auth_error \<Rightarrow> string) \<Rightarrow> Config \<Rightarrow> StartEnv
   \<Rightarrow> ('t, PgCall) CachedCall CallEnv \<Rightarrow> AuthDB \<times> 'c
   \<Rightarrow> (AuthDB \<times> 'c) \<times> (('t, 'c) auth_service \<times> LoginGuard) factory_result" where
  "auth_NewRouter lib client text cfg x e st =
     (case openPool x of
        (pool, Some err) \<Rightarrow> (st, pool, Inl err)
      | (pool, None) \<Rightarrow>
          if cf_TokenRevocationCacheEnabled cfg \<and> se_revocation x = None
          then (let (svc, guard) = defaultAuthService lib cfg (WithRevocationCache client postgresRepo);
                    opened = RevocationClient # pool
                in case seedAdmin cfg svc e st of
                     (st', Some err) \<Rightarrow> (st', remove1 PgPool opened, Inl (text err))
                   | (st', None) \<Rightarrow> (st', opened, Inr ((Cached svc, guard), [RevocationClient, PgPool])))
          else (let (svc, guard) = defaultAuthService lib cfg postgresRepo
                in case seedAdmin cfg svc (uncached_call e) (fst st) of
                     (d, Some err) \<Rightarrow> ((d, snd st), remove1 PgPool pool, Inl (text err))
                   | (d, None) \<Rightarrow> ((d, snd st), pool, Inr ((Uncached svc, guard), [PgPool]))))"

section \<open>The services behind it\<close>

text \<open>The error of \<^verbatim>\<open>NewHTTPIntrospector\<close>, and of \<^verbatim>\<open>NewHTTPEventAuthorizer\<close>, for a base URL.\<close>

definition NewHTTPIntrospector :: "GoNet \<Rightarrow> string \<Rightarrow> string option" where
  "NewHTTPIntrospector net authServiceURL =
     (case gn_ParseURL net (TrimSpace authServiceURL) of
        None \<Rightarrow> Some ''parse auth service url''
      | Some (scheme, host) \<Rightarrow>
          if scheme \<noteq> ''http'' \<and> scheme \<noteq> ''https'' then Some ''auth service url must use http or https''
          else if TrimSpace host = '''' then Some ''auth service url must include host''
          else None)"

definition NewHTTPEventAuthorizer :: "GoNet \<Rightarrow> string \<Rightarrow> string option" where
  "NewHTTPEventAuthorizer net eventServiceURL =
     (case gn_ParseURL net (TrimSpace eventServiceURL) of
        None \<Rightarrow> Some ''parse event service url''
      | Some (scheme, host) \<Rightarrow>
          if scheme \<noteq> ''http'' \<and> scheme \<noteq> ''https'' then Some ''event service url scheme must be http or https''
          else if host = '''' then Some ''event service url host is required''
          else None)"

text \<open>\<open>remote\<close> is what an introspector at the base URL answers; a URL that is refused denies everybody.\<close>

definition eventNewHTTPHandler :: "JwtLib \<Rightarrow> GoNet \<Rightarrow> Config \<Rightarrow> introspector \<Rightarrow> EventHandler" where
  "eventNewHTTPHandler lib net cfg remote =
     NewHTTPHandlerWithIntrospector lib (NewTokenManager (cf_JWTSecret cfg) (cf_JWTIssuer cfg) (cf_AccessTokenTTL cfg))
       (Some (if NewHTTPIntrospector net (cf_AuthServiceURL cfg) = None then remote else denyIntrospector))"

definition event_NewRouter :: "JwtLib \<Rightarrow> GoNet \<Rightarrow> Config \<Rightarrow> introspector \<Rightarrow> StartEnv \<Rightarrow> EventHandler factory_result" where
  "event_NewRouter lib net cfg remote x =
     (case openPool x of
        (pool, Some err) \<Rightarrow> (pool, Inl err)
      | (pool, None) \<Rightarrow> (pool, Inr (eventNewHTTPHandler lib net cfg remote, [PgPool])))"

text \<open>The endpoint and whether it is spoken to over TLS: a URL with a host gives both.\<close>

definition minio_endpoint :: "GoNet \<Rightarrow> string \<Rightarrow> string \<times> bool" where
  "minio_endpoint net endpoint =
     (case gn_ParseURL net (TrimSpace endpoint) of
        Some (scheme, host) \<Rightarrow> if host \<noteq> '''' then (host, scheme = ''https'') else (TrimSpace endpoint, False)
      | None \<Rightarrow> (TrimSpace endpoint, False))"

definition NewMinIOStorage :: "GoNet \<Rightarrow> StartEnv \<Rightarrow> string \<Rightarrow> string option" where
  "NewMinIOStorage net x endpoint = (let (host, secure) = minio_endpoint net endpoint in se_minio x host secure)"

definition mediaNewHTTPHandler :: "JwtLib \<Rightarrow> GoNet \<Rightarrow> Config \<Rightarrow> introspector \<Rightarrow> MediaHandler" where
  "mediaNewHTTPHandler lib net cfg remote =
     NewMediaHandler lib (NewTokenManager (cf_JWTSecret cfg) (cf_JWTIssuer cfg) (cf_AccessTokenTTL cfg))
       (Some (if NewHTTPIntrospector net (cf_AuthServiceURL cfg) = None then remote else mediaDenyIntrospector))"

definition media_NewRouter :: "JwtLib \<Rightarrow> GoNet \<Rightarrow> Config \<Rightarrow> introspector \<Rightarrow> Storage \<Rightarrow> EventClient \<Rightarrow> StartEnv
   \<Rightarrow> (MediaService \<times> MediaHandler) factory_result" where
  "media_NewRouter lib net cfg remote storage client x =
     (case openPool x of
        (pool, Some err) \<Rightarrow> (pool, Inl err)
      | (pool, None) \<Rightarrow>
          (case NewMinIOStorage net x (cf_MinIOEndpoint cfg) of
             Some err \<Rightarrow> (remove1 PgPool pool, Inl err)
           | None \<Rightarrow>
          (case NewHTTPEventAuthorizer net (cf_EventServiceURL cfg) of
             Some err \<Rightarrow> (remove1 PgPool pool, Inl err)
           | None \<Rightarrow>
               (pool, Inr ((NewMediaService storage (cf_MinIOBucket cfg) (Some (AuthorizeCreateMedia client)),
                            mediaNewHTTPHandler lib net cfg remote), [PgPool])))))"

text \<open>The feed: opening its Redis client only parses the URL.\<close>

definition feed_NewRouter :: "Config \<Rightarrow> (time \<Rightarrow> string option \<Rightarrow> redis_values FeedCache) \<Rightarrow> StartEnv
   \<Rightarrow> (time \<Rightarrow> string option \<Rightarrow> redis_values FeedCache) factory_result" where
  "feed_NewRouter cfg cache x =
     (case openPool x of
        (pool, Some err) \<Rightarrow> (pool, Inl err)
      | (pool, None) \<Rightarrow>
          (case se_redis x (cf_RedisURL cfg) of
             Some err \<Rightarrow> (remove1 PgPool pool, Inl err)
           | None \<Rightarrow> (FeedRedis # pool, Inr (cache, [FeedRedis, PgPool]))))"

text \<open>The gateway parses the URLs of the services and opens nothing; its error stands for that of the parser.\<close>

definition gateway_NewRouter :: "GoNet \<Rightarrow> Config \<Rightarrow> unit factory_result" where
  "gateway_NewRouter net cfg =
     ([], if list_ex (\<lambda>u. gn_ParseURL net u = None)
             [cf_AuthServiceURL cfg, cf_EventServiceURL cfg, cf_FeedServiceURL cfg, cf_MediaServiceURL cfg]
          then Inl ''parse'' else Inr ((), []))"

section \<open>The programs\<close>

text \<open>
  \<^verbatim>\<open>app.Main\<close> with the factory of a service, or without one; a handler that has nothing to close comes without
  a cleanup. \<open>wait\<close> and \<open>shutdown\<close> are what the server meets. The exit, and whether the cleanup has run.
\<close>

definition service_main :: "GoNet \<Rightarrow> (string \<Rightarrow> string) \<Rightarrow> server_wait \<times> string option \<Rightarrow> string
   \<Rightarrow> (Config \<Rightarrow> 'h factory_result) option \<Rightarrow> exit \<times> bool" where
  "service_main net getenv server name factory =
     app_Run net getenv name
       \<lparr>sr_factory = (case factory of
            None \<Rightarrow> Inr False
          | Some new \<Rightarrow>
              (case Load net name (Some getenv) of
                 Inl err \<Rightarrow> Inl err
               | Inr cfg \<Rightarrow> (case new cfg of (_, Inl err) \<Rightarrow> Inl err | (_, Inr (_, closed)) \<Rightarrow> Inr (closed \<noteq> [])))),
        sr_wait = fst server, sr_shutdown = snd server\<rparr>"

definition auth_service_main where
  "auth_service_main net getenv server lib client text x e st =
     service_main net getenv server ''auth-service'' (Some (\<lambda>cfg. snd (auth_NewRouter lib client text cfg x e st)))"

definition event_service_main where
  "event_service_main net getenv server lib remote x =
     service_main net getenv server ''event-registration-service'' (Some (\<lambda>cfg. event_NewRouter lib net cfg remote x))"

definition media_service_main where
  "media_service_main net getenv server lib remote storage client x =
     service_main net getenv server ''media-service'' (Some (\<lambda>cfg. media_NewRouter lib net cfg remote storage client x))"

definition feed_service_main where
  "feed_service_main net getenv server cache x =
     service_main net getenv server ''feed-service'' (Some (\<lambda>cfg. feed_NewRouter cfg cache x))"

definition api_gateway_main where
  "api_gateway_main net getenv server =
     service_main net getenv server ''api-gateway'' (Some (\<lambda>cfg. gateway_NewRouter net cfg))"

definition notification_service_main :: "GoNet \<Rightarrow> (string \<Rightarrow> string) \<Rightarrow> server_wait \<times> string option \<Rightarrow> exit \<times> bool" where
  "notification_service_main net getenv server =
     service_main net getenv server ''notification-service'' (None :: (Config \<Rightarrow> unit factory_result) option)"

section \<open>What a start leaves open\<close>

text \<open>A start that fails leaves nothing open, and the cleanup of one that does not closes all it has opened.\<close>

definition closes_all :: "'h factory_result \<Rightarrow> bool" where
  "closes_all result \<longleftrightarrow> (case result of (opened, Inl _) \<Rightarrow> opened = [] | (opened, Inr (_, closed)) \<Rightarrow> closed = opened)"

lemma openPool_cases: "openPool x = (pool, err) \<Longrightarrow> pool = (if err = None then [PgPool] else [])"
  unfolding openPool_def by (cases "se_pool x"; cases "se_ping x") (auto simp: eq_commute [of _ err])

lemma routers_close_all:
  "closes_all (event_NewRouter lib net cfg remote x)"
  "closes_all (media_NewRouter lib net cfg remote storage client x)"
  "closes_all (feed_NewRouter cfg cache x)"
  "closes_all (gateway_NewRouter net cfg)"
  by (auto simp: event_NewRouter_def media_NewRouter_def feed_NewRouter_def gateway_NewRouter_def closes_all_def
      dest!: openPool_cases split: prod.splits option.splits)

text \<open>The auth service alone keeps the client of its cache open when the seed of the administrator fails.\<close>

lemma auth_router_closes:
  assumes "auth_NewRouter lib client text cfg x e st = (st', opened, result)"
  shows "closes_all (opened, result) \<or> opened = [RevocationClient] \<and> (\<exists>err. result = Inl err) \<and>
    cf_TokenRevocationCacheEnabled cfg \<and> se_revocation x = None \<and> (cf_SeedAdminEmail cfg \<noteq> '''' \<or> cf_SeedAdminPass cfg \<noteq> '''')"
  using assms
  by (auto simp: auth_NewRouter_def closes_all_def seedAdmin_def dest!: openPool_cases
      split: prod.splits option.splits if_splits sum.splits)

text \<open>A program that has ended has closed what its router opened.\<close>

lemma service_main_closes:
  assumes "service_main net getenv server name (Some new) = (Exited code, cleaned)"
    and "Load net name (Some getenv) = Inr cfg" and "\<not> startupCheckOnly getenv" and "closes_all (new cfg)"
  shows "fst (new cfg) = [] \<or> cleaned"
  using assms
  by (auto simp: service_main_def app_Run_def closes_all_def split: prod.splits sum.splits server_wait.splits option.splits if_splits)

text \<open>A loaded configuration has URLs that every service can use, but for a host of white space.\<close>

lemma env_or_trimmed: "TrimSpace fallback = fallback \<Longrightarrow> TrimSpace (env_or getenv key fallback) = env_or getenv key fallback"
  by (simp add: env_or_def Let_def)

lemma Load_urls:
  "Load net name environ = Inr cfg \<Longrightarrow> \<exists>getenv. cf_AuthServiceURL cfg = env_or getenv ''AUTH_SERVICE_URL'' ''http://127.0.0.1:8081'' \<and>
     cf_EventServiceURL cfg = env_or getenv ''EVENT_SERVICE_URL'' ''http://127.0.0.1:8082''"
  unfolding Load_def Let_def by (auto simp: parsed_Inr check_Inr_iff split: option.splits)

lemma Load_trimmed:
  assumes "Load net name environ = Inr cfg"
  shows "TrimSpace (cf_AuthServiceURL cfg) = cf_AuthServiceURL cfg" "TrimSpace (cf_EventServiceURL cfg) = cf_EventServiceURL cfg"
proof -
  obtain getenv where urls: "cf_AuthServiceURL cfg = env_or getenv ''AUTH_SERVICE_URL'' ''http://127.0.0.1:8081''"
    "cf_EventServiceURL cfg = env_or getenv ''EVENT_SERVICE_URL'' ''http://127.0.0.1:8082''" using Load_urls [OF assms] by blast
  show "TrimSpace (cf_AuthServiceURL cfg) = cf_AuthServiceURL cfg" "TrimSpace (cf_EventServiceURL cfg) = cf_EventServiceURL cfg"
    unfolding urls by (rule env_or_trimmed, simp add: str_eval)+
qed

lemma loaded_urls:
  assumes "Load net name environ = Inr cfg"
  shows "snd (gateway_NewRouter net cfg) = Inr ((), [])"
    and "NewHTTPEventAuthorizer net (cf_EventServiceURL cfg) = None"
    and "NewHTTPIntrospector net (cf_AuthServiceURL cfg) = None \<or>
      (\<exists>scheme host. gn_ParseURL net (cf_AuthServiceURL cfg) = Some (scheme, host) \<and> TrimSpace host = '''')"
proof -
  have urls: "validateHTTPURL net (cf_AuthServiceURL cfg)" "validateHTTPURL net (cf_EventServiceURL cfg)"
    "validateHTTPURL net (cf_FeedServiceURL cfg)" "validateHTTPURL net (cf_MediaServiceURL cfg)"
    using Load_ok [OF assms] by (simp_all add: config_ok_def)
  show "snd (gateway_NewRouter net cfg) = Inr ((), [])"
    using urls by (simp add: gateway_NewRouter_def validateHTTPURL_def split: option.splits)
  show "NewHTTPEventAuthorizer net (cf_EventServiceURL cfg) = None"
    using urls(2) by (auto simp: NewHTTPEventAuthorizer_def validateHTTPURL_def Load_trimmed [OF assms] split: option.splits)
  show "NewHTTPIntrospector net (cf_AuthServiceURL cfg) = None \<or>
      (\<exists>scheme host. gn_ParseURL net (cf_AuthServiceURL cfg) = Some (scheme, host) \<and> TrimSpace host = '''')"
    using urls(1) by (auto simp: NewHTTPIntrospector_def validateHTTPURL_def Load_trimmed [OF assms] split: option.splits)
qed

section \<open>The seeded administrator\<close>

definition has_admin :: "(string, User) gomap \<Rightarrow> string \<Rightarrow> bool" where
  "has_admin users email \<longleftrightarrow> (\<exists>i v. map_of users i = Some v \<and> u_Email v = email \<and> u_Role v = RoleAdmin)"

text \<open>What the seed relies on: users are found by their email, stored as given, and given the role they are to have.\<close>

locale seed_store =
  fixes repo :: "('x, 'r) Repository" and users :: "'r \<Rightarrow> (string, User) gomap" and good :: "'r \<Rightarrow> bool"
  assumes found: "good r \<Longrightarrow> rp_FindUserByEmail repo x email r = Inr u \<Longrightarrow>
      \<exists>v. map_of (users r) (u_ID u) = Some v \<and> u_Email v = NormalizeEmail email \<and> u_Role v = u_Role u"
    and updated: "good r \<Longrightarrow> rp_UpdateUserRole repo x i role r = (r', Inr u) \<Longrightarrow>
      \<exists>old v. map_of (users r) i = Some old \<and> users r' = mput i v (users r) \<and> u_Email v = u_Email old \<and>
        u_Role v = NormalizeRole role"
    and created: "good r \<Longrightarrow> rp_CreateUser repo x u r = (r', Inr q) \<Longrightarrow>
      \<exists>v. map_of (users r') (u_ID u) = Some v \<and> u_Email v = NormalizeEmail (u_Email u) \<and> u_Role v = u_Role u"
begin

lemma seed_admin:
  assumes "good r" and "sv_repo s = repo" and email: "NormalizeEmail (NormalizeEmail email) = NormalizeEmail email"
    and run: "EnsureSeedAdmin s e email password seedName r = (r', Inr admin)"
  shows "has_admin (users r') (NormalizeEmail email)"
proof -
  let ?name = "if TrimSpace seedName = '''' then ''CityEvents Admin'' else TrimSpace seedName"
  let ?checks = "check (ValidateEmail (sv_lib s) (NormalizeEmail email)) (check (ValidatePassword password)
    (check (ValidateDisplayName ?name) (Inr ())))"
  have checks: "?checks = Inr ()" using run by (cases ?checks) (simp_all add: EnsureSeedAdmin_def Let_def)
  note body = run [unfolded EnsureSeedAdmin_def Let_def assms(2) checks sum.case unit.case]
  show ?thesis
  proof (cases "rp_FindUserByEmail repo (ce_repo e 0) (NormalizeEmail email) r")
    case (Inr existing)
    note v = found [OF assms(1) Inr] email
    show ?thesis
    proof (cases "u_Role existing = RoleAdmin")
      case True
      then have "r' = r" using body Inr by simp
      then show ?thesis using v True by (auto simp: has_admin_def)
    next
      case False
      then obtain u where "rp_UpdateUserRole repo (ce_repo e 1) (u_ID existing) RoleAdmin r = (r', Inr u)"
        using body Inr by (auto split: sum.splits prod.splits)
      from updated [OF assms(1) this] v show ?thesis
        by (auto simp: has_admin_def intro!: exI [of _ "u_ID existing"])
    qed
  next
    case (Inl err)
    let ?user = "rbind (Hash (ce_bcrypt e) password) (\<lambda>hash. NewUser (sv_lib s) (ce_userID e) (NormalizeEmail email)
      ?name RoleAdmin hash (ce_userNow e))"
    have missing: "err = ErrUserNotFound" using body Inl by (simp split: if_splits)
    obtain u where u: "?user = Inr u"
      using body Inl missing by (cases ?user) simp_all
    obtain q where new: "rp_CreateUser repo (ce_repo e 1) u r = (r', Inr q)"
      using body Inl missing u by (auto split: sum.splits prod.splits)
    have "u_Email u = NormalizeEmail email" "u_Role u = RoleAdmin"
      using u email by (auto simp: rbind_Inr_iff NewUser_def Let_def check_Inr_iff split: if_splits)
    then show ?thesis using created [OF assms(1) new] email by (auto simp: has_admin_def)
  qed
qed

end

text \<open>PostgreSQL promises it, with the cache of revocations and without it.\<close>

definition seed_inv :: "AuthDB \<Rightarrow> bool" where
  "seed_inv d \<longleftrightarrow> users_ok d \<and> distinct (mkeys (ad_users d))"

lemma in_tx_Inr: "in_tx e m fs c d = (d', Inr a) \<Longrightarrow> \<exists>gs. m (tl fs) d = (Inr a, gs, d')"
  by (auto simp: in_tx_def split: if_splits prod.splits sum.splits commit_outcome.splits)

lemma found_value: "find P (mvals m) = Some v \<Longrightarrow> P v \<and> (\<exists>i. (i, v) \<in> set m)"
  by (induction m) (auto split: if_splits)

lemma pg_seed_found:
  assumes "seed_inv d" and "rp_FindUserByEmail postgresRepo x email d = Inr u"
  shows "\<exists>v. map_of (ad_users d) (u_ID u) = Some v \<and> u_Email v = NormalizeEmail email \<and> u_Role v = u_Role u"
proof -
  obtain v where v: "find (\<lambda>u. u_Email u = NormalizeEmail email) (mvals (ad_users d)) = Some v"
    and u: "u = v\<lparr>u_Role := NormalizeRole (u_Role v)\<rparr>"
    using assms(2)
    by (auto simp: postgresRepo_def pgFindUserByEmail_def pg_tx_def in_tx_def tx_bind_def tx_query_def scanUser_def
        tx_fail_def tx_return_def split: if_splits option.splits prod.splits sum.splits commit_outcome.splits)
  from found_value [OF v] obtain i where email: "u_Email v = NormalizeEmail email" and "(i, v) \<in> set (ad_users d)" by blast
  then have i: "map_of (ad_users d) i = Some v" using assms(1) by (simp add: seed_inv_def)
  then have "u_ID v = i" "u_Role v \<in> {RoleUser, RoleOrganizer, RoleAdmin}"
    using assms(1) unfolding seed_inv_def users_ok_def ids_ok_def known_roles_def by blast+
  then show ?thesis using i email unfolding u by auto
qed

lemma pg_seed_updated:
  assumes "rp_UpdateUserRole postgresRepo x i role d = (d', Inr u)"
  shows "\<exists>old v. map_of (ad_users d) i = Some old \<and> ad_users d' = mput i v (ad_users d) \<and> u_Email v = u_Email old \<and>
    u_Role v = NormalizeRole role"
proof -
  obtain gs where "tx_bind (updateRoleRow (pc_dbNow x) i role) scanUser (tl (pc_faults x)) d = (Inr u, gs, d')"
    using assms in_tx_Inr by (fastforce simp: postgresRepo_def pgUpdateUserRole_def pg_tx_def)
  then show ?thesis
    by (auto simp: tx_bind_def scanUser_def tx_fail_def tx_return_def updateRoleRow_def Let_def
        split: prod.splits sum.splits option.splits if_splits)
qed

lemma pg_seed_created:
  assumes "rp_CreateUser postgresRepo x u d = (d', Inr q)"
  shows "\<exists>v. map_of (ad_users d') (u_ID u) = Some v \<and> u_Email v = NormalizeEmail (u_Email u) \<and> u_Role v = u_Role u"
proof -
  obtain gs where "insertUser (u\<lparr>u_Email := NormalizeEmail (u_Email u)\<rparr>) (tl (pc_faults x)) d = (Inr q, gs, d')"
    using assms in_tx_Inr by (fastforce simp: postgresRepo_def pgCreateUser_def pg_tx_def)
  then show ?thesis by (auto simp: insertUser_def split: if_splits)
qed

interpretation pg_seed: seed_store postgresRepo ad_users seed_inv
  by unfold_locales (use pg_seed_found pg_seed_updated pg_seed_created in blast)+

lemma cached_seed_store:
  assumes "seed_store repo users good"
  shows "seed_store (WithRevocationCache client repo) (\<lambda>st. users (fst st)) (\<lambda>st. good (fst st))"
proof -
  note defs = WithRevocationCache_def on_repo_def Let_def
  show ?thesis
  proof
    fix r x email u
    assume "good (fst r)" "rp_FindUserByEmail (WithRevocationCache client repo) x email r = Inr u"
    then show "\<exists>v. map_of (users (fst r)) (u_ID u) = Some v \<and> u_Email v = NormalizeEmail email \<and> u_Role v = u_Role u"
      using seed_store.found [OF assms, of "fst r"] by (simp add: defs)
  next
    fix r x i role r' u
    assume "good (fst r)" "rp_UpdateUserRole (WithRevocationCache client repo) x i role r = (r', Inr u)"
    then show "\<exists>old v. map_of (users (fst r)) i = Some old \<and> users (fst r') = mput i v (users (fst r)) \<and>
        u_Email v = u_Email old \<and> u_Role v = NormalizeRole role"
      using seed_store.updated [OF assms, of "fst r" "cx_repo x" i role "fst r'" u] by (auto simp: defs split: prod.splits)
  next
    fix r x u r' q
    assume "good (fst r)" "rp_CreateUser (WithRevocationCache client repo) x u r = (r', Inr q)"
    then show "\<exists>v. map_of (users (fst r')) (u_ID u) = Some v \<and> u_Email v = NormalizeEmail (u_Email u) \<and> u_Role v = u_Role u"
      using seed_store.created [OF assms, of "fst r" "cx_repo x" u "fst r'" q] by (auto simp: defs split: prod.splits)
  qed
qed

interpretation cached_seed: seed_store "WithRevocationCache client postgresRepo" "\<lambda>st. ad_users (fst st)" "\<lambda>st. seed_inv (fst st)"
  for client by (rule cached_seed_store) (rule pg_seed.seed_store_axioms)

lemma NormalizeEmail_idem:
  assumes "\<forall>c \<in> set email. solid c"
  shows "NormalizeEmail (NormalizeEmail email) = NormalizeEmail email"
proof -
  have "solid_ends email" using assms by (auto simp: solid_ends_def)
  then have trim: "TrimSpace email = email" by (simp add: TrimSpace_same trimmed_solid)
  have ascii: "ascii email" using assms by (simp add: ascii_def solid_def list_all_iff)
  have "\<forall>c \<in> set (ToLower email). solid c"
    using assms ascii by (auto simp: ToLower_def solid_def byte_ascii_lower)
  then have "solid_ends (ToLower email)" by (auto simp: solid_ends_def)
  then have "TrimSpace (ToLower email) = ToLower email" by (simp add: TrimSpace_same trimmed_solid)
  then show ?thesis by (simp add: NormalizeEmail_def trim ToLower_idem_ascii [OF ascii])
qed

text \<open>
  Whatever a start meets: an auth service that comes up on a configuration with a seed has an administrator
  under the email of the seed, and its cleanup closes what is open.
\<close>

theorem auth_starts_with_admin:
  assumes run: "auth_NewRouter lib client text cfg x e st = (st', opened, Inr (svc, closed))"
    and seed: "cf_SeedAdminEmail cfg \<noteq> '''' \<or> cf_SeedAdminPass cfg \<noteq> ''''"
    and email: "\<forall>c \<in> set (cf_SeedAdminEmail cfg). solid c" and inv: "seed_inv (fst st)"
  shows "has_admin (ad_users (fst st')) (NormalizeEmail (cf_SeedAdminEmail cfg)) \<and> closed = opened"
proof -
  have pool: "openPool x = ([PgPool], None)"
    using run openPool_cases [of x] by (auto simp: auth_NewRouter_def split: prod.splits option.splits)
  note idem = NormalizeEmail_idem [OF email]
  show ?thesis
  proof (cases "cf_TokenRevocationCacheEnabled cfg \<and> se_revocation x = None")
    case True
    obtain s g where s: "defaultAuthService lib cfg (WithRevocationCache client postgresRepo) = (s, g)" by (metis surj_pair)
    then have "sv_repo s = WithRevocationCache client postgresRepo"
      by (auto simp: defaultAuthService_def NewDefaultServiceWithRefreshTTL_def NewAuthService_def)
    moreover obtain admin where "EnsureSeedAdmin s e (cf_SeedAdminEmail cfg) (cf_SeedAdminPass cfg) (cf_SeedAdminName cfg) st =
        (st', Inr admin)" "closed = opened"
      using run seed pool True s by (auto simp: auth_NewRouter_def seedAdmin_def Let_def split: prod.splits option.splits sum.splits)
    ultimately show ?thesis using cached_seed.seed_admin [OF inv _ idem] by blast
  next
    case False
    obtain s g where s: "defaultAuthService lib cfg postgresRepo = (s, g)" by (metis surj_pair)
    then have "sv_repo s = postgresRepo"
      by (auto simp: defaultAuthService_def NewDefaultServiceWithRefreshTTL_def NewAuthService_def)
    moreover obtain admin where "EnsureSeedAdmin s (uncached_call e) (cf_SeedAdminEmail cfg) (cf_SeedAdminPass cfg)
        (cf_SeedAdminName cfg) (fst st) = (fst st', Inr admin)" "closed = opened"
      using run seed pool False s by (auto simp: auth_NewRouter_def seedAdmin_def Let_def split: prod.splits option.splits sum.splits)
    ultimately show ?thesis using pg_seed.seed_admin [OF inv _ idem] by blast
  qed
qed

end
