(* ===== verification/AppErr.thy ===== *)
theory AppErr imports GoStrings begin

text \<open>
  \<^verbatim>\<open>internal/platform/apperr/errors.go\<close>: errors with a code, a message and a cause. A \<^verbatim>\<open>*Error\<close> may be nil, also
  inside an \<^verbatim>\<open>error\<close> interface, where it is not the nil error.
\<close>

definition CodeInvalidArgument :: string where "CodeInvalidArgument = ''invalid_argument''"
definition CodeNotFound :: string where "CodeNotFound = ''not_found''"
definition CodeConflict :: string where "CodeConflict = ''conflict''"
definition CodeInternal :: string where "CodeInternal = ''internal''"

datatype go_error = OtherError string | NilAppError | AppError string string "go_error option"

definition NewAppError :: "string \<Rightarrow> string \<Rightarrow> go_error" where
  "NewAppError code message = AppError code message None"

definition WrapAppError :: "string \<Rightarrow> string \<Rightarrow> go_error option \<Rightarrow> go_error" where
  "WrapAppError code message cause = AppError code message cause"

text \<open>\<^verbatim>\<open>err.Error()\<close>; \<^verbatim>\<open>%v\<close> prints a cause by its own \<^verbatim>\<open>Error\<close>.\<close>

primrec Error_text :: "go_error \<Rightarrow> string" where
  "Error_text (OtherError text) = text"
| "Error_text NilAppError = ''''"
| "Error_text (AppError code message cause) =
     (case map_option Error_text cause of
        None \<Rightarrow> code @ '': '' @ message
      | Some text \<Rightarrow> code @ '': '' @ message @ '': '' @ text)"

definition Unwrap :: "go_error \<Rightarrow> go_error option" where
  "Unwrap e = (case e of AppError _ _ cause \<Rightarrow> cause | _ \<Rightarrow> None)"

section \<open>Chains of causes\<close>

text \<open>An error wrapped several times, the last wrapping first; \<^verbatim>\<open>errors.Unwrap\<close> repeated.\<close>

fun wrap_all :: "(string \<times> string) list \<Rightarrow> go_error \<Rightarrow> go_error" where
  "wrap_all [] e = e"
| "wrap_all ((code, message) # ws) e = WrapAppError code message (Some (wrap_all ws e))"

fun unwrap_times :: "nat \<Rightarrow> go_error \<Rightarrow> go_error option" where
  "unwrap_times 0 e = Some e"
| "unwrap_times (Suc n) e = Option.bind (Unwrap e) (unwrap_times n)"

lemma chain_text:
  "Error_text (wrap_all ws e) = Join (concat (map (\<lambda>(code, message). [code, message]) ws) @ [Error_text e]) '': ''"
proof (induction ws)
  case (Cons w ws)
  have "Join (a # b # xs @ [t]) sep = a @ sep @ b @ sep @ Join (xs @ [t]) sep" for a b t sep :: string and xs
    by (cases xs) simp_all
  then show ?case using Cons by (cases w) (simp add: WrapAppError_def)
qed simp

lemma chain_cause: "unwrap_times (length ws) (wrap_all ws e) = Some e"
  by (induction ws) (auto simp: WrapAppError_def Unwrap_def)

text \<open>No chain is endless: at last there is nothing to unwrap.\<close>

lemma unwrap_ends: "\<exists>n. unwrap_times n e = None"
proof (induction e)
  case (AppError code message cause)
  show ?case
  proof (cases cause)
    case None
    then show ?thesis by (intro exI [of _ 1]) (simp add: Unwrap_def)
  next
    case (Some e)
    then obtain n where "unwrap_times n e = None" using AppError [of e] by auto
    then show ?thesis using Some by (intro exI [of _ "Suc n"]) (simp add: Unwrap_def)
  qed
qed (intro exI [of _ 1], simp add: Unwrap_def)+

end
