(* ===== verification/Spec2Isabelle.thy ===== *)
theory Spec2Isabelle
  imports EventMemoryProps EventPostgresProps MessagingProps OutboxRelayProps FeedProjectionProps NotificationProps AuthProps AuthSessionProps EventAccessProps MediaProps RateLimitProps GatewayProps FeedProps EventFlowProps PublisherProps Processes Startup AppErr
begin

text \<open>
  Verification of the city-event backend: a set of Go services behind a gateway, with
  PostgreSQL as the store, RabbitMQ between the services, Redis for caches and counters, and MinIO for
  media.

  \<^bold>\<open>How the parts work together.\<close> A request enters the gateway (\<^verbatim>\<open>services/gateway\<close>), passes CORS, the trace context
  and the rate limit of the base router (\<^verbatim>\<open>platform/httpapi\<close>), and is handed to the auth, event, feed or media
  service, which stands behind a base router of its own. The event service changes an event, its registrations and
  its outbox in one transaction. The relay (\<^verbatim>\<open>services/outboxrelay\<close>) publishes the rows of the outbox to RabbitMQ; the
  feed worker (\<^verbatim>\<open>services/feedprojection\<close>) and the notification worker (\<^verbatim>\<open>services/notification\<close>) consume the
  messages, each into tables of its own. The feed service reads the projected table behind a cache in Redis. The media
  service records uploads that a worker checks against the object store.

  \<^bold>\<open>Conventions.\<close> A Go string is a list of bytes, an instant or duration an integer number of nanoseconds (the zero
  instant is 0), a Go map or a table an association list, a result with an error a sum. A stateful operation takes the
  state and returns it. What the program takes from outside is an argument: clocks, random bytes, drawn identifiers,
  the faults of each statement and the outcome of a commit (\<open>Tx\<close>), the decisions of the broker, and the library code
  the repository does not hold (bcrypt, SHA-256 and HMAC, the JSON codec, \<^verbatim>\<open>net/mail\<close>, \<^verbatim>\<open>net/url\<close>, IP addresses,
  the clients of Redis, AMQP, SMTP and MinIO). Instants are cut to microseconds where they enter PostgreSQL (\<open>pg_ts\<close>),
  and texts in \<^verbatim>\<open>ORDER BY\<close> are compared as bytes. \<open>int\<close> stands for Go's 64-bit \<^verbatim>\<open>int\<close> where the code bounds the
  values; durations are wrapped to 64 bits where the code multiplies what it reads from outside, and the values of
  AMQP headers are words of their width.

  \<^bold>\<open>Theories.\<close>

  \<^item> \<open>Prelude\<close>, \<open>GoUnicode\<close>, \<open>GoStrings\<close>, \<open>GoUrl\<close>, \<open>Base64\<close>: error results, instants, maps, and the functions of Go's
    \<^verbatim>\<open>strings\<close>, \<^verbatim>\<open>strconv\<close>, \<^verbatim>\<open>unicode\<close>, \<^verbatim>\<open>net/url\<close> and \<^verbatim>\<open>encoding/base64\<close> that the services use. \<open>Tx\<close>: a transaction as a list of
    statements any of which may fail, and a commit whose answer may be lost.
  \<^item> \<open>Identity\<close>: roles (\<^verbatim>\<open>platform/identity\<close>). \<open>Config\<close>: loading and validating the environment
    (\<^verbatim>\<open>platform/config\<close>); \<open>Load_ok\<close> is what the other components rely on.
  \<^item> \<open>EventDomain\<close>: events, registrations and their validation (\<^verbatim>\<open>services/eventregistration/domain.go\<close>).
    \<open>RosterSpec\<close>: the abstract event, a capacity, a set of confirmed users and a first-in first-out waitlist, and the interface
    \<open>registration_store\<close>. \<open>Registrations\<close>: lists of registrations and the roster they stand for.
  \<^item> \<open>EventMemory\<close>, \<open>EventMemoryInv\<close>, \<open>EventMemorySteps\<close>, \<open>EventMemoryProps\<close>: the in-memory repository
    (\<^verbatim>\<open>repository.go\<close>), its invariant, its step relation, its refinement of the roster.
  \<^item> \<open>EventPostgres\<close>, \<open>EventPostgresInv\<close>, \<open>EventPostgresSteps\<close>, \<open>EventPostgresProps\<close>: the same for
    \<^verbatim>\<open>postgres_repository.go\<close>, whose transactions are shown all or nothing under faults first.
  \<^item> \<open>EventHttp\<close>, \<open>EventAccess\<close>, \<open>EventAccessProps\<close>: the service and its handlers (\<^verbatim>\<open>service.go\<close>, \<^verbatim>\<open>http.go\<close>), the
    interface \<open>event_store\<close>, and who may change what. \<open>HttpJson\<close>: the decoding of bodies (\<^verbatim>\<open>platform/httpapi/json.go\<close>).
  \<^item> \<open>Messaging\<close>, \<open>MessagingProps\<close>: envelopes, the retry policy of a consumer, the declared exchanges and queues
    (\<^verbatim>\<open>platform/messaging\<close>). \<open>Publisher\<close>, \<open>PublisherProps\<close>: publishing on a channel in confirm mode and the loop of a
    consumer; which decision of the broker is taken for which message.
  \<^item> \<open>OutboxRelay\<close>, \<open>OutboxRelayProps\<close>: batches of the relay, under any faults and answers of the broker.
  \<^item> \<open>Consumers\<close>: the interface \<open>idempotent_consumer\<close>. \<open>FeedProjection\<close>, \<open>FeedProjectionProps\<close> and \<open>Notification\<close>,
    \<open>NotificationInv\<close>, \<open>NotificationProps\<close>: the two consumers, and the workers that deliver notifications under a lease.
  \<^item> \<open>Authn\<close>, \<open>AuthnProps\<close>: access tokens and their introspection (\<^verbatim>\<open>platform/authn\<close>). \<open>Auth\<close>, \<open>AuthHttp\<close>: the auth service and
    its handlers; \<open>AuthMemory\<close>, \<open>AuthPostgres\<close>: its repositories and the revocation cache. \<open>AuthRoles\<close>, \<open>AuthSessions\<close>,
    \<open>AuthGuards\<close>: the interfaces \<open>user_store\<close>, \<open>refresh_store\<close>, \<open>login_store\<close> and \<open>revocation_store\<close>, each with its interpretations on the
    repositories, with and without the cache. \<open>AuthProps\<close>, \<open>AuthSessionProps\<close>: what the service promises on PostgreSQL.
  \<^item> \<open>Media\<close>, \<open>MediaService\<close>: assets, both repositories, storage, worker and handlers (\<^verbatim>\<open>services/media\<close>). \<open>MediaSteps\<close>,
    \<open>MediaProtocol\<close>: the protocol of an upload, the interface \<open>media_store\<close> and its interpretations. \<open>MediaProps\<close>.
  \<^item> \<open>RateLimit\<close>, \<open>RateLimitProps\<close>: windows of requests in memory and in Redis, the middleware
    (\<^verbatim>\<open>platform/httpapi/rate_limit.go\<close>), the interface \<open>window_store\<close> with both stores as interpretations.
  \<^item> \<open>Observability\<close>: trace contexts, counters, histograms and their text (\<^verbatim>\<open>platform/observability\<close>). \<open>BaseRouter\<close>: CORS, the
    order of the middleware, the fixed routes and what a request adds to the counters (\<^verbatim>\<open>platform/httpapi/router.go\<close>, \<^verbatim>\<open>observability.go\<close>). \<open>Gateway\<close>, \<open>GatewayProps\<close>: routes and guards
    (\<^verbatim>\<open>services/gateway/http.go\<close>).
  \<^item> \<open>Feed\<close>, \<open>FeedProps\<close>: pages of the feed and their cache (\<^verbatim>\<open>services/feed\<close>). \<open>EventFlow\<close>, \<open>EventFlowProps\<close>: the way of an event
    from the Postgres repository over outbox, relay and projection to the feed.
  \<^item> \<open>Processes\<close>: start, reconnection loops and exit codes of the programs under \<^verbatim>\<open>cmd\<close> and of \<^verbatim>\<open>platform/app\<close>. \<open>Startup\<close>: how
    the HTTP services are put together (\<^verbatim>\<open>NewRouter\<close> of each), which connections they open and close, and the seeded
    administrator (\<open>auth_starts_with_admin\<close>), through the interface \<open>seed_store\<close>. \<open>AppErr\<close>: errors with a cause (\<^verbatim>\<open>platform/apperr\<close>).
\<close>

text \<open>
  \<^bold>\<open>What is shown.\<close>

  \<^item> Registrations: no event is overbooked and nobody is registered twice, in memory and on PostgreSQL under any faults
    (C1, C9); joins and cancellations implement the roster, so both repositories agree (C2, C3, C11, C13); calls are all or
    nothing and announce each change by one outbox message (C6, C10, C12); a raise of the capacity does not serve the
    waitlist (C5). Requests act for whom they say (C36).
  \<^item> Messages: a row that is marked sent was accepted by the broker, rows are tried eight times, in order, after their
    backoff (C16 to C19), and an error text cut inside a character blocks the outbox (C20). A failed delivery is retried five times and then
    dead (C14); a consumer acknowledges only what is settled, until a wait for a confirmation times out (C15).
    A message is applied once whatever is redelivered (C21, C23), and events, outbox, relay and projection together make the feed serve the published events with their counts
    (C8), where messages come in order (\<open>reordered_join_counts_one\<close>). Notifications are
    delivered at most five times, under claims that cannot be used when stale, a fifth crash strands one (C24 to C28).
  \<^item> Users: tokens verify exactly while they are valid and signed (C29, C30); only administrators make administrators (C31);
    one live refresh token per login, replay ends the login (C32, C33); wrong logins are throttled, logout
    holds whatever the cache does (C34, C35).
  \<^item> Entrance and reads: the gateway guards the services (C4), every request is counted (C22), the rate limit bounds what passes and never refuses early (C39); pages of the
    feed are cut from one list (C7), and a cached page is less than thirty seconds old (C40).
  \<^item> Media: an upload follows its protocol in every interleaving (C37), and workers empty the queue (C38).

  \<^bold>\<open>Bounds.\<close> No definition uses fuel: every loop runs over a list (rows, deliveries, arrivals, the script of a process) or
  decreases. C38 gives the number of rounds that suffices. \<open>retryAfterSeconds\<close> is exact for durations below some
  weeks, where \<^verbatim>\<open>float64\<close> seconds are; a window of the memory store is taken below the greatest duration.

  \<^bold>\<open>Not modelled.\<close> Opening connections and pools, the ticker of an idle loop, log lines, the JSON written for a
  response beyond its fields, the changes that \<^verbatim>\<open>httputil.ReverseProxy\<close> itself makes to a request, and panics that
  \<^verbatim>\<open>middleware.Recoverer\<close> turns into an answer: they are calls of libraries with no decision of the program's own. \<^verbatim>\<open>platform/logging\<close> sets up \<^verbatim>\<open>slog\<close>. The frontend, the migrations and the deployment files are not Go code; of the migrations the constraints
  that the statements meet are part of the Postgres repositories.
\<close>

end
